(* ===== verification/Prelude.thy ===== *)
theory Prelude
  imports Complex_Main
begin

text \<open>
  The shared vocabulary of the development: how JavaScript values are read in HOL, and the
  lemmas on strings, decimal numerals and row lists that the components share.

  \<^item> A JavaScript number is an exact rational (\<open>jsnum\<close>): every finite double is one, NaN and
    the infinities are written out where the code can meet them. A bigint is an \<open>int\<close>, a
    \<open>Date\<close> the \<open>int\<close> of its milliseconds.
  \<^item> A string is a list of code units below 256 (\<open>char list\<close>); the case mapping and the
    white space below are those of that range.
  \<^item> A thrown exception is \<open>Inl\<close>, a returned value \<open>Inr\<close>.
\<close>

type_synonym jsnum = rat
type_synonym bigint = int
type_synonym time_ms = int
type_synonym bytes = string

named_theorems row_simps \<open>rewriting of tables kept as lists of rows\<close>

section \<open>Numbers\<close>

definition MAX_SAFE_INTEGER :: jsnum where
  "MAX_SAFE_INTEGER = 9007199254740991"

definition is_integer :: "jsnum \<Rightarrow> bool" where
  "is_integer q \<longleftrightarrow> of_int \<lfloor>q\<rfloor> = q"

definition is_safe_integer :: "jsnum \<Rightarrow> bool" where
  "is_safe_integer q \<longleftrightarrow> is_integer q \<and> \<bar>q\<bar> \<le> MAX_SAFE_INTEGER"

definition ceil :: "jsnum \<Rightarrow> jsnum" where
  "ceil q = of_int \<lceil>q\<rceil>"

lemma ceil_ge [simp]: "q \<le> ceil q"
  by (simp add: ceil_def)

lemma ceil_nonneg: "0 \<le> q \<Longrightarrow> 0 \<le> ceil q"
  using ceil_ge [of q] by linarith

lemma ceil_mono: "p \<le> q \<Longrightarrow> ceil p \<le> ceil q"
  by (simp add: ceil_def ceiling_mono)

section \<open>Characters and strings\<close>

definition code :: "char \<Rightarrow> nat" where
  "code c = of_char c"

definition is_digit :: "char \<Rightarrow> bool" where
  "is_digit c \<longleftrightarrow> 48 \<le> code c \<and> code c \<le> 57"

definition is_upper :: "char \<Rightarrow> bool" where
  "is_upper c \<longleftrightarrow> 65 \<le> code c \<and> code c \<le> 90"

definition is_lower :: "char \<Rightarrow> bool" where
  "is_lower c \<longleftrightarrow> 97 \<le> code c \<and> code c \<le> 122"

definition is_alnum :: "char \<Rightarrow> bool" where
  "is_alnum c \<longleftrightarrow> is_digit c \<or> is_upper c \<or> is_lower c"

definition is_lower_hex :: "char \<Rightarrow> bool" where
  "is_lower_hex c \<longleftrightarrow> is_digit c \<or> 97 \<le> code c \<and> code c \<le> 102"

text \<open>White space as \<open>String.prototype.trim\<close> and \<open>\s\<close> see it, below 256.\<close>

definition is_space :: "char \<Rightarrow> bool" where
  "is_space c \<longleftrightarrow> code c \<in> {9, 10, 11, 12, 13, 32, 160}"

definition newline :: string where
  "newline = [char_of (10::nat)]"

text \<open>\<open>toLowerCase\<close>: the ASCII letters and the Latin-1 capitals (all but the multiplication sign).\<close>

definition to_lower_char :: "char \<Rightarrow> char" where
  "to_lower_char c =
     (if is_upper c \<or> 192 \<le> code c \<and> code c \<le> 222 \<and> code c \<noteq> 215
      then char_of (code c + 32) else c)"

definition to_lower :: "string \<Rightarrow> string" where
  "to_lower s = map to_lower_char s"

definition js_trim :: "string \<Rightarrow> string" where
  "js_trim s = rev (dropWhile is_space (rev (dropWhile is_space s)))"

definition ends_with :: "string \<Rightarrow> string \<Rightarrow> bool" where
  "ends_with s suf \<longleftrightarrow> length suf \<le> length s \<and> drop (length s - length suf) s = suf"

lemma code_less [simp]: "code c < 256"
  by (simp add: code_def)

lemma code_char_of [simp]: "n < 256 \<Longrightarrow> code (char_of n) = n"
  by (simp add: code_def)

lemma char_of_code [simp]: "char_of (code c) = c"
  by (simp add: code_def)

lemma code_inject [simp]: "code c = code d \<longleftrightarrow> c = d"
  by (simp add: code_def)

lemma to_lower_char_idem [simp]: "to_lower_char (to_lower_char c) = to_lower_char c"
  by (auto simp: to_lower_char_def is_upper_def)

lemma to_lower_idem [simp]: "to_lower (to_lower s) = to_lower s"
  by (simp add: to_lower_def)

section \<open>Decimal numerals\<close>

fun show_nat :: "nat \<Rightarrow> string" where
  "show_nat n = (if n < 10 then [char_of (48 + n)]
                 else show_nat (n div 10) @ [char_of (48 + n mod 10)])"

declare show_nat.simps [simp del]

definition show_int :: "int \<Rightarrow> string" where
  "show_int i = (if i < 0 then ''-'' @ show_nat (nat (- i)) else show_nat (nat i))"

definition digits_val :: "string \<Rightarrow> nat" where
  "digits_val s = foldl (\<lambda>a c. 10 * a + (code c - 48)) 0 s"

lemma digits_val_snoc [simp]: "digits_val (s @ [c]) = 10 * digits_val s + (code c - 48)"
  by (simp add: digits_val_def)

lemma digits_val_show_nat [simp]: "digits_val (show_nat n) = n"
proof (induction n rule: show_nat.induct)
  case (1 n)
  show ?case
  proof (cases "n < 10")
    case True
    then show ?thesis by (simp add: show_nat.simps [of n] digits_val_def)
  next
    case False
    with 1 have "digits_val (show_nat (n div 10)) = n div 10" by simp
    with False show ?thesis by (simp add: show_nat.simps [of n])
  qed
qed

lemma show_nat_inject [simp]: "show_nat m = show_nat n \<longleftrightarrow> m = n"
  by (metis digits_val_show_nat)

lemma show_nat_digits: "c \<in> set (show_nat n) \<Longrightarrow> is_digit c"
proof (induction n rule: show_nat.induct)
  case (1 n)
  have last: "is_digit (char_of (48 + n mod 10))" "n < 10 \<Longrightarrow> is_digit (char_of (48 + n))"
    by (auto simp: is_digit_def)
  from 1 last show ?case
    by (cases "n < 10") (auto simp: show_nat.simps [of n])
qed

lemma show_nat_nonempty [simp]: "show_nat n \<noteq> []"
  by (subst show_nat.simps) simp

lemma hd_show_nat: "is_digit (hd (show_nat n))"
  using show_nat_digits [of "hd (show_nat n)" n] by simp

lemma show_int_inject [simp]: "show_int i = show_int j \<longleftrightarrow> i = j"
proof
  assume eq: "show_int i = show_int j"
  have minus: "\<not> is_digit (CHR ''-'')" by (simp add: is_digit_def code_def)
  have "i < 0 \<longleftrightarrow> j < 0"
    using eq minus hd_show_nat [of "nat i"] hd_show_nat [of "nat j"]
    by (auto simp: show_int_def split: if_splits) (metis list.sel(1))+
  with eq show "i = j" by (auto simp: show_int_def split: if_splits)
qed simp

text \<open>\<open>padStart\<close>, and the fixed-width decimal fields of a date.\<close>

definition pad_left :: "nat \<Rightarrow> char \<Rightarrow> string \<Rightarrow> string" where
  "pad_left n c s = replicate (n - length s) c @ s"

definition dec :: "nat \<Rightarrow> int \<Rightarrow> string" where
  "dec n k = pad_left n (CHR ''0'') (show_nat (nat k))"

lemma foldl_zeros: "foldl (\<lambda>a c. 10 * a + (code c - 48)) 0 (replicate n (CHR ''0'')) = 0"
  by (induction n) (simp_all add: code_def)

lemma digits_val_zeros [simp]: "digits_val (replicate n (CHR ''0'') @ s) = digits_val s"
  by (simp add: digits_val_def foldl_zeros)

lemma length_show_nat: "k < 10 ^ n \<Longrightarrow> 0 < n \<Longrightarrow> length (show_nat k) \<le> n"
proof (induction k arbitrary: n rule: show_nat.induct)
  case (1 k)
  show ?case
  proof (cases "k < 10")
    case True
    with 1 show ?thesis by (simp add: show_nat.simps [of k])
  next
    case False
    with 1 obtain m where m: "n = Suc m" "0 < m" by (cases n; cases "n - 1") auto
    with 1 False have "length (show_nat (k div 10)) \<le> m" by (intro 1(1)) auto
    with False m show ?thesis by (simp add: show_nat.simps [of k])
  qed
qed

lemma length_dec [simp]: "0 < n \<Longrightarrow> k < 10 ^ n \<Longrightarrow> length (dec n k) = n"
  using length_show_nat [of "nat k" n] by (simp add: dec_def pad_left_def nat_less_iff)

lemma dec_digits [simp]: "list_all is_digit (dec n k)"
  by (auto simp: dec_def pad_left_def list_all_iff is_digit_def code_def dest: show_nat_digits)

lemma dec_val [simp]: "0 \<le> k \<Longrightarrow> int (digits_val (dec n k)) = k"
  by (simp add: dec_def pad_left_def)

lemma dec_inject: "0 \<le> j \<Longrightarrow> 0 \<le> k \<Longrightarrow> dec n j = dec n k \<longleftrightarrow> j = k"
  by (metis dec_val)

text \<open>
  \<open>BigInt(s)\<close>: white space is trimmed, the empty string is zero, decimal digits may carry a
  sign, and the three radix prefixes take no sign. \<open>None\<close> is the \<open>SyntaxError\<close>.
\<close>

definition digit_in :: "nat \<Rightarrow> char \<Rightarrow> nat option" where
  "digit_in b c =
     (let v = (if is_digit c then code c - 48
               else if 97 \<le> code c \<and> code c \<le> 102 then code c - 87
               else if 65 \<le> code c \<and> code c \<le> 70 then code c - 55 else 16)
      in if v < b then Some v else None)"

fun radix_val :: "nat \<Rightarrow> nat \<Rightarrow> string \<Rightarrow> nat option" where
  "radix_val b a [] = Some a"
| "radix_val b a (c # cs) =
     (case digit_in b c of None \<Rightarrow> None | Some d \<Rightarrow> radix_val b (b * a + d) cs)"

definition unsigned_digits :: "string \<Rightarrow> int option" where
  "unsigned_digits s =
     (if s \<noteq> [] \<and> list_all is_digit s then Some (int (digits_val s)) else None)"

definition bigint_of :: "string \<Rightarrow> bigint option" where
  "bigint_of s0 =
     (let s = js_trim s0 in
      if s = [] then Some 0
      else if take 2 s = ''0x'' \<or> take 2 s = ''0X''
        then (if drop 2 s = [] then None else map_option int (radix_val 16 0 (drop 2 s)))
      else if take 2 s = ''0o'' \<or> take 2 s = ''0O''
        then (if drop 2 s = [] then None else map_option int (radix_val 8 0 (drop 2 s)))
      else if take 2 s = ''0b'' \<or> take 2 s = ''0B''
        then (if drop 2 s = [] then None else map_option int (radix_val 2 0 (drop 2 s)))
      else if hd s = CHR ''-'' then map_option uminus (unsigned_digits (tl s))
      else if hd s = CHR ''+'' then unsigned_digits (tl s)
      else unsigned_digits s)"

lemma trim_no_space: "(\<And>c. c \<in> set s \<Longrightarrow> \<not> is_space c) \<Longrightarrow> js_trim s = s"
proof -
  assume ns: "\<And>c. c \<in> set s \<Longrightarrow> \<not> is_space c"
  then have "dropWhile is_space s = s" "dropWhile is_space (rev s) = rev s"
    by (auto intro!: dropWhile_eq_self_iff [THEN iffD2] simp: hd_rev)
  then show ?thesis by (simp add: js_trim_def)
qed

lemma digit_not_space: "is_digit c \<Longrightarrow> \<not> is_space c"
  by (auto simp: is_digit_def is_space_def)

lemma bigint_of_digits: "s \<noteq> [] \<Longrightarrow> list_all is_digit s \<Longrightarrow> bigint_of s = Some (int (digits_val s))"
proof -
  assume ne: "s \<noteq> []" and dig: "list_all is_digit s"
  then have d: "is_digit c" if "c \<in> set s" for c using that by (simp add: list_all_iff)
  have tr: "js_trim s = s" by (rule trim_no_space) (blast dest: d digit_not_space)
  have pre: "take 2 s \<noteq> ''0x'' \<and> take 2 s \<noteq> ''0X'' \<and> take 2 s \<noteq> ''0o'' \<and> take 2 s \<noteq> ''0O''
     \<and> take 2 s \<noteq> ''0b'' \<and> take 2 s \<noteq> ''0B''"
  proof -
    have "c \<in> set (take 2 s) \<Longrightarrow> is_digit c" for c by (meson in_set_takeD d)
    moreover have "\<not> is_digit (CHR ''x'')" "\<not> is_digit (CHR ''X'')" "\<not> is_digit (CHR ''o'')"
      "\<not> is_digit (CHR ''O'')" "\<not> is_digit (CHR ''b'')" "\<not> is_digit (CHR ''B'')"
      by (simp_all add: is_digit_def code_def)
    ultimately show ?thesis by (metis list.set_intros(1,2))
  qed
  have "is_digit (hd s)" using ne d by simp
  then have "hd s \<noteq> CHR ''-''" "hd s \<noteq> CHR ''+''" by (auto simp: is_digit_def code_def)
  with ne dig tr pre show ?thesis by (simp add: bigint_of_def unsigned_digits_def)
qed

lemma bigint_of_show_nat [simp]: "bigint_of (show_nat n) = Some (int n)"
  by (simp add: bigint_of_digits list_all_iff show_nat_digits)

section \<open>Tables as lists of rows\<close>

text \<open>
  \<open>UPDATE ... WHERE\<close> on a table is \<open>update_where\<close>; \<open>SELECT ... LIMIT 1\<close> on a unique key is
  the library's \<open>find\<close>; \<open>SUM\<close> over the rows is \<open>sum_list\<close>.
\<close>

definition update_where :: "('r \<Rightarrow> bool) \<Rightarrow> ('r \<Rightarrow> 'r) \<Rightarrow> 'r list \<Rightarrow> 'r list" where
  "update_where P f rs = map (\<lambda>r. if P r then f r else r) rs"

lemma update_where_simps [simp]:
  "update_where P f [] = []"
  "update_where P f (r # rs) = (if P r then f r else r) # update_where P f rs"
  "update_where P f (rs @ rs') = update_where P f rs @ update_where P f rs'"
  by (simp_all add: update_where_def)

lemma length_update_where [simp]: "length (update_where P f rs) = length rs"
  by (simp add: update_where_def)

lemma map_update_where_same [row_simps]:
  "(\<And>r. P r \<Longrightarrow> g (f r) = g r) \<Longrightarrow> map g (update_where P f rs) = map g rs"
  by (simp add: update_where_def)

lemma in_update_whereE:
  assumes "r' \<in> set (update_where P f rs)"
  obtains r where "r \<in> set rs" "r' = (if P r then f r else r)"
  using assms by (auto simp: update_where_def)

lemma update_where_none [row_simps]: "(\<And>r. r \<in> set rs \<Longrightarrow> \<not> P r) \<Longrightarrow> update_where P f rs = rs"
  by (induction rs) auto

lemma sum_update_where_key:
  fixes g :: "'r \<Rightarrow> 'n::ab_group_add"
  assumes "distinct (map key rs)" "r \<in> set rs" "key r = k"
  shows "sum_list (map g (update_where (\<lambda>x. key x = k) f rs))
           = sum_list (map g rs) - g r + g (f r)"
  using assms
proof (induction rs)
  case (Cons a rs)
  show ?case
  proof (cases "a = r")
    case True
    with Cons.prems have "\<And>x. x \<in> set rs \<Longrightarrow> key x \<noteq> k" by (auto simp: image_iff)
    with True Cons.prems show ?thesis by (simp add: update_where_none)
  next
    case False
    with Cons.prems have "r \<in> set rs" "key a \<noteq> k" by (auto simp: image_iff)
    with Cons show ?thesis by simp
  qed
qed simp

lemma find_key_eq:
  assumes "distinct (map key rs)" "r \<in> set rs" "key r = k"
  shows "find (\<lambda>x. key x = k) rs = Some r"
  using assms by (induction rs) (auto simp: image_iff)

lemma find_SomeD: "find P rs = Some r \<Longrightarrow> r \<in> set rs \<and> P r"
  by (induction rs) (auto split: if_splits)

lemma sum_list_nonneg_rat: "(\<And>x. x \<in> set xs \<Longrightarrow> 0 \<le> g x) \<Longrightarrow> (0::rat) \<le> sum_list (map g xs)"
  by (induction xs) auto

lemma sum_list_map_mono:
  fixes g h :: "'a \<Rightarrow> 'n::ordered_comm_monoid_add"
  shows "(\<And>x. x \<in> set xs \<Longrightarrow> g x \<le> h x) \<Longrightarrow> sum_list (map g xs) \<le> sum_list (map h xs)"
  by (induction xs) (auto intro: add_mono)

end
