(* ===== verification/JsDate.thy ===== *)
theory JsDate
  imports Prelude
begin

text \<open>
  Dates, as the code uses them: \<open>Date.prototype.toISOString\<close>, its first ten characters (the
  UTC day a cap is counted under), and \<open>Date.parse\<close>. A time is an integer of milliseconds
  since 1970. The calendar follows the definitions of ECMA-262; \<open>Date.parse\<close> is defined on the
  ISO form with a Z and left to a parameter elsewhere, where the standard leaves it to the
  implementation.
\<close>

section \<open>The calendar\<close>

definition ms_per_day :: int where
  "ms_per_day = 86400000"

definition day_from_year :: "int \<Rightarrow> int" where
  "day_from_year y = 365 * (y - 1970) + (y - 1969) div 4 - (y - 1901) div 100 + (y - 1601) div 400"

definition leap :: "int \<Rightarrow> bool" where
  "leap y \<longleftrightarrow> y mod 4 = 0 \<and> (y mod 100 \<noteq> 0 \<or> y mod 400 = 0)"

definition days_in_year :: "int \<Rightarrow> int" where
  "days_in_year y = (if leap y then 366 else 365)"

lemma div_step:
  fixes a k :: int
  assumes "1 < k"
  shows "(a + 1) div k = a div k + (if (a + 1) mod k = 0 then 1 else 0)"
proof -
  let ?q = "(a + 1) div k" and ?r = "(a + 1) mod k"
  have r: "0 \<le> ?r" "?r < k" using assms by simp_all
  have eq: "a + 1 = k * ?q + ?r" by simp
  show ?thesis
  proof (cases "?r = 0")
    case True
    with eq have "a + 1 = k * ?q" by simp
    then have "a = k * (?q - 1) + (k - 1)" by (simp add: right_diff_distrib)
    with assms have "a div k = ?q - 1" by (intro int_div_pos_eq [where r = "k - 1"]) auto
    with True show ?thesis by simp
  next
    case False
    with r have "0 \<le> ?r - 1" "?r - 1 < k" by linarith+
    moreover from eq have "a = k * ?q + (?r - 1)" by linarith
    ultimately have "a = k * ?q + (?r - 1)" "0 \<le> ?r - 1" "?r - 1 < k" by blast+
    then have "a div k = ?q" by (rule int_div_pos_eq)
    with False show ?thesis by simp
  qed
qed

lemma mod_shift: "(y - k * j) mod k = y mod (k :: int)"
  by (metis mod_mult_self4 diff_add_cancel add.commute)

lemma day_from_year_step: "day_from_year (y + 1) = day_from_year y + days_in_year y"
proof -
  have m: "(y - 1968) mod 4 = y mod 4" "(y - 1900) mod 100 = y mod 100" "(y - 1600) mod 400 = y mod 400"
    using mod_shift [of y 4 492] mod_shift [of y 100 19] mod_shift [of y 400 4] by simp_all
  have e: "y - 1969 + 1 = y - 1968" "y - 1901 + 1 = y - 1900" "y - 1601 + 1 = y - 1600" by simp_all
  have d: "(y - 1968) div 4 = (y - 1969) div 4 + (if y mod 4 = 0 then 1 else 0)"
    "(y - 1900) div 100 = (y - 1901) div 100 + (if y mod 100 = 0 then 1 else 0)"
    "(y - 1600) div 400 = (y - 1601) div 400 + (if y mod 400 = 0 then 1 else 0)"
    using div_step [of 4 "y - 1969"] div_step [of 100 "y - 1901"] div_step [of 400 "y - 1601"] e
    by (simp_all only: m)
  have i: "y mod 400 = 0 \<longrightarrow> y mod 100 = 0" "y mod 100 = 0 \<longrightarrow> y mod 4 = 0"
    by presburger+
  have "day_from_year (y + 1) = day_from_year y + 365 + (if y mod 4 = 0 then 1 else 0)
      - (if y mod 100 = 0 then 1 else 0) + (if y mod 400 = 0 then 1 else 0)"
    by (simp add: day_from_year_def d algebra_simps)
  moreover have "(C \<longrightarrow> B) \<Longrightarrow> (B \<longrightarrow> A) \<Longrightarrow> 365 + (if A then 1 else 0) - (if B then 1 else 0) + (if C then 1 else 0)
      = (if A \<and> (\<not> B \<or> C) then 366 else (365 :: int))" for A B C
    by (cases A; cases B; cases C) simp_all
  from this [OF i] have "365 + (if y mod 4 = 0 then 1 else 0) - (if y mod 100 = 0 then 1 else 0) + (if y mod 400 = 0 then 1 else 0)
      = days_in_year y"
    by (simp only: days_in_year_def leap_def)
  ultimately show ?thesis by linarith
qed

lemma days_in_year_pos: "365 \<le> days_in_year y"
  by (simp add: days_in_year_def)

text \<open>The largest year that starts no later than the day, searched from an estimate.\<close>

function year_search :: "int \<Rightarrow> int \<Rightarrow> int" where
  "year_search y d =
     (if d < day_from_year y then year_search (y - 1) d
      else if day_from_year (y + 1) \<le> d then year_search (y + 1) d else y)"
  by pat_completeness auto
termination
proof (relation "measure (\<lambda>(y, d). nat (max (day_from_year y - d) (d - day_from_year (y + 1) + 1)))", goal_cases)
  case (2 y d)
  then show ?case using day_from_year_step [of "y - 1"] days_in_year_pos [of "y - 1"] by (auto simp: max_def)
next
  case (3 y d)
  then show ?case
    using day_from_year_step [of y] day_from_year_step [of "y + 1"] days_in_year_pos [of y] days_in_year_pos [of "y + 1"]
    by (auto simp: max_def add.commute)
qed simp

declare year_search.simps [simp del]

lemma year_search_spec:
  "day_from_year (year_search y d) \<le> d \<and> d < day_from_year (year_search y d + 1)"
proof (induction y d rule: year_search.induct)
  case (1 y d)
  then show ?case by (cases "d < day_from_year y"; cases "day_from_year (y + 1) \<le> d") (simp_all add: year_search.simps [of y d])
qed

definition year_of_day :: "int \<Rightarrow> int" where
  "year_of_day d = year_search (1970 + d div 366) d"

definition month_lengths :: "bool \<Rightarrow> int list" where
  "month_lengths lp = [31, if lp then 29 else 28, 31, 30, 31, 30, 31, 31, 30, 31, 30, 31]"

fun month_search :: "int list \<Rightarrow> int \<Rightarrow> int \<Rightarrow> int \<times> int" where
  "month_search [] m d = (m, d + 1)"
| "month_search (l # ls) m d = (if d < l then (m, d + 1) else month_search ls (m + 1) (d - l))"

definition month_start :: "bool \<Rightarrow> int \<Rightarrow> int" where
  "month_start lp m = sum_list (take (nat (m - 1)) (month_lengths lp))"

text \<open>\<open>MakeDay\<close>: a day past the end of its month runs on into the next.\<close>

definition make_day :: "int \<Rightarrow> int \<Rightarrow> int \<Rightarrow> int" where
  "make_day y m d = day_from_year y + month_start (leap y) m + (d - 1)"

definition civil_of_day :: "int \<Rightarrow> int \<times> int \<times> int" where
  "civil_of_day d =
     (let y = year_of_day d; (m, dy) = month_search (month_lengths (leap y)) 1 (d - day_from_year y)
      in (y, m, dy))"

lemma month_search_spec:
  assumes "0 \<le> d" "d < 365 + (if lp then 1 else 0)" "month_search (month_lengths lp) 1 d = (m, dy)"
  shows "1 \<le> m \<and> m \<le> 12 \<and> 1 \<le> dy \<and> dy \<le> 31 \<and> d = month_start lp m + (dy - 1)"
  using assms by (cases lp) (auto simp: month_lengths_def month_start_def split: if_splits)

lemma civil_of_day_spec:
  assumes "civil_of_day d = (y, m, dy)"
  shows "y = year_of_day d" "1 \<le> m" "m \<le> 12" "1 \<le> dy" "dy \<le> 31" "make_day y m dy = d"
proof -
  let ?y = "year_of_day d"
  have b: "0 \<le> d - day_from_year ?y" "d - day_from_year ?y < 365 + (if leap ?y then 1 else 0)"
    using year_search_spec [of "1970 + d div 366" d] day_from_year_step [of ?y]
    by (cases "leap ?y"; simp add: year_of_day_def days_in_year_def)+
  from assms have y: "y = ?y" and ms: "month_search (month_lengths (leap ?y)) 1 (d - day_from_year ?y) = (m, dy)"
    by (auto simp: civil_of_day_def Let_def split: prod.splits)
  from month_search_spec [OF b ms] y show "y = ?y" "1 \<le> m" "m \<le> 12" "1 \<le> dy" "dy \<le> 31" "make_day y m dy = d"
    by (simp_all add: make_day_def)
qed

section \<open>Printing and parsing\<close>

text \<open>Years 0 to 9999 take four digits, the others a sign and six, as \<open>toISOString\<close> prints them.\<close>

definition show_year :: "int \<Rightarrow> string" where
  "show_year y = (if 0 \<le> y \<and> y \<le> 9999 then dec 4 y
                  else (if y < 0 then ''-'' else ''+'') @ dec 6 \<bar>y\<bar>)"

definition day_string :: "int \<Rightarrow> string" where
  "day_string day = (case civil_of_day day of (y, m, d) \<Rightarrow> show_year y @ ''-'' @ dec 2 m @ ''-'' @ dec 2 d)"

definition toISOString :: "time_ms \<Rightarrow> string" where
  "toISOString t =
     (let day = t div ms_per_day; ms = t mod ms_per_day in
      day_string day @ ''T'' @ dec 2 (ms div 3600000) @ '':'' @ dec 2 (ms div 60000 mod 60) @ '':'' @
      dec 2 (ms div 1000 mod 60) @ ''.'' @ dec 3 (ms mod 1000) @ ''Z'')"

definition utc_day :: "time_ms \<Rightarrow> string" where
  "utc_day t = take 10 (toISOString t)"

text \<open>The times whose year has four digits; the code meets no others.\<close>

definition in_era :: "time_ms \<Rightarrow> bool" where
  "in_era t \<longleftrightarrow> 0 \<le> year_of_day (t div ms_per_day) \<and> year_of_day (t div ms_per_day) \<le> 9999"

lemma day_string_era:
  assumes "in_era t" "civil_of_day (t div ms_per_day) = (y, m, d)"
  shows "day_string (t div ms_per_day) = dec 4 y @ ''-'' @ dec 2 m @ ''-'' @ dec 2 d"
    "length (day_string (t div ms_per_day)) = 10"
  using assms civil_of_day_spec [OF assms(2)] by (simp_all add: day_string_def show_year_def in_era_def)

lemma utc_day_era: "in_era t \<Longrightarrow> utc_day t = day_string (t div ms_per_day)"
proof -
  assume era: "in_era t"
  obtain y m d where c: "civil_of_day (t div ms_per_day) = (y, m, d)" by (metis prod_cases3)
  show ?thesis using day_string_era(2) [OF era c] by (simp add: utc_day_def toISOString_def Let_def)
qed

text \<open>Two times share a day string exactly when they fall on the same UTC day.\<close>

lemma utc_day_eq_iff:
  assumes "in_era s" "in_era t"
  shows "utc_day s = utc_day t \<longleftrightarrow> s div ms_per_day = t div ms_per_day"
proof
  obtain y m d where s: "civil_of_day (s div ms_per_day) = (y, m, d)" by (metis prod_cases3)
  obtain y' m' d' where t: "civil_of_day (t div ms_per_day) = (y', m', d')" by (metis prod_cases3)
  have rs: "0 \<le> y" "y \<le> 9999" and rt: "0 \<le> y'" "y' \<le> 9999"
    using assms civil_of_day_spec(1) [OF s] civil_of_day_spec(1) [OF t] by (simp_all add: in_era_def)
  assume "utc_day s = utc_day t"
  then have eq: "dec 4 y @ ''-'' @ dec 2 m @ ''-'' @ dec 2 d = dec 4 y' @ ''-'' @ dec 2 m' @ ''-'' @ dec 2 d'"
    using assms by (simp add: utc_day_era day_string_era(1) [OF _ s] day_string_era(1) [OF _ t])
  have "dec 4 y = dec 4 y'" "dec 2 m = dec 2 m'" "dec 2 d = dec 2 d'"
    using eq rs rt civil_of_day_spec(2-5) [OF s] civil_of_day_spec(2-5) [OF t] by simp_all
  then have "y = y'" "m = m'" "d = d'"
    using rs rt civil_of_day_spec(2-5) [OF s] civil_of_day_spec(2-5) [OF t] by (simp_all add: dec_inject)
  then show "s div ms_per_day = t div ms_per_day"
    using civil_of_day_spec(6) [OF s] civil_of_day_spec(6) [OF t] by simp
qed (use assms in \<open>simp add: utc_day_era\<close>)

definition field :: "string \<Rightarrow> nat \<Rightarrow> nat \<Rightarrow> int option" where
  "field s i n =
     (let w = take n (drop i s) in
      if length w = n \<and> list_all is_digit w then Some (int (digits_val w)) else None)"

text \<open>The milliseconds after the seconds: \<open>Z\<close>, or a point, up to nine digits and \<open>Z\<close>.\<close>

definition iso_fraction :: "string \<Rightarrow> int option" where
  "iso_fraction s =
     (if s = ''Z'' then Some 0
      else let w = butlast (tl s) in
           if hd s = CHR ''.'' \<and> s \<noteq> [] \<and> last s = CHR ''Z'' \<and> w \<noteq> [] \<and> length w \<le> 9 \<and> list_all is_digit w
           then Some (int (digits_val (take 3 (w @ ''00'')))) else None)"

definition iso_parse :: "string \<Rightarrow> time_ms option" where
  "iso_parse s =
     (case (field s 0 4, field s 5 2, field s 8 2, field s 11 2, field s 14 2, field s 17 2, iso_fraction (drop 19 s)) of
        (Some y, Some mo, Some d, Some h, Some mi, Some sec, Some ms) \<Rightarrow>
          if take 1 (drop 4 s) = ''-'' \<and> take 1 (drop 7 s) = ''-'' \<and> take 1 (drop 10 s) = ''T''
             \<and> take 1 (drop 13 s) = '':'' \<and> take 1 (drop 16 s) = '':''
             \<and> 1 \<le> mo \<and> mo \<le> 12 \<and> 1 \<le> d \<and> d \<le> 31 \<and> mi \<le> 59 \<and> sec \<le> 59
             \<and> (h \<le> 23 \<or> h = 24 \<and> mi = 0 \<and> sec = 0 \<and> ms = 0)
          then Some (make_day y mo d * ms_per_day + h * 3600000 + mi * 60000 + sec * 1000 + ms)
          else None
      | _ \<Rightarrow> None)"

text \<open>\<open>Date.parse\<close>; \<open>other\<close> is the implementation's answer outside the form above, \<open>None\<close> for NaN.\<close>

definition date_parse :: "(string \<Rightarrow> time_ms option) \<Rightarrow> string \<Rightarrow> time_ms option" where
  "date_parse other s = (case iso_parse s of Some t \<Rightarrow> Some t | None \<Rightarrow> other s)"

lemma field_dec:
  "0 < n \<Longrightarrow> 0 \<le> k \<Longrightarrow> k < 10 ^ n \<Longrightarrow> length a = i \<Longrightarrow> field (a @ dec n k @ b) i n = Some k"
  by (simp add: field_def Let_def)

lemma ms_fields:
  fixes x :: int
  shows "x = x div 3600000 * 3600000 + x div 60000 mod 60 * 60000 + x div 1000 mod 60 * 1000 + x mod 1000"
proof -
  have e: "x div 60000 = x div 1000 div 60" "x div 3600000 = x div 1000 div 60 div 60"
    using zdiv_zmult2_eq [of 60 x 1000] zdiv_zmult2_eq [of 60 x 60000] by simp_all
  obtain a b c f am bm where n: "a = x div 1000" "b = a div 60" "c = b div 60" "f = x mod 1000" "am = a mod 60" "bm = b mod 60"
    by blast
  have "x = a * 1000 + f" "a = b * 60 + am" "b = c * 60 + bm"
    using div_mult_mod_eq [of x 1000] div_mult_mod_eq [of a 60] div_mult_mod_eq [of b 60] by (simp_all only: n)
  then have "x = c * 3600000 + bm * 60000 + am * 1000 + f" by simp
  then show ?thesis by (simp only: e n)
qed

lemma iso_parse_fields:
  assumes "0 \<le> y" "y \<le> 9999" "1 \<le> m" "m \<le> 12" "1 \<le> d" "d \<le> 31"
    and "0 \<le> h" "h \<le> 23" "0 \<le> mi" "mi \<le> 59" "0 \<le> sec" "sec \<le> 59" "0 \<le> f" "f \<le> 999"
  shows "iso_parse (dec 4 y @ ''-'' @ dec 2 m @ ''-'' @ dec 2 d @ ''T'' @ dec 2 h @ '':'' @ dec 2 mi @ '':'' @
      dec 2 sec @ ''.'' @ dec 3 f @ ''Z'')
    = Some (make_day y m d * ms_per_day + h * 3600000 + mi * 60000 + sec * 1000 + f)"
    (is "iso_parse ?str = _")
proof -
  have f: "field ?str 0 4 = Some y" "field ?str 5 2 = Some m" "field ?str 8 2 = Some d"
    "field ?str 11 2 = Some h" "field ?str 14 2 = Some mi" "field ?str 17 2 = Some sec"
    using assms
      field_dec [of 4 y "[]" 0] field_dec [of 2 m "dec 4 y @ ''-''" 5]
      field_dec [of 2 d "dec 4 y @ ''-'' @ dec 2 m @ ''-''" 8]
      field_dec [of 2 h "dec 4 y @ ''-'' @ dec 2 m @ ''-'' @ dec 2 d @ ''T''" 11]
      field_dec [of 2 mi "dec 4 y @ ''-'' @ dec 2 m @ ''-'' @ dec 2 d @ ''T'' @ dec 2 h @ '':''" 14]
      field_dec [of 2 sec "dec 4 y @ ''-'' @ dec 2 m @ ''-'' @ dec 2 d @ ''T'' @ dec 2 h @ '':'' @ dec 2 mi @ '':''" 17]
    by simp_all
  have seps: "take 1 (drop 4 ?str) = ''-''" "take 1 (drop 7 ?str) = ''-''"
    "take 1 (drop 10 ?str) = ''T''" "take 1 (drop 13 ?str) = '':''" "take 1 (drop 16 ?str) = '':''"
    using assms by simp_all
  have "drop 19 ?str = ''.'' @ dec 3 f @ ''Z''"
    using assms by simp
  moreover have len: "length (dec 3 f) = 3"
    using assms by simp
  moreover from len have "dec 3 f \<noteq> []" by force
  ultimately have fr: "iso_fraction (drop 19 ?str) = Some f"
    using assms by (simp add: iso_fraction_def Let_def butlast_append)
  show ?thesis using assms unfolding iso_parse_def f seps fr by simp
qed

lemma iso_parse_toISOString:
  assumes "in_era t"
  shows "iso_parse (toISOString t) = Some t"
proof -
  obtain y m d where c: "civil_of_day (t div ms_per_day) = (y, m, d)" by (metis prod_cases3)
  note civ = civil_of_day_spec [OF c]
  obtain x h mi sec f where n: "x = t mod ms_per_day" "h = x div 3600000" "mi = x div 60000 mod 60"
    "sec = x div 1000 mod 60" "f = x mod 1000" by blast
  have y: "0 \<le> y" "y \<le> 9999" using assms civ(1) by (simp_all add: in_era_def)
  have ms: "0 \<le> x" "x < 86400000" by (simp_all add: n ms_per_day_def)
  have "h * 3600000 \<le> x"
    using div_mult_mod_eq [of x 3600000] pos_mod_sign [of 3600000 x] unfolding n(2) by linarith
  with ms have "h \<le> 23" by linarith
  moreover have "0 \<le> h" unfolding n(2) using ms by (simp add: pos_imp_zdiv_nonneg_iff)
  ultimately have rng: "0 \<le> h" "h \<le> 23" by simp_all
  have rng2: "0 \<le> mi" "mi \<le> 59" "0 \<le> sec" "sec \<le> 59" "0 \<le> f" "f \<le> 999"
    using pos_mod_bound [of 60 "x div 60000"] pos_mod_bound [of 60 "x div 1000"] pos_mod_bound [of 1000 x]
    by (simp_all add: n)
  have str: "toISOString t = dec 4 y @ ''-'' @ dec 2 m @ ''-'' @ dec 2 d @ ''T'' @ dec 2 h @ '':'' @ dec 2 mi @ '':'' @
      dec 2 sec @ ''.'' @ dec 3 f @ ''Z''"
    by (simp only: toISOString_def Let_def day_string_era(1) [OF assms c] n append_assoc)
  have "h * 3600000 + mi * 60000 + sec * 1000 + f = x"
    using ms_fields [of x] by (simp only: n)
  moreover have "t div ms_per_day * ms_per_day + x = t" by (simp add: n)
  ultimately have "make_day y m d * ms_per_day + h * 3600000 + mi * 60000 + sec * 1000 + f = t"
    by (simp only: civ(6))
  then show ?thesis
    unfolding str using iso_parse_fields [OF y civ(2-5) rng rng2] by simp
qed

lemma date_parse_toISOString [simp]: "in_era t \<Longrightarrow> date_parse other (toISOString t) = Some t"
  by (simp add: date_parse_def iso_parse_toISOString)

end
