(* ===== verification/Ed25519.thy ===== *)
theory Ed25519
  imports Prelude JsDate
begin

text \<open>
  packages/gate/src/ed25519.ts over the platform it calls. The base58 codec is a third-party
  package, base64, SHA-256 and Ed25519 come from the Node runtime, and \<open>Date.parse\<close> outside the
  ISO form is the implementation's: they are the fields of \<open>platform\<close>. A decoder that throws
  is \<open>None\<close>; a verification that throws is caught by the code and is \<open>False\<close> here.
\<close>

record platform =
  b58_decode :: "string \<Rightarrow> bytes option"
  b58_encode :: "bytes \<Rightarrow> string"
  b64_decode :: "string \<Rightarrow> bytes"
  b64_encode :: "bytes \<Rightarrow> string"
  ed_verify :: "bytes \<Rightarrow> string \<Rightarrow> bytes \<Rightarrow> bool"   \<comment> \<open>raw public key, message, signature\<close>
  ed_sign :: "bytes \<Rightarrow> string \<Rightarrow> bytes"              \<comment> \<open>32-byte seed, message\<close>
  sha256_hex :: "string \<Rightarrow> string"
  other_date :: "string \<Rightarrow> time_ms option"
  other_number :: "jsnum \<Rightarrow> string"                  \<comment> \<open>how a number that is no printable integer prints\<close>

definition parse_date :: "platform \<Rightarrow> string \<Rightarrow> time_ms option" where
  "parse_date P s = date_parse (other_date P) s"

text \<open>A base58 signature, or else a base64 one; nothing unless it is 64 bytes.\<close>

definition decodeSignature :: "platform \<Rightarrow> string \<Rightarrow> bytes option" where
  "decodeSignature P s =
     (case b58_decode P s of
        Some b \<Rightarrow> if length b = 64 then Some b
                   else if length (b64_decode P s) = 64 then Some (b64_decode P s) else None
      | None \<Rightarrow> if length (b64_decode P s) = 64 then Some (b64_decode P s) else None)"

definition isSolanaAddress :: "platform \<Rightarrow> string \<Rightarrow> bool" where
  "isSolanaAddress P a = (case b58_decode P a of Some b \<Rightarrow> length b = 32 | None \<Rightarrow> False)"

definition verifyDetached :: "platform \<Rightarrow> string \<Rightarrow> string \<Rightarrow> string \<Rightarrow> bool" where
  "verifyDetached P addressB58 message signature =
     (case decodeSignature P signature of
        None \<Rightarrow> False
      | Some sig \<Rightarrow>
          if \<not> isSolanaAddress P addressB58 then False
          else (case b58_decode P addressB58 of Some key \<Rightarrow> ed_verify P key message sig | None \<Rightarrow> False))"

definition signDetached :: "platform \<Rightarrow> bytes \<Rightarrow> string \<Rightarrow> string" where
  "signDetached P secret64 message = b58_encode P (ed_sign P (take 32 secret64) message)"

definition publicKeyOf :: "platform \<Rightarrow> bytes \<Rightarrow> string" where
  "publicKeyOf P secret64 = b58_encode P (drop 32 secret64)"

text \<open>
  What the libraries document, for one key: the codec round-trips, signatures are 64 bytes,
  and a signature made with the seed verifies under the public half.
\<close>

definition codec_ok :: "platform \<Rightarrow> bool" where
  "codec_ok P \<longleftrightarrow> (\<forall>b. b58_decode P (b58_encode P b) = Some b)"

definition key_ok :: "platform \<Rightarrow> bytes \<Rightarrow> bool" where
  "key_ok P secret64 \<longleftrightarrow> length secret64 = 64
     \<and> (\<forall>m. length (ed_sign P (take 32 secret64) m) = 64
          \<and> ed_verify P (drop 32 secret64) m (ed_sign P (take 32 secret64) m))"

lemma verify_own_signature:
  "codec_ok P \<Longrightarrow> key_ok P k \<Longrightarrow> verifyDetached P (publicKeyOf P k) m (signDetached P k m)"
  by (simp add: codec_ok_def key_ok_def verifyDetached_def publicKeyOf_def signDetached_def
      decodeSignature_def isSolanaAddress_def)

lemma verifyDetached_key:
  "verifyDetached P a m s \<Longrightarrow> isSolanaAddress P a
     \<and> (\<exists>key sig. b58_decode P a = Some key \<and> decodeSignature P s = Some sig \<and> length sig = 64 \<and> ed_verify P key m sig)"
  by (auto simp: verifyDetached_def decodeSignature_def split: option.splits if_splits)

text \<open>
  A toy platform for the witnesses: base58 is the identity, a signature is the message's first
  bytes padded to 64, and verification recomputes it.
\<close>

definition toy_sign :: "bytes \<Rightarrow> string \<Rightarrow> bytes" where
  "toy_sign seed m = take 64 (m @ replicate 64 (CHR ''.''))"

definition toy :: platform where
  "toy = \<lparr>b58_decode = Some, b58_encode = id, b64_decode = id, b64_encode = id,
     ed_verify = (\<lambda>k m s. s = toy_sign k m), ed_sign = toy_sign, sha256_hex = id,
     other_date = (\<lambda>_. None), other_number = (\<lambda>_. ''?'')\<rparr>"

lemma toy_ok: "codec_ok toy" "length k = 64 \<Longrightarrow> key_ok toy k"
  by (auto simp: codec_ok_def key_ok_def toy_def toy_sign_def min_def)

lemma toy_address [simp]: "length a = 32 \<Longrightarrow> isSolanaAddress toy a"
  by (simp add: isSolanaAddress_def toy_def)

lemma toy_verified [simp]: "length a = 32 \<Longrightarrow> verifyDetached toy a m (toy_sign k m)"
  by (simp add: verifyDetached_def decodeSignature_def isSolanaAddress_def toy_def toy_sign_def min_def)

end
