(* ===== verification/Json.thy ===== *)
theory Json
  imports Prelude "HOL-Library.List_Lexorder" "HOL-Library.Char_ord"
begin

text \<open>
  JSON values and \<open>JSON.stringify\<close>, as the signed messages need them. An object is the list of
  its entries in enumeration order. Integers below \<open>10^21\<close> print as their decimal digits; how
  other numbers print is a parameter. The main result is that the output determines the value,
  even when more text follows: two signed payloads with the same bytes say the same thing.
\<close>

datatype json =
    JNull
  | JBool bool
  | JNum jsnum
  | JStr string
  | JArr "json list"
  | JObj "(string \<times> json) list"

section \<open>Printing\<close>

definition bslash :: char where
  "bslash = CHR 0x5C"

definition dquote :: char where
  "dquote = CHR 0x22"

definition hex_digit :: "nat \<Rightarrow> char" where
  "hex_digit n = (if n < 10 then char_of (48 + n) else char_of (87 + n))"

text \<open>The two-character escapes: quote, backslash, and the five control characters with a letter.\<close>

definition esc_letter :: "char \<Rightarrow> char option" where
  "esc_letter c =
     (if c = dquote \<or> c = bslash then Some c
      else if code c = 8 then Some (CHR ''b'')
      else if code c = 12 then Some (CHR ''f'')
      else if code c = 10 then Some (CHR ''n'')
      else if code c = 13 then Some (CHR ''r'')
      else if code c = 9 then Some (CHR ''t'') else None)"

definition esc :: "char \<Rightarrow> string" where
  "esc c =
     (case esc_letter c of Some k \<Rightarrow> [bslash, k]
      | None \<Rightarrow> if code c < 32
                 then [bslash, CHR ''u'', CHR ''0'', CHR ''0'', hex_digit (code c div 16), hex_digit (code c mod 16)]
                 else [c])"

definition json_quote :: "string \<Rightarrow> string" where
  "json_quote s = dquote # concat (map esc s) @ [dquote]"

definition js_number_string :: "(jsnum \<Rightarrow> string) \<Rightarrow> jsnum \<Rightarrow> string" where
  "js_number_string other q = (if is_integer q \<and> \<bar>q\<bar> < 10 ^ 21 then show_int \<lfloor>q\<rfloor> else other q)"

fun join :: "string \<Rightarrow> string list \<Rightarrow> string" where
  "join sep [] = []"
| "join sep [x] = x"
| "join sep (x # y # xs) = x @ sep @ join sep (y # xs)"

fun stringify :: "(jsnum \<Rightarrow> string) \<Rightarrow> json \<Rightarrow> string" where
  "stringify num JNull = ''null''"
| "stringify num (JBool b) = (if b then ''true'' else ''false'')"
| "stringify num (JNum q) = js_number_string num q"
| "stringify num (JStr s) = json_quote s"
| "stringify num (JArr vs) = ''['' @ join '','' (map (stringify num) vs) @ '']''"
| "stringify num (JObj es) = ''{'' @ join '','' (map (\<lambda>e. json_quote (fst e) @ '':'' @ stringify num (snd e)) es) @ ''}''"

text \<open>The values whose numbers are all integers of the printable range.\<close>

fun plain_json :: "json \<Rightarrow> bool" where
  "plain_json (JNum q) = (is_integer q \<and> \<bar>q\<bar> < 10 ^ 21)"
| "plain_json (JArr vs) = (\<forall>v \<in> set vs. plain_json v)"
| "plain_json (JObj es) = (\<forall>e \<in> set es. plain_json (snd e))"
| "plain_json _ = True"

section \<open>Strings: the quoted form is prefix-free\<close>

lemma hex_digit_inject: "m < 16 \<Longrightarrow> n < 16 \<Longrightarrow> hex_digit m = hex_digit n \<longleftrightarrow> m = n"
  by (auto simp: hex_digit_def dest!: arg_cong [where f = code] split: if_splits)

lemma esc_letter_code:
  "esc_letter c = Some k \<Longrightarrow> code c =
     (if k = CHR ''b'' then 8 else if k = CHR ''f'' then 12 else if k = CHR ''n'' then 10
      else if k = CHR ''r'' then 13 else if k = CHR ''t'' then 9 else code k)"
  by (auto simp: esc_letter_def dquote_def bslash_def split: if_splits)

lemma esc_letter_inject: "esc_letter c = Some k \<Longrightarrow> esc_letter d = Some k \<Longrightarrow> c = d"
  using esc_letter_code [of c k] esc_letter_code [of d k] by (metis code_inject)

lemma esc_letter_not_u: "esc_letter c \<noteq> Some (CHR ''u'')"
  by (auto simp: esc_letter_def dquote_def bslash_def)

lemma esc_letter_special: "esc_letter c = None \<Longrightarrow> c \<noteq> bslash \<and> c \<noteq> dquote"
  by (auto simp: esc_letter_def)

lemma code_bslash: "code bslash = 92" and code_dquote: "code dquote = 34"
  by (simp_all add: bslash_def dquote_def code_def)

lemma u_escape:
  assumes "code c < 32" "code d < 32"
    and "hex_digit (code c div 16) = hex_digit (code d div 16)" "hex_digit (code c mod 16) = hex_digit (code d mod 16)"
  shows "c = d"
proof -
  have "code c div 16 = code d div 16" "code c mod 16 = code d mod 16"
    using assms by (auto simp: hex_digit_inject)
  then have "code c = code d" by (metis div_mult_mod_eq)
  then show ?thesis by simp
qed

lemma esc_prefix_free: "esc c @ x = esc d @ y \<Longrightarrow> c = d \<and> x = y"
  using esc_letter_special [of c] esc_letter_special [of d] esc_letter_not_u [of c] esc_letter_not_u [of d]
  by (auto simp: esc_def split: option.splits if_splits dest: esc_letter_inject u_escape)

lemma esc_hd: "esc c @ x \<noteq> dquote # y"
  using esc_letter_special [of c]
  by (auto simp: esc_def bslash_def dquote_def split: option.splits if_splits)

lemma escaped_prefix_free:
  "concat (map esc s) @ dquote # x = concat (map esc t) @ dquote # y \<Longrightarrow> s = t \<and> x = y"
proof (induction s arbitrary: t)
  case Nil
  then show ?case by (cases t) (auto dest: esc_hd [THEN notE, OF sym])
next
  case (Cons c s)
  show ?case
  proof (cases t)
    case Nil
    with Cons.prems show ?thesis by (auto dest: esc_hd [THEN notE])
  next
    case (Cons d t')
    with Cons.prems have "esc c @ (concat (map esc s) @ dquote # x) = esc d @ (concat (map esc t') @ dquote # y)"
      by simp
    from esc_prefix_free [OF this] Cons.IH [of t'] Cons show ?thesis by simp
  qed
qed

lemma json_quote_prefix_free: "json_quote s @ x = json_quote t @ y \<Longrightarrow> s = t \<and> x = y"
  by (auto simp: json_quote_def dest: escaped_prefix_free)

lemma json_quote_inject [simp]: "json_quote s = json_quote t \<longleftrightarrow> s = t"
  using json_quote_prefix_free [of s "[]" t "[]"] by auto

section \<open>Values: the printed form is prefix-free\<close>

definition stops :: "string \<Rightarrow> bool" where
  "stops x \<longleftrightarrow> (case x of [] \<Rightarrow> True | c # _ \<Rightarrow> \<not> is_digit c \<and> c \<noteq> CHR ''-'')"

lemma show_int_chars: "c \<in> set (show_int i) \<Longrightarrow> is_digit c \<or> c = CHR ''-''"
  by (auto simp: show_int_def dest: show_nat_digits split: if_splits)

lemma show_int_prefix_free:
  assumes "show_int i @ x = show_int j @ y" "stops x" "stops y"
  shows "i = j \<and> x = y"
proof -
  let ?P = "\<lambda>c. is_digit c \<or> c = CHR ''-''"
  have tw: "takeWhile ?P (show_int k @ z) = show_int k" if "stops z" for k z
    using that by (subst takeWhile_append2) (auto simp: show_int_chars stops_def split: list.splits)
  from tw [OF assms(2), of i] tw [OF assms(3), of j] assms(1) have "show_int i = show_int j" by simp
  with assms(1) show ?thesis by simp
qed

definition json_start :: "json \<Rightarrow> char \<Rightarrow> bool" where
  "json_start v c = (case v of JNull \<Rightarrow> c = CHR ''n'' | JBool b \<Rightarrow> c = (if b then CHR ''t'' else CHR ''f'')
     | JNum q \<Rightarrow> is_digit c \<or> c = CHR ''-'' | JStr s \<Rightarrow> c = dquote | JArr vs \<Rightarrow> c = CHR ''['' | JObj es \<Rightarrow> c = CHR ''{'')"

lemma show_int_nonempty [simp]: "show_int i \<noteq> []"
  by (simp add: show_int_def)

lemma hd_stringify:
  assumes "plain_json v"
  shows "stringify num v \<noteq> [] \<and> json_start v (hd (stringify num v))"
proof (cases v)
  case (JNum q)
  with assms show ?thesis
    using show_int_chars [of "hd (show_int \<lfloor>q\<rfloor>)" "\<lfloor>q\<rfloor>"] by (simp add: json_start_def js_number_string_def)
qed (simp_all add: json_start_def json_quote_def)

lemma json_starts:
  assumes "plain_json v" "plain_json w" "stringify num v @ x = stringify num w @ y"
  shows "json_start v (hd (stringify num v)) \<and> json_start w (hd (stringify num v))"
  using hd_stringify [OF assms(1), of num] hd_stringify [OF assms(2), of num] assms(3) by (metis hd_append2)

text \<open>Two values whose text starts alike were built by the same constructor.\<close>

fun kind :: "json \<Rightarrow> nat" where
  "kind JNull = 0"
| "kind (JBool b) = (if b then 1 else 2)"
| "kind (JNum q) = 3"
| "kind (JStr s) = 4"
| "kind (JArr vs) = 5"
| "kind (JObj es) = 6"

definition start_kind :: "char \<Rightarrow> nat" where
  "start_kind c = (if c = CHR ''n'' then 0 else if c = CHR ''t'' then 1 else if c = CHR ''f'' then 2
     else if c = dquote then 4 else if c = CHR ''['' then 5 else if c = CHR ''{'' then 6 else 3)"

lemma digit_start_kind:
  assumes "is_digit c \<or> c = CHR ''-''"
  shows "start_kind c = 3"
proof -
  have nd: "\<not> is_digit (CHR ''n'')" "\<not> is_digit (CHR ''t'')" "\<not> is_digit (CHR ''f'')" "\<not> is_digit dquote"
    "\<not> is_digit (CHR ''['')" "\<not> is_digit (CHR ''{'')"
    by (simp_all add: is_digit_def code_def dquote_def)
  show ?thesis
  proof (cases "c = CHR ''-''")
    case True
    then show ?thesis by (simp add: start_kind_def dquote_def)
  next
    case False
    with assms nd have "c \<noteq> CHR ''n''" "c \<noteq> CHR ''t''" "c \<noteq> CHR ''f''" "c \<noteq> dquote" "c \<noteq> CHR ''[''" "c \<noteq> CHR ''{''"
      by metis+
    then show ?thesis by (simp add: start_kind_def)
  qed
qed

lemma start_kind_simps:
  "start_kind (CHR ''n'') = 0" "start_kind (CHR ''t'') = 1" "start_kind (CHR ''f'') = 2"
  "start_kind dquote = 4" "start_kind (CHR ''['') = 5" "start_kind (CHR ''{'') = 6"
  by (simp_all add: start_kind_def dquote_def)

lemma json_start_kind: "json_start v c \<Longrightarrow> kind v = start_kind c"
  by (cases v) (simp_all add: json_start_def start_kind_simps digit_start_kind)

lemma stringify_same_kind:
  "plain_json v \<Longrightarrow> plain_json w \<Longrightarrow> stringify num v @ x = stringify num w @ y \<Longrightarrow> kind v = kind w"
  using json_starts json_start_kind by metis

lemma value_start_no_sep:
  "plain_json v \<Longrightarrow> hd (stringify num v) \<noteq> CHR '','' \<and> hd (stringify num v) \<noteq> CHR '']'' \<and> hd (stringify num v) \<noteq> CHR ''}''"
  using hd_stringify [of v num]
  by (cases v) (auto simp: json_start_def dquote_def is_digit_def code_def split: if_splits)

lemma join_prefix_free:
  assumes free: "\<And>v w x y. v \<in> set vs \<Longrightarrow> w \<in> set ws \<Longrightarrow> f v @ x = f w @ y \<Longrightarrow> stops x \<Longrightarrow> stops y \<Longrightarrow> v = w \<and> x = y"
    and start: "\<And>v. v \<in> set vs \<union> set ws \<Longrightarrow> f v \<noteq> [] \<and> hd (f v) \<noteq> CHR '','' \<and> hd (f v) \<noteq> c"
    and c: "c \<noteq> CHR '',''" "\<not> is_digit c" "c \<noteq> CHR ''-''"
    and eq: "join '','' (map f vs) @ c # x = join '','' (map f ws) @ c # y"
  shows "vs = ws \<and> x = y"
proof -
  have sep: "stops (CHR '','' # z)" "stops (c # z)" for z
    using c by (simp_all add: stops_def is_digit_def code_def)
  have unfold: "join '','' (map f (v # us)) @ c # z = f v @ (if us = [] then c # z else CHR '','' # join '','' (map f us) @ c # z)"
    for v us z by (cases us) simp_all
  show ?thesis
    using free start eq
  proof (induction vs arbitrary: ws)
    case Nil
    show ?case
    proof (cases ws)
      case (Cons w ws')
      with Nil(2) [of w] have "f w \<noteq> []" "hd (f w) \<noteq> c" by auto
      with Nil(3) Cons unfold [of w ws' y] show ?thesis by (cases "f w") auto
    qed (use Nil in simp)
  next
    case (Cons v vs)
    show ?case
    proof (cases ws)
      case Nil
      with Cons.prems(2) [of v] have "f v \<noteq> []" "hd (f v) \<noteq> c" by auto
      with Cons.prems(3) Nil unfold [of v vs x] show ?thesis by (cases "f v") auto
    next
      case ws: (Cons w ws')
      let ?r = "\<lambda>us z. if us = [] then c # z else CHR '','' # join '','' (map f us) @ c # z"
      have eq: "f v @ ?r vs x = f w @ ?r ws' y" using Cons.prems(3) by (simp only: ws unfold)
      have st: "stops (?r vs x)" "stops (?r ws' y)" using sep by auto
      have "v \<in> set (v # vs)" "w \<in> set ws" using ws by simp_all
      from Cons.prems(1) [OF this eq st] have vw: "v = w" "?r vs x = ?r ws' y" by blast+
      have "vs = ws' \<and> x = y"
      proof (cases "vs = [] \<or> ws' = []")
        case True
        with vw(2) c show ?thesis by (auto split: if_splits)
      next
        case False
        with vw(2) have "join '','' (map f vs) @ c # x = join '','' (map f ws') @ c # y" by simp
        then show ?thesis using Cons.prems(1,2) ws by (intro Cons.IH) auto
      qed
      with vw ws show ?thesis by simp
    qed
  qed
qed

theorem stringify_prefix_free:
  assumes "plain_json v" "plain_json w" "stringify num v @ x = stringify num w @ y" "stops x" "stops y"
  shows "v = w \<and> x = y"
  using assms
proof (induction v arbitrary: w x y)
  case JNull
  with stringify_same_kind [OF JNull(1-3)] show ?case by (cases w) (auto split: if_splits)
next
  case (JBool b)
  with stringify_same_kind [OF JBool(1-3)] show ?case by (cases w) (auto split: if_splits)
next
  case (JNum q)
  with stringify_same_kind [OF JNum(1-3)] obtain p where w: "w = JNum p" by (cases w) (auto split: if_splits)
  with JNum have "\<lfloor>q\<rfloor> = \<lfloor>p\<rfloor> \<and> x = y"
    by (intro show_int_prefix_free) (auto simp: js_number_string_def)
  with w JNum show ?case by (auto simp: is_integer_def)
next
  case (JStr s)
  with stringify_same_kind [OF JStr(1-3)] obtain t where w: "w = JStr t" by (cases w) (auto split: if_splits)
  with JStr show ?case by (auto dest: json_quote_prefix_free)
next
  case (JArr vs)
  with stringify_same_kind [OF JArr(2-4)] obtain ws where w: "w = JArr ws" by (cases w) (auto split: if_splits)
  have "vs = ws \<and> x = y"
  proof (rule join_prefix_free [where f = "stringify num" and c = "CHR '']''"])
    show "join '','' (map (stringify num) vs) @ CHR '']'' # x = join '','' (map (stringify num) ws) @ CHR '']'' # y"
      using JArr.prems(3) w by simp
    show "stringify num v \<noteq> [] \<and> hd (stringify num v) \<noteq> CHR '','' \<and> hd (stringify num v) \<noteq> CHR '']''"
      if "v \<in> set vs \<union> set ws" for v
      using hd_stringify [of v num] value_start_no_sep [of v num] that w JArr.prems(1,2) by auto
    show "v = v' \<and> x = y" if "v \<in> set vs" "v' \<in> set ws" "stringify num v @ x = stringify num v' @ y" "stops x" "stops y" for v v' x y
      using that w JArr.prems(1,2) by (intro JArr.IH) auto
  qed (simp_all add: is_digit_def code_def)
  with w show ?case by simp
next
  case (JObj es)
  with stringify_same_kind [OF JObj(2-4)] obtain fs where w: "w = JObj fs" by (cases w) (auto split: if_splits)
  let ?f = "\<lambda>e. json_quote (fst e) @ '':'' @ stringify num (snd e)"
  have "es = fs \<and> x = y"
  proof (rule join_prefix_free [where f = ?f and c = "CHR ''}''"])
    show "join '','' (map ?f es) @ CHR ''}'' # x = join '','' (map ?f fs) @ CHR ''}'' # y"
      using JObj.prems(3) w by simp
    fix e e' x y
    assume e: "e \<in> set es" "e' \<in> set fs" and eq: "?f e @ x = ?f e' @ y" and st: "stops x" "stops y"
    from eq have k: "fst e = fst e' \<and> CHR '':'' # stringify num (snd e) @ x = CHR '':'' # stringify num (snd e') @ y"
      by (intro json_quote_prefix_free) simp
    then have "snd e = snd e' \<and> x = y"
      using e st w JObj.prems(1,2) by (intro JObj.IH [of e "snd e"]) (auto simp: snds.simps)
    with k show "e = e' \<and> x = y" by (simp add: prod_eq_iff)
  qed (simp_all add: json_quote_def dquote_def is_digit_def code_def)
  with w show ?case by simp
qed

lemma stringify_inject:
  "plain_json v \<Longrightarrow> plain_json w \<Longrightarrow> stringify num v = stringify num w \<longleftrightarrow> v = w"
  using stringify_prefix_free [of v w num "[]" "[]"] by (auto simp: stops_def)

section \<open>Canonical form\<close>

text \<open>
  \<open>Object.keys(o).sort()\<close> sorts by code units, which is the lexicographic order of the library.
\<close>

definition sort_entries :: "(string \<times> 'a) list \<Rightarrow> (string \<times> 'a) list" where
  "sort_entries es = sort_key fst es"

fun canonicalJson :: "(jsnum \<Rightarrow> string) \<Rightarrow> json \<Rightarrow> string" where
  "canonicalJson num (JArr vs) = ''['' @ join '','' (map (canonicalJson num) vs) @ '']''"
| "canonicalJson num (JObj es) =
     ''{'' @ join '','' (map (\<lambda>e. json_quote (fst e) @ '':'' @ snd e)
        (sort_entries (map (\<lambda>e. (fst e, canonicalJson num (snd e))) es))) @ ''}''"
| "canonicalJson num v = stringify num v"

fun canon_sorted :: "json \<Rightarrow> json" where
  "canon_sorted (JArr vs) = JArr (map canon_sorted vs)"
| "canon_sorted (JObj es) = JObj (sort_entries (map (\<lambda>e. (fst e, canon_sorted (snd e))) es))"
| "canon_sorted v = v"

lemma insort_map_snd:
  "insort_key fst (fst e, g (snd e)) (map (\<lambda>e. (fst e, g (snd e))) es) = map (\<lambda>e. (fst e, g (snd e))) (insort_key fst e es)"
  by (induction es) auto

lemma sort_map_snd:
  "sort_entries (map (\<lambda>e. (fst e, g (snd e))) es) = map (\<lambda>e. (fst e, g (snd e))) (sort_entries es)"
  by (induction es) (simp_all add: sort_entries_def sort_key_def insort_map_snd)

lemma canonicalJson_stringify: "canonicalJson num v = stringify num (canon_sorted v)"
proof (induction v)
  case (JArr vs)
  then show ?case by (simp cong: map_cong)
next
  case (JObj es)
  then have "map (\<lambda>e. (fst e, canonicalJson num (snd e))) es = map (\<lambda>e. (fst e, stringify num (canon_sorted (snd e)))) es"
    by (intro map_cong) (auto simp: snds.simps)
  then have "canonicalJson num (JObj es) = ''{'' @ join '','' (map (\<lambda>e. json_quote (fst e) @ '':'' @ snd e)
        (sort_entries (map (\<lambda>e. (fst e, stringify num (canon_sorted (snd e)))) es))) @ ''}''"
    by (simp only: canonicalJson.simps)
  then show ?case
    using sort_map_snd [of "\<lambda>v. stringify num (canon_sorted v)" es] sort_map_snd [of canon_sorted es]
    by (simp add: o_def)
qed simp_all

lemma set_sort_entries [simp]: "set (sort_entries es) = set es"
  by (simp add: sort_entries_def)

lemma plain_canon_sorted: "plain_json v \<Longrightarrow> plain_json (canon_sorted v)"
  by (induction v) (auto simp: snds.simps)

lemma canonicalJson_inject:
  "plain_json v \<Longrightarrow> plain_json w \<Longrightarrow> canonicalJson num v = canonicalJson num w \<longleftrightarrow> canon_sorted v = canon_sorted w"
  by (simp add: canonicalJson_stringify stringify_inject plain_canon_sorted)

section \<open>The order an object keeps its own keys in\<close>

text \<open>
  Keys that are array indices come first, in numeric order; the others keep the order they were
  put in. This is the order in which \<open>JSON.stringify\<close> prints an object built from entries.
\<close>

definition array_index :: "string \<Rightarrow> bool" where
  "array_index k \<longleftrightarrow> k \<noteq> [] \<and> list_all is_digit k \<and> (k = ''0'' \<or> hd k \<noteq> CHR ''0'') \<and> digits_val k < 4294967295"

definition own_order :: "(string \<times> 'a) list \<Rightarrow> (string \<times> 'a) list" where
  "own_order es = sort_key (\<lambda>e. digits_val (fst e)) (filter (\<lambda>e. array_index (fst e)) es)
                  @ filter (\<lambda>e. \<not> array_index (fst e)) es"

lemma set_own_order [simp]: "set (own_order es) = set es"
  by (auto simp: own_order_def)

end
