(* ===== verification/JsNumber.thy ===== *)
theory JsNumber
  imports Prelude
begin

text \<open>
  JavaScript numbers where the code lets them leave the finite range: NaN and the infinities
  beside the exact rationals, their arithmetic and comparisons, and the conversions
  \<open>Number(s)\<close> and \<open>Number.parseInt(s, 10)\<close>. A finite double is its exact value here, so rounding is
  not modelled; a value past the largest double is an infinity, as in the language.
\<close>

datatype xnum = NaN | PInf | NInf | Fin jsnum

section \<open>Arithmetic\<close>

definition signed_inf :: "bool \<Rightarrow> xnum" where
  "signed_inf pos = (if pos then PInf else NInf)"

fun xneg :: "xnum \<Rightarrow> xnum" where
  "xneg NaN = NaN" | "xneg PInf = NInf" | "xneg NInf = PInf" | "xneg (Fin a) = Fin (- a)"

fun xadd :: "xnum \<Rightarrow> xnum \<Rightarrow> xnum" where
  "xadd NaN y = NaN"
| "xadd x NaN = NaN"
| "xadd (Fin a) (Fin b) = Fin (a + b)"
| "xadd PInf NInf = NaN"
| "xadd NInf PInf = NaN"
| "xadd PInf y = PInf"
| "xadd NInf y = NInf"
| "xadd x PInf = PInf"
| "xadd x NInf = NInf"

fun xsgn :: "xnum \<Rightarrow> jsnum" where
  "xsgn NaN = 0" | "xsgn PInf = 1" | "xsgn NInf = -1" | "xsgn (Fin a) = sgn a"

fun xmul :: "xnum \<Rightarrow> xnum \<Rightarrow> xnum" where
  "xmul (Fin a) (Fin b) = Fin (a * b)"
| "xmul NaN y = NaN"
| "xmul x NaN = NaN"
| "xmul x y = (if xsgn x * xsgn y = 0 then NaN else signed_inf (0 < xsgn x * xsgn y))"

primrec xpow :: "xnum \<Rightarrow> nat \<Rightarrow> xnum" where
  "xpow x 0 = Fin 1"
| "xpow x (Suc n) = xmul x (xpow x n)"

fun xle :: "xnum \<Rightarrow> xnum \<Rightarrow> bool" where
  "xle NaN y = False"
| "xle x NaN = False"
| "xle (Fin a) (Fin b) = (a \<le> b)"
| "xle NInf y = True"
| "xle x PInf = True"
| "xle x y = False"

lemma xpow_Fin [simp]: "xpow (Fin a) n = Fin (a ^ n)"
  by (induction n) auto

fun finite_num :: "xnum \<Rightarrow> bool" where
  "finite_num (Fin a) = True" | "finite_num x = False"

section \<open>Conversions from strings\<close>

text \<open>Past the largest double a decimal literal is an infinity.\<close>

definition to_number :: "jsnum \<Rightarrow> xnum" where
  "to_number q = (if 2 ^ 1024 - 2 ^ 970 \<le> q then PInf else if q \<le> - (2 ^ 1024 - 2 ^ 970) then NInf else Fin q)"

definition exponent_part :: "string \<Rightarrow> int option" where
  "exponent_part s =
     (case s of [] \<Rightarrow> Some 0
      | c # t \<Rightarrow> if c \<noteq> CHR ''e'' \<and> c \<noteq> CHR ''E'' then None
          else if t \<noteq> [] \<and> hd t = CHR ''-'' then map_option uminus (unsigned_digits (tl t))
          else if t \<noteq> [] \<and> hd t = CHR ''+'' then unsigned_digits (tl t)
          else unsigned_digits t)"

definition pow10 :: "int \<Rightarrow> jsnum" where
  "pow10 e = (if 0 \<le> e then 10 ^ nat e else 1 / 10 ^ nat (- e))"

definition unsigned_decimal :: "string \<Rightarrow> jsnum option" where
  "unsigned_decimal s =
     (let i = takeWhile is_digit s; r = dropWhile is_digit s;
          dot = r \<noteq> [] \<and> hd r = CHR ''.'';
          f = (if dot then takeWhile is_digit (tl r) else []);
          e = (if dot then dropWhile is_digit (tl r) else r)
      in if i = [] \<and> f = [] then None
         else map_option (\<lambda>x. of_nat (digits_val (i @ f)) * pow10 (x - int (length f))) (exponent_part e))"

definition signed_decimal :: "string \<Rightarrow> xnum" where
  "signed_decimal s =
     (if s = ''Infinity'' then PInf
      else case unsigned_decimal s of None \<Rightarrow> NaN | Some q \<Rightarrow> to_number q)"

definition radix_number :: "nat \<Rightarrow> string \<Rightarrow> xnum" where
  "radix_number b s =
     (if s = [] then NaN else case radix_val b 0 s of None \<Rightarrow> NaN | Some n \<Rightarrow> to_number (of_nat n))"

definition Number_of :: "string \<Rightarrow> xnum" where
  "Number_of s0 =
     (let s = js_trim s0 in
      if s = [] then Fin 0
      else if take 2 s = ''0x'' \<or> take 2 s = ''0X'' then radix_number 16 (drop 2 s)
      else if take 2 s = ''0o'' \<or> take 2 s = ''0O'' then radix_number 8 (drop 2 s)
      else if take 2 s = ''0b'' \<or> take 2 s = ''0B'' then radix_number 2 (drop 2 s)
      else if hd s = CHR ''-'' then xneg (signed_decimal (tl s))
      else if hd s = CHR ''+'' then signed_decimal (tl s)
      else signed_decimal s)"

text \<open>\<open>Number.parseInt(s, 10)\<close>: leading white space and a sign, then as many digits as there are.\<close>

definition parseInt10 :: "string \<Rightarrow> xnum" where
  "parseInt10 s0 =
     (let s = dropWhile is_space s0;
          neg = s \<noteq> [] \<and> hd s = CHR ''-'';
          t = (if s \<noteq> [] \<and> (hd s = CHR ''-'' \<or> hd s = CHR ''+'') then tl s else s);
          ds = takeWhile is_digit t
      in if ds = [] then NaN
         else if neg then xneg (to_number (of_nat (digits_val ds))) else to_number (of_nat (digits_val ds)))"

lemma to_number_small: "\<bar>q\<bar> < 2 ^ 1000 \<Longrightarrow> to_number q = Fin q"
proof -
  assume q: "\<bar>q\<bar> < 2 ^ 1000"
  have "(2::rat) ^ 1000 \<le> 2 ^ 1024 - 2 ^ 970" by simp
  then show ?thesis using q by (auto simp: to_number_def abs_less_iff)
qed

text \<open>Evaluation need not compute the bound for the numbers that occur.\<close>

lemma to_number_code [code]:
  "to_number q =
     (if -1000000000 \<le> q \<and> q \<le> 1000000000 then Fin q
      else if 2 ^ 1024 - 2 ^ 970 \<le> q then PInf else if q \<le> - (2 ^ 1024 - 2 ^ 970) then NInf else Fin q)"
proof (cases "-1000000000 \<le> q \<and> q \<le> 1000000000")
  case True
  then have "\<bar>q\<bar> \<le> 1000000000" by linarith
  moreover have "(1000000000::rat) < 2 ^ 1000" by simp
  ultimately have "to_number q = Fin q" by (intro to_number_small) linarith
  then show ?thesis using True by simp
qed (simp add: to_number_def)

lemma show_nat_shape:
  "takeWhile is_digit (show_nat n) = show_nat n" "dropWhile is_digit (show_nat n) = []"
  by (auto simp: takeWhile_eq_all_conv dropWhile_eq_Nil_conv show_nat_digits)

lemma show_nat_hd:
  "\<exists>c t. show_nat n = c # t \<and> is_digit c \<and> \<not> is_space c \<and> c \<noteq> CHR ''-'' \<and> c \<noteq> CHR ''+''"
proof -
  obtain c t where s: "show_nat n = c # t" by (cases "show_nat n") auto
  then have d: "is_digit c" using hd_show_nat [of n] by simp
  moreover have "\<not> is_digit (CHR ''-'')" "\<not> is_digit (CHR ''+'')" by (simp_all add: is_digit_def code_def)
  ultimately show ?thesis using s digit_not_space by metis
qed

lemma trim_show_nat [simp]: "js_trim (show_nat n) = show_nat n"
  by (rule trim_no_space) (blast dest: show_nat_digits digit_not_space)

lemma show_nat_no_prefix:
  assumes "\<not> is_digit x" shows "take 2 (show_nat n) \<noteq> [CHR ''0'', x]"
proof
  assume "take 2 (show_nat n) = [CHR ''0'', x]"
  then have "x \<in> set (show_nat n)" by (metis in_set_takeD list.set_intros(1) list.set_intros(2))
  then show False using assms show_nat_digits by blast
qed

lemma Number_of_show_nat: "Number_of (show_nat n) = to_number (of_nat n)"
proof -
  obtain c t where s: "show_nat n = c # t" "c \<noteq> CHR ''-''" "c \<noteq> CHR ''+''" "is_digit c"
    using show_nat_hd by blast
  have letters: "\<not> is_digit (CHR ''x'')" "\<not> is_digit (CHR ''X'')" "\<not> is_digit (CHR ''o'')"
      "\<not> is_digit (CHR ''O'')" "\<not> is_digit (CHR ''b'')" "\<not> is_digit (CHR ''B'')" "\<not> is_digit (CHR ''I'')"
    by (simp_all add: is_digit_def code_def)
  have ud: "unsigned_decimal (show_nat n) = Some (of_nat n)"
    by (simp add: unsigned_decimal_def show_nat_shape exponent_part_def pow10_def)
  have ni: "show_nat n \<noteq> ''Infinity''" using s letters by (metis list.inject)
  have sd: "signed_decimal (show_nat n) = to_number (of_nat n)"
    by (simp add: signed_decimal_def ni ud)
  have h: "hd (show_nat n) \<noteq> CHR ''-''" "hd (show_nat n) \<noteq> CHR ''+''" using s by auto
  show ?thesis
    unfolding Number_of_def Let_def trim_show_nat
    using h by (simp add: show_nat_no_prefix [OF letters(1)] show_nat_no_prefix [OF letters(2)]
        show_nat_no_prefix [OF letters(3)] show_nat_no_prefix [OF letters(4)]
        show_nat_no_prefix [OF letters(5)] show_nat_no_prefix [OF letters(6)] sd)
qed

lemma parseInt10_show_nat: "parseInt10 (show_nat n) = to_number (of_nat n)"
proof -
  obtain c t where s: "show_nat n = c # t" "c \<noteq> CHR ''-''" "c \<noteq> CHR ''+''" "\<not> is_space c"
    using show_nat_hd by blast
  have dw: "dropWhile is_space (show_nat n) = show_nat n" using s by simp
  have h: "hd (show_nat n) \<noteq> CHR ''-''" "hd (show_nat n) \<noteq> CHR ''+''" using s by auto
  show ?thesis using h by (simp add: parseInt10_def dw show_nat_shape)
qed

lemma finite_to_number: "finite_num (to_number q) \<Longrightarrow> to_number q = Fin q"
  by (auto simp: to_number_def split: if_splits)

lemmas number_eval = Number_of_def js_trim_def is_space_def code_def signed_decimal_def unsigned_decimal_def
  is_digit_def digits_val_def exponent_part_def pow10_def to_number_code Let_def

end
