(* ===== verification/JsonParse.thy ===== *)
theory JsonParse
  imports Json JsNumber
begin

text \<open>
  \<open>JSON.parse\<close>. A failed parse (the \<open>SyntaxError\<close>) is \<open>None\<close>. A repeated key keeps its first
  place and its last value; an object's keys are held in the language's own order. An escape of a
  code unit above 255 is outside the strings of this model and is not read. The fuel counts
  nested values and elements: the length of the text is enough, for each step reads a character.
\<close>

definition json_space :: "char \<Rightarrow> bool" where
  "json_space c \<longleftrightarrow> code c \<in> {32, 9, 10, 13}"

definition skip_ws :: "string \<Rightarrow> string" where
  "skip_ws s = dropWhile json_space s"

definition unescape :: "char \<Rightarrow> char option" where
  "unescape c =
     (if c = dquote \<or> c = bslash \<or> c = CHR ''/'' then Some c
      else if c = CHR ''b'' then Some (char_of (8::nat)) else if c = CHR ''f'' then Some (char_of (12::nat))
      else if c = CHR ''n'' then Some (char_of (10::nat)) else if c = CHR ''r'' then Some (char_of (13::nat))
      else if c = CHR ''t'' then Some (char_of (9::nat)) else None)"

fun parse_string :: "string \<Rightarrow> (string \<times> string) option" where
  "parse_string [] = None"
| "parse_string (c # cs) =
     (if c = dquote then Some ([], cs)
      else if c = bslash then
        (case cs of
           [] \<Rightarrow> None
         | e # es \<Rightarrow>
             if e = CHR ''u'' then
               (case radix_val 16 0 (take 4 es) of
                  Some n \<Rightarrow> if length es < 4 \<or> 256 \<le> n then None
                            else map_option (\<lambda>(s, r). (char_of n # s, r)) (parse_string (drop 4 es))
                | None \<Rightarrow> None)
             else (case unescape e of
                     None \<Rightarrow> None | Some d \<Rightarrow> map_option (\<lambda>(s, r). (d # s, r)) (parse_string es)))
      else if code c < 32 then None
      else map_option (\<lambda>(s, r). (c # s, r)) (parse_string cs))"

text \<open>A number: no leading zero, digits after a point, and an optional exponent.\<close>

definition parse_fraction :: "string \<Rightarrow> (string \<times> string) option" where
  "parse_fraction s =
     (case s of c # r \<Rightarrow>
        if c = CHR ''.''
        then (if takeWhile is_digit r = [] then None else Some (takeWhile is_digit r, dropWhile is_digit r))
        else Some ([], s)
      | [] \<Rightarrow> Some ([], []))"

definition parse_exponent :: "string \<Rightarrow> (int \<times> string) option" where
  "parse_exponent s =
     (case s of c # r \<Rightarrow>
        if c = CHR ''e'' \<or> c = CHR ''E''
        then (let neg = r \<noteq> [] \<and> hd r = CHR ''-'';
                  t = (if r \<noteq> [] \<and> (hd r = CHR ''-'' \<or> hd r = CHR ''+'') then tl r else r);
                  ds = takeWhile is_digit t
              in if ds = [] then None
                 else Some (if neg then - int (digits_val ds) else int (digits_val ds), dropWhile is_digit t))
        else Some (0, s)
      | [] \<Rightarrow> Some (0, []))"

definition parse_unsigned :: "string \<Rightarrow> (jsnum \<times> string) option" where
  "parse_unsigned s =
     (let i = (if s \<noteq> [] \<and> hd s = CHR ''0'' then ''0'' else takeWhile is_digit s) in
      if i = [] then None
      else case parse_fraction (drop (length i) s) of
        None \<Rightarrow> None
      | Some (f, r) \<Rightarrow>
          (case parse_exponent r of
             None \<Rightarrow> None
           | Some (e, r') \<Rightarrow> Some (of_nat (digits_val (i @ f)) * pow10 (e - int (length f)), r')))"

definition parse_number :: "string \<Rightarrow> (jsnum \<times> string) option" where
  "parse_number s =
     (if s \<noteq> [] \<and> hd s = CHR ''-'' then map_option (\<lambda>(q, r). (- q, r)) (parse_unsigned (tl s)) else parse_unsigned s)"

definition put_entry :: "string \<Rightarrow> 'a \<Rightarrow> (string \<times> 'a) list \<Rightarrow> (string \<times> 'a) list" where
  "put_entry k v es =
     (if k \<in> set (map fst es) then map (\<lambda>e. if fst e = k then (k, v) else e) es else es @ [(k, v)])"

fun parse_value :: "nat \<Rightarrow> string \<Rightarrow> (json \<times> string) option"
  and parse_elements :: "nat \<Rightarrow> json list \<Rightarrow> string \<Rightarrow> (json \<times> string) option"
  and parse_members :: "nat \<Rightarrow> (string \<times> json) list \<Rightarrow> string \<Rightarrow> (json \<times> string) option" where
  "parse_value 0 s = None"
| "parse_value (Suc n) s0 =
     (let s = skip_ws s0 in
      if s = [] then None
      else if hd s = dquote then map_option (\<lambda>(t, r). (JStr t, r)) (parse_string (tl s))
      else if hd s = CHR ''['' then
        (if take 1 (skip_ws (tl s)) = '']'' then Some (JArr [], tl (skip_ws (tl s))) else parse_elements n [] (tl s))
      else if hd s = CHR ''{'' then
        (if take 1 (skip_ws (tl s)) = ''}'' then Some (JObj [], tl (skip_ws (tl s))) else parse_members n [] (tl s))
      else if take 4 s = ''null'' then Some (JNull, drop 4 s)
      else if take 4 s = ''true'' then Some (JBool True, drop 4 s)
      else if take 5 s = ''false'' then Some (JBool False, drop 5 s)
      else map_option (\<lambda>(q, r). (JNum q, r)) (parse_number s))"
| "parse_elements 0 vs s = None"
| "parse_elements (Suc n) vs s =
     (case parse_value n s of
        None \<Rightarrow> None
      | Some (v, r) \<Rightarrow>
          (case skip_ws r of
             [] \<Rightarrow> None
           | c # r' \<Rightarrow>
               if c = CHR '','' then parse_elements n (vs @ [v]) r'
               else if c = CHR '']'' then Some (JArr (vs @ [v]), r') else None))"
| "parse_members 0 es s = None"
| "parse_members (Suc n) es s0 =
     (let s = skip_ws s0 in
      if s = [] \<or> hd s \<noteq> dquote then None
      else case parse_string (tl s) of
        None \<Rightarrow> None
      | Some (k, r) \<Rightarrow>
          (case skip_ws r of
             [] \<Rightarrow> None
           | c # r' \<Rightarrow>
               if c \<noteq> CHR '':'' then None
               else (case parse_value n r' of
                  None \<Rightarrow> None
                | Some (v, r'') \<Rightarrow>
                    (case skip_ws r'' of
                       [] \<Rightarrow> None
                     | d # r3 \<Rightarrow>
                         if d = CHR '','' then parse_members n (put_entry k v es) r3
                         else if d = CHR ''}'' then Some (JObj (own_order (put_entry k v es)), r3) else None))))"

definition json_parse :: "string \<Rightarrow> json option" where
  "json_parse s =
     (case parse_value (2 * length s + 2) s of
        Some (v, r) \<Rightarrow> if skip_ws r = [] then Some v else None
      | None \<Rightarrow> None)"

end
