(* ===== verification/X402Protocol.thy ===== *)
theory X402Protocol
  imports Ed25519 JsonParse
begin

text \<open>
  packages/x402/src/protocol.ts: decoding a quote, checking its Solana USDC rail against the request
  that was sent, and the payment envelopes. What a gateway sends is JSON of any shape; reading a
  property of null throws, and so do the code's own checks: both are values of \<open>protocol_error\<close>.
\<close>

definition SOLANA_MAINNET :: string where
  "SOLANA_MAINNET = ''solana:5eykt4UsFv8P8NJdTREpY1vzqKqZKvdp''"

definition USEPOD_PAY_TO_ALLOWLIST :: "string list" where
  "USEPOD_PAY_TO_ALLOWLIST = [''GXfqVnZENHzvim8rNN8TPwqxWXQe8EBbxhcEMYE8Z7BS'']"

definition X402_PATHS_chat :: string where
  "X402_PATHS_chat = ''/proxy/x402/v1/chat/completions''"

definition X402_PATHS_messages :: string where
  "X402_PATHS_messages = ''/proxy/x402/v1/messages''"

datatype protocol_error = No_payment_required_header | Not_base64_json | Missing_quote_id_or_accepts | No_solana_usdc_rail
  | Rail_quote_id_differs | Pay_to_not_allowlisted "json option" | Quote_amount_not_positive_integer
  | Body_hash_does_not_match | Quote_path_differs | Property_of_null

text \<open>A property of a value: absent on anything that is no object; null has none and throws.\<close>

definition get_prop :: "json \<Rightarrow> string \<Rightarrow> protocol_error + json option" where
  "get_prop v k = (case v of JNull \<Rightarrow> Inl Property_of_null | JObj es \<Rightarrow> Inr (map_of es k) | _ \<Rightarrow> Inr None)"

text \<open>The same on a value already known not to be null.\<close>

definition the_prop :: "json \<Rightarrow> string \<Rightarrow> json option" where
  "the_prop v k = (case v of JObj es \<Rightarrow> map_of es k | _ \<Rightarrow> None)"

definition bodyHash :: "platform \<Rightarrow> string \<Rightarrow> string \<Rightarrow> string \<Rightarrow> string" where
  "bodyHash P req_method path body = sha256_hex P (req_method @ newline @ path @ newline @ body)"

record quote =
  q_quote_id :: string
  q_accepts :: "json list"

definition decodeQuoteHeader :: "platform \<Rightarrow> string option \<Rightarrow> protocol_error + quote" where
  "decodeQuoteHeader P headerValue =
     (case headerValue of
        None \<Rightarrow> Inl No_payment_required_header
      | Some h \<Rightarrow>
          if h = [] then Inl No_payment_required_header
          else (case json_parse (b64_decode P h) of
             None \<Rightarrow> Inl Not_base64_json
           | Some q \<Rightarrow>
               (case get_prop q ''quote_id'' of
                  Inl e \<Rightarrow> Inl e
                | Inr qid \<Rightarrow>
                    (case (qid, the_prop q ''accepts'') of
                       (Some (JStr i), Some (JArr as)) \<Rightarrow> Inr \<lparr>q_quote_id = i, q_accepts = as\<rparr>
                     | _ \<Rightarrow> Inl Missing_quote_id_or_accepts))))"

fun find_rail :: "json list \<Rightarrow> protocol_error + json option" where
  "find_rail [] = Inr None"
| "find_rail (a # as) =
     (case get_prop a ''asset'' of
        Inl e \<Rightarrow> Inl e
      | Inr asset \<Rightarrow>
          if asset = Some (JStr ''USDC'') \<and> the_prop a ''network'' = Some (JStr SOLANA_MAINNET) then Inr (Some a)
          else find_rail as)"

record sent_request =
  sr_method :: string
  sr_path :: string
  sr_body :: string

definition selectUsdcRail :: "platform \<Rightarrow> quote \<Rightarrow> sent_request \<Rightarrow> protocol_error + json" where
  "selectUsdcRail P q sent =
     (case find_rail (q_accepts q) of
        Inl e \<Rightarrow> Inl e
      | Inr None \<Rightarrow> Inl No_solana_usdc_rail
      | Inr (Some rail) \<Rightarrow>
          if the_prop rail ''quote_id'' \<noteq> Some (JStr (q_quote_id q)) then Inl Rail_quote_id_differs
          else if (case the_prop rail ''pay_to'' of Some (JStr a) \<Rightarrow> a \<notin> set USEPOD_PAY_TO_ALLOWLIST | _ \<Rightarrow> True)
            then Inl (Pay_to_not_allowlisted (the_prop rail ''pay_to''))
          else if (case the_prop rail ''amount_microunits'' of Some (JNum n) \<Rightarrow> \<not> is_safe_integer n \<or> n \<le> 0 | _ \<Rightarrow> True)
            then Inl Quote_amount_not_positive_integer
          else let expected = bodyHash P (sr_method sent) (sr_path sent) (sr_body sent) in
            if the_prop rail ''body_hash'' \<noteq> None \<and> the_prop rail ''body_hash'' \<noteq> Some (JStr expected)
            then Inl Body_hash_does_not_match
          else if the_prop rail ''path'' \<noteq> None \<and> the_prop rail ''path'' \<noteq> Some (JStr (sr_path sent))
            then Inl Quote_path_differs
          else Inr rail)"

text \<open>The reading of a rail that \<open>selectUsdcRail\<close> returned: the checked fields as what they were checked to be.\<close>

record usdc_rail =
  ur_quote_id :: string
  ur_network :: string
  ur_asset :: string
  ur_pay_to :: string
  ur_amount :: jsnum
  ur_expires_at :: "json option"

definition rail_str :: "json \<Rightarrow> string \<Rightarrow> string" where
  "rail_str r k = (case the_prop r k of Some (JStr s) \<Rightarrow> s | _ \<Rightarrow> [])"

definition usdc_rail_of :: "json \<Rightarrow> usdc_rail" where
  "usdc_rail_of r = \<lparr>ur_quote_id = rail_str r ''quote_id'', ur_network = rail_str r ''network'', ur_asset = rail_str r ''asset'',
     ur_pay_to = rail_str r ''pay_to'',
     ur_amount = (case the_prop r ''amount_microunits'' of Some (JNum n) \<Rightarrow> n | _ \<Rightarrow> 0),
     ur_expires_at = the_prop r ''expires_at''\<rparr>"

text \<open>
  \<open>Date.parse\<close> of a JSON value: of its string when it is one. What another truthy value's text
  parses to is the platform's.
\<close>

definition truthy :: "json option \<Rightarrow> bool" where
  "truthy v = (case v of None \<Rightarrow> False | Some JNull \<Rightarrow> False | Some (JBool b) \<Rightarrow> b | Some (JNum n) \<Rightarrow> n \<noteq> 0
     | Some (JStr s) \<Rightarrow> s \<noteq> [] | Some _ \<Rightarrow> True)"

definition parse_date_json :: "platform \<Rightarrow> json option \<Rightarrow> time_ms option" where
  "parse_date_json P v = (case v of Some (JStr s) \<Rightarrow> parse_date P s
     | Some j \<Rightarrow> other_date P (stringify (other_number P) j) | None \<Rightarrow> None)"

definition isExpired :: "platform \<Rightarrow> usdc_rail \<Rightarrow> time_ms \<Rightarrow> time_ms \<Rightarrow> bool" where
  "isExpired P rail now marginMs =
     (if \<not> truthy (ur_expires_at rail) then False
      else case parse_date_json P (ur_expires_at rail) of Some t \<Rightarrow> t - marginMs \<le> now | None \<Rightarrow> False)"

definition balanceProofMessage :: "string \<Rightarrow> string" where
  "balanceProofMessage quoteId = ''usepod-x402-spend:'' @ quoteId"

datatype envelope =
    OnchainEnvelope (env_quote_id: string) (env_network: string) (env_payer: string) (env_tx: string)
  | BalanceEnvelope (env_quote_id: string) (env_network: string) (env_payer: string) (env_proof: string)

definition envelope_json :: "envelope \<Rightarrow> json" where
  "envelope_json e = (case e of
     OnchainEnvelope q n w s \<Rightarrow> JObj [(''quote_id'', JStr q), (''network'', JStr n), (''asset'', JStr ''USDC''),
       (''payer_wallet'', JStr w), (''signature'', JStr s)]
   | BalanceEnvelope q n w p \<Rightarrow> JObj [(''quote_id'', JStr q), (''network'', JStr n), (''asset'', JStr ''USDC''),
       (''payer_wallet'', JStr w), (''scheme'', JStr ''balance''), (''proof'', JStr p)])"

definition encodeEnvelope :: "platform \<Rightarrow> envelope \<Rightarrow> string" where
  "encodeEnvelope P e = b64_encode P (stringify (other_number P) (envelope_json e))"

definition decodeEnvelope :: "platform \<Rightarrow> string \<Rightarrow> json option" where
  "decodeEnvelope P headerValue = json_parse (b64_decode P headerValue)"

definition onchainEnvelope :: "usdc_rail \<Rightarrow> string \<Rightarrow> string \<Rightarrow> envelope" where
  "onchainEnvelope rail payerWallet txSignature = OnchainEnvelope (ur_quote_id rail) (ur_network rail) payerWallet txSignature"

definition balanceEnvelope :: "usdc_rail \<Rightarrow> string \<Rightarrow> string \<Rightarrow> envelope" where
  "balanceEnvelope rail payerWallet proof_sig = BalanceEnvelope (ur_quote_id rail) (ur_network rail) payerWallet proof_sig"

text \<open>A gateway's error. Its type and message are whatever JSON was there; a missing one has the code's default.\<close>

record gateway_error =
  ge_status :: int
  ge_type :: json
  ge_message :: json

definition or_json :: "json option \<Rightarrow> json \<Rightarrow> json" where
  "or_json v d = (case v of None \<Rightarrow> d | Some JNull \<Rightarrow> d | Some j \<Rightarrow> j)"

definition parseGatewayError :: "int \<Rightarrow> string \<Rightarrow> gateway_error" where
  "parseGatewayError status text =
     (let plain = \<lparr>ge_status = status, ge_type = JStr ''unknown'', ge_message = JStr (take 300 text)\<rparr> in
      case json_parse text of
        None \<Rightarrow> plain
      | Some JNull \<Rightarrow> plain
      | Some j \<Rightarrow>
          (let e = (case the_prop j ''error'' of Some x \<Rightarrow> x | None \<Rightarrow> JNull) in
           \<lparr>ge_status = status, ge_type = or_json (the_prop e ''type'') (JStr ''unknown''),
            ge_message = or_json (the_prop e ''message'') (JStr (take 300 text))\<rparr>))"

fun str_contains :: "string \<Rightarrow> string \<Rightarrow> bool" where
  "str_contains s t = (take (length t) s = t \<or> (case s of [] \<Rightarrow> False | _ # r \<Rightarrow> str_contains r t))"

declare str_contains.simps [simp del]

text \<open>\<open>e.message.includes(t)\<close> for a message that is a string; on another value the call throws (\<open>None\<close>).\<close>

definition message_includes :: "gateway_error \<Rightarrow> string \<Rightarrow> bool option" where
  "message_includes e t = (case ge_message e of JStr s \<Rightarrow> Some (str_contains s t) | _ \<Rightarrow> None)"

definition isBalanceInsufficient :: "gateway_error \<Rightarrow> bool option" where
  "isBalanceInsufficient e = message_includes e ''balance is below the quote cap''"

definition isTxNotYetVisible :: "gateway_error \<Rightarrow> bool option" where
  "isTxNotYetVisible e = message_includes e ''not found or not yet confirmed''"

section \<open>What a selected rail has been checked to be\<close>

lemma find_rail_Some:
  "find_rail as = Inr (Some r) \<Longrightarrow> r \<in> set as \<and> the_prop r ''asset'' = Some (JStr ''USDC'')
     \<and> the_prop r ''network'' = Some (JStr SOLANA_MAINNET)"
  by (induction as) (auto simp: get_prop_def the_prop_def split: sum.splits if_splits json.splits)

lemma selectUsdcRail_ok:
  assumes "selectUsdcRail P q sent = Inr r"
  shows "r \<in> set (q_accepts q) \<and> ur_quote_id (usdc_rail_of r) = q_quote_id q \<and> ur_network (usdc_rail_of r) = SOLANA_MAINNET
    \<and> ur_asset (usdc_rail_of r) = ''USDC'' \<and> ur_pay_to (usdc_rail_of r) \<in> set USEPOD_PAY_TO_ALLOWLIST
    \<and> is_safe_integer (ur_amount (usdc_rail_of r)) \<and> 0 < ur_amount (usdc_rail_of r)
    \<and> (\<forall>h. the_prop r ''body_hash'' = Some h \<longrightarrow> h = JStr (bodyHash P (sr_method sent) (sr_path sent) (sr_body sent)))
    \<and> (\<forall>p. the_prop r ''path'' = Some p \<longrightarrow> p = JStr (sr_path sent))"
proof -
  have fr: "find_rail (q_accepts q) = Inr (Some r)"
    using assms by (auto simp: selectUsdcRail_def Let_def split: sum.splits option.splits if_splits)
  have "the_prop r ''quote_id'' = Some (JStr (q_quote_id q))"
      "\<exists>a. the_prop r ''pay_to'' = Some (JStr a) \<and> a \<in> set USEPOD_PAY_TO_ALLOWLIST"
      "\<exists>n. the_prop r ''amount_microunits'' = Some (JNum n) \<and> is_safe_integer n \<and> 0 < n"
    using assms by (simp_all add: selectUsdcRail_def fr Let_def not_le split: if_splits option.splits json.splits)
  moreover have "the_prop r ''body_hash'' = None \<or> the_prop r ''body_hash'' = Some (JStr (bodyHash P (sr_method sent) (sr_path sent) (sr_body sent)))"
      "the_prop r ''path'' = None \<or> the_prop r ''path'' = Some (JStr (sr_path sent))"
    using assms by (auto simp: selectUsdcRail_def fr Let_def split: if_splits)
  ultimately show ?thesis using find_rail_Some [OF fr] by (auto simp: usdc_rail_of_def rail_str_def)
qed

text \<open>
  A rail the agent would pay is one of the quote's own, in USDC on Solana mainnet, to an
  allowlisted address, for a positive whole amount; and where the quote says which request it is
  for, that is the request that was sent.
\<close>

theorem selected_rail_is_safe:
  assumes "selectUsdcRail P q sent = Inr r"
  shows "ur_quote_id (usdc_rail_of r) = q_quote_id q \<and> ur_network (usdc_rail_of r) = SOLANA_MAINNET
    \<and> ur_asset (usdc_rail_of r) = ''USDC'' \<and> ur_pay_to (usdc_rail_of r) = ''GXfqVnZENHzvim8rNN8TPwqxWXQe8EBbxhcEMYE8Z7BS''
    \<and> is_integer (ur_amount (usdc_rail_of r)) \<and> 0 < ur_amount (usdc_rail_of r)
    \<and> the_prop r ''body_hash'' \<in> {None, Some (JStr (sha256_hex P (sr_method sent @ newline @ sr_path sent @ newline @ sr_body sent)))}
    \<and> the_prop r ''path'' \<in> {None, Some (JStr (sr_path sent))}"
  using selectUsdcRail_ok [OF assms]
  by (cases "the_prop r ''body_hash''"; cases "the_prop r ''path''")
    (simp_all add: USEPOD_PAY_TO_ALLOWLIST_def is_safe_integer_def bodyHash_def)

definition demo_rail :: json where
  "demo_rail = JObj [(''quote_id'', JStr ''q''), (''network'', JStr SOLANA_MAINNET), (''asset'', JStr ''USDC''),
     (''pay_to'', JStr ''GXfqVnZENHzvim8rNN8TPwqxWXQe8EBbxhcEMYE8Z7BS''), (''amount_microunits'', JNum 250)]"

lemma demo_rail_selected:
  "selectUsdcRail toy \<lparr>q_quote_id = ''q'', q_accepts = [JObj [(''asset'', JStr ''SOL'')], demo_rail]\<rparr>
     \<lparr>sr_method = ''POST'', sr_path = ''/'', sr_body = []\<rparr> = Inr demo_rail"
  by code_simp

theorem selected_rail_is_safe_witness: "0 < ur_amount (usdc_rail_of demo_rail)"
  using selected_rail_is_safe [OF demo_rail_selected] by simp

end
