(* ===== verification/SpendBook.thy ===== *)
theory SpendBook
  imports Prelude
begin

text \<open>
  The contract every book of inference spend keeps, stated once. A book holds reservations
  that count against a limit from before money moves until the outcome is known. Three
  components of the code promise it: the agent's in-memory ledger and its Postgres twin
  (packages/budget, packages/db) and the signer's own journal (services/signer). Each
  interprets the locale below on its own operations. A settlement may fail and change nothing.
\<close>

datatype ('r, 'i, 'p) book_op = BReserve 'r | BSettle 'i 'p | BRelease 'i

definition book_step ::
  "('r \<Rightarrow> 's \<Rightarrow> 's) \<Rightarrow> ('i \<Rightarrow> 'p \<Rightarrow> 's \<Rightarrow> 's) \<Rightarrow> ('i \<Rightarrow> 's \<Rightarrow> 's) \<Rightarrow> ('r, 'i, 'p) book_op \<Rightarrow> 's \<Rightarrow> 's" where
  "book_step res settle rel oper s =
     (case oper of BReserve r \<Rightarrow> res r s | BSettle i p \<Rightarrow> settle i p s | BRelease i \<Rightarrow> rel i s)"

lemma book_step_simps [simp]:
  "book_step res settle rel (BReserve r) s = res r s"
  "book_step res settle rel (BSettle i p) s = settle i p s"
  "book_step res settle rel (BRelease i) s = rel i s"
  by (simp_all add: book_step_def)

text \<open>A run of operations, from the first to the last.\<close>

fun book_run :: "('o \<Rightarrow> 's \<Rightarrow> 's) \<Rightarrow> 'o list \<Rightarrow> 's \<Rightarrow> 's" where
  "book_run step [] s = s"
| "book_run step (x # xs) s = book_run step xs (step x s)"

text \<open>
  A run is honest when no settlement costs more than the reservation it closes: the payment
  was at most the quoted cap and the network fee at most the fee reserve.
\<close>

fun honest :: "(('r, 'i, 'p) book_op \<Rightarrow> 's \<Rightarrow> 's) \<Rightarrow> ('s \<Rightarrow> 'i \<Rightarrow> jsnum option) \<Rightarrow> ('p \<Rightarrow> jsnum) \<Rightarrow>
    ('r, 'i, 'p) book_op list \<Rightarrow> 's \<Rightarrow> bool" where
  "honest step held cost [] s = True"
| "honest step held cost (x # xs) s =
     ((case x of BSettle i p \<Rightarrow> (case held s i of None \<Rightarrow> True | Some h \<Rightarrow> cost p \<le> h) | _ \<Rightarrow> True)
      \<and> honest step held cost xs (step x s))"

locale spend_book =
  fixes ok :: "'s \<Rightarrow> bool"
    and committed :: "'s \<Rightarrow> jsnum"
    and held :: "'s \<Rightarrow> 'i \<Rightarrow> jsnum option"
    and res :: "'r \<Rightarrow> 's \<Rightarrow> 's"
    and settle :: "'i \<Rightarrow> 'p \<Rightarrow> 's \<Rightarrow> 's"
    and rel :: "'i \<Rightarrow> 's \<Rightarrow> 's"
    and cost :: "'p \<Rightarrow> jsnum"
    and limit :: jsnum
  assumes reserve_ok: "ok s \<Longrightarrow> ok (res r s)"
    and reserve_within: "ok s \<Longrightarrow> committed s \<le> limit \<Longrightarrow> committed (res r s) \<le> limit"
    and settle_ok: "ok s \<Longrightarrow> ok (settle i p s)"
    and settle_held: "ok s \<Longrightarrow> held s i = Some h \<Longrightarrow> committed (settle i p s) \<le> max (committed s) (committed s - h + cost p)"
    and settle_free: "ok s \<Longrightarrow> held s i = None \<Longrightarrow> committed (settle i p s) \<le> committed s"
    and release_ok: "ok s \<Longrightarrow> ok (rel i s)"
    and release_less: "ok s \<Longrightarrow> committed (rel i s) \<le> committed s"
begin

lemma step_ok: "ok s \<Longrightarrow> ok (book_step res settle rel x s)"
  by (cases x) (auto intro: reserve_ok settle_ok release_ok)

lemma step_within:
  assumes "ok s" "committed s \<le> limit"
    and "honest (book_step res settle rel) held cost [x] s"
  shows "committed (book_step res settle rel x s) \<le> limit"
proof (cases x)
  case (BReserve r)
  with assms show ?thesis by (simp add: reserve_within)
next
  case (BSettle i p)
  with assms show ?thesis
    by (cases "held s i") (auto intro: order_trans [OF settle_held] order_trans [OF settle_free])
next
  case (BRelease i)
  with assms release_less [of s i] show ?thesis by simp
qed

lemma run_ok: "ok s \<Longrightarrow> ok (book_run (book_step res settle rel) xs s)"
  by (induction xs arbitrary: s) (simp_all add: step_ok)

lemma run_within:
  assumes "ok s" "committed s \<le> limit" "honest (book_step res settle rel) held cost xs s"
  shows "committed (book_run (book_step res settle rel) xs s) \<le> limit"
  using assms
proof (induction xs arbitrary: s)
  case (Cons x xs)
  then show ?case using step_ok [of s x] step_within [of s x] by simp
qed simp

end

end
