(* ===== verification/Budget.thy ===== *)
theory Budget
  imports SpendBook
begin

text \<open>
  packages/budget: the inference budget governor (governor.ts), the in-memory spend ledger
  (ledger.ts) and the cost metrics (metrics.ts). The governor decides whether one more spend
  fits under the five-dollar lifetime ceiling and the phase allocation; the ledger records
  reservations and what became of them.
\<close>

section \<open>The governor (governor.ts)\<close>

definition HARD_LIFETIME_CEILING_MICRO :: jsnum where
  "HARD_LIFETIME_CEILING_MICRO = 5000000"

datatype phase = P1 | P2P3 | P4 | LIVE

definition PHASES :: "phase list" where
  "PHASES = [P1, P2P3, P4, LIVE]"

definition PHASE_ALLOCATION_MICRO :: "phase \<rightharpoonup> jsnum" where
  "PHASE_ALLOCATION_MICRO = [P1 \<mapsto> 500000, P2P3 \<mapsto> 1000000, P4 \<mapsto> 1500000, LIVE \<mapsto> 2000000]"

datatype spend_kind = X402_payment | Apikey_deposit

record budget_config =
  lifetimeCeilingMicro :: jsnum
  allocations :: "phase \<rightharpoonup> jsnum"

record spend_totals =
  lifetimeMicro :: jsnum
  byPhase :: "phase \<rightharpoonup> jsnum"

record spend_request =
  req_phase :: phase
  req_kind :: spend_kind
  req_amountMicro :: jsnum

text \<open>A refusal carries its code and the numbers its reason string is rendered from.\<close>

datatype decision_code =
    Invalid_amount jsnum
  | Unknown_phase phase
  | Ceiling_reached jsnum jsnum
  | Over_lifetime jsnum jsnum
  | Over_phase jsnum jsnum phase

datatype decision =
    Granted (lifetimeAfterMicro: jsnum) (phaseAfterMicro: jsnum)
  | Refused decision_code

datatype budget_error = Ceiling_not_a_non_negative_integer

definition budgetConfig :: "jsnum option \<Rightarrow> budget_error + budget_config" where
  "budgetConfig envCeiling =
     (let requested = (case envCeiling of None \<Rightarrow> HARD_LIFETIME_CEILING_MICRO | Some c \<Rightarrow> c) in
      if \<not> is_safe_integer requested \<or> requested < 0 then Inl Ceiling_not_a_non_negative_integer
      else Inr \<lparr>lifetimeCeilingMicro = min requested HARD_LIFETIME_CEILING_MICRO,
                allocations = PHASE_ALLOCATION_MICRO\<rparr>)"

definition effective_ceiling :: "budget_config \<Rightarrow> jsnum" where
  "effective_ceiling cfg = min (lifetimeCeilingMicro cfg) HARD_LIFETIME_CEILING_MICRO"

definition phase_total :: "spend_totals \<Rightarrow> phase \<Rightarrow> jsnum" where
  "phase_total t p = (case byPhase t p of None \<Rightarrow> 0 | Some x \<Rightarrow> x)"

definition decide :: "budget_config \<Rightarrow> spend_totals \<Rightarrow> spend_request \<Rightarrow> decision" where
  "decide cfg totals req =
     (if \<not> is_safe_integer (req_amountMicro req) \<or> req_amountMicro req \<le> 0
      then Refused (Invalid_amount (req_amountMicro req))
      else case allocations cfg (req_phase req) of
        None \<Rightarrow> Refused (Unknown_phase (req_phase req))
      | Some allocation \<Rightarrow>
          (let ceiling = effective_ceiling cfg in
           if lifetimeMicro totals \<ge> ceiling then Refused (Ceiling_reached (lifetimeMicro totals) ceiling)
           else let lifetimeAfter = lifetimeMicro totals + req_amountMicro req in
           if lifetimeAfter > ceiling then Refused (Over_lifetime lifetimeAfter ceiling)
           else let phaseAfter = phase_total totals (req_phase req) + req_amountMicro req in
           if phaseAfter > allocation then Refused (Over_phase phaseAfter allocation (req_phase req))
           else Granted lifetimeAfter phaseAfter))"

text \<open>\<open>(micro / 1_000_000).toFixed(6)\<close>: the nearest millionth, the larger of two equally near.\<close>

definition fmt :: "jsnum \<Rightarrow> string" where
  "fmt micro =
     (let n = \<lfloor>\<bar>micro\<bar> + 1/2\<rfloor>;
          neg = (micro < 0) in
      ''$'' @ (if neg then ''-'' else '''') @ show_int (n div 1000000) @ ''.'' @
      pad_left 6 (CHR ''0'') (show_int (n mod 1000000)))"

definition lamportsToMicroCeil :: "jsnum \<Rightarrow> jsnum \<Rightarrow> jsnum" where
  "lamportsToMicroCeil lamports solUsdCeilingPrice = ceil ((lamports * solUsdCeilingPrice) / 1000)"

section \<open>The in-memory spend ledger (ledger.ts)\<close>

datatype spend_status = Reserved | Settled | Released

record spend_entry =
  se_id :: string
  se_callId :: "string option"
  se_phase :: phase
  se_kind :: spend_kind
  se_status :: spend_status
  se_reservedMicro :: jsnum
  se_amountMicro :: "jsnum option"
  se_feeMicro :: "jsnum option"
  se_txSignature :: "string option"
  se_createdAt :: time_ms
  se_settledAt :: "time_ms option"

record settlement =
  st_amountMicro :: jsnum
  st_feeMicro :: jsnum
  st_txSignature :: "string option"

definition or_zero :: "jsnum option \<Rightarrow> jsnum" where
  "or_zero x = (case x of None \<Rightarrow> 0 | Some v \<Rightarrow> v)"

definition committedMicro :: "spend_entry \<Rightarrow> jsnum" where
  "committedMicro e =
     (if se_status e = Released then 0
      else if se_status e = Reserved then se_reservedMicro e
      else or_zero (se_amountMicro e) + or_zero (se_feeMicro e))"

fun add_entries :: "spend_entry list \<Rightarrow> jsnum \<Rightarrow> (phase \<Rightarrow> jsnum) \<Rightarrow> jsnum \<times> (phase \<Rightarrow> jsnum)" where
  "add_entries [] lifetime by = (lifetime, by)"
| "add_entries (e # es) lifetime by =
     (let c = committedMicro e in
      add_entries es (lifetime + c) (by (se_phase e := by (se_phase e) + c)))"

definition sumTotals :: "spend_entry list \<Rightarrow> spend_totals" where
  "sumTotals es =
     (let (lifetime, by) = add_entries es 0 (\<lambda>_. 0)
      in \<lparr>lifetimeMicro = lifetime, byPhase = (\<lambda>p. if p \<in> set PHASES then Some (by p) else None)\<rparr>)"

record spend_ledger =
  rows :: "spend_entry list"
  seqno :: nat

definition empty_ledger :: spend_ledger where
  "empty_ledger = \<lparr>rows = [], seqno = 0\<rparr>"

datatype ledger_error = No_spend_entry string | Not_reserved string spend_status

definition spend_id :: "nat \<Rightarrow> string" where
  "spend_id n = ''spend-'' @ show_nat n"

definition mem_reserve :: "budget_config \<Rightarrow> time_ms \<Rightarrow> spend_request \<Rightarrow> string option \<Rightarrow> spend_ledger
    \<Rightarrow> (decision \<times> string option) \<times> spend_ledger" where
  "mem_reserve cfg now req callId l =
     (case decide cfg (sumTotals (rows l)) req of
        Refused c \<Rightarrow> ((Refused c, None), l)
      | Granted la pa \<Rightarrow>
          (let i = spend_id (seqno l + 1);
               e = \<lparr>se_id = i, se_callId = callId, se_phase = req_phase req, se_kind = req_kind req,
                    se_status = Reserved, se_reservedMicro = req_amountMicro req, se_amountMicro = None,
                    se_feeMicro = None, se_txSignature = None, se_createdAt = now, se_settledAt = None\<rparr>
           in ((Granted la pa, Some i), \<lparr>rows = rows l @ [e], seqno = seqno l + 1\<rparr>)))"

definition mustGet :: "spend_ledger \<Rightarrow> string \<Rightarrow> ledger_error + spend_entry" where
  "mustGet l i = (case find (\<lambda>r. se_id r = i) (rows l) of None \<Rightarrow> Inl (No_spend_entry i) | Some r \<Rightarrow> Inr r)"

definition mem_settle :: "time_ms \<Rightarrow> string \<Rightarrow> settlement \<Rightarrow> spend_ledger \<Rightarrow> ledger_error + spend_ledger" where
  "mem_settle now i s l =
     (case mustGet l i of
        Inl e \<Rightarrow> Inl e
      | Inr row \<Rightarrow>
          if se_status row \<noteq> Reserved then Inl (Not_reserved i (se_status row))
          else Inr (l\<lparr>rows := update_where (\<lambda>r. se_id r = se_id row)
                 (\<lambda>r. r\<lparr>se_status := Settled, se_amountMicro := Some (st_amountMicro s),
                         se_feeMicro := Some (st_feeMicro s), se_txSignature := st_txSignature s,
                         se_settledAt := Some now\<rparr>) (rows l)\<rparr>))"

definition mem_release :: "string \<Rightarrow> spend_ledger \<Rightarrow> ledger_error + spend_ledger" where
  "mem_release i l =
     (case mustGet l i of
        Inl e \<Rightarrow> Inl e
      | Inr row \<Rightarrow>
          if se_status row \<noteq> Reserved then Inl (Not_reserved i (se_status row))
          else Inr (l\<lparr>rows := update_where (\<lambda>r. se_id r = se_id row) (\<lambda>r. r\<lparr>se_status := Released\<rparr>) (rows l)\<rparr>))"

definition mem_totals :: "spend_ledger \<Rightarrow> spend_totals" where
  "mem_totals l = sumTotals (rows l)"

definition mem_entries :: "spend_ledger \<Rightarrow> spend_entry list" where
  "mem_entries l = rows l"

section \<open>What the governor decides\<close>

lemma effective_ceiling_hard: "effective_ceiling cfg \<le> HARD_LIFETIME_CEILING_MICRO"
  by (simp add: effective_ceiling_def)

lemma budgetConfig_lowers:
  "budgetConfig c = Inr cfg \<Longrightarrow> 0 \<le> lifetimeCeilingMicro cfg \<and> lifetimeCeilingMicro cfg \<le> HARD_LIFETIME_CEILING_MICRO"
  by (auto simp: budgetConfig_def Let_def HARD_LIFETIME_CEILING_MICRO_def split: if_splits option.splits)

lemma decide_grantedD:
  assumes "decide cfg t req = Granted la pa"
  shows "0 < req_amountMicro req" "la = lifetimeMicro t + req_amountMicro req"
    "la \<le> effective_ceiling cfg" "pa = phase_total t (req_phase req) + req_amountMicro req"
    "\<exists>a. allocations cfg (req_phase req) = Some a \<and> pa \<le> a"
  using assms by (auto simp: decide_def Let_def split: if_splits option.splits)

lemma decide_granted_bounds:
  "decide cfg t req = Granted la pa \<Longrightarrow>
     lifetimeMicro t + req_amountMicro req \<le> effective_ceiling cfg
     \<and> (\<exists>a. allocations cfg (req_phase req) = Some a \<and> phase_total t (req_phase req) + req_amountMicro req \<le> a)"
  using decide_grantedD [of cfg t req la pa] by auto

section \<open>Totals are sums over the rows\<close>

lemma add_entries_sum:
  "add_entries es l by = (l + sum_list (map committedMicro es),
     \<lambda>p. by p + sum_list (map committedMicro (filter (\<lambda>e. se_phase e = p) es)))"
  by (induction es arbitrary: l "by") (auto simp: Let_def fun_eq_iff)

lemma in_PHASES [simp]: "p \<in> set PHASES"
  by (cases p) (simp_all add: PHASES_def)

definition spent_in :: "phase \<Rightarrow> spend_entry \<Rightarrow> jsnum" where
  "spent_in p e = (if se_phase e = p then committedMicro e else 0)"

lemma sum_filter_phase:
  "sum_list (map committedMicro (filter (\<lambda>e. se_phase e = p) es)) = sum_list (map (spent_in p) es)"
  by (induction es) (auto simp: spent_in_def)

lemma lifetime_sumTotals [simp]: "lifetimeMicro (sumTotals es) = sum_list (map committedMicro es)"
  by (simp add: sumTotals_def add_entries_sum)

lemma phase_sumTotals [simp]: "phase_total (sumTotals es) p = sum_list (map (spent_in p) es)"
  by (simp add: sumTotals_def add_entries_sum phase_total_def sum_filter_phase)

lemma committed_by_phase:
  "committedMicro e = spent_in P1 e + spent_in P2P3 e + spent_in P4 e + spent_in LIVE e"
  by (cases "se_phase e") (simp_all add: spent_in_def)

lemma sum_by_phase:
  "sum_list (map committedMicro es) = sum_list (map (spent_in P1) es) + sum_list (map (spent_in P2P3) es)
     + sum_list (map (spent_in P4) es) + sum_list (map (spent_in LIVE) es)"
  by (induction es) (simp_all add: committed_by_phase)

section \<open>The ledger keeps the spend-book contract\<close>

text \<open>
  The invariant: ids are unique and were issued by the counter, and every row reserved a
  positive amount.
\<close>

definition ledger_ok :: "spend_ledger \<Rightarrow> bool" where
  "ledger_ok l \<longleftrightarrow> distinct (map se_id (rows l))
     \<and> (\<forall>r \<in> set (rows l). 0 < se_reservedMicro r \<and> (\<exists>k \<le> seqno l. se_id r = spend_id k))"

text \<open>The state an operation leaves behind; an operation that throws leaves it as it was.\<close>

definition state_after :: "'e + 's \<Rightarrow> 's \<Rightarrow> 's" where
  "state_after r s = (case r of Inl _ \<Rightarrow> s | Inr s' \<Rightarrow> s')"

definition mem_reserve_step :: "budget_config \<Rightarrow> time_ms \<times> spend_request \<times> string option \<Rightarrow> spend_ledger \<Rightarrow> spend_ledger" where
  "mem_reserve_step cfg a l = (case a of (now, req, c) \<Rightarrow> snd (mem_reserve cfg now req c l))"

definition mem_settle_step :: "string \<Rightarrow> time_ms \<times> settlement \<Rightarrow> spend_ledger \<Rightarrow> spend_ledger" where
  "mem_settle_step i a l = state_after (mem_settle (fst a) i (snd a) l) l"

definition mem_release_step :: "string \<Rightarrow> spend_ledger \<Rightarrow> spend_ledger" where
  "mem_release_step i l = state_after (mem_release i l) l"

definition settlement_cost :: "time_ms \<times> settlement \<Rightarrow> jsnum" where
  "settlement_cost a = st_amountMicro (snd a) + st_feeMicro (snd a)"

definition held_row :: "spend_ledger \<Rightarrow> string \<Rightarrow> spend_entry option" where
  "held_row l i = (case find (\<lambda>r. se_id r = i) (rows l) of
     None \<Rightarrow> None | Some r \<Rightarrow> if se_status r = Reserved then Some r else None)"

definition held_lifetime :: "spend_ledger \<Rightarrow> string \<Rightarrow> jsnum option" where
  "held_lifetime l i = map_option se_reservedMicro (held_row l i)"

definition held_phase :: "phase \<Rightarrow> spend_ledger \<Rightarrow> string \<Rightarrow> jsnum option" where
  "held_phase p l i = (case held_row l i of None \<Rightarrow> None
     | Some r \<Rightarrow> if se_phase r = p then Some (se_reservedMicro r) else None)"

abbreviation mem_step where
  "mem_step cfg \<equiv> book_step (mem_reserve_step cfg) mem_settle_step mem_release_step"

lemma spend_id_inject [simp]: "spend_id m = spend_id n \<longleftrightarrow> m = n"
  by (simp add: spend_id_def)

lemma ledger_ok_empty [simp]: "ledger_ok empty_ledger"
  by (simp add: ledger_ok_def empty_ledger_def)

lemma mem_reserve_ok: "ledger_ok l \<Longrightarrow> ledger_ok (mem_reserve_step cfg a l)"
proof -
  assume ok: "ledger_ok l"
  obtain now req c where a: "a = (now, req, c)" by (cases a) auto
  show ?thesis
  proof (cases "decide cfg (sumTotals (rows l)) req")
    case (Granted la pa)
    have "spend_id (Suc (seqno l)) \<notin> se_id ` set (rows l)"
      using ok by (fastforce simp: ledger_ok_def)
    then show ?thesis
      using ok decide_grantedD [OF Granted]
      by (auto simp: a mem_reserve_step_def mem_reserve_def Granted Let_def ledger_ok_def intro: le_SucI)
  next
    case (Refused x)
    with ok show ?thesis by (simp add: a mem_reserve_step_def mem_reserve_def)
  qed
qed

lemma update_rows_ok:
  assumes "ledger_ok l" "\<And>r. se_id (f r) = se_id r" "\<And>r. se_reservedMicro (f r) = se_reservedMicro r"
  shows "ledger_ok (l\<lparr>rows := update_where P f (rows l)\<rparr>)"
  using assms by (auto simp: ledger_ok_def map_update_where_same elim!: in_update_whereE)

lemma held_rowD:
  assumes "held_row l i = Some r"
  shows "r \<in> set (rows l)" "se_id r = i" "se_status r = Reserved"
    "mustGet l i = Inr r"
  using assms by (auto simp: held_row_def mustGet_def dest!: find_SomeD split: option.splits if_splits)

lemma not_held:
  assumes "held_row l i = None"
  shows "mem_settle_step i a l = l" "mem_release_step i l = l"
  using assms
  by (auto simp: held_row_def mem_settle_step_def mem_release_step_def mem_settle_def mem_release_def
      mustGet_def state_after_def split: option.splits if_splits)

lemma mem_settle_ok: "ledger_ok l \<Longrightarrow> ledger_ok (mem_settle_step i a l)"
  by (auto simp: mem_settle_step_def mem_settle_def state_after_def split: sum.splits intro!: update_rows_ok)

lemma mem_release_ok: "ledger_ok l \<Longrightarrow> ledger_ok (mem_release_step i l)"
  by (auto simp: mem_release_step_def mem_release_def state_after_def split: sum.splits intro!: update_rows_ok)

text \<open>
  The sum a step leaves behind, for any measure \<open>g\<close> of a row: settling or releasing a held
  reservation replaces that row's share and touches no other row.
\<close>

lemma settle_sum:
  assumes "ledger_ok l" "held_row l i = Some r"
  shows "\<exists>r'. se_status r' = Settled \<and> se_phase r' = se_phase r
      \<and> committedMicro r' = settlement_cost a
      \<and> (\<forall>g. sum_list (map g (rows (mem_settle_step i a l))) = sum_list (map g (rows l)) - g r + (g r' :: jsnum))"
proof -
  let ?f = "\<lambda>r. r\<lparr>se_status := Settled, se_amountMicro := Some (st_amountMicro (snd a)),
                  se_feeMicro := Some (st_feeMicro (snd a)), se_txSignature := st_txSignature (snd a),
                  se_settledAt := Some (fst a)\<rparr>"
  from assms have "rows (mem_settle_step i a l) = update_where (\<lambda>x. se_id x = se_id r) ?f (rows l)"
    by (simp add: mem_settle_step_def mem_settle_def state_after_def held_rowD)
  with assms show ?thesis
    by (intro exI [of _ "?f r"])
       (auto simp: sum_update_where_key [where r = r] ledger_ok_def held_rowD committedMicro_def or_zero_def settlement_cost_def)
qed

lemma release_sum:
  assumes "ledger_ok l" "held_row l i = Some r"
  shows "sum_list (map g (rows (mem_release_step i l)))
           = sum_list (map g (rows l)) - g r + (g (r\<lparr>se_status := Released\<rparr>) :: jsnum)"
  using assms
  by (simp add: mem_release_step_def mem_release_def state_after_def held_rowD sum_update_where_key [where r = r] ledger_ok_def)

lemma reserve_sum:
  "rows (snd (mem_reserve cfg now req c l)) = rows l
   \<or> (\<exists>la pa e. decide cfg (sumTotals (rows l)) req = Granted la pa
        \<and> rows (snd (mem_reserve cfg now req c l)) = rows l @ [e]
        \<and> se_status e = Reserved \<and> se_reservedMicro e = req_amountMicro req \<and> se_phase e = req_phase req)"
  by (auto simp: mem_reserve_def Let_def split: decision.splits)

interpretation lifetime_book: spend_book ledger_ok
  "\<lambda>l. sum_list (map committedMicro (rows l))" held_lifetime
  "mem_reserve_step cfg" mem_settle_step mem_release_step settlement_cost "effective_ceiling cfg" for cfg
proof unfold_locales
  fix l :: spend_ledger and a :: "time_ms \<times> spend_request \<times> string option"
  assume ok: "ledger_ok l" and le: "sum_list (map committedMicro (rows l)) \<le> effective_ceiling cfg"
  obtain now req c where a: "a = (now, req, c)" by (cases a) auto
  show "sum_list (map committedMicro (rows (mem_reserve_step cfg a l))) \<le> effective_ceiling cfg"
    using reserve_sum [of cfg now req c l] le
    by (auto simp: a mem_reserve_step_def committedMicro_def dest: decide_granted_bounds)
next
  fix l i and h :: jsnum and p
  assume "ledger_ok l" "held_lifetime l i = Some h"
  then show "sum_list (map committedMicro (rows (mem_settle_step i p l)))
      \<le> max (sum_list (map committedMicro (rows l))) (sum_list (map committedMicro (rows l)) - h + settlement_cost p)"
    using settle_sum [of l i _ p] by (fastforce simp: held_lifetime_def committedMicro_def dest: held_rowD(3))
next
  fix l i
  assume ok: "ledger_ok l"
  show "sum_list (map committedMicro (rows (mem_release_step i l))) \<le> sum_list (map committedMicro (rows l))"
  proof (cases "held_row l i")
    case (Some r)
    with ok have "0 < se_reservedMicro r" by (auto simp: ledger_ok_def dest: held_rowD(1))
    with ok Some show ?thesis by (simp add: release_sum committedMicro_def held_rowD)
  qed (simp add: not_held)
qed (auto simp: mem_reserve_ok mem_settle_ok mem_release_ok held_lifetime_def not_held)

interpretation phase_book: spend_book ledger_ok
  "\<lambda>l. sum_list (map (spent_in ph) (rows l))" "held_phase ph"
  "mem_reserve_step cfg" mem_settle_step mem_release_step settlement_cost "or_zero (allocations cfg ph)" for cfg ph
proof unfold_locales
  fix l :: spend_ledger and a :: "time_ms \<times> spend_request \<times> string option"
  assume ok: "ledger_ok l" and le: "sum_list (map (spent_in ph) (rows l)) \<le> or_zero (allocations cfg ph)"
  obtain now req c where a: "a = (now, req, c)" by (cases a) auto
  show "sum_list (map (spent_in ph) (rows (mem_reserve_step cfg a l))) \<le> or_zero (allocations cfg ph)"
    using reserve_sum [of cfg now req c l] le
    by (auto simp: a mem_reserve_step_def spent_in_def committedMicro_def or_zero_def dest!: decide_granted_bounds)
next
  fix l i and h :: jsnum and p
  assume "ledger_ok l" "held_phase ph l i = Some h"
  then show "sum_list (map (spent_in ph) (rows (mem_settle_step i p l)))
      \<le> max (sum_list (map (spent_in ph) (rows l))) (sum_list (map (spent_in ph) (rows l)) - h + settlement_cost p)"
    using settle_sum [of l i _ p]
    by (fastforce simp: held_phase_def spent_in_def committedMicro_def dest: held_rowD(3) split: option.splits if_splits)
next
  fix l i p
  assume ok: "ledger_ok l" and free: "held_phase ph l i = None"
  show "sum_list (map (spent_in ph) (rows (mem_settle_step i p l))) \<le> sum_list (map (spent_in ph) (rows l))"
  proof (cases "held_row l i")
    case (Some r)
    with ok free settle_sum [of l i r p] show ?thesis
      by (fastforce simp: held_phase_def spent_in_def split: if_splits)
  qed (simp add: not_held)
next
  fix l i
  assume ok: "ledger_ok l"
  show "sum_list (map (spent_in ph) (rows (mem_release_step i l))) \<le> sum_list (map (spent_in ph) (rows l))"
  proof (cases "held_row l i")
    case (Some r)
    with ok have "0 < se_reservedMicro r" by (auto simp: ledger_ok_def dest: held_rowD(1))
    with ok Some show ?thesis by (auto simp: release_sum spent_in_def committedMicro_def held_rowD)
  qed (simp add: not_held)
qed (auto simp: mem_reserve_ok mem_settle_ok mem_release_ok)

lemma honest_phase:
  "honest (mem_step cfg) held_lifetime settlement_cost ops l \<Longrightarrow>
   honest (mem_step cfg) (held_phase p) settlement_cost ops l"
  by (induction ops arbitrary: l)
     (auto simp: held_lifetime_def held_phase_def split: book_op.splits option.splits)


definition demo_request :: spend_request where
  "demo_request = \<lparr>req_phase = P1, req_kind = X402_payment, req_amountMicro = 6000\<rparr>"

definition demo_settlement :: settlement where
  "demo_settlement = \<lparr>st_amountMicro = 2000, st_feeMicro = 3500, st_txSignature = None\<rparr>"

definition demo_config :: budget_config where
  "demo_config = \<lparr>lifetimeCeilingMicro = 10000, allocations = PHASE_ALLOCATION_MICRO\<rparr>"

definition demo_ops :: "(time_ms \<times> spend_request \<times> string option, string, time_ms \<times> settlement) book_op list" where
  "demo_ops = [BReserve (0, demo_request, None), BReserve (1, demo_request, None), BSettle (spend_id 1) (2, demo_settlement)]"

lemmas demo_simps = Let_def demo_config_def demo_ops_def demo_request_def demo_settlement_def empty_ledger_def
  mem_reserve_step_def mem_reserve_def decide_def is_safe_integer_def is_integer_def MAX_SAFE_INTEGER_def
  PHASE_ALLOCATION_MICRO_def effective_ceiling_def HARD_LIFETIME_CEILING_MICRO_def mem_settle_step_def
  mem_settle_def mustGet_def state_after_def held_lifetime_def held_row_def settlement_cost_def
  committedMicro_def or_zero_def

lemma demo_run:
  "honest (mem_step demo_config) held_lifetime settlement_cost demo_ops empty_ledger"
  "lifetimeMicro (mem_totals (book_run (mem_step demo_config) demo_ops empty_ledger)) = 5500"
  by (simp_all add: demo_simps mem_totals_def spent_in_def)



section \<open>Metrics (metrics.ts)\<close>

record call_links =
  ln_repo :: "string option"
  ln_issueNumber :: "int option"

record call_row =
  cr_scheme :: "string option"
  cr_status :: string
  cr_model :: string
  cr_paidMicro :: "jsnum option"
  cr_feeMicro :: "jsnum option"
  cr_chargedMicro :: "jsnum option"
  cr_usageIn :: "jsnum option"
  cr_usageOut :: "jsnum option"
  cr_links :: "call_links option"

record list_price =
  inputPer1m :: jsnum
  outputPer1m :: jsnum

record metrics =
  paidCalls :: nat
  creditCalls :: nat
  servedCalls :: nat
  inferenceMicro :: jsnum
  feeMicro :: jsnum
  totalMicro :: jsnum
  feeSharePct :: "jsnum option"
  feeToInferenceRatio :: "jsnum option"
  costPerServedCallMicro :: "jsnum option"
  costPerPaidCallMicro :: "jsnum option"
  listPriceMicro :: "jsnum option"
  listPriceModels :: nat

definition up :: "jsnum \<Rightarrow> jsnum" where
  "up n = ceil (n - 1 / 1000000000)"

text \<open>What a call was charged: the receipt's figure, or what was paid, and never a credit call's cap.\<close>

definition inference_cost :: "call_row \<Rightarrow> jsnum" where
  "inference_cost r =
     (case cr_chargedMicro r of Some c \<Rightarrow> c
      | None \<Rightarrow> if cr_scheme r = Some ''balance'' then 0 else or_zero (cr_paidMicro r))"

definition served :: "call_row list \<Rightarrow> call_row list" where
  "served rs = filter (\<lambda>r. cr_status r = ''served'') rs"

fun price_list :: "(string \<rightharpoonup> list_price) \<Rightarrow> call_row list \<Rightarrow> jsnum \<times> nat \<Rightarrow> jsnum \<times> nat" where
  "price_list prices [] acc = acc"
| "price_list prices (r # rs) (listMicro, priced) =
     (case (prices (cr_model r), cr_usageIn r, cr_usageOut r) of
        (Some p, Some i, Some out) \<Rightarrow>
          price_list prices rs (listMicro + up ((i * inputPer1m p + out * outputPer1m p) / 1000000), priced + 1)
      | _ \<Rightarrow> price_list prices rs (listMicro, priced))"

definition computeMetrics :: "call_row list \<Rightarrow> (string \<rightharpoonup> list_price) \<Rightarrow> metrics" where
  "computeMetrics rs prices =
     (let srv = served rs;
          paid = filter (\<lambda>r. cr_scheme r = Some ''onchain'') srv;
          credit = filter (\<lambda>r. cr_scheme r = Some ''balance'') srv;
          inference = sum_list (map inference_cost srv);
          fee = sum_list (map (\<lambda>r. or_zero (cr_feeMicro r)) srv);
          total = inference + fee;
          (listMicro, priced) = price_list prices srv (0, 0)
      in \<lparr>paidCalls = length paid, creditCalls = length credit, servedCalls = length srv,
          inferenceMicro = inference, feeMicro = fee, totalMicro = total,
          feeSharePct = (if total \<noteq> 0 then Some (fee / total * 100) else None),
          feeToInferenceRatio = (if inference \<noteq> 0 then Some (fee / inference) else None),
          costPerServedCallMicro = (if srv \<noteq> [] then Some (total / of_nat (length srv)) else None),
          costPerPaidCallMicro = (if paid \<noteq> [] then Some (total / of_nat (length paid)) else None),
          listPriceMicro = (if priced \<noteq> 0 then Some listMicro else None),
          listPriceModels = priced\<rparr>)"

record merged_cost =
  mc_merged :: nat
  mc_attributedMicro :: jsnum
  mc_perMergedMicro :: "jsnum option"
  mc_unattributedMicro :: jsnum

definition merge_key :: "call_row \<Rightarrow> string option" where
  "merge_key r =
     (case cr_links r of None \<Rightarrow> None
      | Some l \<Rightarrow> (case (ln_repo l, ln_issueNumber l) of
          (Some repo, Some n) \<Rightarrow> if repo = [] then None else Some (repo @ ''#'' @ show_int n)
        | _ \<Rightarrow> None))"

fun attribute_cost :: "string set \<Rightarrow> call_row list \<Rightarrow> jsnum \<times> jsnum \<Rightarrow> jsnum \<times> jsnum" where
  "attribute_cost keys [] acc = acc"
| "attribute_cost keys (r # rs) (attributed, unattributed) =
     (let cost = inference_cost r + or_zero (cr_feeMicro r) in
      case merge_key r of
        Some k \<Rightarrow> if k \<in> keys then attribute_cost keys rs (attributed + cost, unattributed)
                   else attribute_cost keys rs (attributed, unattributed + cost)
      | None \<Rightarrow> attribute_cost keys rs (attributed, unattributed + cost))"

definition costPerMergedPr :: "call_row list \<Rightarrow> string set \<Rightarrow> merged_cost" where
  "costPerMergedPr rs mergedKeys =
     (let (attributed, unattributed) = attribute_cost mergedKeys (served rs) (0, 0)
      in \<lparr>mc_merged = card mergedKeys, mc_attributedMicro = attributed,
          mc_perMergedMicro = (if card mergedKeys \<noteq> 0 then Some (attributed / of_nat (card mergedKeys)) else None),
          mc_unattributedMicro = unattributed\<rparr>)"

lemma attribute_cost_sum:
  "attribute_cost keys rs (a, u) = (a', u') \<Longrightarrow>
     a' + u' = a + u + sum_list (map inference_cost rs) + sum_list (map (\<lambda>r. or_zero (cr_feeMicro r)) rs)"
  by (induction rs arbitrary: a u) (auto simp: Let_def split: option.splits if_splits)

text \<open>
  The two reports agree on the money: what is attributed to merged pull requests and what
  is not add up to the total the metrics report, which is inference plus network fees; no
  served call is counted twice or dropped.
\<close>

theorem merged_cost_conserves_total:
  "mc_attributedMicro (costPerMergedPr rs keys) + mc_unattributedMicro (costPerMergedPr rs keys)
     = totalMicro (computeMetrics rs prices)"
proof -
  obtain a u where au: "attribute_cost keys (served rs) (0, 0) = (a, u)" by fastforce
  show ?thesis
    using attribute_cost_sum [OF au]
    by (simp add: costPerMergedPr_def computeMetrics_def Let_def au split: prod.splits)
qed

end
