(* ===== verification/PgLedger.thy ===== *)
theory PgLedger
  imports Budget
begin

text \<open>
  packages/db/src/pg.ts: the spend ledger kept in Postgres, and the binding of a database to mock or
  live money. A reservation runs under one advisory lock in one transaction, so it is one step here;
  so is each other statement. The table is its rows in the order of their serial ids; the database's
  constraints are checked where a statement could break one. The ledger is shown to refine the
  in-memory one.
\<close>

text \<open>A BIGINT column takes a whole number of 64 bits.\<close>

definition bigint_column :: "jsnum \<Rightarrow> bool" where
  "bigint_column q \<longleftrightarrow> is_integer q \<and> - (2 ^ 63) \<le> q \<and> q < 2 ^ 63"

record pg_ledger =
  pl_rows :: "spend_entry list"
  pl_serial :: nat
  pl_calls :: "string list"    \<comment> \<open>the ids of inference_calls, which call_id references\<close>

definition empty_pg_ledger :: pg_ledger where
  "empty_pg_ledger = \<lparr>pl_rows = [], pl_serial = 0, pl_calls = []\<rparr>"

datatype pg_error = Spend_not_reserved string | Constraint_violated

text \<open>A serial that was drawn stays drawn when its transaction is rolled back.\<close>

definition pg_reserve :: "budget_config \<Rightarrow> time_ms \<Rightarrow> spend_request \<Rightarrow> string option \<Rightarrow> pg_ledger
    \<Rightarrow> (pg_error + decision \<times> string option) \<times> pg_ledger" where
  "pg_reserve cfg now req callId l =
     (case decide cfg (sumTotals (pl_rows l)) req of
        Refused c \<Rightarrow> (Inr (Refused c, None), l)
      | Granted la pa \<Rightarrow>
          (let i = show_nat (pl_serial l + 1);
               e = \<lparr>se_id = i, se_callId = callId, se_phase = req_phase req, se_kind = req_kind req,
                    se_status = Reserved, se_reservedMicro = req_amountMicro req, se_amountMicro = None,
                    se_feeMicro = None, se_txSignature = None, se_createdAt = now, se_settledAt = None\<rparr> in
           if case callId of None \<Rightarrow> False | Some c \<Rightarrow> c \<notin> set (pl_calls l)
           then (Inl Constraint_violated, l\<lparr>pl_serial := pl_serial l + 1\<rparr>)
           else (Inr (Granted la pa, Some i), l\<lparr>pl_rows := pl_rows l @ [e], pl_serial := pl_serial l + 1\<rparr>)))"

definition reserved_row :: "string \<Rightarrow> spend_entry \<Rightarrow> bool" where
  "reserved_row i r \<longleftrightarrow> se_id r = i \<and> se_status r = Reserved"

definition pg_settle :: "time_ms \<Rightarrow> string \<Rightarrow> settlement \<Rightarrow> pg_ledger \<Rightarrow> pg_error + pg_ledger" where
  "pg_settle now i s l =
     (if \<not> (\<exists>r \<in> set (pl_rows l). reserved_row i r) then Inl (Spend_not_reserved i)
      else if \<not> bigint_column (st_amountMicro s) \<or> \<not> bigint_column (st_feeMicro s)
        \<or> (st_txSignature s \<noteq> None \<and> (\<exists>r \<in> set (pl_rows l). se_txSignature r = st_txSignature s))
      then Inl Constraint_violated
      else Inr (l\<lparr>pl_rows := update_where (reserved_row i)
             (\<lambda>r. r\<lparr>se_status := Settled, se_amountMicro := Some (st_amountMicro s), se_feeMicro := Some (st_feeMicro s),
                     se_txSignature := st_txSignature s, se_settledAt := Some now\<rparr>) (pl_rows l)\<rparr>))"

definition pg_release :: "string \<Rightarrow> pg_ledger \<Rightarrow> pg_error + pg_ledger" where
  "pg_release i l =
     (if \<exists>r \<in> set (pl_rows l). reserved_row i r
      then Inr (l\<lparr>pl_rows := update_where (reserved_row i) (\<lambda>r. r\<lparr>se_status := Released\<rparr>) (pl_rows l)\<rparr>)
      else Inl (Spend_not_reserved i))"

definition pg_totals :: "pg_ledger \<Rightarrow> spend_totals" where
  "pg_totals l = sumTotals (pl_rows l)"

definition pg_entries :: "pg_ledger \<Rightarrow> spend_entry list" where
  "pg_entries l = pl_rows l"

section \<open>Mock and live money never share a database\<close>

datatype ledger_mode = Mock | Live

definition bindLedgerMode :: "ledger_mode \<Rightarrow> ledger_mode option \<Rightarrow> (ledger_mode + unit) \<times> ledger_mode option" where
  "bindLedgerMode mode bound =
     (let b = (case bound of None \<Rightarrow> mode | Some m \<Rightarrow> m) in (if b = mode then Inr () else Inl b, Some b))"

fun bind_all :: "ledger_mode list \<Rightarrow> ledger_mode option \<Rightarrow> ledger_mode option" where
  "bind_all [] bound = bound"
| "bind_all (m # ms) bound = bind_all ms (snd (bindLedgerMode m bound))"

lemma bound_for_good: "bind_all ms (Some m) = Some m"
  by (induction ms) (simp_all add: bindLedgerMode_def Let_def)

section \<open>The table is an in-memory ledger\<close>

text \<open>The same rows under the ids the in-memory ledger would have issued.\<close>

definition as_id :: "string \<Rightarrow> string" where
  "as_id i = ''spend-'' @ i"

lemma as_id_inject [simp]: "as_id i = as_id j \<longleftrightarrow> i = j"
  by (simp add: as_id_def)

lemma spend_id_as_id: "spend_id n = as_id (show_nat n)"
  by (simp add: spend_id_def as_id_def)

definition as_memory :: "pg_ledger \<Rightarrow> spend_ledger" where
  "as_memory l = \<lparr>rows = map (\<lambda>r. r\<lparr>se_id := as_id (se_id r)\<rparr>) (pl_rows l), seqno = pl_serial l\<rparr>"

lemma committed_renamed [simp]: "committedMicro (r\<lparr>se_id := i\<rparr>) = committedMicro r"
  by (simp add: committedMicro_def)

lemma add_entries_renamed: "add_entries (map (\<lambda>r. r\<lparr>se_id := f r\<rparr>) es) a b = add_entries es a b"
  by (induction es arbitrary: a b) (simp_all add: Let_def)

lemma totals_as_memory [simp]: "sumTotals (rows (as_memory l)) = sumTotals (pl_rows l)"
  by (simp add: as_memory_def sumTotals_def add_entries_renamed)

lemma reserve_as_memory:
  "pg_reserve cfg now req c l = (Inr (d, i), l') \<Longrightarrow>
     mem_reserve cfg now req c (as_memory l) = ((d, map_option as_id i), as_memory l')"
  "pg_reserve cfg now req c l = (Inl e, l') \<Longrightarrow> l' = l\<lparr>pl_serial := pl_serial l + 1\<rparr>"
  by (auto simp: pg_reserve_def mem_reserve_def as_memory_def sumTotals_def add_entries_renamed spend_id_as_id Let_def
      split: decision.splits option.splits if_splits)

lemma find_as_memory:
  "find (\<lambda>r. se_id r = as_id i) (rows (as_memory l)) =
     map_option (\<lambda>r. r\<lparr>se_id := as_id (se_id r)\<rparr>) (find (\<lambda>r. se_id r = i) (pl_rows l))"
proof -
  have "find (\<lambda>r. se_id r = as_id i) (map (\<lambda>r. r\<lparr>se_id := as_id (se_id r)\<rparr>) rs) =
      map_option (\<lambda>r. r\<lparr>se_id := as_id (se_id r)\<rparr>) (find (\<lambda>r. se_id r = i) rs)" for rs
    by (induction rs) auto
  then show ?thesis by (simp add: as_memory_def)
qed

text \<open>A row that is reserved is the row of its id, ids being unique.\<close>

lemma distinct_pg_ids: "ledger_ok (as_memory l) \<Longrightarrow> distinct (map se_id (pl_rows l))"
  by (simp add: ledger_ok_def as_memory_def comp_def distinct_map inj_on_def)

lemma reserved_row_found:
  assumes "ledger_ok (as_memory l)"
  shows "(\<exists>r \<in> set (pl_rows l). reserved_row i r) \<longleftrightarrow>
    (\<exists>r. find (\<lambda>r. se_id r = i) (pl_rows l) = Some r \<and> se_status r = Reserved)"
  using find_key_eq [OF distinct_pg_ids [OF assms]] by (auto simp: reserved_row_def dest: find_SomeD)

lemma update_reserved:
  assumes "distinct (map se_id rs)" "r \<in> set rs" "se_id r = i" "se_status r = Reserved"
    and "\<And>x j. (f x)\<lparr>se_id := j\<rparr> = f (x\<lparr>se_id := j\<rparr>)" and "\<And>x. se_id (f x) = se_id x"
  shows "map (\<lambda>r. r\<lparr>se_id := as_id (se_id r)\<rparr>) (update_where (reserved_row i) f rs)
    = update_where (\<lambda>r. se_id r = as_id i) f (map (\<lambda>r. r\<lparr>se_id := as_id (se_id r)\<rparr>) rs)"
proof -
  have "reserved_row i x \<longleftrightarrow> se_id x = i" if "x \<in> set rs" for x
    using assms(1-4) that by (auto simp: reserved_row_def distinct_map dest: inj_onD)
  then show ?thesis by (auto simp: update_where_def assms(6) intro!: assms)
qed

lemma settle_as_memory:
  assumes "ledger_ok (as_memory l)"
  shows "pg_settle now i s l = Inr l' \<Longrightarrow> mem_settle now (as_id i) s (as_memory l) = Inr (as_memory l')"
    and "pg_settle now i s l = Inl (Spend_not_reserved j) \<Longrightarrow> \<exists>e. mem_settle now (as_id i) s (as_memory l) = Inl e"
proof -
  assume a: "pg_settle now i s l = Inr l'"
  then obtain r where r: "find (\<lambda>r. se_id r = i) (pl_rows l) = Some r" "se_status r = Reserved"
    using reserved_row_found [OF assms] by (auto simp: pg_settle_def split: if_splits)
  then have "mustGet (as_memory l) (as_id i) = Inr (r\<lparr>se_id := as_id i\<rparr>)"
    using find_SomeD [OF r(1)] by (simp add: mustGet_def find_as_memory)
  with a r show "mem_settle now (as_id i) s (as_memory l) = Inr (as_memory l')"
    using find_SomeD [OF r(1)] distinct_pg_ids [OF assms]
    by (auto simp: pg_settle_def mem_settle_def as_memory_def update_reserved [where r = r] split: if_splits)
next
  assume a: "pg_settle now i s l = Inl (Spend_not_reserved j)"
  then have n: "\<nexists>r. find (\<lambda>r. se_id r = i) (pl_rows l) = Some r \<and> se_status r = Reserved"
    using reserved_row_found [OF assms] by (auto simp: pg_settle_def split: if_splits)
  show "\<exists>e. mem_settle now (as_id i) s (as_memory l) = Inl e"
    using n by (cases "find (\<lambda>r. se_id r = i) (pl_rows l)") (auto simp: mem_settle_def mustGet_def find_as_memory)
qed

lemma release_as_memory:
  assumes "ledger_ok (as_memory l)"
  shows "pg_release i l = Inr l' \<Longrightarrow> mem_release (as_id i) (as_memory l) = Inr (as_memory l')"
    and "pg_release i l = Inl x \<Longrightarrow> \<exists>e. mem_release (as_id i) (as_memory l) = Inl e"
proof -
  assume a: "pg_release i l = Inr l'"
  then obtain r where r: "find (\<lambda>r. se_id r = i) (pl_rows l) = Some r" "se_status r = Reserved"
    using reserved_row_found [OF assms] by (auto simp: pg_release_def split: if_splits)
  then have "mustGet (as_memory l) (as_id i) = Inr (r\<lparr>se_id := as_id i\<rparr>)"
    using find_SomeD [OF r(1)] by (simp add: mustGet_def find_as_memory)
  with a r show "mem_release (as_id i) (as_memory l) = Inr (as_memory l')"
    using find_SomeD [OF r(1)] distinct_pg_ids [OF assms]
    by (auto simp: pg_release_def mem_release_def as_memory_def update_reserved [where r = r] split: if_splits)
next
  assume a: "pg_release i l = Inl x"
  then have n: "\<nexists>r. find (\<lambda>r. se_id r = i) (pl_rows l) = Some r \<and> se_status r = Reserved"
    using reserved_row_found [OF assms] by (auto simp: pg_release_def split: if_splits)
  show "\<exists>e. mem_release (as_id i) (as_memory l) = Inl e"
    using n by (cases "find (\<lambda>r. se_id r = i) (pl_rows l)") (auto simp: mem_release_def mustGet_def find_as_memory)
qed

text \<open>
  C18. The Postgres ledger refines the in-memory one: on the table's rows, renamed as the in-memory
  ledger would have issued their ids, every reservation gives the same decision, id and ledger, and
  every settlement and release the same ledger or a refusal too. Where only a constraint of the
  database stops a statement, no row changes.
\<close>

theorem postgres_ledger_refines_memory:
  assumes "ledger_ok (as_memory l)"
  shows "(case pg_reserve cfg now req c l of
      (Inr (d, i), l') \<Rightarrow> mem_reserve cfg now req c (as_memory l) = ((d, map_option as_id i), as_memory l')
    | (Inl e, l') \<Rightarrow> pl_rows l' = pl_rows l)
    \<and> (case pg_settle now i s l of
      Inr l' \<Rightarrow> mem_settle now (as_id i) s (as_memory l) = Inr (as_memory l')
    | Inl (Spend_not_reserved j) \<Rightarrow> (\<exists>e. mem_settle now (as_id i) s (as_memory l) = Inl e)
    | Inl Constraint_violated \<Rightarrow> True)
    \<and> (case pg_release i l of
      Inr l' \<Rightarrow> mem_release (as_id i) (as_memory l) = Inr (as_memory l')
    | Inl e \<Rightarrow> (\<exists>e. mem_release (as_id i) (as_memory l) = Inl e))"
  using reserve_as_memory [of cfg now req c l] settle_as_memory [OF assms] release_as_memory [OF assms]
  by (auto split: prod.split sum.split pg_error.split)

theorem postgres_ledger_refines_memory_witness:
  "mem_reserve demo_config 7 demo_request None (as_memory empty_pg_ledger) =
     ((Granted 6000 6000, Some (as_id ''1'')), as_memory (snd (pg_reserve demo_config 7 demo_request None empty_pg_ledger)))"
proof -
  have "ledger_ok (as_memory empty_pg_ledger)" by (simp add: ledger_ok_def as_memory_def empty_pg_ledger_def)
  moreover have "fst (pg_reserve demo_config 7 demo_request None empty_pg_ledger) = Inr (Granted 6000 6000, Some ''1'')"
    by code_simp
  ultimately show ?thesis
    using postgres_ledger_refines_memory [of empty_pg_ledger demo_config 7 demo_request None]
    by (simp add: prod.case_eq_if)
qed

section \<open>And so keeps the same contract\<close>

definition pg_reserve_step :: "budget_config \<Rightarrow> time_ms \<times> spend_request \<times> string option \<Rightarrow> pg_ledger \<Rightarrow> pg_ledger" where
  "pg_reserve_step cfg a l = (case a of (now, req, c) \<Rightarrow> snd (pg_reserve cfg now req c l))"

definition pg_settle_step :: "string \<Rightarrow> time_ms \<times> settlement \<Rightarrow> pg_ledger \<Rightarrow> pg_ledger" where
  "pg_settle_step i a l = state_after (pg_settle (fst a) i (snd a) l) l"

definition pg_release_step :: "string \<Rightarrow> pg_ledger \<Rightarrow> pg_ledger" where
  "pg_release_step i l = state_after (pg_release i l) l"

definition pg_committed :: "pg_ledger \<Rightarrow> jsnum" where
  "pg_committed l = sum_list (map committedMicro (rows (as_memory l)))"

text \<open>What a settlement can close: nothing when a constraint stops it.\<close>

lemma serial_ok: "ledger_ok (as_memory l) \<Longrightarrow> ledger_ok (as_memory (l\<lparr>pl_serial := pl_serial l + 1\<rparr>))"
  by (fastforce simp: ledger_ok_def as_memory_def intro: le_SucI)

lemma pg_reserve_as_step:
  "as_memory (pg_reserve_step cfg a l) = mem_reserve_step cfg a (as_memory l)
   \<or> pg_reserve_step cfg a l = l\<lparr>pl_serial := pl_serial l + 1\<rparr>"
proof -
  obtain now req c where a: "a = (now, req, c)" by (cases a) auto
  obtain r l' where p: "pg_reserve cfg now req c l = (r, l')" by fastforce
  show ?thesis
    using reserve_as_memory [of cfg now req c l] p
    by (cases r) (auto simp: a pg_reserve_step_def mem_reserve_step_def)
qed

lemma pg_settle_as_step:
  assumes "ledger_ok (as_memory l)"
  shows "as_memory (pg_settle_step i a l) = mem_settle_step (as_id i) a (as_memory l)
   \<or> (\<exists>h. pg_settle (fst a) i (snd a) l = Inl Constraint_violated) \<and> pg_settle_step i a l = l"
  using settle_as_memory [OF assms, of "fst a" i "snd a"]
  by (cases "pg_settle (fst a) i (snd a) l"; cases "projl (pg_settle (fst a) i (snd a) l)")
     (auto simp: pg_settle_step_def mem_settle_step_def state_after_def split: sum.split)

lemma pg_release_as_step:
  assumes "ledger_ok (as_memory l)"
  shows "as_memory (pg_release_step i l) = mem_release_step (as_id i) (as_memory l)"
  using release_as_memory [OF assms, of i]
  by (cases "pg_release i l") (auto simp: pg_release_step_def mem_release_step_def state_after_def)

interpretation pg_book: spend_book "\<lambda>l. ledger_ok (as_memory l)" pg_committed "\<lambda>l i. held_lifetime (as_memory l) (as_id i)"
  "pg_reserve_step cfg" pg_settle_step pg_release_step settlement_cost "effective_ceiling cfg" for cfg
proof unfold_locales
  fix l :: pg_ledger and a i p
  assume ok: "ledger_ok (as_memory l)"
  have serial: "rows (as_memory (l\<lparr>pl_serial := pl_serial l + 1\<rparr>)) = rows (as_memory l)" by (simp add: as_memory_def)
  show "ledger_ok (as_memory (pg_reserve_step cfg a l))"
    using pg_reserve_as_step [of cfg a l] lifetime_book.reserve_ok [OF ok, of cfg a] serial_ok [OF ok] by auto
  show "pg_committed l \<le> effective_ceiling cfg \<Longrightarrow> pg_committed (pg_reserve_step cfg a l) \<le> effective_ceiling cfg"
    using pg_reserve_as_step [of cfg a l] lifetime_book.reserve_within [OF ok, of cfg a] serial by (auto simp: pg_committed_def)
  show "ledger_ok (as_memory (pg_settle_step i p l))"
    using pg_settle_as_step [OF ok, of i p] lifetime_book.settle_ok [OF ok, of "as_id i" p] ok by auto
  show "pg_committed (pg_settle_step i p l) \<le> max (pg_committed l) (pg_committed l - h + settlement_cost p)"
    if "held_lifetime (as_memory l) (as_id i) = Some h" for h
    using pg_settle_as_step [OF ok, of i p] lifetime_book.settle_held [OF ok that, of p] by (auto simp: pg_committed_def)
  show "pg_committed (pg_settle_step i p l) \<le> pg_committed l" if "held_lifetime (as_memory l) (as_id i) = None"
    using pg_settle_as_step [OF ok, of i p] lifetime_book.settle_free [OF ok that, of p] by (auto simp: pg_committed_def)
  show "ledger_ok (as_memory (pg_release_step i l))" "pg_committed (pg_release_step i l) \<le> pg_committed l"
    using pg_release_as_step [OF ok, of i] lifetime_book.release_ok [OF ok] lifetime_book.release_less [OF ok]
    by (simp_all add: pg_committed_def)
qed

end
