(* ===== verification/Effects.thy ===== *)
theory Effects
  imports Prelude
begin

text \<open>
  Operations that read and change a state and may throw. A computation takes the state and gives a
  thrown error or a value, and the state it leaves: what was changed before a throw stays changed,
  as in the code, unless the operations ran in a database transaction (\<open>transact\<close>).
  \<open>wp m Q E\<close> holds of a state from which \<open>m\<close> either returns a value and state with \<open>Q\<close> or throws
  with \<open>E\<close>; its equations compute it from the parts of \<open>m\<close>.
\<close>

type_synonym ('s, 'e, 'a) eff = "'s \<Rightarrow> ('e + 'a) \<times> 's"

definition return_ok :: "'a \<Rightarrow> ('s, 'e, 'a) eff" where
  "return_ok a s = (Inr a, s)"

definition throw :: "'e \<Rightarrow> ('s, 'e, 'a) eff" where
  "throw e s = (Inl e, s)"

definition read_state :: "('s \<Rightarrow> 'a) \<Rightarrow> ('s, 'e, 'a) eff" where
  "read_state f s = (Inr (f s), s)"

definition modify :: "('s \<Rightarrow> 's) \<Rightarrow> ('s, 'e, unit) eff" where
  "modify f s = (Inr (), f s)"

text \<open>A value or error that does not depend on the state.\<close>

definition lift_sum :: "'e + 'a \<Rightarrow> ('s, 'e, 'a) eff" where
  "lift_sum r s = (r, s)"

definition then_do :: "('s, 'e, 'a) eff \<Rightarrow> ('a \<Rightarrow> ('s, 'e, 'b) eff) \<Rightarrow> ('s, 'e, 'b) eff" where
  "then_do m f s = (case m s of (Inl e, t) \<Rightarrow> (Inl e, t) | (Inr a, t) \<Rightarrow> f a t)"

definition on_error :: "('s, 'e, 'a) eff \<Rightarrow> ('e \<Rightarrow> ('s, 'f, 'a) eff) \<Rightarrow> ('s, 'f, 'a) eff" where
  "on_error m h s = (case m s of (Inl e, t) \<Rightarrow> h e t | (Inr a, t) \<Rightarrow> (Inr a, t))"

text \<open>BEGIN ... COMMIT, with ROLLBACK when an operation throws.\<close>

definition transact :: "('s, 'e, 'a) eff \<Rightarrow> ('s, 'e, 'a) eff" where
  "transact m s = (case m s of (Inl e, t) \<Rightarrow> (Inl e, s) | (Inr a, t) \<Rightarrow> (Inr a, t))"

fun for_each :: "('a \<Rightarrow> ('s, 'e, unit) eff) \<Rightarrow> 'a list \<Rightarrow> ('s, 'e, unit) eff" where
  "for_each f [] = return_ok ()"
| "for_each f (x # xs) = then_do (f x) (\<lambda>_. for_each f xs)"

section \<open>Weakest preconditions\<close>

definition wp :: "('s, 'e, 'a) eff \<Rightarrow> ('a \<Rightarrow> 's \<Rightarrow> bool) \<Rightarrow> ('e \<Rightarrow> 's \<Rightarrow> bool) \<Rightarrow> 's \<Rightarrow> bool" where
  "wp m Q E s = (case m s of (Inl e, t) \<Rightarrow> E e t | (Inr a, t) \<Rightarrow> Q a t)"

named_theorems wp_simps

lemma wp_return [wp_simps]: "wp (return_ok a) Q E s = Q a s"
  by (simp add: wp_def return_ok_def)

lemma wp_throw [wp_simps]: "wp (throw e) Q E s = E e s"
  by (simp add: wp_def throw_def)

lemma wp_read [wp_simps]: "wp (read_state f) Q E s = Q (f s) s"
  by (simp add: wp_def read_state_def)

lemma wp_modify [wp_simps]: "wp (modify f) Q E s = Q () (f s)"
  by (simp add: wp_def modify_def)

lemma wp_lift [wp_simps]: "wp (lift_sum r) Q E s = (case r of Inl e \<Rightarrow> E e s | Inr a \<Rightarrow> Q a s)"
  by (simp add: wp_def lift_sum_def)

lemma wp_then [wp_simps]: "wp (then_do m f) Q E s = wp m (\<lambda>a. wp (f a) Q E) E s"
  by (simp add: wp_def then_do_def split: prod.split sum.split)

lemma wp_on_error [wp_simps]: "wp (on_error m h) Q E s = wp m Q (\<lambda>e. wp (h e) Q E) s"
  by (simp add: wp_def on_error_def split: prod.split sum.split)

lemma wp_transact [wp_simps]: "wp (transact m) Q E s = wp m Q (\<lambda>e _. E e s) s"
  by (simp add: wp_def transact_def split: prod.split sum.split)

lemma wp_if [wp_simps]: "wp (if b then m else n) Q E s = (if b then wp m Q E s else wp n Q E s)"
  by simp

lemma wp_mono:
  assumes "wp m Q E s" "\<And>a t. Q a t \<Longrightarrow> Q' a t" "\<And>e t. E e t \<Longrightarrow> E' e t"
  shows "wp m Q' E' s"
  using assms by (auto simp: wp_def split: prod.splits sum.splits)

lemma wp_both:
  "wp m Q E s \<Longrightarrow> wp m Q' E' s \<Longrightarrow> wp m (\<lambda>a t. Q a t \<and> Q' a t) (\<lambda>e t. E e t \<and> E' e t) s"
  by (auto simp: wp_def split: prod.splits sum.splits)

lemma wp_resultD:
  assumes "wp m Q E s"
  shows "m s = (Inr a, t) \<Longrightarrow> Q a t" "m s = (Inl e, t) \<Longrightarrow> E e t"
  using assms by (auto simp: wp_def)

lemma wp_state: "wp m (\<lambda>_. I) (\<lambda>_. I) s = I (snd (m s))"
  by (auto simp: wp_def split: prod.splits sum.splits)

lemma wp_result: "wp m Q E s \<longleftrightarrow> (\<forall>a t. m s = (Inr a, t) \<longrightarrow> Q a t) \<and> (\<forall>e t. m s = (Inl e, t) \<longrightarrow> E e t)"
  by (auto simp: wp_def split: prod.splits sum.splits)

text \<open>An invariant that every item of a list keeps is kept by the loop.\<close>

lemma wp_for_each:
  assumes "\<And>x t. x \<in> set xs \<Longrightarrow> I t \<Longrightarrow> wp (f x) (\<lambda>_. I) (\<lambda>_. I) t" "I s"
  shows "wp (for_each f xs) (\<lambda>_. I) (\<lambda>_. I) s"
  using assms
proof (induction xs arbitrary: s)
  case (Cons x xs)
  have "wp (f x) (\<lambda>_ t. wp (for_each f xs) (\<lambda>_. I) (\<lambda>_. I) t) (\<lambda>_. I) s"
    using Cons.prems(1) [of x s] Cons.prems(2) Cons.IH Cons.prems(1) by (auto intro: wp_mono)
  then show ?case by (simp add: wp_simps)
qed (simp add: wp_simps)

end
