(* ===== verification/X402Client.thy ===== *)
theory X402Client
  imports X402Protocol JsNumber PgLedger Effects
begin

text \<open>
  packages/x402: the receipt store (receipts.ts) and the client that pays for inference per request
  (client.ts). A call asks for a quote, spends surplus credit when it believes there is enough, or
  else reserves budget, has the signer pay and presents the payment until it is visible. The gateway,
  the signer and the clock are the answers given to one call; a request that throws has none. The
  ledger is the interface SpendLedger: a record of its operations. Latencies are not modelled.
\<close>

section \<open>Receipts (receipts.ts)\<close>

datatype call_purpose = For_triage | For_price | For_review | For_crosscheck | For_fit | For_spike | For_eval

datatype call_status = Quoting | Quoted | Call_paid | Served | Call_failed | Refused_budget | Refused_signer
  | Payment_unknown | Paid_not_served

datatype pay_scheme = Onchain | Balance

record call_links =
  ln_bountyId :: "string option"
  ln_submissionId :: "string option"
  ln_repo :: "string option"
  ln_issueNumber :: "jsnum option"
  ln_prNumber :: "jsnum option"
  ln_evalItemId :: "string option"
  ln_applicationId :: "string option"

datatype call_error = Expected_402 int json | Quote_already_expired | Gateway_said json | Budget_said decision_code
  | No_reservation_id | Signer_said string | Overpaid

record call_record =
  cr_id :: string
  cr_purpose :: call_purpose
  cr_phase :: phase
  cr_model :: string
  cr_path :: string
  cr_links :: call_links
  cr_routing :: "(string \<times> string) list"
  cr_maxTokens :: xnum
  cr_requestSha256 :: string
  cr_status :: call_status
  cr_createdAt :: time_ms
  cr_quoteId :: "string option"
  cr_quoteCapMicro :: "jsnum option"
  cr_quoteExpiresAt :: "json option"
  cr_scheme :: "pay_scheme option"
  cr_payerWallet :: "string option"
  cr_payTxSignature :: "string option"
  cr_paidMicro :: "jsnum option"
  cr_feeMicro :: "jsnum option"
  cr_chargedMicro :: "jsnum option"
  cr_paymentResponseRaw :: "string option"
  cr_paymentResponse :: "json option"
  cr_responseHeaders :: "(string \<times> string) list"
  cr_responseSha256 :: "string option"
  cr_usageIn :: "json option"
  cr_usageOut :: "json option"
  cr_error :: "call_error option"

text \<open>What either ledger throws.\<close>

datatype ledger_failure = Memory_threw ledger_error | Postgres_threw pg_error

datatype call_failure = Request_threw | Protocol protocol_error | Message_is_no_string | Duplicate_call string | No_call string
  | Ledger_threw ledger_failure | Budget_refused "decision_code option" | X402_call_failed call_error

text \<open>The Map of the in-memory store keeps its rows in the order they were inserted.\<close>

definition store_insert :: "call_record \<Rightarrow> call_record list \<Rightarrow> call_failure + call_record list" where
  "store_insert r rs = (if \<exists>x \<in> set rs. cr_id x = cr_id r then Inl (Duplicate_call (cr_id r)) else Inr (rs @ [r]))"

definition store_update :: "string \<Rightarrow> (call_record \<Rightarrow> call_record) \<Rightarrow> call_record list \<Rightarrow> call_failure + call_record list" where
  "store_update i patch rs =
     (if \<exists>x \<in> set rs. cr_id x = i then Inr (update_where (\<lambda>x. cr_id x = i) (\<lambda>x. (patch x)\<lparr>cr_id := i\<rparr>) rs)
      else Inl (No_call i))"

section \<open>Requests and answers (client.ts)\<close>

record routing_request =
  ro_mode :: "string option"
  ro_maxPriceInputPer1m :: "jsnum option"
  ro_maxPriceOutputPer1m :: "jsnum option"
  ro_providers :: "string list"

definition opt_header :: "string \<Rightarrow> string option \<Rightarrow> (string \<times> string) list" where
  "opt_header k v = (case v of None \<Rightarrow> [] | Some x \<Rightarrow> [(k, x)])"

definition routingHeaders :: "platform \<Rightarrow> routing_request option \<Rightarrow> (string \<times> string) list" where
  "routingHeaders P r =
     (case r of
        None \<Rightarrow> []
      | Some q \<Rightarrow>
          opt_header ''X-Pod-Routing-Mode'' (ro_mode q)
          @ opt_header ''X-Pod-Max-Price-Input'' (map_option (js_number_string (other_number P)) (ro_maxPriceInputPer1m q))
          @ opt_header ''X-Pod-Max-Price-Output'' (map_option (js_number_string (other_number P)) (ro_maxPriceOutputPer1m q))
          @ opt_header ''X-Pod-Providers'' (if ro_providers q = [] then None else Some (join '','' (ro_providers q))))"

record call_request =
  rq_purpose :: call_purpose
  rq_phase :: phase
  rq_path :: string
  rq_body :: "(string \<times> json) list"
  rq_routing :: "routing_request option"
  rq_links :: call_links

text \<open>The names of a response's headers are in lower case.\<close>

record http_response =
  hr_status :: int
  hr_headers :: "(string \<times> string) list"
  hr_text :: string

definition hr_ok :: "http_response \<Rightarrow> bool" where
  "hr_ok r \<longleftrightarrow> 200 \<le> hr_status r \<and> hr_status r \<le> 299"

datatype pay_outcome = Paid_by (po_wallet: string) (po_signature: string) (po_amount: jsnum) (po_fee: jsnum)
  | Pay_refused string | Pay_unknown string

text \<open>What the world answers during one call: the clock at its readings, and \<open>None\<close> for what throws.\<close>

record call_answers =
  an_id :: string
  an_now :: "nat \<Rightarrow> time_ms"
  an_quote :: "http_response option"
  an_proof :: "string \<Rightarrow> (string \<times> string) option"
  an_balance :: "http_response option"
  an_pay :: "usdc_rail \<Rightarrow> pay_outcome option"
  an_settle :: "nat \<Rightarrow> http_response option"

record 'l ledger_ops =
  lo_reserve :: "time_ms \<Rightarrow> spend_request \<Rightarrow> string option \<Rightarrow> 'l \<Rightarrow> (ledger_failure + decision \<times> string option) \<times> 'l"
  lo_settle :: "time_ms \<Rightarrow> string \<Rightarrow> settlement \<Rightarrow> 'l \<Rightarrow> ledger_failure + 'l"
  lo_release :: "string \<Rightarrow> 'l \<Rightarrow> ledger_failure + 'l"
  lo_called :: "string \<Rightarrow> 'l \<Rightarrow> 'l"    \<comment> \<open>a receipt of that id is in the database\<close>

text \<open>The two ledgers as the interface.\<close>

definition map_error :: "('e \<Rightarrow> 'f) \<Rightarrow> 'e + 'a \<Rightarrow> 'f + 'a" where
  "map_error f r = (case r of Inl e \<Rightarrow> Inl (f e) | Inr a \<Rightarrow> Inr a)"

definition memory_ops :: "budget_config \<Rightarrow> spend_ledger ledger_ops" where
  "memory_ops cfg = \<lparr>lo_reserve = (\<lambda>now req c l. (Inr (fst (mem_reserve cfg now req c l)), snd (mem_reserve cfg now req c l))),
     lo_settle = (\<lambda>now i s l. map_error Memory_threw (mem_settle now i s l)),
     lo_release = (\<lambda>i l. map_error Memory_threw (mem_release i l)), lo_called = (\<lambda>i l. l)\<rparr>"

definition postgres_ops :: "budget_config \<Rightarrow> pg_ledger ledger_ops" where
  "postgres_ops cfg = \<lparr>lo_reserve = (\<lambda>now req c l. (map_error Postgres_threw (fst (pg_reserve cfg now req c l)), snd (pg_reserve cfg now req c l))),
     lo_settle = (\<lambda>now i s l. map_error Postgres_threw (pg_settle now i s l)),
     lo_release = (\<lambda>i l. map_error Postgres_threw (pg_release i l)), lo_called = (\<lambda>i l. l\<lparr>pl_calls := i # pl_calls l\<rparr>)\<rparr>"

record client_options =
  co_feeReserveLamports :: "jsnum option"
  co_solUsdCeilingPrice :: "jsnum option"

record 'l client =
  xc_ledger :: 'l
  xc_receipts :: "call_record list"
  xc_surplus :: xnum

text \<open>\<open>String(j)\<close> and \<open>Number(j)\<close> of a JSON value.\<close>

fun js_String :: "platform \<Rightarrow> json \<Rightarrow> string" where
  "js_String P JNull = ''null''"
| "js_String P (JBool b) = (if b then ''true'' else ''false'')"
| "js_String P (JNum n) = js_number_string (other_number P) n"
| "js_String P (JStr s) = s"
| "js_String P (JArr xs) = join '','' (map (\<lambda>x. if x = JNull then [] else js_String P x) xs)"
| "js_String P (JObj es) = ''[object Object]''"

definition js_Number :: "platform \<Rightarrow> json \<Rightarrow> xnum" where
  "js_Number P j = (case j of JNum n \<Rightarrow> Fin n | JNull \<Rightarrow> Fin 0 | JBool b \<Rightarrow> Fin (if b then 1 else 0) | _ \<Rightarrow> Number_of (js_String P j))"

section \<open>Reading an answer\<close>

text \<open>The header as base64 of JSON, or else as JSON itself; an object or array, or else the text as it is.\<close>

definition object_json :: "string \<Rightarrow> json option" where
  "object_json t = (case json_parse t of Some (JObj es) \<Rightarrow> Some (JObj es) | Some (JArr xs) \<Rightarrow> Some (JArr xs) | _ \<Rightarrow> None)"

definition decodePaymentResponse :: "platform \<Rightarrow> string option \<Rightarrow> json option" where
  "decodePaymentResponse P raw =
     (case raw of
        None \<Rightarrow> None
      | Some h \<Rightarrow>
          if h = [] then None
          else (case object_json (b64_decode P h) of
             Some v \<Rightarrow> Some v
           | None \<Rightarrow> (case object_json h of Some v \<Rightarrow> Some v | None \<Rightarrow> Some (JObj [(''unparsed'', JStr h)]))))"

fun numberField :: "json option \<Rightarrow> string list \<Rightarrow> jsnum option" where
  "numberField obj [] = None"
| "numberField obj (k # ks) =
     (case obj of
        None \<Rightarrow> None
      | Some j \<Rightarrow>
          (case the_prop j k of
             Some (JNum n) \<Rightarrow> Some n
           | Some (JStr s) \<Rightarrow>
               (case Number_of s of Fin n \<Rightarrow> if s = [] then numberField obj ks else Some n | _ \<Rightarrow> numberField obj ks)
           | _ \<Rightarrow> numberField obj ks))"

text \<open>A property that is absent or null falls through to the next.\<close>

definition first_of :: "json \<Rightarrow> string list \<Rightarrow> json option" where
  "first_of u ks = (case find (\<lambda>k. the_prop u k \<notin> {None, Some JNull}) ks of None \<Rightarrow> None | Some k \<Rightarrow> the_prop u k)"

definition extractUsage :: "json \<Rightarrow> json option \<times> json option" where
  "extractUsage resp =
     (case the_prop resp ''usage'' of
        None \<Rightarrow> (None, None)
      | Some u \<Rightarrow> if \<not> truthy (Some u) then (None, None)
                  else (first_of u [''prompt_tokens'', ''input_tokens''], first_of u [''completion_tokens'', ''output_tokens'']))"

section \<open>Effects of one call\<close>

definition insert_receipt :: "'l ledger_ops \<Rightarrow> call_record \<Rightarrow> ('l client, call_failure, unit) eff" where
  "insert_receipt L r c = (case store_insert r (xc_receipts c) of Inl e \<Rightarrow> (Inl e, c)
     | Inr rs \<Rightarrow> (Inr (), c\<lparr>xc_receipts := rs, xc_ledger := lo_called L (cr_id r) (xc_ledger c)\<rparr>))"

definition update_receipt :: "string \<Rightarrow> (call_record \<Rightarrow> call_record) \<Rightarrow> ('l client, call_failure, unit) eff" where
  "update_receipt i f c = (case store_update i f (xc_receipts c) of Inl e \<Rightarrow> (Inl e, c) | Inr rs \<Rightarrow> (Inr (), c\<lparr>xc_receipts := rs\<rparr>))"

definition in_ledger :: "('l \<Rightarrow> ledger_failure + 'l) \<Rightarrow> ('l client, call_failure, unit) eff" where
  "in_ledger f c = (case f (xc_ledger c) of Inl e \<Rightarrow> (Inl (Ledger_threw e), c) | Inr l \<Rightarrow> (Inr (), c\<lparr>xc_ledger := l\<rparr>))"

definition reserve_spend :: "'l ledger_ops \<Rightarrow> time_ms \<Rightarrow> spend_request \<Rightarrow> string \<Rightarrow> ('l client, call_failure, decision \<times> string option) eff" where
  "reserve_spend L now req callId c =
     (case lo_reserve L now req (Some callId) (xc_ledger c) of
        (Inr d, l) \<Rightarrow> (Inr d, c\<lparr>xc_ledger := l\<rparr>)
      | (Inl e, l) \<Rightarrow> (Inl (Ledger_threw e), c\<lparr>xc_ledger := l\<rparr>))"

definition answer :: "'a option \<Rightarrow> ('s, call_failure, 'a) eff" where
  "answer x = (case x of None \<Rightarrow> throw Request_threw | Some a \<Rightarrow> return_ok a)"

definition protocol :: "protocol_error + 'a \<Rightarrow> ('s, call_failure, 'a) eff" where
  "protocol r = (case r of Inl e \<Rightarrow> throw (Protocol e) | Inr a \<Rightarrow> return_ok a)"

definition message_test :: "bool option \<Rightarrow> ('s, call_failure, bool) eff" where
  "message_test b = (case b of None \<Rightarrow> throw Message_is_no_string | Some x \<Rightarrow> return_ok x)"

text \<open>A receipt marked as failed, and the error thrown that names why.\<close>

definition fail_call :: "string \<Rightarrow> (call_record \<Rightarrow> call_record) \<Rightarrow> call_error \<Rightarrow> ('l client, call_failure, 'a) eff" where
  "fail_call i f why = then_do (update_receipt i (\<lambda>r. (f r)\<lparr>cr_error := Some why\<rparr>)) (\<lambda>_. throw (X402_call_failed why))"

section \<open>finish\<close>

record settled =
  sp_scheme :: pay_scheme
  sp_wallet :: string
  sp_paidMicro :: jsnum
  sp_feeMicro :: jsnum
  sp_txSignature :: "string option"
  sp_cap :: jsnum

definition xmax0 :: "xnum \<Rightarrow> xnum" where
  "xmax0 x = (case x of Fin n \<Rightarrow> Fin (max 0 n) | NInf \<Rightarrow> Fin 0 | _ \<Rightarrow> x)"

definition next_surplus :: "settled \<Rightarrow> json option \<Rightarrow> xnum \<Rightarrow> xnum" where
  "next_surplus p pr estimate =
     (let reported = numberField pr [''balance_microunits'', ''balance'', ''remaining_balance_microunits''];
          charged = numberField pr [''charged_microunits'', ''charged''] in
      case reported of
        Some b \<Rightarrow> Fin b
      | None \<Rightarrow>
          if sp_scheme p = Balance
          then xmax0 (xadd estimate (Fin (- (case charged of Some c \<Rightarrow> c | None \<Rightarrow> sp_cap p))))
          else (case charged of Some c \<Rightarrow> if c < sp_cap p then xadd estimate (Fin (sp_cap p - c)) else estimate
             | None \<Rightarrow> estimate))"

definition pod_header :: "string \<times> string \<Rightarrow> bool" where
  "pod_header h \<longleftrightarrow> take 6 (fst h) = ''x-pod-'' \<or> take 9 (fst h) = ''x-balance''"

definition finish_call :: "platform \<Rightarrow> string \<Rightarrow> http_response \<Rightarrow> settled \<Rightarrow> ('l client, call_failure, json) eff" where
  "finish_call P i r p =
     (let prRaw = map_of (hr_headers r) ''payment-response'';
          pr = decodePaymentResponse P prRaw;
          response = (case json_parse (hr_text r) of Some j \<Rightarrow> j | None \<Rightarrow> JStr (hr_text r));
          usage = extractUsage response in
      then_do (modify (\<lambda>c. c\<lparr>xc_surplus := next_surplus p pr (xc_surplus c)\<rparr>)) (\<lambda>_.
      then_do (update_receipt i (\<lambda>x. x\<lparr>cr_status := Served, cr_scheme := Some (sp_scheme p), cr_payerWallet := Some (sp_wallet p),
         cr_payTxSignature := sp_txSignature p, cr_paidMicro := Some (sp_paidMicro p), cr_feeMicro := Some (sp_feeMicro p),
         cr_paymentResponseRaw := prRaw, cr_paymentResponse := pr,
         cr_chargedMicro := numberField pr [''charged_microunits'', ''charged'', ''amount_microunits'', ''cost_microunits''],
         cr_responseHeaders := filter pod_header (hr_headers r), cr_responseSha256 := Some (sha256_hex P (hr_text r)),
         cr_usageIn := fst usage, cr_usageOut := snd usage\<rparr>)) (\<lambda>_.
      return_ok response)))"

section \<open>call\<close>

definition new_call :: "platform \<Rightarrow> string \<Rightarrow> time_ms \<Rightarrow> call_request \<Rightarrow> call_record" where
  "new_call P i now req =
     (let body = rq_body req; text = stringify (other_number P) (JObj body) in
      \<lparr>cr_id = i, cr_purpose = rq_purpose req, cr_phase = rq_phase req,
       cr_model = (case first_of (JObj body) [''model''] of Some m \<Rightarrow> js_String P m | None \<Rightarrow> []), cr_path = rq_path req,
       cr_links = rq_links req, cr_routing = routingHeaders P (rq_routing req),
       cr_maxTokens = (case first_of (JObj body) [''max_tokens'', ''max_completion_tokens''] of Some n \<Rightarrow> js_Number P n | None \<Rightarrow> Fin 0),
       cr_requestSha256 = sha256_hex P text, cr_status = Quoting, cr_createdAt = now, cr_quoteId = None, cr_quoteCapMicro = None,
       cr_quoteExpiresAt = None, cr_scheme = None, cr_payerWallet = None, cr_payTxSignature = None, cr_paidMicro = None,
       cr_feeMicro = None, cr_chargedMicro = None, cr_paymentResponseRaw = None, cr_paymentResponse = None,
       cr_responseHeaders = [], cr_responseSha256 = None, cr_usageIn = None, cr_usageOut = None, cr_error = None\<rparr>)"

text \<open>Up to a rail: the quote, checked against the bytes that were sent.\<close>

definition call_quote :: "platform \<Rightarrow> 'l ledger_ops \<Rightarrow> call_answers \<Rightarrow> call_request \<Rightarrow> ('l client, call_failure, usdc_rail) eff" where
  "call_quote P L w req =
     then_do (insert_receipt L (new_call P (an_id w) (an_now w 0) req)) (\<lambda>_.
     then_do (answer (an_quote w)) (\<lambda>q.
     if hr_status q \<noteq> 402
     then let m = ge_message (parseGatewayError (hr_status q) (hr_text q)) in
       fail_call (an_id w) (\<lambda>r. r\<lparr>cr_status := Call_failed\<rparr>) (Expected_402 (hr_status q) m)
     else
     then_do (protocol (decodeQuoteHeader P (map_of (hr_headers q) ''payment-required''))) (\<lambda>quot.
     then_do (protocol (selectUsdcRail P quot \<lparr>sr_method = ''POST'', sr_path = rq_path req,
         sr_body = stringify (other_number P) (JObj (rq_body req))\<rparr>)) (\<lambda>railj.
     let rail = usdc_rail_of railj in
     then_do (update_receipt (an_id w) (\<lambda>r. r\<lparr>cr_quoteId := Some (q_quote_id quot), cr_quoteCapMicro := Some (ur_amount rail),
         cr_quoteExpiresAt := (if ur_expires_at rail = Some JNull then None else ur_expires_at rail), cr_status := Quoted\<rparr>)) (\<lambda>_.
     if isExpired P rail (an_now w 1) 5000
     then fail_call (an_id w) (\<lambda>r. r\<lparr>cr_status := Call_failed\<rparr>) Quote_already_expired
     else return_ok rail)))))"

text \<open>Surplus credit, when there is believed to be enough: the answer when it was served, \<open>None\<close> to pay instead.\<close>

definition call_balance :: "platform \<Rightarrow> call_answers \<Rightarrow> usdc_rail \<Rightarrow> ('l client, call_failure, json option) eff" where
  "call_balance P w rail =
     then_do (read_state xc_surplus) (\<lambda>estimate.
     if \<not> xle (Fin (ur_amount rail)) estimate then return_ok None
     else
     then_do (answer (an_proof w (ur_quote_id rail))) (\<lambda>(wallet, proof_sig).
     then_do (answer (an_balance w)) (\<lambda>r.
     if hr_ok r
     then then_do (finish_call P (an_id w) r \<lparr>sp_scheme = Balance, sp_wallet = wallet, sp_paidMicro = 0, sp_feeMicro = 0,
            sp_txSignature = None, sp_cap = ur_amount rail\<rparr>) (\<lambda>j. return_ok (Some j))
     else let err = parseGatewayError (hr_status r) (hr_text r) in
     then_do (message_test (isBalanceInsufficient err)) (\<lambda>low.
     if \<not> low
     then fail_call (an_id w) (\<lambda>r. r\<lparr>cr_status := Call_failed, cr_scheme := Some Balance\<rparr>) (Gateway_said (ge_message err))
     else then_do (modify (\<lambda>c. c\<lparr>xc_surplus := Fin (max 0 (ur_amount rail - 1))\<rparr>)) (\<lambda>_. return_ok None)))))"

definition fee_reserve_micro :: "client_options \<Rightarrow> jsnum" where
  "fee_reserve_micro opts = lamportsToMicroCeil
     (case co_feeReserveLamports opts of Some n \<Rightarrow> n | None \<Rightarrow> 10000)
     (case co_solUsdCeilingPrice opts of Some p \<Rightarrow> p | None \<Rightarrow> 400)"

definition spend_of :: "client_options \<Rightarrow> phase \<Rightarrow> usdc_rail \<Rightarrow> spend_request" where
  "spend_of opts p rail = \<lparr>req_phase = p, req_kind = X402_payment, req_amountMicro = ur_amount rail + fee_reserve_micro opts\<rparr>"

definition paid_patch :: "pay_outcome \<Rightarrow> call_record \<Rightarrow> call_record" where
  "paid_patch pay r = r\<lparr>cr_status := Call_paid, cr_scheme := Some Onchain, cr_payerWallet := Some (po_wallet pay),
     cr_payTxSignature := Some (po_signature pay), cr_paidMicro := Some (po_amount pay), cr_feeMicro := Some (po_fee pay)\<rparr>"

text \<open>Reserve, have the signer pay, and settle what it paid. Nothing is released whose outcome is unknown.\<close>

definition call_pay :: "client_options \<Rightarrow> 'l ledger_ops \<Rightarrow> call_answers \<Rightarrow> phase \<Rightarrow> usdc_rail \<Rightarrow> ('l client, call_failure, pay_outcome) eff" where
  "call_pay opts L w p rail =
     then_do (reserve_spend L (an_now w 2) (spend_of opts p rail) (an_id w)) (\<lambda>d.
     case d of
       (Refused c, _) \<Rightarrow>
         then_do (update_receipt (an_id w) (\<lambda>r. r\<lparr>cr_status := Refused_budget, cr_error := Some (Budget_said c)\<rparr>))
           (\<lambda>_. throw (Budget_refused (Some c)))
     | (Granted _ _, entry) \<Rightarrow>
         if entry = None \<or> entry = Some []
         then then_do (update_receipt (an_id w) (\<lambda>r. r\<lparr>cr_status := Refused_budget, cr_error := Some No_reservation_id\<rparr>))
           (\<lambda>_. throw (Budget_refused None))
         else
         then_do (answer (an_pay w rail)) (\<lambda>pay.
         case pay of
           Pay_refused e \<Rightarrow>
             then_do (in_ledger (lo_release L (the entry))) (\<lambda>_.
             fail_call (an_id w) (\<lambda>r. r\<lparr>cr_status := Refused_signer\<rparr>) (Signer_said e))
         | Pay_unknown e \<Rightarrow> fail_call (an_id w) (\<lambda>r. r\<lparr>cr_status := Payment_unknown\<rparr>) (Signer_said e)
         | Paid_by wallet tx amount fee \<Rightarrow>
             then_do (in_ledger (lo_settle L (an_now w 3) (the entry)
                \<lparr>st_amountMicro = amount, st_feeMicro = fee, st_txSignature = Some tx\<rparr>)) (\<lambda>_.
             if amount > ur_amount rail then fail_call (an_id w) (paid_patch pay) Overpaid
             else then_do (update_receipt (an_id w) (paid_patch pay)) (\<lambda>_. return_ok pay))))"

text \<open>
  Present the payment, and again while the transaction is not visible yet. The attempts are numbered
  from 0 and only one below 8 is followed by another: \<open>present_payment P w rail pay left\<close> is the loop
  from attempt \<open>8 - left\<close>, so \<open>left = 8\<close> is the whole of it.
\<close>

definition present_once :: "platform \<Rightarrow> call_answers \<Rightarrow> usdc_rail \<Rightarrow> pay_outcome \<Rightarrow> nat \<Rightarrow> ('l client, call_failure, json) eff
    \<Rightarrow> ('l client, call_failure, json) eff" where
  "present_once P w rail pay attempt again =
     then_do (answer (an_settle w attempt)) (\<lambda>r.
     if hr_ok r
     then finish_call P (an_id w) r \<lparr>sp_scheme = Onchain, sp_wallet = po_wallet pay, sp_paidMicro = po_amount pay,
            sp_feeMicro = po_fee pay, sp_txSignature = Some (po_signature pay), sp_cap = ur_amount rail\<rparr>
     else let err = parseGatewayError (hr_status r) (hr_text r) in
     then_do (message_test (isTxNotYetVisible err)) (\<lambda>unseen.
     if unseen \<and> attempt < 8 \<and> \<not> isExpired P rail (an_now w (4 + attempt)) 5000 then again
     else fail_call (an_id w) (\<lambda>r. r\<lparr>cr_status := Paid_not_served\<rparr>) (Gateway_said (ge_message err))))"

primrec present_payment :: "platform \<Rightarrow> call_answers \<Rightarrow> usdc_rail \<Rightarrow> pay_outcome \<Rightarrow> nat \<Rightarrow> ('l client, call_failure, json) eff" where
  "present_payment P w rail pay 0 = present_once P w rail pay 8 (throw Request_threw)"
| "present_payment P w rail pay (Suc left) = present_once P w rail pay (7 - left) (present_payment P w rail pay left)"

definition call :: "platform \<Rightarrow> client_options \<Rightarrow> 'l ledger_ops \<Rightarrow> call_answers \<Rightarrow> call_request \<Rightarrow> ('l client, call_failure, json) eff" where
  "call P opts L w req =
     then_do (call_quote P L w req) (\<lambda>rail.
     then_do (call_balance P w rail) (\<lambda>served.
     case served of
       Some j \<Rightarrow> return_ok j
     | None \<Rightarrow> then_do (call_pay opts L w (rq_phase req) rail) (\<lambda>pay. present_payment P w rail pay 8)))"

end
