(* ===== verification/X402Safety.thy ===== *)
theory X402Safety
  imports X402Client
begin

text \<open>
  What a paid inference call does to the budget. The client is proved against the interface
  SpendLedger, a locale over the spend book's contract, and the locale is interpreted on both
  ledgers: the in-memory one and the Postgres one.
\<close>

section \<open>Receipts\<close>

definition the_receipt :: "string \<Rightarrow> 'l client \<Rightarrow> call_record option" where
  "the_receipt i c = find (\<lambda>r. cr_id r = i) (xc_receipts c)"

lemma find_updated:
  "(\<And>x. k (g x) = i) \<Longrightarrow> find (\<lambda>r. k r = i) (update_where (\<lambda>x. k x = i) g rs) = map_option g (find (\<lambda>r. k r = i) rs)"
  by (induction rs) auto

lemma wp_update_receipt:
  assumes "the_receipt i c = Some r"
    and "\<And>d. the_receipt i d = Some ((f r)\<lparr>cr_id := i\<rparr>) \<Longrightarrow> xc_ledger d = xc_ledger c \<Longrightarrow> xc_surplus d = xc_surplus c \<Longrightarrow> Q () d"
  shows "wp (update_receipt i f) Q E c"
proof -
  have "\<exists>x \<in> set (xc_receipts c). cr_id x = i"
    using assms(1) find_SomeD [of "\<lambda>r. cr_id r = i" "xc_receipts c" r] by (auto simp: the_receipt_def)
  then show ?thesis
    using assms by (simp add: wp_def update_receipt_def store_update_def the_receipt_def find_updated)
qed

lemma wp_insert_receipt:
  assumes "the_receipt (cr_id r) c = None"
    and "\<And>d. the_receipt (cr_id r) d = Some r \<Longrightarrow> xc_ledger d = lo_called L (cr_id r) (xc_ledger c) \<Longrightarrow> xc_surplus d = xc_surplus c \<Longrightarrow> Q () d"
  shows "wp (insert_receipt L r) Q E c"
proof -
  have n: "\<not> (\<exists>x \<in> set (xc_receipts c). cr_id x = cr_id r)"
    using assms(1) by (auto simp: the_receipt_def find_None_iff)
  have "find (\<lambda>x. cr_id x = cr_id r) (rs @ [r]) = Some r" if "find (\<lambda>x. cr_id x = cr_id r) rs = None" for rs
    using that by (induction rs) (auto split: if_splits)
  then have "find (\<lambda>x. cr_id x = cr_id r) (xc_receipts c @ [r]) = Some r" using assms(1) by (simp add: the_receipt_def)
  with n show ?thesis using assms(2) by (simp add: wp_def insert_receipt_def store_insert_def the_receipt_def)
qed

lemma wp_answer [wp_simps]: "wp (answer x) Q E c = (case x of None \<Rightarrow> E Request_threw c | Some a \<Rightarrow> Q a c)"
  by (simp add: wp_def answer_def throw_def return_ok_def split: option.split)

lemma wp_protocol [wp_simps]: "wp (protocol r) Q E c = (case r of Inl e \<Rightarrow> E (Protocol e) c | Inr a \<Rightarrow> Q a c)"
  by (simp add: wp_def protocol_def throw_def return_ok_def split: sum.split)

lemma wp_message_test [wp_simps]: "wp (message_test b) Q E c = (case b of None \<Rightarrow> E Message_is_no_string c | Some x \<Rightarrow> Q x c)"
  by (simp add: wp_def message_test_def throw_def return_ok_def split: option.split)

lemma wp_fail_call:
  assumes "the_receipt i c = Some r"
    and "\<And>d. the_receipt i d = Some ((f r)\<lparr>cr_error := Some why, cr_id := i\<rparr>) \<Longrightarrow> xc_ledger d = xc_ledger c \<Longrightarrow> xc_surplus d = xc_surplus c
      \<Longrightarrow> E (X402_call_failed why) d"
  shows "wp (fail_call i f why) Q E c"
  unfolding fail_call_def wp_then
  by (rule wp_update_receipt [OF assms(1)]) (simp add: wp_simps assms(2))

lemma wp_finish_call:
  assumes "the_receipt i c = Some r"
    and "\<And>d j x. the_receipt i d = Some x \<Longrightarrow> cr_status x = Served \<Longrightarrow> cr_scheme x = Some (sp_scheme p)
      \<Longrightarrow> cr_paidMicro x = Some (sp_paidMicro p) \<Longrightarrow> cr_feeMicro x = Some (sp_feeMicro p)
      \<Longrightarrow> xc_ledger d = xc_ledger c \<Longrightarrow> Q j d"
  shows "wp (finish_call P i h p) Q E c"
proof -
  have r: "the_receipt i (c\<lparr>xc_surplus := s\<rparr>) = Some r" for s using assms(1) by (simp add: the_receipt_def)
  show ?thesis
    unfolding finish_call_def Let_def wp_then wp_modify
    by (rule wp_update_receipt [OF r]) (auto simp: wp_simps intro: assms(2))
qed

section \<open>The interface the client relies on\<close>

locale client_ledger = spend_book ok committed held res settle rel cost limit
  for ok :: "'l \<Rightarrow> bool" and committed :: "'l \<Rightarrow> jsnum" and held :: "'l \<Rightarrow> string \<Rightarrow> jsnum option"
    and res :: "time_ms \<times> spend_request \<times> string option \<Rightarrow> 'l \<Rightarrow> 'l"
    and settle :: "string \<Rightarrow> time_ms \<times> settlement \<Rightarrow> 'l \<Rightarrow> 'l" and rel :: "string \<Rightarrow> 'l \<Rightarrow> 'l"
    and cost :: "time_ms \<times> settlement \<Rightarrow> jsnum" and limit :: jsnum +
  fixes L :: "'l ledger_ops"
  assumes cost_is: "cost (t, p) = st_amountMicro p + st_feeMicro p"
    and reserve_is: "snd (lo_reserve L now r c l) = res (now, r, c) l"
    and reserve_refused: "lo_reserve L now r c l = (Inr (Refused x, entry), l') \<Longrightarrow> l' = l"
    and reserve_threw: "lo_reserve L now r c l = (Inl e, l') \<Longrightarrow> committed l' = committed l"
    and reserve_granted: "ok l \<Longrightarrow> lo_reserve L now r c l = (Inr (Granted a b, entry), l') \<Longrightarrow>
      committed l' = committed l + req_amountMicro r
      \<and> (\<exists>j. entry = Some j \<and> j \<noteq> [] \<and> held l' j = Some (req_amountMicro r))"
    and settle_is: "lo_settle L now i p l = Inr l' \<Longrightarrow> l' = settle i (now, p) l"
    and settled: "ok l \<Longrightarrow> held l i = Some h \<Longrightarrow> lo_settle L now i p l = Inr l' \<Longrightarrow> committed l' = committed l - h + cost (now, p)"
    and release_is: "lo_release L i l = Inr l' \<Longrightarrow> l' = rel i l"
    and called: "ok l \<Longrightarrow> ok (lo_called L i l)" "committed (lo_called L i l) = committed l"
    and released: "ok l \<Longrightarrow> held l i = Some h \<Longrightarrow> lo_release L i l = Inr l' \<Longrightarrow> committed l' = committed l - h"
begin

lemma reserved_ok:
  assumes "ok l" "lo_reserve L now r c l = (x, l')"
  shows "ok l'"
  using reserve_ok [OF assms(1), of "(now, r, c)"] reserve_is [of now r c l] assms(2) by simp

lemma reserved_within:
  assumes "ok l" "committed l \<le> limit" "lo_reserve L now r c l = (x, l')"
  shows "committed l' \<le> limit"
  using reserve_within [OF assms(1,2), of "(now, r, c)"] reserve_is [of now r c l] assms(3) by simp

end

section \<open>What a receipt says of the ledger\<close>

text \<open>
  \<open>spend\<close> is the amount a payment reserves; \<open>before\<close> and \<open>after\<close> are what the ledger counts. A receipt left
  at \<open>Quoted\<close> is of a call that threw on the way to its payment: its reservation, if it got one, still counts.
\<close>

definition paid_on_chain :: "jsnum \<Rightarrow> jsnum \<Rightarrow> call_record \<Rightarrow> bool" where
  "paid_on_chain before after r \<longleftrightarrow>
     (\<exists>a f. cr_scheme r = Some Onchain \<and> cr_paidMicro r = Some a \<and> cr_feeMicro r = Some f \<and> after = before + a + f)"

definition receipt_books :: "jsnum \<Rightarrow> jsnum \<Rightarrow> jsnum \<Rightarrow> call_record \<Rightarrow> bool" where
  "receipt_books feeReserve before after r \<longleftrightarrow>
     (case cr_status r of
        Served \<Rightarrow> paid_on_chain before after r
          \<or> (cr_scheme r = Some Balance \<and> cr_paidMicro r = Some 0 \<and> cr_feeMicro r = Some 0 \<and> after = before)
      | Call_paid \<Rightarrow> paid_on_chain before after r
      | Paid_not_served \<Rightarrow> paid_on_chain before after r
      | Payment_unknown \<Rightarrow> \<exists>cap. cr_quoteCapMicro r = Some cap \<and> after = before + cap + feeReserve
      | Quoted \<Rightarrow> \<exists>cap. cr_quoteCapMicro r = Some cap \<and> after \<in> {before, before + cap + feeReserve}
      | _ \<Rightarrow> after = before)"

definition quoted_receipt :: "string \<Rightarrow> usdc_rail \<Rightarrow> 'l client \<Rightarrow> bool" where
  "quoted_receipt i rail c \<longleftrightarrow> (\<exists>r. the_receipt i c = Some r \<and> cr_status r = Quoted \<and> cr_quoteCapMicro r = Some (ur_amount rail))"

lemma new_call_fields [simp]: "cr_id (new_call P i now req) = i" "cr_status (new_call P i now req) = Quoting"
  by (simp_all add: new_call_def Let_def)

lemma wp_call_quote:
  assumes "the_receipt (an_id w) c = None"
  shows "wp (call_quote P L w req) (\<lambda>rail d. quoted_receipt (an_id w) rail d \<and> xc_ledger d = lo_called L (an_id w) (xc_ledger c))
    (\<lambda>e d. \<exists>r. the_receipt (an_id w) d = Some r \<and> cr_status r \<in> {Quoting, Call_failed} \<and> xc_ledger d = lo_called L (an_id w) (xc_ledger c)) c"
  unfolding call_quote_def wp_then
  by (rule wp_insert_receipt)
     (auto simp: assms wp_simps Let_def quoted_receipt_def split: option.split sum.split if_splits
       intro!: wp_fail_call wp_update_receipt)

lemma wp_call_balance:
  assumes "quoted_receipt (an_id w) rail c"
  shows "wp (call_balance P w rail)
    (\<lambda>served d. xc_ledger d = xc_ledger c \<and> (case served of
        None \<Rightarrow> quoted_receipt (an_id w) rail d
      | Some j \<Rightarrow> \<exists>r. the_receipt (an_id w) d = Some r \<and> cr_status r = Served \<and> cr_scheme r = Some Balance
          \<and> cr_paidMicro r = Some 0 \<and> cr_feeMicro r = Some 0))
    (\<lambda>e d. xc_ledger d = xc_ledger c \<and> (quoted_receipt (an_id w) rail d
      \<or> (\<exists>r. the_receipt (an_id w) d = Some r \<and> cr_status r = Call_failed))) c"
proof -
  obtain r where r: "the_receipt (an_id w) c = Some r" "cr_status r = Quoted" "cr_quoteCapMicro r = Some (ur_amount rail)"
    using assms by (auto simp: quoted_receipt_def)
  show ?thesis
    unfolding call_balance_def
    by (auto simp: wp_simps Let_def assms r quoted_receipt_def the_receipt_def [of _ "xc_surplus_update _ _"]
        the_receipt_def [symmetric] split: option.split if_splits intro!: wp_fail_call [OF r(1)] wp_finish_call [OF r(1)])
qed

text \<open>The payments an honest signer makes: at most the quoted amount and the fee reserved for it.\<close>

definition honest_payer :: "client_options \<Rightarrow> call_answers \<Rightarrow> bool" where
  "honest_payer opts w \<longleftrightarrow> (\<forall>rail wallet tx a f. an_pay w rail = Some (Paid_by wallet tx a f) \<longrightarrow>
     a + f \<le> ur_amount rail + fee_reserve_micro opts)"

lemma paid_patch_fields [simp]:
  "cr_status (paid_patch pay r) = Call_paid" "cr_scheme (paid_patch pay r) = Some Onchain"
  "cr_paidMicro (paid_patch pay r) = Some (po_amount pay)" "cr_feeMicro (paid_patch pay r) = Some (po_fee pay)"
  by (simp_all add: paid_patch_def)

lemma wp_in_ledger [wp_simps]:
  "wp (in_ledger f) Q E c = (case f (xc_ledger c) of Inl e \<Rightarrow> E (Ledger_threw e) c | Inr l \<Rightarrow> Q () (c\<lparr>xc_ledger := l\<rparr>))"
  by (simp add: wp_def in_ledger_def split: sum.split)

lemma wp_reserve_spend [wp_simps]:
  "wp (reserve_spend L now r i) Q E c = (case lo_reserve L now r (Some i) (xc_ledger c) of
     (Inl e, l) \<Rightarrow> E (Ledger_threw e) (c\<lparr>xc_ledger := l\<rparr>) | (Inr d, l) \<Rightarrow> Q d (c\<lparr>xc_ledger := l\<rparr>))"
  by (simp add: wp_def reserve_spend_def split: prod.split sum.split)

lemma receipt_kept [simp]: "the_receipt i (c\<lparr>xc_ledger := l\<rparr>) = the_receipt i c"
  by (simp add: the_receipt_def)

context client_ledger
begin

definition books :: "client_options \<Rightarrow> jsnum \<Rightarrow> string \<Rightarrow> 'l client \<Rightarrow> bool" where
  "books opts before i d \<longleftrightarrow> ok (xc_ledger d)
     \<and> (\<exists>r. the_receipt i d = Some r \<and> receipt_books (fee_reserve_micro opts) before (committed (xc_ledger d)) r)"

lemma wp_call_pay:
  assumes "ok (xc_ledger c)" "quoted_receipt (an_id w) rail c"
  shows "wp (call_pay opts L w p rail)
    (\<lambda>pay d. ok (xc_ledger d) \<and> (\<exists>r. the_receipt (an_id w) d = Some r \<and> cr_status r = Call_paid \<and> cr_scheme r = Some Onchain
        \<and> cr_paidMicro r = Some (po_amount pay) \<and> cr_feeMicro r = Some (po_fee pay))
      \<and> committed (xc_ledger d) = committed (xc_ledger c) + po_amount pay + po_fee pay)
    (\<lambda>e d. books opts (committed (xc_ledger c)) (an_id w) d \<and> (\<forall>r. the_receipt (an_id w) d = Some r \<longrightarrow> cr_status r \<noteq> Served)) c"
proof -
  obtain r where r: "the_receipt (an_id w) c = Some r" "cr_status r = Quoted" "cr_quoteCapMicro r = Some (ur_amount rail)"
    using assms by (auto simp: quoted_receipt_def)
  let ?l = "xc_ledger c" and ?a = "ur_amount rail + fee_reserve_micro opts"
  obtain x l where res: "lo_reserve L (an_now w 2) (spend_of opts p rail) (Some (an_id w)) ?l = (x, l)" by fastforce
  have okl: "ok l" by (rule reserved_ok [OF assms(1) res])
  show ?thesis
  proof (cases x)
    case (Inl e)
    then show ?thesis
      using res okl r reserve_threw [of "an_now w 2" "spend_of opts p rail" "Some (an_id w)" ?l e l]
      by (simp add: call_pay_def wp_simps books_def receipt_books_def)
  next
    case (Inr d)
    obtain dec entry where d: "d = (dec, entry)" by (cases d)
    show ?thesis
    proof (cases dec)
      case (Refused code)
      then have l: "l = ?l" using reserve_refused res Inr d by fastforce
      show ?thesis
        unfolding call_pay_def
        by (simp add: wp_simps res Inr d Refused l)
           (rule wp_update_receipt, simp add: r, auto simp: wp_simps books_def receipt_books_def assms(1))
    next
      case (Granted la pa)
      obtain j where j: "entry = Some j" "j \<noteq> []" "held l j = Some ?a" "committed l = committed ?l + ?a"
        using reserve_granted [OF assms(1), of "an_now w 2" "spend_of opts p rail" "Some (an_id w)" la pa entry l] res Inr d Granted
        by (auto simp: spend_of_def)
      show ?thesis
      proof (cases "an_pay w rail")
        case None
        then show ?thesis
          by (simp add: call_pay_def wp_simps res Inr d Granted j books_def receipt_books_def okl r)
      next
        case (Some pay)
        show ?thesis
        proof (cases pay)
          case (Pay_refused e)
          show ?thesis
          proof (cases "lo_release L j l")
            case (Inl err)
            then show ?thesis
              by (simp add: call_pay_def wp_simps res Inr d Granted j Some Pay_refused books_def receipt_books_def okl r)
          next
            case l': (Inr l')
            have "ok l'" "committed l' = committed ?l"
              using release_ok [OF okl, of j] release_is [OF l'] released [OF okl j(3) l'] j(4) by simp_all
            then show ?thesis
              by (simp add: call_pay_def wp_simps res Inr d Granted j Some Pay_refused l')
                 (rule wp_fail_call, simp add: r, simp add: books_def receipt_books_def)
          qed
        next
          case (Pay_unknown e)
          show ?thesis
            by (simp add: call_pay_def wp_simps res Inr d Granted j Some Pay_unknown)
               (rule wp_fail_call, simp add: r, simp add: books_def receipt_books_def okl r j(4))
        next
          case (Paid_by wallet tx a f)
          let ?p = "\<lparr>st_amountMicro = a, st_feeMicro = f, st_txSignature = Some tx\<rparr>"
          show ?thesis
          proof (cases "lo_settle L (an_now w 3) j ?p l")
            case (Inl err)
            then show ?thesis
              by (simp add: call_pay_def wp_simps res Inr d Granted j Some Paid_by books_def receipt_books_def okl r)
          next
            case l': (Inr l')
            have ok': "ok l'" "committed l' = committed ?l + a + f"
              using settle_ok [OF okl, of j "(an_now w 3, ?p)"] settle_is [OF l'] settled [OF okl j(3) l'] j(4) by (simp_all add: cost_is)
            show ?thesis
            proof (cases "a > ur_amount rail")
              case True
              then show ?thesis
                by (simp add: call_pay_def wp_simps res Inr d Granted j Some Paid_by l')
                   (rule wp_fail_call, simp add: r, simp add: books_def receipt_books_def paid_on_chain_def ok')
            next
              case False
              then show ?thesis
                by (simp add: call_pay_def wp_simps res Inr d Granted j Some Paid_by l')
                   (rule wp_update_receipt, simp add: r, simp add: wp_simps ok')
            qed
          qed
        qed
      qed
    qed
  qed
qed

lemma wp_present_once:
  assumes c: "ok (xc_ledger c)" "the_receipt (an_id w) c = Some r" "cr_status r = Call_paid" "paid_on_chain before (committed (xc_ledger c)) r"
      "cr_paidMicro r = Some (po_amount pay)" "cr_feeMicro r = Some (po_fee pay)"
    and again: "attempt < 8 \<Longrightarrow> wp again (\<lambda>j d. books opts before (an_id w) d \<and> (\<exists>x. the_receipt (an_id w) d = Some x \<and> cr_status x = Served))
      (\<lambda>e d. books opts before (an_id w) d \<and> (\<exists>x. the_receipt (an_id w) d = Some x \<and> cr_status x \<noteq> Served)) c"
  shows "wp (present_once P w rail pay attempt again)
    (\<lambda>j d. books opts before (an_id w) d \<and> (\<exists>x. the_receipt (an_id w) d = Some x \<and> cr_status x = Served))
    (\<lambda>e d. books opts before (an_id w) d \<and> (\<exists>x. the_receipt (an_id w) d = Some x \<and> cr_status x \<noteq> Served)) c"
proof (cases "an_settle w attempt")
  case None
  then show ?thesis by (simp add: present_once_def wp_simps books_def receipt_books_def c)
next
  case (Some h)
  let ?err = "parseGatewayError (hr_status h) (hr_text h)"
  consider (ok) "hr_ok h" | (unread) "\<not> hr_ok h" "isTxNotYetVisible ?err = None"
    | (again) "\<not> hr_ok h" "isTxNotYetVisible ?err = Some True" "attempt < 8" "\<not> isExpired P rail (an_now w (4 + attempt)) 5000"
    | (failed) unseen where "\<not> hr_ok h" "isTxNotYetVisible ?err = Some unseen"
        "\<not> (unseen \<and> attempt < 8 \<and> \<not> isExpired P rail (an_now w (4 + attempt)) 5000)"
    by (cases "isTxNotYetVisible ?err") auto
  then show ?thesis
  proof cases
    case ok
    show ?thesis
      by (simp add: present_once_def wp_simps Some ok Let_def)
         (rule wp_finish_call [OF c(2)], use c in \<open>simp add: books_def receipt_books_def paid_on_chain_def\<close>)
  next
    case unread
    then show ?thesis by (simp add: present_once_def wp_simps Some Let_def books_def receipt_books_def c)
  next
    case again
    then show ?thesis using assms(7) by (simp add: present_once_def wp_simps Some Let_def)
  next
    case (failed unseen)
    then have "wp (present_once P w rail pay attempt again) Q E c =
        wp (fail_call (an_id w) (\<lambda>r. r\<lparr>cr_status := Paid_not_served\<rparr>) (Gateway_said (ge_message ?err))) Q E c" for Q E
      by (cases unseen; cases "attempt < 8") (simp_all add: present_once_def wp_simps Some Let_def)
    then show ?thesis
      by simp (rule wp_fail_call [OF c(2)], use c in \<open>simp add: books_def receipt_books_def paid_on_chain_def\<close>)
  qed
qed

lemma wp_present_payment:
  assumes c: "ok (xc_ledger c)" "the_receipt (an_id w) c = Some r" "cr_status r = Call_paid" "paid_on_chain before (committed (xc_ledger c)) r"
      "cr_paidMicro r = Some (po_amount pay)" "cr_feeMicro r = Some (po_fee pay)"
  shows "wp (present_payment P w rail pay left)
    (\<lambda>j d. books opts before (an_id w) d \<and> (\<exists>x. the_receipt (an_id w) d = Some x \<and> cr_status x = Served))
    (\<lambda>e d. books opts before (an_id w) d \<and> (\<exists>x. the_receipt (an_id w) d = Some x \<and> cr_status x \<noteq> Served)) c"
  by (induction left) (auto intro!: wp_present_once c)

lemma wp_call:
  assumes "ok (xc_ledger c)" "the_receipt (an_id w) c = None"
  shows "wp (call P opts L w req)
    (\<lambda>j d. books opts (committed (xc_ledger c)) (an_id w) d \<and> (\<exists>r. the_receipt (an_id w) d = Some r \<and> cr_status r = Served))
    (\<lambda>e d. books opts (committed (xc_ledger c)) (an_id w) d \<and> (\<exists>r. the_receipt (an_id w) d = Some r \<and> cr_status r \<noteq> Served)) c"
  (is "wp _ ?Q ?E c")
proof -
  let ?b = "committed (xc_ledger c)"
  have pay: "wp (then_do (call_pay opts L w p rail) (\<lambda>pay. present_payment P w rail pay 8)) ?Q ?E d"
    if "quoted_receipt (an_id w) rail d" "ok (xc_ledger d)" "committed (xc_ledger d) = ?b" for d p rail
    unfolding wp_then
  proof (rule wp_mono [OF wp_call_pay [OF that(2,1)]], goal_cases)
    case (1 pay t)
    then show ?case by (auto simp: that(3) paid_on_chain_def intro!: wp_present_payment)
  next
    case (2 e t)
    then show ?case by (auto simp: that(3) books_def)
  qed
  have rest: "wp (then_do (call_balance P w rail) (\<lambda>served. case served of Some j \<Rightarrow> return_ok j
      | None \<Rightarrow> then_do (call_pay opts L w (rq_phase req) rail) (\<lambda>pay. present_payment P w rail pay 8))) ?Q ?E d"
    if q: "quoted_receipt (an_id w) rail d" "xc_ledger d = lo_called L (an_id w) (xc_ledger c)" for d rail
    unfolding wp_then
  proof (rule wp_mono [OF wp_call_balance [OF q(1)]], goal_cases)
    case (1 served t)
    then show ?case
      using pay [of rail t "rq_phase req"] called(1) [OF assms(1), of "an_id w"] called(2) [of "an_id w" "xc_ledger c"] assms(1) q(2)
      by (auto simp: wp_simps books_def receipt_books_def split: option.splits)
  next
    case (2 e t)
    then show ?case
      using called(1) [OF assms(1), of "an_id w"] called(2) [of "an_id w" "xc_ledger c"] assms(1) q(2) by (auto simp: books_def receipt_books_def quoted_receipt_def)
  qed
  show ?thesis
    unfolding call_def wp_then [of "call_quote P L w req"]
    by (rule wp_mono [OF wp_call_quote [OF assms(2)]])
       (use rest called assms(1) in \<open>auto simp: books_def receipt_books_def\<close>)
qed

text \<open>Of a call only \<open>call_pay\<close> spends.\<close>

lemma wp_call_within:
  assumes "ok (xc_ledger c)" "committed (xc_ledger c) \<le> limit" "honest_payer opts w"
  shows "wp (call P opts L w req) (\<lambda>_ d. ok (xc_ledger d) \<and> committed (xc_ledger d) \<le> limit)
    (\<lambda>_ d. ok (xc_ledger d) \<and> committed (xc_ledger d) \<le> limit) c"
proof -
  let ?I = "\<lambda>d. ok (xc_ledger d) \<and> committed (xc_ledger d) \<le> limit"
  have insert: "wp (insert_receipt L r) (\<lambda>_. ?I) (\<lambda>_. ?I) d" if "?I d" for r d
    using that called by (auto simp: wp_def insert_receipt_def split: sum.split)
  have update: "wp (update_receipt i f) (\<lambda>_. ?I) (\<lambda>_. ?I) d" if "?I d" for i f d
    using that by (auto simp: wp_def update_receipt_def split: sum.split)
  have fail: "wp (fail_call i f why) (\<lambda>_. ?I) (\<lambda>_. ?I) d" if "?I d" for i f why d
    unfolding fail_call_def wp_then by (rule wp_mono [OF update]) (simp_all add: that wp_simps)
  have finish: "wp (finish_call P i h p) (\<lambda>_. ?I) (\<lambda>_. ?I) d" if "?I d" for i h p d
    unfolding finish_call_def Let_def wp_then wp_modify by (rule wp_mono [OF update]) (use that in \<open>simp_all add: wp_simps\<close>)
  have quote: "wp (call_quote P L w req) (\<lambda>_. ?I) (\<lambda>_. ?I) d" if "?I d" for d
    unfolding call_quote_def wp_then
    by (rule wp_mono [OF insert [OF that]])
       (auto simp: wp_simps Let_def split: option.split sum.split intro!: fail wp_mono [OF update])
  have balance: "wp (call_balance P w rail) (\<lambda>_. ?I) (\<lambda>_. ?I) d" if "?I d" for rail d
    using that by (auto simp: call_balance_def wp_simps Let_def split: option.split intro!: fail wp_mono [OF finish])
  have pay: "wp (call_pay opts L w p rail) (\<lambda>_. ?I) (\<lambda>_. ?I) d" if I: "?I d" for p rail d
  proof -
    let ?l = "xc_ledger d" and ?a = "ur_amount rail + fee_reserve_micro opts"
    obtain x l where res: "lo_reserve L (an_now w 2) (spend_of opts p rail) (Some (an_id w)) ?l = (x, l)" by fastforce
    have l: "ok l" "committed l \<le> limit" using reserved_ok [OF _ res] reserved_within [OF _ _ res] I by blast+
    show ?thesis
    proof (cases "\<exists>la pa j. x = Inr (Granted la pa, Some j) \<and> j \<noteq> []")
      case False
      then show ?thesis
        using l by (auto simp: call_pay_def wp_simps res split: sum.split decision.split intro!: wp_mono [OF update])
    next
      case True
      then obtain la pa j where x: "x = Inr (Granted la pa, Some j)" "j \<noteq> []" by blast
      have held: "held l j = Some ?a" using reserve_granted [of ?l] res x I by (fastforce simp: spend_of_def)
      show ?thesis
      proof (cases "an_pay w rail")
        case (Some outcome)
        show ?thesis
        proof (cases outcome)
          case (Paid_by wallet tx a f)
          let ?p = "\<lparr>st_amountMicro = a, st_feeMicro = f, st_txSignature = Some tx\<rparr>"
          have "a + f \<le> ?a" using assms(3) Some Paid_by by (auto simp: honest_payer_def)
          then have "?I (d\<lparr>xc_ledger := l'\<rparr>)" if "lo_settle L (an_now w 3) j ?p l = Inr l'" for l'
            using settle_ok [OF l(1), of j "(an_now w 3, ?p)"] settle_is [OF that] settled [OF l(1) held that] l(2)
            by (simp add: cost_is)
          then show ?thesis
            using l by (auto simp: call_pay_def wp_simps res x Some Paid_by split: sum.split intro!: fail wp_mono [OF update])
        next
          case (Pay_refused e)
          have "?I (d\<lparr>xc_ledger := l'\<rparr>)" if "lo_release L j l = Inr l'" for l'
            using release_ok [OF l(1), of j] release_is [OF that] release_less [OF l(1), of j] l(2) by simp
          then show ?thesis
            using l by (auto simp: call_pay_def wp_simps res x Some Pay_refused split: sum.split intro!: fail)
        next
          case (Pay_unknown e)
          then show ?thesis using l by (auto simp: call_pay_def wp_simps res x Some intro!: fail)
        qed
      qed (use l in \<open>simp add: call_pay_def wp_simps res x\<close>)
    qed
  qed
  have once: "wp (present_once P w rail y n again) (\<lambda>_. ?I) (\<lambda>_. ?I) d"
    if "?I d" "n < 8 \<Longrightarrow> wp again (\<lambda>_. ?I) (\<lambda>_. ?I) d" for rail y n again d
    using that by (auto simp: present_once_def wp_simps Let_def split: option.split intro!: fail finish)
  have present: "wp (present_payment P w rail y n) (\<lambda>_. ?I) (\<lambda>_. ?I) d" if "?I d" for rail y n d
    by (induction n) (auto intro!: once that)
  show ?thesis
    unfolding call_def wp_then
    using assms by (auto simp: wp_simps intro!: wp_mono [OF quote] wp_mono [OF balance] wp_mono [OF pay] present split: option.split)
qed

end

text \<open>A row of calls, one after the other.\<close>

fun calls :: "platform \<Rightarrow> client_options \<Rightarrow> 'l ledger_ops \<Rightarrow> (call_answers \<times> call_request) list \<Rightarrow> 'l client \<Rightarrow> 'l client" where
  "calls P opts L [] c = c"
| "calls P opts L ((w, req) # rest) c = calls P opts L rest (snd (call P opts L w req c))"

context client_ledger
begin

lemma calls_within:
  assumes "ok (xc_ledger c)" "committed (xc_ledger c) \<le> limit" "\<forall>(w, req) \<in> set ws. honest_payer opts w"
  shows "committed (xc_ledger (calls P opts L ws c)) \<le> limit"
proof -
  have "ok (xc_ledger (calls P opts L ws c)) \<and> committed (xc_ledger (calls P opts L ws c)) \<le> limit"
    using assms
  proof (induction ws arbitrary: c)
    case (Cons x ws)
    obtain w req where x: "x = (w, req)" by (cases x)
    have "wp (call P opts L w req) (\<lambda>_ d. ok (xc_ledger d) \<and> committed (xc_ledger d) \<le> limit)
      (\<lambda>_ d. ok (xc_ledger d) \<and> committed (xc_ledger d) \<le> limit) c"
      using Cons.prems by (intro wp_call_within) (auto simp: x)
    then show ?case using Cons by (simp add: x wp_state)
  qed simp
  then show ?thesis ..
qed

end

interpretation memory_client: client_ledger ledger_ok "\<lambda>l. sum_list (map committedMicro (rows l))" held_lifetime
  "mem_reserve_step cfg" mem_settle_step mem_release_step settlement_cost "effective_ceiling cfg" "memory_ops cfg" for cfg
proof unfold_locales
  show "settlement_cost (t, p) = st_amountMicro p + st_feeMicro p" for t p by (simp add: settlement_cost_def)
  show "snd (lo_reserve (memory_ops cfg) now r c l) = mem_reserve_step cfg (now, r, c) l" for now r c l
    by (simp add: memory_ops_def mem_reserve_step_def)
  show "l' = l" if "lo_reserve (memory_ops cfg) now r c l = (Inr (Refused x, entry), l')" for now r c l x entry l'
    using that by (auto simp: memory_ops_def mem_reserve_def Let_def split: decision.splits)
  show "sum_list (map committedMicro (rows l')) = sum_list (map committedMicro (rows l))"
    if "lo_reserve (memory_ops cfg) now r c l = (Inl e, l')" for now r c l e l'
    using that by (simp add: memory_ops_def)
  show "sum_list (map committedMicro (rows l')) = sum_list (map committedMicro (rows l)) + req_amountMicro r
      \<and> (\<exists>j. entry = Some j \<and> j \<noteq> [] \<and> held_lifetime l' j = Some (req_amountMicro r))"
    if ok: "ledger_ok l" and g: "lo_reserve (memory_ops cfg) now r c l = (Inr (Granted a b, entry), l')" for now r c l a b entry l'
  proof -
    have "spend_id (Suc (seqno l)) \<notin> se_id ` set (rows l)" using ok by (fastforce simp: ledger_ok_def)
    then have n: "find (\<lambda>r. se_id r = spend_id (Suc (seqno l))) (rows l) = None" by (fastforce simp: find_None_iff image_iff)
    have ne: "spend_id (Suc (seqno l)) \<noteq> []" by (simp add: spend_id_def)
    have app: "find Q xs = None \<Longrightarrow> Q y \<Longrightarrow> find Q (xs @ [y]) = Some y" for Q xs and y :: spend_entry
      by (induction xs) (auto split: if_splits)
    show ?thesis
      using g by (auto simp: memory_ops_def mem_reserve_def Let_def committedMicro_def held_lifetime_def held_row_def app [OF n] ne split: decision.splits)
  qed
  show "l' = mem_settle_step i (now, p) l" if "lo_settle (memory_ops cfg) now i p l = Inr l'" for now i p l l'
    using that by (auto simp: memory_ops_def map_error_def mem_settle_step_def state_after_def split: sum.splits)
  show "sum_list (map committedMicro (rows l')) = sum_list (map committedMicro (rows l)) - h + settlement_cost (now, p)"
    if good: "ledger_ok l" and has: "held_lifetime l i = Some h" and s: "lo_settle (memory_ops cfg) now i p l = Inr l'" for now i p l l' h
  proof -
    have l': "l' = mem_settle_step i (now, p) l"
      using s by (auto simp: memory_ops_def map_error_def mem_settle_step_def state_after_def split: sum.splits)
    obtain r where r: "held_row l i = Some r" "se_reservedMicro r = h" using has by (auto simp: held_lifetime_def)
    show ?thesis using settle_sum [OF good r(1), of "(now, p)"] r held_rowD(3) [OF r(1)] by (auto simp: l' committedMicro_def)
  qed
  show "l' = mem_release_step i l" if "lo_release (memory_ops cfg) i l = Inr l'" for i l l'
    using that by (auto simp: memory_ops_def map_error_def mem_release_step_def state_after_def split: sum.splits)
  show "sum_list (map committedMicro (rows l')) = sum_list (map committedMicro (rows l)) - h"
    if good: "ledger_ok l" and has: "held_lifetime l i = Some h" and s: "lo_release (memory_ops cfg) i l = Inr l'" for i l l' h
  proof -
    have l': "l' = mem_release_step i l"
      using s by (auto simp: memory_ops_def map_error_def mem_release_step_def state_after_def split: sum.splits)
    obtain r where r: "held_row l i = Some r" "se_reservedMicro r = h" using has by (auto simp: held_lifetime_def)
    show ?thesis using release_sum [OF good r(1), of committedMicro] r held_rowD(3) [OF r(1)] by (simp add: l' committedMicro_def)
  qed
qed (simp_all add: memory_ops_def)

text \<open>The Postgres ledger, through what it refines.\<close>

lemma memory_row_held: "held_lifetime (as_memory (l\<lparr>pl_calls := cs\<rparr>)) j = held_lifetime (as_memory l) j"
  by (simp add: as_memory_def)

interpretation postgres_client: client_ledger "\<lambda>l. ledger_ok (as_memory l)" pg_committed "\<lambda>l i. held_lifetime (as_memory l) (as_id i)"
  "pg_reserve_step cfg" pg_settle_step pg_release_step settlement_cost "effective_ceiling cfg" "postgres_ops cfg" for cfg
proof unfold_locales
  show "settlement_cost (t, p) = st_amountMicro p + st_feeMicro p" for t p by (simp add: settlement_cost_def)
  show "snd (lo_reserve (postgres_ops cfg) now r c l) = pg_reserve_step cfg (now, r, c) l" for now r c l
    by (simp add: postgres_ops_def pg_reserve_step_def)
  show "l' = l" if "lo_reserve (postgres_ops cfg) now r c l = (Inr (Refused x, entry), l')" for now r c l x entry l'
    using that by (auto simp: postgres_ops_def pg_reserve_def map_error_def Let_def split: decision.splits sum.splits if_splits)
  show "pg_committed l' = pg_committed l" if g: "lo_reserve (postgres_ops cfg) now r c l = (Inl e, l')" for now r c l e l'
  proof -
    obtain x where "pg_reserve cfg now r c l = (Inl x, l')"
      using g by (cases "pg_reserve cfg now r c l") (auto simp: postgres_ops_def map_error_def split: sum.splits)
    from reserve_as_memory(2) [OF this] show ?thesis by (simp add: pg_committed_def as_memory_def)
  qed
  show "pg_committed l' = pg_committed l + req_amountMicro r
      \<and> (\<exists>j. entry = Some j \<and> j \<noteq> [] \<and> held_lifetime (as_memory l') (as_id j) = Some (req_amountMicro r))"
    if ok: "ledger_ok (as_memory l)" and g: "lo_reserve (postgres_ops cfg) now r c l = (Inr (Granted a b, entry), l')" for now r c l a b entry l'
  proof -
    have p: "pg_reserve cfg now r c l = (Inr (Granted a b, entry), l')"
      using g by (cases "pg_reserve cfg now r c l") (auto simp: postgres_ops_def map_error_def split: sum.splits)
    have m: "lo_reserve (memory_ops cfg) now r c (as_memory l) = (Inr (Granted a b, map_option as_id entry), as_memory l')"
      using reserve_as_memory(1) [OF p] by (simp add: memory_ops_def)
    have "entry = Some (show_nat (pl_serial l + 1))"
      using p by (auto simp: pg_reserve_def Let_def split: decision.splits if_splits)
    then show ?thesis
      using memory_client.reserve_granted [OF ok m] show_nat_nonempty by (auto simp: pg_committed_def)
  qed
  show "l' = pg_settle_step i (now, p) l" if "lo_settle (postgres_ops cfg) now i p l = Inr l'" for now i p l l'
    using that by (auto simp: postgres_ops_def map_error_def pg_settle_step_def state_after_def split: sum.splits)
  show "pg_committed l' = pg_committed l - h + settlement_cost (now, p)"
    if ok: "ledger_ok (as_memory l)" and h: "held_lifetime (as_memory l) (as_id i) = Some h"
      and s: "lo_settle (postgres_ops cfg) now i p l = Inr l'" for now i p l l' h
  proof -
    have "pg_settle now i p l = Inr l'" using s by (auto simp: postgres_ops_def map_error_def split: sum.splits)
    from settle_as_memory(1) [OF ok this]
    have "lo_settle (memory_ops cfg) now (as_id i) p (as_memory l) = Inr (as_memory l')" by (simp add: memory_ops_def map_error_def)
    from memory_client.settled [OF ok h this] show ?thesis by (simp add: pg_committed_def)
  qed
  show "l' = pg_release_step i l" if "lo_release (postgres_ops cfg) i l = Inr l'" for i l l'
    using that by (auto simp: postgres_ops_def map_error_def pg_release_step_def state_after_def split: sum.splits)
  show "pg_committed l' = pg_committed l - h"
    if ok: "ledger_ok (as_memory l)" and h: "held_lifetime (as_memory l) (as_id i) = Some h"
      and s: "lo_release (postgres_ops cfg) i l = Inr l'" for i l l' h
  proof -
    have "pg_release i l = Inr l'" using s by (auto simp: postgres_ops_def map_error_def split: sum.splits)
    from release_as_memory(1) [OF ok this]
    have "lo_release (memory_ops cfg) (as_id i) (as_memory l) = Inr (as_memory l')" by (simp add: memory_ops_def map_error_def)
    from memory_client.released [OF ok h this] show ?thesis by (simp add: pg_committed_def)
  qed
qed (simp_all add: postgres_ops_def pg_committed_def as_memory_def)

section \<open>Properties\<close>

text \<open>
  However a paid call ends - served, refused, thrown out of at any point - its receipt tells what
  the Postgres ledger counts for it: what was paid and its fee once a payment is known, the reserved
  worst case while its outcome is unknown, nothing when it was refused or served from surplus credit.
  A call returns an answer exactly when its receipt says served.
\<close>

theorem receipt_tells_what_was_spent:
  assumes "ledger_ok (as_memory (xc_ledger c))" "the_receipt (an_id w) c = None"
    and "call P opts (postgres_ops cfg) w req c = (result, d)"
  shows "\<exists>r. the_receipt (an_id w) d = Some r
    \<and> receipt_books (fee_reserve_micro opts) (lifetimeMicro (pg_totals (xc_ledger c))) (lifetimeMicro (pg_totals (xc_ledger d))) r
    \<and> ((\<exists>j. result = Inr j) \<longleftrightarrow> cr_status r = Served)"
proof -
  have t: "lifetimeMicro (pg_totals l) = pg_committed l" for l
    by (simp add: pg_totals_def pg_committed_def as_memory_def comp_def)
  show ?thesis
    using postgres_client.wp_call [OF assms(1,2), of P opts cfg req] assms(3)
    by (cases result) (auto simp: wp_def postgres_client.books_def t)
qed

text \<open>
  C14. However many calls are made, for any phases and whatever gateway and signer answer, what the
  Postgres ledger counts stays within the five-dollar ceiling, as long as no payment costs more than
  the quoted amount and the fee reserve.
\<close>

theorem paid_calls_stay_within_ceiling:
  assumes "budgetConfig envCeiling = Inr cfg" "\<forall>(w, req) \<in> set ws. honest_payer opts w"
    and "xc_ledger c = empty_pg_ledger"
  shows "lifetimeMicro (pg_totals (xc_ledger (calls P opts (postgres_ops cfg) ws c))) \<le> 5000000"
proof -
  have t: "lifetimeMicro (pg_totals l) = pg_committed l" for l
    by (simp add: pg_totals_def pg_committed_def as_memory_def comp_def)
  have e: "ledger_ok (as_memory (xc_ledger c))" "pg_committed (xc_ledger c) = 0"
    by (simp_all add: assms(3) ledger_ok_def as_memory_def empty_pg_ledger_def pg_committed_def)
  have "0 \<le> effective_ceiling cfg" "effective_ceiling cfg \<le> 5000000"
    using budgetConfig_lowers [OF assms(1)] by (simp_all add: effective_ceiling_def HARD_LIFETIME_CEILING_MICRO_def)
  then show ?thesis
    using postgres_client.calls_within [OF e(1) _ assms(2), of cfg P] e(2) by (simp add: t)
qed


section \<open>A call\<close>

definition demo_quote_text :: string where
  "demo_quote_text = stringify (\<lambda>_. []) (JObj [(''quote_id'', JStr ''q''), (''accepts'', JArr [JObj [(''quote_id'', JStr ''q''), (''network'', JStr SOLANA_MAINNET), (''asset'', JStr ''USDC''),
     (''pay_to'', JStr ''GXfqVnZENHzvim8rNN8TPwqxWXQe8EBbxhcEMYE8Z7BS''), (''amount_microunits'', JNum 250)]])])"

definition demo_call_answers :: call_answers where
  "demo_call_answers = \<lparr>an_id = ''c'', an_now = (\<lambda>n. int n),
     an_quote = Some \<lparr>hr_status = 402, hr_headers = [(''payment-required'', demo_quote_text)], hr_text = []\<rparr>,
     an_proof = (\<lambda>_. None), an_balance = None, an_pay = (\<lambda>rail. Some (Paid_by ''w'' ''tx'' (ur_amount rail) 2000)),
     an_settle = (\<lambda>_. Some \<lparr>hr_status = 200, hr_headers = [], hr_text = ''1''\<rparr>)\<rparr>"

definition no_links :: call_links where
  "no_links = \<lparr>ln_bountyId = None, ln_submissionId = None, ln_repo = None, ln_issueNumber = None, ln_prNumber = None,
     ln_evalItemId = None, ln_applicationId = None\<rparr>"

definition demo_call_request :: call_request where
  "demo_call_request = \<lparr>rq_purpose = For_price, rq_phase = P2P3, rq_path = ''/'', rq_body = [(''model'', JStr ''m'')], rq_routing = None, rq_links = no_links\<rparr>"

definition demo_client :: "pg_ledger client" where
  "demo_client = \<lparr>xc_ledger = empty_pg_ledger, xc_receipts = [], xc_surplus = Fin 0\<rparr>"

definition demo_opts :: client_options where
  "demo_opts = \<lparr>co_feeReserveLamports = None, co_solUsdCeilingPrice = None\<rparr>"

lemma demo_fee_reserve: "fee_reserve_micro demo_opts = 4000"
  by (simp add: fee_reserve_micro_def demo_opts_def lamportsToMicroCeil_def ceil_def)

definition demo_usdc :: usdc_rail where
  "demo_usdc = \<lparr>ur_quote_id = ''q'', ur_network = SOLANA_MAINNET, ur_asset = ''USDC'', ur_pay_to = ''p'', ur_amount = 250, ur_expires_at = None\<rparr>"

lemma demo_honest: "honest_payer demo_opts demo_call_answers"
  by (simp add: honest_payer_def demo_call_answers_def demo_fee_reserve)

theorem receipt_tells_what_was_spent_witness:
  "\<exists>r. the_receipt ''c'' (snd (call toy demo_opts (postgres_ops demo_config) demo_call_answers demo_call_request demo_client)) = Some r
    \<and> receipt_books 4000 0 (lifetimeMicro (pg_totals (xc_ledger
        (snd (call toy demo_opts (postgres_ops demo_config) demo_call_answers demo_call_request demo_client))))) r"
proof -
  have "ledger_ok (as_memory (xc_ledger demo_client))" "the_receipt (an_id demo_call_answers) demo_client = None"
    "lifetimeMicro (pg_totals (xc_ledger demo_client)) = 0" "an_id demo_call_answers = ''c''"
    by (simp_all add: demo_client_def empty_pg_ledger_def as_memory_def ledger_ok_def the_receipt_def pg_totals_def demo_call_answers_def)
  from receipt_tells_what_was_spent [OF this(1,2) surjective_pairing, of toy demo_opts demo_config demo_call_request] this(3,4)
  show ?thesis by (auto simp: demo_fee_reserve)
qed

theorem paid_calls_stay_within_ceiling_witness:
  "lifetimeMicro (pg_totals (xc_ledger (calls toy demo_opts (postgres_ops \<lparr>lifetimeCeilingMicro = 5000000, allocations = PHASE_ALLOCATION_MICRO\<rparr>)
     [(demo_call_answers, demo_call_request), (demo_call_answers\<lparr>an_id := ''d''\<rparr>, demo_call_request)] demo_client))) \<le> 5000000"
proof -
  have "budgetConfig None = Inr \<lparr>lifetimeCeilingMicro = 5000000, allocations = PHASE_ALLOCATION_MICRO\<rparr>"
    by (simp add: budgetConfig_def Let_def is_safe_integer_def is_integer_def MAX_SAFE_INTEGER_def HARD_LIFETIME_CEILING_MICRO_def)
  then show ?thesis
    using demo_honest by (intro paid_calls_stay_within_ceiling) (auto simp: honest_payer_def demo_client_def)
qed


end
