(* ===== verification/Gate.thy ===== *)
theory Gate
  imports Prelude JsDate
begin

text \<open>
  packages/gate/src/bounty-repos.ts and gate.ts: which repositories may have bounties, and the
  payout gate that decides whether a merged pull request earns its bounty. A check's detail
  string is prose for the approver; the model keeps the checks' names, order and verdicts.
\<close>

section \<open>Which repositories may have bounties (bounty-repos.ts)\<close>

definition BOUNTY_TEST_REPOS :: "string list" where
  "BOUNTY_TEST_REPOS = [''grainlify/grainlify-agent-sandbox'']"

definition isTestCarveOut :: "string \<Rightarrow> bool" where
  "isTestCarveOut fullName \<longleftrightarrow> to_lower fullName \<in> set BOUNTY_TEST_REPOS"

record repo_bounty_state =
  rb_fullName :: string
  rb_enabled :: bool
  rb_bountiesEnabled :: bool
  rb_registeredProject :: bool

datatype repo_refusal = Repo_not_allowlisted | Bounties_not_enabled | Not_a_registered_project

text \<open>\<open>None\<close> is the verdict ok; a refusal is its reason.\<close>

definition repoMayHaveBounties :: "repo_bounty_state \<Rightarrow> repo_refusal option" where
  "repoMayHaveBounties r =
     (if \<not> rb_enabled r then Some Repo_not_allowlisted
      else if \<not> rb_bountiesEnabled r then Some Bounties_not_enabled
      else if \<not> rb_registeredProject r \<and> \<not> isTestCarveOut (rb_fullName r) then Some Not_a_registered_project
      else None)"

section \<open>The payout gate (gate.ts)\<close>

datatype repo_permission = Admin | Maintain | Write | Triage | Read | NoPermission

record gate_repo =
  gr_fullName :: string
  gr_allowlisted :: bool
  gr_enabled :: bool
  gr_bountiesEnabled :: bool
  gr_registeredProject :: bool

record gate_bounty =
  gb_id :: string
  gb_status :: string
  gb_issueNumber :: int
  gb_amountMinor :: bigint
  gb_currency :: string
  gb_network :: string

record gate_pr =
  gp_number :: int
  gp_merged :: bool
  gp_mergedByLogin :: "string option"
  gp_mergedByPermission :: "repo_permission option"
  gp_authorId :: int
  gp_authorLogin :: string
  gp_authorType :: string
  gp_closesIssues :: "int list"

record gate_assignment =
  ga_githubUserId :: int
  ga_githubLogin :: string

record gate_funded =
  gf_escrowState :: string
  gf_contributorWallet :: "string option"

record gate_facts =
  gf_repo :: gate_repo
  gf_bounty :: gate_bounty
  gf_pr :: gate_pr
  gf_author :: "time_ms option"              \<comment> \<open>when the account was created; None: lookup failed\<close>
  gf_wallet :: "string option"
  gf_assignment :: "gate_assignment option"
  gf_bountyAlreadyHasPayout :: bool
  gf_paidTodayMinor :: bigint
  gf_funded :: "gate_funded option"

record gate_caps =
  gc_perBountyMaxMinor :: bigint
  gc_dailyMaxMinor :: bigint

record gate_policy =
  po_caps :: "string \<rightharpoonup> gate_caps"
  po_minAccountAgeDays :: jsnum
  po_allowedNetworks :: "string list"
  po_fundedNetworks :: "string list option"

datatype check_name =
    Repo_allowlisted | Escrow_holds_funds | Repo_may_have_bounties | Bounty_open | Network_allowed
  | Pr_merged | Pr_closes_bounty_issue | Merged_by_maintainer | Not_self_merged | Assigned_to_author
  | Author_not_bot | Author_account_age | Wallet_linked | Not_already_paid | Within_per_bounty_cap | Within_daily_cap

record gate_result =
  res_pass :: bool
  res_checks :: "(check_name \<times> bool) list"
  res_evaluatedAt :: string

definition MAINTAINER_PERMISSIONS :: "repo_permission list" where
  "MAINTAINER_PERMISSIONS = [Admin, Maintain, Write]"

definition account_age_days :: "time_ms \<Rightarrow> time_ms \<Rightarrow> jsnum" where
  "account_age_days now created = of_int (now - created) / 86400000"

definition gate_checks :: "gate_facts \<Rightarrow> gate_policy \<Rightarrow> time_ms \<Rightarrow> (check_name \<times> bool) list" where
  "gate_checks f p now =
     (let repo = gf_repo f; bounty = gf_bounty f; pr = gf_pr f; mergedBy = gp_mergedByLogin pr in
      [(Repo_allowlisted, gr_allowlisted repo \<and> gr_enabled repo)] @
      (case gf_funded f of
         Some fu \<Rightarrow> [(Escrow_holds_funds, gf_escrowState fu = ''assigned'' \<and> gf_contributorWallet fu \<noteq> None)]
       | None \<Rightarrow> [(Repo_may_have_bounties,
           repoMayHaveBounties \<lparr>rb_fullName = gr_fullName repo, rb_enabled = gr_allowlisted repo \<and> gr_enabled repo,
             rb_bountiesEnabled = gr_bountiesEnabled repo, rb_registeredProject = gr_registeredProject repo\<rparr> = None)]) @
      [(Bounty_open, gb_status bounty = ''posted'' \<or> gb_status bounty = ''in_review''),
       (Network_allowed, gb_network bounty \<in> set (case gf_funded f of
          Some _ \<Rightarrow> (case po_fundedNetworks p of Some ns \<Rightarrow> ns | None \<Rightarrow> []) | None \<Rightarrow> po_allowedNetworks p)),
       (Pr_merged, gp_merged pr),
       (Pr_closes_bounty_issue, gb_issueNumber bounty \<in> set (gp_closesIssues pr)),
       (Merged_by_maintainer, mergedBy \<noteq> None \<and>
          (case gp_mergedByPermission pr of None \<Rightarrow> False | Some perm \<Rightarrow> perm \<in> set MAINTAINER_PERMISSIONS)),
       (Not_self_merged, (case mergedBy of None \<Rightarrow> False | Some m \<Rightarrow> to_lower m \<noteq> to_lower (gp_authorLogin pr))),
       (Assigned_to_author, (case gf_assignment f of None \<Rightarrow> False | Some a \<Rightarrow> ga_githubUserId a = gp_authorId pr)),
       (Author_not_bot, gp_authorType pr = ''User'' \<and> \<not> ends_with (to_lower (gp_authorLogin pr)) ''[bot]''),
       (Author_account_age, (case gf_author f of None \<Rightarrow> False
          | Some created \<Rightarrow> account_age_days now created \<ge> po_minAccountAgeDays p)),
       (Wallet_linked, gf_wallet f \<noteq> None),
       (Not_already_paid, \<not> gf_bountyAlreadyHasPayout f)] @
      (case po_caps p (gb_currency bounty) of
         None \<Rightarrow> [(Within_per_bounty_cap, False), (Within_daily_cap, False)]
       | Some caps \<Rightarrow>
           [(Within_per_bounty_cap, gb_amountMinor bounty > 0 \<and> gb_amountMinor bounty \<le> gc_perBountyMaxMinor caps),
            (Within_daily_cap, gf_paidTodayMinor f + gb_amountMinor bounty \<le> gc_dailyMaxMinor caps)]))"

definition evaluateGate :: "gate_facts \<Rightarrow> gate_policy \<Rightarrow> time_ms \<Rightarrow> gate_result" where
  "evaluateGate f p now =
     (let checks = gate_checks f p now
      in \<lparr>res_pass = list_all snd checks, res_checks = checks, res_evaluatedAt = toISOString now\<rparr>)"

section \<open>What passing means\<close>

lemma gate_pass_iff: "res_pass (evaluateGate f p now) \<longleftrightarrow> list_all snd (gate_checks f p now)"
  by (simp add: evaluateGate_def Let_def)

lemmas gate_unfold = gate_pass_iff gate_checks_def Let_def

lemma maintainer_permissions [simp]: "perm \<in> set MAINTAINER_PERMISSIONS \<longleftrightarrow> perm \<in> {Admin, Maintain, Write}"
  by (simp add: MAINTAINER_PERMISSIONS_def)

text \<open>
  C3. A pull request that passes the gate was merged by somebody other than its author who may
  write to the repository, its author is the person the bounty is assigned to and has a linked
  wallet, the bounty is open and unpaid, and paying it stays within both caps of its currency.
\<close>

theorem gate_pass_authorises:
  assumes "res_pass (evaluateGate f p now)"
  shows "(\<exists>m perm. gp_mergedByLogin (gf_pr f) = Some m \<and> to_lower m \<noteq> to_lower (gp_authorLogin (gf_pr f))
            \<and> gp_mergedByPermission (gf_pr f) = Some perm \<and> perm \<in> {Admin, Maintain, Write})
    \<and> gp_merged (gf_pr f) \<and> gb_issueNumber (gf_bounty f) \<in> set (gp_closesIssues (gf_pr f))
    \<and> (\<exists>a. gf_assignment f = Some a \<and> ga_githubUserId a = gp_authorId (gf_pr f))
    \<and> (\<exists>w. gf_wallet f = Some w) \<and> \<not> gf_bountyAlreadyHasPayout f
    \<and> gb_status (gf_bounty f) \<in> {''posted'', ''in_review''}
    \<and> (\<exists>c. po_caps p (gb_currency (gf_bounty f)) = Some c \<and> 0 < gb_amountMinor (gf_bounty f)
          \<and> gb_amountMinor (gf_bounty f) \<le> gc_perBountyMaxMinor c
          \<and> gf_paidTodayMinor f + gb_amountMinor (gf_bounty f) \<le> gc_dailyMaxMinor c)"
  using assms by (auto simp: gate_unfold split: option.splits)

definition demo_facts :: gate_facts where
  "demo_facts = \<lparr>
     gf_repo = \<lparr>gr_fullName = ''o/r'', gr_allowlisted = True, gr_enabled = True, gr_bountiesEnabled = True, gr_registeredProject = True\<rparr>,
     gf_bounty = \<lparr>gb_id = ''b1'', gb_status = ''posted'', gb_issueNumber = 7, gb_amountMinor = 5, gb_currency = ''USDC'', gb_network = ''n''\<rparr>,
     gf_pr = \<lparr>gp_number = 8, gp_merged = True, gp_mergedByLogin = Some ''Mo'', gp_mergedByPermission = Some Write,
       gp_authorId = 42, gp_authorLogin = ''al'', gp_authorType = ''User'', gp_closesIssues = [7]\<rparr>,
     gf_author = Some 0, gf_wallet = Some ''w'',
     gf_assignment = Some \<lparr>ga_githubUserId = 42, ga_githubLogin = ''al''\<rparr>,
     gf_bountyAlreadyHasPayout = False, gf_paidTodayMinor = 10, gf_funded = None\<rparr>"

definition demo_policy :: gate_policy where
  "demo_policy = \<lparr>po_caps = [''USDC'' \<mapsto> \<lparr>gc_perBountyMaxMinor = 5, gc_dailyMaxMinor = 15\<rparr>],
     po_minAccountAgeDays = 30, po_allowedNetworks = [''n''], po_fundedNetworks = None\<rparr>"

lemmas gate_demo = demo_facts_def demo_policy_def gate_unfold repoMayHaveBounties_def account_age_days_def
  to_lower_def to_lower_char_def is_upper_def code_def ends_with_def

theorem gate_pass_authorises_witness:
  "res_pass (evaluateGate demo_facts demo_policy (30 * 86400000))
   \<and> (\<exists>c. po_caps demo_policy ''USDC'' = Some c \<and> gf_paidTodayMinor demo_facts + 5 \<le> gc_dailyMaxMinor c)"
proof -
  have pass: "res_pass (evaluateGate demo_facts demo_policy (30 * 86400000))"
    by (simp add: gate_demo)
  show ?thesis using pass gate_pass_authorises [OF pass] by (simp add: demo_facts_def) blast
qed



text \<open>
  The gate reports every check, whatever fails: the same fifteen checks in the same order
  for every bounty, the escrow check taking the place of the repository's bounty check for a
  funded one, and it passes exactly when each of them does.
\<close>

theorem gate_reports_every_check:
  "map fst (res_checks (evaluateGate f p now)) =
     [Repo_allowlisted, if gf_funded f = None then Repo_may_have_bounties else Escrow_holds_funds, Bounty_open,
      Network_allowed, Pr_merged, Pr_closes_bounty_issue, Merged_by_maintainer, Not_self_merged, Assigned_to_author,
      Author_not_bot, Author_account_age, Wallet_linked, Not_already_paid, Within_per_bounty_cap, Within_daily_cap]
   \<and> (res_pass (evaluateGate f p now) \<longleftrightarrow> list_all snd (res_checks (evaluateGate f p now)))"
  by (auto simp: evaluateGate_def gate_checks_def Let_def list_all_iff split: option.splits)

text \<open>
  A repository outside the registered projects may have bounties only if it is the one
  sandbox named in the code, in any spelling of its case; and no repository may that is not
  both allowlisted and switched on.
\<close>

theorem only_the_sandbox_is_carved_out:
  "repoMayHaveBounties r = None \<longleftrightarrow>
     rb_enabled r \<and> rb_bountiesEnabled r
     \<and> (rb_registeredProject r \<or> to_lower (rb_fullName r) = ''grainlify/grainlify-agent-sandbox'')"
  by (simp add: repoMayHaveBounties_def isTestCarveOut_def BOUNTY_TEST_REPOS_def)

end
