(* ===== verification/DrawConfig.thy ===== *)
theory DrawConfig
  imports JsNumber
begin

text \<open>
  packages/gate/src/draw-config.ts: the table of settings an admin can change, the defaults, and
  the validation of a new value. A setting's description is prose and is left out. The lookup
  \<open>SETTINGS_BY_KEY[key]\<close> is the language's: a name every object inherits is found too, and what it
  finds has none of a setting's fields.
\<close>

datatype setting_type = IntT | FloatT | BoolT | EnumT

record setting =
  st_key :: string
  st_type :: setting_type
  st_default :: string
  st_section :: string
  st_min :: "jsnum option"
  st_max :: "jsnum option"
  st_values :: "string list option"

definition DRAW_SETTINGS :: "setting list" where
  "DRAW_SETTINGS =
      [setting.make ''application_window_hours'' IntT ''6'' ''Window'' (Some 1) (Some 720) None,
       setting.make ''auto_draw_enabled'' BoolT ''true'' ''Window'' None None None,
       setting.make ''empty_window_extension_hours'' IntT ''6'' ''Window'' (Some 0) (Some 720) None,
       setting.make ''max_window_extensions'' IntT ''3'' ''Window'' (Some 0) (Some 20) None,
       setting.make ''applicant_count_visibility'' EnumT ''bucketed'' ''Window'' None None (Some [''hidden'', ''bucketed'', ''exact'']),
       setting.make ''assignment_stale_hours'' IntT ''72'' ''Assignment'' (Some 1) (Some 2160) None,
       setting.make ''reservation_fallback_to_open_pool'' BoolT ''true'' ''Newcomer reservation'' None None None,
       setting.make ''assignment_expiry_warning_hours'' IntT ''24'' ''Assignment'' (Some 1) (Some 720) None,
       setting.make ''block_org_members'' BoolT ''true'' ''Hard gates'' None None None,
       setting.make ''min_account_age_days'' IntT ''30'' ''Hard gates'' (Some 0) (Some 3650) None,
       setting.make ''require_linked_wallet_to_apply'' BoolT ''true'' ''Hard gates'' None None None,
       setting.make ''max_active_assignments_per_person'' IntT ''1'' ''Hard gates'' (Some 1) (Some 10) None,
       setting.make ''ai_fit_assessment_enabled'' BoolT ''false'' ''Fit assessment'' None None None,
       setting.make ''funded_bounties_enabled'' BoolT ''false'' ''Funded bounties'' None None None,
       setting.make ''funded_bounty_fee_bps'' IntT ''250'' ''Funded bounties'' (Some 0) (Some 1000) None,
       setting.make ''funded_bounty_fee_minimum_minor'' IntT ''250000'' ''Funded bounties'' (Some 0) None None,
       setting.make ''fit_difficulty_tier'' EnumT ''standard'' ''Fit assessment'' None None (Some [''easy'', ''standard'', ''advanced'']),
       setting.make ''weight_fit_strong'' FloatT ''2.0'' ''Weights'' (Some 0) (Some 100) None,
       setting.make ''weight_fit_plausible'' FloatT ''1.0'' ''Weights'' (Some 0) (Some 100) None,
       setting.make ''weight_fit_weak'' FloatT ''0.25'' ''Weights'' (Some 0) (Some 100) None,
       setting.make ''weight_difficulty_above'' FloatT ''0.5'' ''Weights'' (Some 0) (Some 100) None,
       setting.make ''weight_prior_completion'' FloatT ''1.5'' ''Weights'' (Some 0) (Some 100) None,
       setting.make ''weight_first_ever_application'' FloatT ''1.5'' ''Weights'' (Some 0) (Some 100) None,
       setting.make ''weight_per_abandon'' FloatT ''0.5'' ''Weights'' (Some 0) (Some 100) None]"

definition object_prototype_keys :: "string list" where
  "object_prototype_keys =
     [''constructor'', ''hasOwnProperty'', ''isPrototypeOf'', ''propertyIsEnumerable'', ''toString'', ''valueOf'',
      ''toLocaleString'', ''__proto__'', ''__defineGetter__'', ''__defineSetter__'', ''__lookupGetter__'',
      ''__lookupSetter__'']"

datatype lookup = Own setting | Inherited | Missing

definition SETTINGS_BY_KEY :: "string \<Rightarrow> lookup" where
  "SETTINGS_BY_KEY key =
     (case find (\<lambda>s. st_key s = key) DRAW_SETTINGS of
        Some s \<Rightarrow> Own s
      | None \<Rightarrow> if key \<in> set object_prototype_keys then Inherited else Missing)"

definition WAIVABLE_ELIGIBILITY_RULES :: "string list" where
  "WAIVABLE_ELIGIBILITY_RULES = [''block_org_members'']"

definition isWaivable :: "string \<Rightarrow> bool" where
  "isWaivable rule \<longleftrightarrow> rule \<in> set WAIVABLE_ELIGIBILITY_RULES"

definition withDefaults :: "(string \<rightharpoonup> string) \<Rightarrow> (string \<rightharpoonup> string)" where
  "withDefaults overrides =
     foldl (\<lambda>out s. out(st_key s \<mapsto> (case overrides (st_key s) of Some v \<Rightarrow> v | None \<Rightarrow> st_default s)))
       Map.empty DRAW_SETTINGS"

definition boolOf :: "string option \<Rightarrow> bool \<Rightarrow> bool" where
  "boolOf v fallback =
     (case v of None \<Rightarrow> fallback | Some x \<Rightarrow> x = ''true'' \<or> x = ''yes'' \<or> x = ''1'')"

definition intOf :: "string option \<Rightarrow> jsnum \<Rightarrow> jsnum" where
  "intOf v fallback =
     (case parseInt10 (case v of None \<Rightarrow> ''undefined'' | Some x \<Rightarrow> x) of Fin n \<Rightarrow> n | _ \<Rightarrow> fallback)"

datatype setting_error = Unknown_setting string | Must_be_true_or_false | Must_be_one_of "string list option"
  | Must_be_a_number | Must_be_a_whole_number | Must_be_at_least jsnum | Must_be_at_most jsnum

text \<open>The numeric branch, for the type and bounds found: all absent on an inherited name.\<close>

definition validate_number :: "bool \<Rightarrow> jsnum option \<Rightarrow> jsnum option \<Rightarrow> string \<Rightarrow> setting_error option" where
  "validate_number isInt mn mx value =
     (case Number_of value of
        Fin n \<Rightarrow>
          if isInt \<and> \<not> is_integer n then Some Must_be_a_whole_number
          else if (case mn of Some m \<Rightarrow> n < m | None \<Rightarrow> False) then Some (Must_be_at_least (the mn))
          else if (case mx of Some m \<Rightarrow> n > m | None \<Rightarrow> False) then Some (Must_be_at_most (the mx))
          else None
      | _ \<Rightarrow> Some Must_be_a_number)"

definition validate :: "string \<Rightarrow> string \<Rightarrow> setting_error option" where
  "validate key value =
     (case SETTINGS_BY_KEY key of
        Missing \<Rightarrow> Some (Unknown_setting key)
      | Inherited \<Rightarrow> validate_number False None None value
      | Own s \<Rightarrow>
          (if st_type s = BoolT
             then (if value = ''true'' \<or> value = ''false'' then None else Some Must_be_true_or_false)
           else if st_type s = EnumT
             then (if (case st_values s of Some vs \<Rightarrow> value \<in> set vs | None \<Rightarrow> False) then None
                   else Some (Must_be_one_of (st_values s)))
           else validate_number (st_type s = IntT) (st_min s) (st_max s) value))"

datatype bucket = None_bucket | Few | Many

definition applicantBucket :: "int \<Rightarrow> bucket" where
  "applicantBucket n = (if n = 0 then None_bucket else if n < 5 then Few else Many)"

section \<open>Defaults and validation\<close>

lemma settings_keys_distinct: "distinct (map st_key DRAW_SETTINGS)"
  by (simp add: DRAW_SETTINGS_def setting.defs)

lemma find_setting: "s \<in> set DRAW_SETTINGS \<Longrightarrow> SETTINGS_BY_KEY (st_key s) = Own s"
  using find_key_eq [OF settings_keys_distinct, of s] by (simp add: SETTINGS_BY_KEY_def)

lemma foldl_upd:
  "distinct (map f ss) \<Longrightarrow>
   foldl (\<lambda>out s. out(f s \<mapsto> g s)) m ss k =
     (case find (\<lambda>s. f s = k) ss of Some s \<Rightarrow> Some (g s) | None \<Rightarrow> m k)"
proof (induction ss arbitrary: m)
  case (Cons s ss)
  have "find (\<lambda>s'. f s' = f s) ss = None" using Cons.prems by (auto simp: find_None_iff image_iff)
  with Cons show ?case by (cases "f s = k") auto
qed simp

lemma defaults_validate: "list_all (\<lambda>s. validate (st_key s) (st_default s) = None) DRAW_SETTINGS"
  by (simp add: number_eval validate_def SETTINGS_BY_KEY_def DRAW_SETTINGS_def setting.defs validate_number_def
      is_integer_def)

text \<open>
  Resolving the configuration gives every setting a value: the stored override when there is
  one and the coded default otherwise; it never lets a name outside the table through. Every
  coded default passes the validation an admin's value must pass, so an empty settings table is a
  working programme.
\<close>

theorem withDefaults_resolves:
  "withDefaults ov k =
     (case find (\<lambda>s. st_key s = k) DRAW_SETTINGS of
        None \<Rightarrow> None | Some s \<Rightarrow> Some (case ov k of Some v \<Rightarrow> v | None \<Rightarrow> st_default s))
   \<and> list_all (\<lambda>s. validate (st_key s) (st_default s) = None) DRAW_SETTINGS"
  using defaults_validate
  by (auto simp: withDefaults_def foldl_upd [OF settings_keys_distinct] split: option.split dest: find_SomeD)

lemma validate_int_iff:
  assumes "s \<in> set DRAW_SETTINGS" "st_type s = IntT"
  shows "validate (st_key s) v = None \<longleftrightarrow>
     (\<exists>n. Number_of v = Fin n \<and> is_integer n \<and> (\<forall>m. st_min s = Some m \<longrightarrow> m \<le> n) \<and> (\<forall>m. st_max s = Some m \<longrightarrow> n \<le> m))"
  using assms find_setting [OF assms(1)]
  by (auto simp: validate_def validate_number_def not_less split: xnum.splits option.splits)

text \<open>
  An accepted whole-number setting written in plain decimal digits is read back as the number
  it says, and that number is within the setting's bounds whatever the caller's fallback is.
\<close>

theorem accepted_setting_is_read_within_bounds:
  assumes "s \<in> set DRAW_SETTINGS" "st_type s = IntT" "validate (st_key s) (show_nat n) = None"
  shows "intOf (Some (show_nat n)) fallback = of_nat n
     \<and> (\<forall>m. st_min s = Some m \<longrightarrow> m \<le> of_nat n) \<and> (\<forall>m. st_max s = Some m \<longrightarrow> of_nat n \<le> m)"
proof -
  obtain k where k: "Number_of (show_nat n) = Fin k" "\<forall>m. st_min s = Some m \<longrightarrow> m \<le> k" "\<forall>m. st_max s = Some m \<longrightarrow> k \<le> m"
    using assms validate_int_iff by blast
  then have t: "to_number (of_nat n) = Fin k" by (simp add: Number_of_show_nat)
  then have "k = of_nat n" using finite_to_number [of "of_nat n"] by simp
  then show ?thesis using k t by (simp add: intOf_def parseInt10_show_nat)
qed

theorem accepted_setting_is_read_within_bounds_witness:
  "intOf (Some (show_nat 12)) 6 = of_nat 12"
proof -
  let ?s = "setting.make ''application_window_hours'' IntT ''6'' ''Window'' (Some 1) (Some 720) None"
  have "?s \<in> set DRAW_SETTINGS" by (simp add: DRAW_SETTINGS_def)
  moreover have "validate (st_key ?s) (show_nat 12) = None" by code_simp
  ultimately show ?thesis
    using accepted_setting_is_read_within_bounds [of ?s 12 6] by (simp add: setting.defs)
qed

text \<open>
  Validation and use read a value differently: a window length of \<open>0x10\<close> is accepted as sixteen
  hours, above the minimum of one, and is then used as zero hours. A name that every object
  inherits is accepted as a setting, and a weak fit may be weighted zero.
\<close>

theorem validation_gaps:
  "validate ''application_window_hours'' ''0x10'' = None \<and> intOf (Some ''0x10'') 6 = 0
   \<and> validate ''toString'' ''5'' = None \<and> validate ''weight_fit_weak'' ''0'' = None"
  by code_simp

end
