(* ===== verification/Draw.thy ===== *)
theory Draw
  imports DrawConfig "HOL-Library.Word"
begin

text \<open>
  packages/gate/src/draw.ts: the weighted draw that assigns a bounty. Ticket counts are exact
  rationals, with NaN and the infinities a configured weight can reach; the generator is
  mulberry32 on 32-bit words.
\<close>

unbundle bit_operations_syntax

section \<open>Weights and tickets\<close>

definition PRIOR_COMPLETION_CAP :: int where
  "PRIOR_COMPLETION_CAP = 2"

datatype fit_band = Strong | Plausible | Weak
datatype difficulty_match = Below | Matched | Above

record draw_applicant =
  da_githubUserId :: int
  da_githubLogin :: string
  da_fit :: "fit_band option"
  da_difficultyMatch :: "difficulty_match option"
  da_completions :: int
  da_priorAssignments :: int
  da_abandons :: int

record candidate =
  ca_githubUserId :: int
  ca_githubLogin :: string
  ca_fit :: fit_band
  ca_weights :: "(string \<times> xnum) list"
  ca_tickets :: xnum

datatype no_winner = No_applicants | Every_candidate_had_zero_tickets

record draw_result =
  dr_seed :: int
  dr_pool :: "candidate list"
  dr_winner :: "candidate option"
  dr_firstComeFallback :: bool
  dr_noWinnerReason :: "no_winner option"

type_synonym draw_config = "string \<rightharpoonup> string"

definition num_or :: "string option \<Rightarrow> jsnum \<Rightarrow> xnum" where
  "num_or v fallback =
     (case v of None \<Rightarrow> Fin fallback
      | Some s \<Rightarrow> if s = [] \<or> Number_of s = NaN then Fin fallback else Number_of s)"

definition weightsFor :: "draw_applicant \<Rightarrow> draw_config \<Rightarrow> (string \<times> xnum) list" where
  "weightsFor a cfg =
     (case da_fit a of
        Some Strong \<Rightarrow> [(''fit_strong'', num_or (cfg ''weight_fit_strong'') 2)]
      | Some Weak \<Rightarrow> [(''fit_weak'', num_or (cfg ''weight_fit_weak'') (1 / 4))]
      | _ \<Rightarrow> [(''fit_plausible'', num_or (cfg ''weight_fit_plausible'') 1)])
     @ (if da_difficultyMatch a = Some Above
        then [(''difficulty_above'', num_or (cfg ''weight_difficulty_above'') (1 / 2))] else [])
     @ (if da_completions a > 0
        then [(''prior_completion'',
               xpow (num_or (cfg ''weight_prior_completion'') (3 / 2)) (nat (min (da_completions a) PRIOR_COMPLETION_CAP)))]
        else [])
     @ (if da_priorAssignments a = 0
        then [(''first_ever_application'', num_or (cfg ''weight_first_ever_application'') (3 / 2))] else [])
     @ (if da_abandons a > 0
        then [(''per_abandon'', xpow (num_or (cfg ''weight_per_abandon'') (1 / 2)) (nat (da_abandons a)))] else [])"

definition ticketsFrom :: "(string \<times> xnum) list \<Rightarrow> xnum" where
  "ticketsFrom w = foldl (\<lambda>t f. xmul t (snd f)) (Fin 1) w"

section \<open>The generator and the pick\<close>

definition imul :: "32 word \<Rightarrow> 32 word \<Rightarrow> 32 word" where
  "imul x y = x * y"

text \<open>One call of the closure \<open>seededRng\<close> returns: the state is \<open>a\<close>, the result the number drawn.\<close>

definition rng_next :: "32 word \<Rightarrow> 32 word \<times> jsnum" where
  "rng_next a0 =
     (let a = a0 + 0x6d2b79f5;
          t = imul (a XOR drop_bit 15 a) (1 OR a);
          t' = (t + imul (t XOR drop_bit 7 t) (61 OR t)) XOR t
      in (a, of_int (uint (t' XOR drop_bit 14 t')) / 4294967296))"

definition seededRng :: "int \<Rightarrow> 32 word" where
  "seededRng seed = word_of_int seed"

fun pick_loop :: "xnum \<Rightarrow> nat \<Rightarrow> xnum list \<Rightarrow> nat option" where
  "pick_loop r i [] = None"
| "pick_loop r i (t # ts) =
     (let r' = xadd r (xneg t) in if xle r' (Fin 0) then Some i else pick_loop r' (Suc i) ts)"

definition pickWeighted :: "jsnum \<Rightarrow> xnum list \<Rightarrow> int" where
  "pickWeighted rng tickets =
     (let total = foldl xadd (Fin 0) tickets in
      if xle total (Fin 0) then -1
      else case pick_loop (xmul (Fin rng) total) 0 tickets of
             Some i \<Rightarrow> int i | None \<Rightarrow> int (length tickets) - 1)"

definition candidate_of :: "draw_config \<Rightarrow> draw_applicant \<Rightarrow> candidate" where
  "candidate_of cfg a =
     (let weights = weightsFor a cfg in
      \<lparr>ca_githubUserId = da_githubUserId a, ca_githubLogin = da_githubLogin a,
       ca_fit = (case da_fit a of Some f \<Rightarrow> f | None \<Rightarrow> Plausible), ca_weights = weights,
       ca_tickets = ticketsFrom weights\<rparr>)"

definition runDraw :: "draw_applicant list \<Rightarrow> draw_config \<Rightarrow> int \<Rightarrow> draw_result" where
  "runDraw applicants cfg seed =
     (let pool = map (candidate_of cfg) applicants;
          done = (\<lambda>w fallback why. \<lparr>dr_seed = seed, dr_pool = pool, dr_winner = w, dr_firstComeFallback = fallback,
                   dr_noWinnerReason = why\<rparr>)
      in if pool = [] then done None False (Some No_applicants)
         else let idx = pickWeighted (snd (rng_next (seededRng seed))) (map ca_tickets pool) in
           if idx < 0 then done (Some (pool ! 0)) True (Some Every_candidate_had_zero_tickets)
           else done (Some (pool ! nat idx)) False None)"

section \<open>The draw\<close>

definition mix :: "32 word \<Rightarrow> 32 word" where
  "mix a =
     (let t = imul (a XOR drop_bit 15 a) (1 OR a); t' = (t + imul (t XOR drop_bit 7 t) (61 OR t)) XOR t
      in t' XOR drop_bit 14 t')"

lemma rng_next_mix: "snd (rng_next a) = of_int (uint (mix (a + 0x6d2b79f5))) / 4294967296"
  by (simp add: rng_next_def mix_def Let_def)

lemma xor_zero_eq: "(a :: 32 word) XOR b = 0 \<Longrightarrow> a = b"
proof -
  assume "a XOR b = 0"
  moreover have "(a XOR b) XOR b = a" by (simp add: xor.assoc)
  ultimately show "a = b" by simp
qed

lemma uint_pos: "(w :: 32 word) \<noteq> 0 \<Longrightarrow> 0 < uint w"
proof -
  assume "w \<noteq> 0"
  then have "uint w \<noteq> 0" by (simp only: uint_0_iff) simp
  moreover have "0 \<le> uint w" by (rule unsigned_greater_eq)
  ultimately show ?thesis by linarith
qed

lemma xorshift_zero:
  fixes w :: "32 word" assumes "0 < k" "w XOR drop_bit k w = 0" shows "w = 0"
proof -
  have "drop_bit k w = w" using xor_zero_eq [OF assms(2)] by simp
  moreover have "uint (drop_bit k w) = uint w div 2 ^ k"
    using uint_lt2p [of w] mod_pos_pos_trivial [of "uint w" "2 ^ 32"]
    by (subst unsigned_drop_bit_eq) (simp add: drop_bit_eq_div take_bit_eq_mod unsigned_greater_eq)
  ultimately have u: "uint w div 2 ^ k = uint w" by metis
  show ?thesis
  proof (rule ccontr)
    assume "w \<noteq> 0"
    then have "0 < uint w" by (rule uint_pos)
    moreover have "(2::int) \<le> 2 ^ k" using \<open>0 < k\<close> by (cases k) auto
    ultimately have "uint w div 2 ^ k < uint w" by (intro int_div_less_self) auto
    with u show False by simp
  qed
qed

lemma imul_odd_zero:
  assumes "imul x y = 0" "odd y" shows "x = 0"
proof -
  have "uint (x * y) = 0" using assms(1) by (simp add: imul_def)
  then have "(2::int) ^ 32 dvd uint x * uint y" by (simp add: uint_word_ariths(3) mod_eq_0_iff_dvd)
  moreover have "odd (uint y)" using assms(2) by (simp only: bit_0 [symmetric] bit_uint_iff) simp
  then have "coprime ((2::int) ^ 32) (uint y)" by (metis coprime_commute coprime_power_right_iff coprime_right_2_iff_odd)
  ultimately have "(2::int) ^ 32 dvd uint x" by (simp add: coprime_dvd_mult_left_iff)
  then have "uint x = 0" 
  proof -
    assume d: "(2::int) ^ 32 dvd uint x"
    have "\<not> 0 < uint x"
    proof
      assume "0 < uint x"
      then have "(2::int) ^ 32 \<le> uint x" by (rule zdvd_imp_le [OF d])
      then show False using uint_lt2p [of x] by simp
    qed
    then show "uint x = 0" using unsigned_greater_eq [of x, where 'a = int] by linarith
  qed
  then show ?thesis by (simp only: uint_0_iff)
qed

lemma mix_zero: "mix a = 0 \<Longrightarrow> a = 0"
proof -
  assume z: "mix a = 0"
  define t where "t = imul (a XOR drop_bit 15 a) (1 OR a)"
  define t' where "t' = (t + imul (t XOR drop_bit 7 t) (61 OR t)) XOR t"
  have "t' XOR drop_bit 14 t' = 0" using z by (simp add: mix_def Let_def t_def t'_def)
  then have "t' = 0" by (rule xorshift_zero [rotated]) simp
  then have "t + imul (t XOR drop_bit 7 t) (61 OR t) = t" unfolding t'_def by (rule xor_zero_eq)
  then have "imul (t XOR drop_bit 7 t) (61 OR t) = 0" by (simp only: add_cancel_left_right)
  moreover have "odd (61 OR t)" by (simp add: even_or_iff)
  ultimately have "t XOR drop_bit 7 t = 0" by (rule imul_odd_zero)
  then have "t = 0" by (rule xorshift_zero [rotated]) simp
  then have "imul (a XOR drop_bit 15 a) (1 OR a) = 0" by (simp only: t_def)
  moreover have "odd (1 OR a)" by (subst even_or_iff) simp
  ultimately have "a XOR drop_bit 15 a = 0" by (rule imul_odd_zero)
  then show "a = 0" by (rule xorshift_zero [rotated]) simp
qed

lemma rng_range: "0 \<le> snd (rng_next a) \<and> snd (rng_next a) < 1"
proof -
  let ?w = "mix (a + 0x6d2b79f5)"
  have "uint ?w < 2 ^ 32" using uint_lt2p [of ?w] by simp
  then have "(of_int (uint ?w) :: rat) < of_int (2 ^ 32)" by (subst of_int_less_iff)
  moreover have "(0::rat) \<le> of_int (uint ?w)" by (simp only: of_int_0_le_iff unsigned_greater_eq)
  ultimately show ?thesis unfolding rng_next_mix by (simp add: divide_less_eq)
qed

lemma rng_positive:
  assumes "0 \<le> seed" "seed < 2 ^ 31" shows "0 < snd (rng_next (seededRng seed))"
proof -
  have "uint (word_of_int seed + 0x6d2b79f5 :: 32 word) = seed + 0x6d2b79f5"
    using assms by (simp add: uint_word_ariths(1) uint_word_of_int take_bit_eq_mod)
  then have "(word_of_int seed + 0x6d2b79f5 :: 32 word) \<noteq> 0" using assms by auto
  then have "mix (word_of_int seed + 0x6d2b79f5) \<noteq> 0" using mix_zero by blast
  then have "0 < uint (mix (word_of_int seed + 0x6d2b79f5))" by (rule uint_pos)
  then have "(0::rat) < of_int (uint (mix (word_of_int seed + 0x6d2b79f5)))" by (simp only: of_int_0_less_iff)
  then show ?thesis by (simp add: rng_next_mix seededRng_def)
qed

lemma pick_loop_bound: "pick_loop r i ts = Some k \<Longrightarrow> i \<le> k \<and> k < i + length ts"
  by (induction ts arbitrary: r i) (force simp: Let_def split: if_splits)+

lemma pickWeighted_bound: "ts \<noteq> [] \<Longrightarrow> -1 \<le> pickWeighted r ts \<and> pickWeighted r ts < int (length ts)"
  using pick_loop_bound [of "xmul (Fin r) (foldl xadd (Fin 0) ts)" 0 ts]
  by (auto simp: pickWeighted_def Let_def split: option.splits)

text \<open>
  A draw over any applicants and any configuration always ends with a winner, who is one of
  the applicants and carries the weights the configuration gives them; only an empty pool has
  none, and it says so.
\<close>

theorem draw_always_finds_an_applicant:
  "(applicants = [] \<longrightarrow> dr_winner (runDraw applicants cfg seed) = None
       \<and> dr_noWinnerReason (runDraw applicants cfg seed) = Some No_applicants)
   \<and> (applicants \<noteq> [] \<longrightarrow> (\<exists>a \<in> set applicants. dr_winner (runDraw applicants cfg seed) = Some (candidate_of cfg a)))"
proof (cases "applicants = []")
  case False
  let ?r = "snd (rng_next (seededRng seed))" and ?ts = "map ca_tickets (map (candidate_of cfg) applicants)"
  have b: "-1 \<le> pickWeighted ?r ?ts \<and> pickWeighted ?r ?ts < int (length ?ts)"
    using False by (intro pickWeighted_bound) simp
  then show ?thesis using False
    by (auto simp: runDraw_def Let_def intro: nth_mem)
qed (simp add: runDraw_def)

theorem draw_always_finds_an_applicant_witness:
  "dr_noWinnerReason (runDraw [] Map.empty 7) = Some No_applicants"
  using draw_always_finds_an_applicant [of "[]" Map.empty 7] by simp

section \<open>The pick is in proportion to the tickets\<close>

lemma total_Fin: "foldl xadd (Fin a) (map Fin qs) = Fin (a + sum_list qs)"
  by (induction qs arbitrary: a) (auto simp: add.assoc)

lemma pick_loop_Fin:
  "\<forall>q \<in> set qs. 0 \<le> q \<Longrightarrow> 0 < r \<Longrightarrow>
   pick_loop (Fin r) i (map Fin qs) = Some (i + k) \<longleftrightarrow>
     k < length qs \<and> sum_list (take k qs) < r \<and> r \<le> sum_list (take (Suc k) qs)"
proof (induction qs arbitrary: r i k)
  case (Cons q qs)
  show ?case
  proof (cases "r \<le> q")
    case True
    have "q + sum_list (take j qs) < r \<longleftrightarrow> False" for j
      using True Cons.prems sum_list_nonneg [of "take j qs"] by (force dest: in_set_takeD)
    then show ?thesis using True Cons.prems by (cases k) auto
  next
    case False
    then have r: "0 < r - q" using Cons.prems by simp
    show ?thesis
    proof (cases k)
      case 0
      then show ?thesis using False Cons.prems pick_loop_bound [of "Fin (r - q)" "Suc i" "map Fin qs"] by auto
    next
      case (Suc j)
      have "pick_loop (Fin (r - q)) (Suc i) (map Fin qs) = Some (Suc i + j) \<longleftrightarrow>
          j < length qs \<and> sum_list (take j qs) < r - q \<and> r - q \<le> sum_list (take (Suc j) qs)"
        by (rule Cons.IH) (use Cons.prems r in auto)
      then show ?thesis using False Suc by (auto simp: algebra_simps)
    qed
  qed
qed simp

lemma pick_loop_total:
  "\<forall>q \<in> set qs. 0 \<le> q \<Longrightarrow> 0 < r \<Longrightarrow> r \<le> sum_list qs \<Longrightarrow> \<exists>j. pick_loop (Fin r) i (map Fin qs) = Some j"
  by (induction qs arbitrary: r i) (auto simp: Let_def)



section \<open>Draws under an accepted configuration\<close>

definition weight_keys :: "string list" where
  "weight_keys = [''weight_fit_strong'', ''weight_fit_plausible'', ''weight_fit_weak'', ''weight_difficulty_above'',
     ''weight_prior_completion'', ''weight_first_ever_application'', ''weight_per_abandon'']"

text \<open>What the dashboard accepts: each stored weight passed the validation.\<close>

definition accepted_weights :: "draw_config \<Rightarrow> bool" where
  "accepted_weights cfg \<longleftrightarrow> (\<forall>k \<in> set weight_keys. \<forall>v. cfg k = Some v \<longrightarrow> validate k v = None)"

lemma weight_settings:
  "list_all (\<lambda>k. case SETTINGS_BY_KEY k of Own s \<Rightarrow> st_type s = FloatT \<and> st_min s = Some 0 \<and> st_max s = Some 100
     | _ \<Rightarrow> False) weight_keys"
  by code_simp

lemma weight_setting:
  "k \<in> set weight_keys \<Longrightarrow>
   \<exists>s. SETTINGS_BY_KEY k = Own s \<and> st_type s = FloatT \<and> st_min s = Some 0 \<and> st_max s = Some 100"
  using weight_settings by (cases "SETTINGS_BY_KEY k") (auto simp: list_all_iff)

lemma accepted_weight_finite:
  assumes "accepted_weights cfg" "k \<in> set weight_keys" "0 \<le> d"
  shows "\<exists>q \<ge> 0. num_or (cfg k) d = Fin q"
proof (cases "cfg k")
  case (Some v)
  then have "validate k v = None" using assms by (simp add: accepted_weights_def)
  then have "\<exists>q \<ge> 0. Number_of v = Fin q" using weight_setting [OF assms(2)]
    by (auto simp: validate_def validate_number_def not_less split: xnum.splits if_splits)
  then show ?thesis using Some assms(3) by (auto simp: num_or_def)
qed (use assms(3) in \<open>simp add: num_or_def\<close>)

lemma tickets_Fin:
  "0 \<le> t \<Longrightarrow> \<forall>f \<in> set w. \<exists>q \<ge> 0. snd f = Fin q \<Longrightarrow> \<exists>q \<ge> 0. foldl (\<lambda>t f. xmul t (snd f)) (Fin t) w = Fin q"
proof (induction w arbitrary: t)
  case (Cons f w)
  then obtain q where q: "0 \<le> q" "snd f = Fin q" by auto
  show ?case using Cons.IH [of "t * q"] Cons.prems q by simp
qed simp

lemma accepted_tickets_finite:
  assumes "accepted_weights cfg" shows "\<exists>q \<ge> 0. ticketsFrom (weightsFor a cfg) = Fin q"
  unfolding ticketsFrom_def
proof (rule tickets_Fin)
  have w: "\<exists>q \<ge> 0. num_or (cfg k) d = Fin q" if "k \<in> set weight_keys" "0 \<le> d" for k d
    by (rule accepted_weight_finite [OF assms that])
  have p: "\<exists>q \<ge> 0. xpow (num_or (cfg k) d) n = Fin q" if "k \<in> set weight_keys" "0 \<le> d" for k d n
    using w [OF that] by auto
  note ws = w [unfolded weight_keys_def] p [unfolded weight_keys_def]
  show "\<forall>f \<in> set (weightsFor a cfg). \<exists>q \<ge> 0. snd f = Fin q"
    by (auto simp: weightsFor_def split: option.splits fit_band.splits if_splits intro!: ws)
qed simp

lemma pick_positive:
  assumes "\<forall>q \<in> set qs. 0 \<le> q" "0 < u" "u \<le> 1"
  shows "if sum_list qs = 0 then pickWeighted u (map Fin qs) = -1
         else \<exists>k < length qs. pickWeighted u (map Fin qs) = int k \<and> 0 < qs ! k"
proof (cases "sum_list qs = 0")
  case True
  then show ?thesis using total_Fin [of 0 qs] by (simp add: pickWeighted_def)
next
  case False
  then have pos: "0 < sum_list qs" using assms(1) by (simp add: order_less_le sum_list_nonneg)
  let ?r = "u * sum_list qs"
  have r: "0 < ?r" "?r \<le> sum_list qs" using assms pos by (simp_all add: mult_left_le_one_le)
  obtain k where k: "pick_loop (Fin ?r) 0 (map Fin qs) = Some k"
    using pick_loop_total [OF assms(1) r] by blast
  then have "k < length qs \<and> sum_list (take k qs) < ?r \<and> ?r \<le> sum_list (take (Suc k) qs)"
    using pick_loop_Fin [OF assms(1) r(1), of 0 k] by simp
  then have "k < length qs" "0 < qs ! k" by (auto simp: take_Suc_conv_app_nth)
  moreover have "pickWeighted u (map Fin qs) = int k" using k pos total_Fin [of 0 qs] by (simp add: pickWeighted_def)
  ultimately show ?thesis using False by auto
qed



text \<open>
  Under the default weights a matched or weak veteran never holds more than 9/4 tickets,
  however many bounties they completed, and a strong newcomer holds 3. A strong applicant who
  has been assigned before holds only 2, fewer than a plausible veteran's 9/4: accumulated
  completions outrank demonstrated fit there.
\<close>

theorem completions_are_capped:
  "(2 \<le> c \<longrightarrow> weightsFor (a\<lparr>da_completions := c\<rparr>) cfg = weightsFor (a\<lparr>da_completions := 2\<rparr>) cfg)
   \<and> (da_fit a \<noteq> Some Strong \<and> da_priorAssignments a \<noteq> 0 \<longrightarrow>
        (\<exists>q \<le> 9 / 4. ticketsFrom (weightsFor a Map.empty) = Fin q))
   \<and> (da_difficultyMatch a \<noteq> Some Above \<and> da_abandons a = 0 \<longrightarrow>
        (da_fit a = Some Strong \<and> da_completions a = 0 \<longrightarrow>
           ticketsFrom (weightsFor a Map.empty) = Fin (if da_priorAssignments a = 0 then 3 else 2))
        \<and> (da_fit a = Some Plausible \<and> 2 \<le> da_completions a \<and> da_priorAssignments a \<noteq> 0 \<longrightarrow>
           ticketsFrom (weightsFor a Map.empty) = Fin (9 / 4)))"
proof -
  have half: "(1 / 2) ^ n \<le> (1 :: rat)" for n by (rule power_le_one) simp_all
  have comp: "(3 / 2) ^ nat (min c 2) \<le> (9 / 4 :: rat)" for c
  proof -
    have "nat (min c 2) \<le> 2" by simp
    then have "(3 / 2 :: rat) ^ nat (min c 2) \<le> (3 / 2) ^ 2" by (intro power_increasing) simp_all
    then show ?thesis by (simp add: power2_eq_square)
  qed
  define f d p b where "f = (case da_fit a of Some Weak \<Rightarrow> 1 / 4 | _ \<Rightarrow> (1 :: rat))"
    and "d = (if da_difficultyMatch a = Some Above then 1 / 2 else (1 :: rat))"
    and "p = (if da_completions a > 0 then (3 / 2) ^ nat (min (da_completions a) 2) else (1 :: rat))"
    and "b = (if da_abandons a > 0 then (1 / 2) ^ nat (da_abandons a) else (1 :: rat))"
  have le: "0 \<le> f" "f \<le> 1" "0 \<le> d" "d \<le> 1" "0 \<le> p" "p \<le> 9 / 4" "0 \<le> b" "b \<le> 1"
    using comp half by (auto simp: f_def d_def p_def b_def split: option.split fit_band.split)
  have "f * d \<le> 1 * 1" using le by (intro mult_mono) auto
  then have "f * d * p \<le> 1 * (9 / 4)" using le by (intro mult_mono) auto
  then have "f * d * p * b \<le> 1 * (9 / 4) * 1" using le by (intro mult_mono [OF _ le(8)]) auto
  then have bound: "f * d * p * b \<le> 9 / 4" by simp
  have "ticketsFrom (weightsFor a Map.empty) = Fin (f * d * p * b)"
    if "da_fit a \<noteq> Some Strong" "da_priorAssignments a \<noteq> 0"
    using that by (auto simp: ticketsFrom_def weightsFor_def num_or_def PRIOR_COMPLETION_CAP_def f_def d_def p_def b_def
        split: option.split fit_band.split)
  then have vet: "da_fit a \<noteq> Some Strong \<and> da_priorAssignments a \<noteq> 0 \<longrightarrow>
      (\<exists>q \<le> 9 / 4. ticketsFrom (weightsFor a Map.empty) = Fin q)" using bound by blast
  show ?thesis
    using vet by (auto simp: ticketsFrom_def weightsFor_def num_or_def PRIOR_COMPLETION_CAP_def min_absorb2 power2_eq_square)
qed

theorem completions_are_capped_witness:
  "ticketsFrom (weightsFor \<lparr>da_githubUserId = 1, da_githubLogin = ''v'', da_fit = Some Plausible, da_difficultyMatch = None,
     da_completions = 7, da_priorAssignments = 9, da_abandons = 0\<rparr> Map.empty) = Fin (9 / 4)"
  using completions_are_capped [of 2 "\<lparr>da_githubUserId = 1, da_githubLogin = ''v'', da_fit = Some Plausible,
     da_difficultyMatch = None, da_completions = 7, da_priorAssignments = 9, da_abandons = 0\<rparr>" Map.empty] by simp

end
