(* ===== verification/Approval.thy ===== *)
theory Approval
  imports Ed25519 Json
begin

text \<open>
  packages/gate/src/approval.ts: the envelope a human approver signs for one payout. The terms
  are the entries of a JSON object, in the order the object keeps them; the signed text sorts
  them. A refusal is a constructor with the values its message shows.
\<close>

type_synonym entries = "(string \<times> json) list"

record payout_terms =
  pt_payout_id :: string
  pt_bounty_id :: string
  pt_repo :: string
  pt_issue_number :: int
  pt_pr_number :: int
  pt_author_login :: string
  pt_recipient :: string
  pt_amount_minor :: string
  pt_currency :: string
  pt_mint :: string
  pt_network :: string
  pt_escrow :: "string option"

text \<open>The object the code passes around for these terms: the escrow key only on a funded bounty.\<close>

definition terms_entries :: "payout_terms \<Rightarrow> entries" where
  "terms_entries t =
     [(''payout_id'', JStr (pt_payout_id t)), (''bounty_id'', JStr (pt_bounty_id t)), (''repo'', JStr (pt_repo t)),
      (''issue_number'', JNum (of_int (pt_issue_number t))), (''pr_number'', JNum (of_int (pt_pr_number t))),
      (''author_login'', JStr (pt_author_login t)), (''recipient'', JStr (pt_recipient t)),
      (''amount_minor'', JStr (pt_amount_minor t)), (''currency'', JStr (pt_currency t)), (''mint'', JStr (pt_mint t)),
      (''network'', JStr (pt_network t))]
     @ (case pt_escrow t of None \<Rightarrow> [] | Some e \<Rightarrow> [(''escrow'', JStr e)])"

record 't envelope =
  en_terms :: 't
  en_approver :: string
  en_approved_at :: string
  en_expires_at :: string
  en_signature :: string

definition PREFIX :: string where
  "PREFIX = ''grainlify-payout-approval:v1'' @ newline"

definition APPROVAL_TTL_MS :: time_ms where
  "APPROVAL_TTL_MS = 60 * 60 * 1000"

definition envelopeMessage :: "platform \<Rightarrow> string \<Rightarrow> entries \<Rightarrow> string \<Rightarrow> string \<Rightarrow> string" where
  "envelopeMessage P domain terms approvedAt expiresAt =
     domain @ stringify (other_number P)
       (JObj [(''terms'', JObj (own_order (sort_entries terms))), (''approved_at'', JStr approvedAt),
              (''expires_at'', JStr expiresAt)])"

definition signEnvelope :: "platform \<Rightarrow> string \<Rightarrow> entries \<Rightarrow> bytes \<Rightarrow> string \<Rightarrow> time_ms \<Rightarrow> entries envelope" where
  "signEnvelope P domain terms secret64 address now =
     (let approved = toISOString now; expires = toISOString (now + APPROVAL_TTL_MS) in
      \<lparr>en_terms = terms, en_approver = address, en_approved_at = approved, en_expires_at = expires,
       en_signature = signDetached P secret64 (envelopeMessage P domain terms approved expires)\<rparr>)"

datatype approval_refusal = Approver_not_trusted string | Approval_expired | Approval_lifetime_too_long
  | Approval_signature_bad

text \<open>\<open>None\<close> is ok. A date that does not parse is NaN, and no comparison with NaN holds.\<close>

definition verifyEnvelope :: "platform \<Rightarrow> string \<Rightarrow> entries envelope \<Rightarrow> string list \<Rightarrow> time_ms \<Rightarrow> approval_refusal option" where
  "verifyEnvelope P domain a trustedApprovers now =
     (if en_approver a \<notin> set trustedApprovers then Some (Approver_not_trusted (en_approver a))
      else case parse_date P (en_expires_at a) of
        None \<Rightarrow> Some Approval_expired
      | Some until \<Rightarrow>
          if until \<le> now then Some Approval_expired
          else if (case parse_date P (en_approved_at a) of Some t \<Rightarrow> until - t > APPROVAL_TTL_MS | None \<Rightarrow> False)
            then Some Approval_lifetime_too_long
          else if \<not> verifyDetached P (en_approver a)
                 (envelopeMessage P domain (en_terms a) (en_approved_at a) (en_expires_at a)) (en_signature a)
            then Some Approval_signature_bad
          else None)"

definition approvalMessage :: "platform \<Rightarrow> entries \<Rightarrow> string \<Rightarrow> string \<Rightarrow> string" where
  "approvalMessage P terms approvedAt expiresAt = envelopeMessage P PREFIX terms approvedAt expiresAt"

definition signApproval :: "platform \<Rightarrow> entries \<Rightarrow> bytes \<Rightarrow> string \<Rightarrow> time_ms \<Rightarrow> entries envelope" where
  "signApproval P terms secret64 address now = signEnvelope P PREFIX terms secret64 address now"

definition verifyApproval :: "platform \<Rightarrow> entries envelope \<Rightarrow> string list \<Rightarrow> time_ms \<Rightarrow> approval_refusal option" where
  "verifyApproval P a trustedApprovers now = verifyEnvelope P PREFIX a trustedApprovers now"

section \<open>The signed text determines what was approved\<close>

definition plain_terms :: "entries \<Rightarrow> bool" where
  "plain_terms es \<longleftrightarrow> (\<forall>e \<in> set es. plain_json (snd e))"

lemma envelopeMessage_inject:
  assumes "plain_terms t" "plain_terms u" "envelopeMessage P d t a e = envelopeMessage P d u b f"
  shows "set t = set u \<and> a = b \<and> e = f"
proof -
  let ?o = "\<lambda>t a e. JObj [(''terms'', JObj (own_order (sort_entries t))), (''approved_at'', JStr a), (''expires_at'', JStr e)]"
  have eq: "stringify (other_number P) (?o t a e) = stringify (other_number P) (?o u b f)"
    using assms(3) unfolding envelopeMessage_def same_append_eq .
  have "plain_json (?o t a e)" "plain_json (?o u b f)"
    using assms(1,2) by (simp_all add: plain_terms_def)
  then have "?o t a e = ?o u b f" using eq by (rule stringify_inject [THEN iffD1])
  then have "own_order (sort_entries t) = own_order (sort_entries u)" "a = b" "e = f" by simp_all
  then show ?thesis by (metis set_own_order set_sort_entries)
qed

lemma is_integer_of_int [simp]: "is_integer (of_int i)"
  by (simp add: is_integer_def)

lemma plain_int: "\<bar>i\<bar> < 10 ^ 21 \<Longrightarrow> plain_json (JNum (of_int i))"
proof -
  assume "\<bar>i\<bar> < 10 ^ 21"
  then have "(of_int \<bar>i\<bar> :: rat) < of_int (10 ^ 21)" by (simp only: of_int_less_iff)
  then have "\<bar>of_int i\<bar> < (10 ^ 21 :: rat)" by (simp only: of_int_abs of_int_power of_int_numeral)
  then show ?thesis by simp
qed

lemma verifyEnvelope_ok:
  "verifyEnvelope P d a trusted now = None \<longleftrightarrow>
     en_approver a \<in> set trusted
     \<and> (\<exists>u. parse_date P (en_expires_at a) = Some u \<and> now < u
          \<and> (\<forall>t. parse_date P (en_approved_at a) = Some t \<longrightarrow> u \<le> t + APPROVAL_TTL_MS))
     \<and> verifyDetached P (en_approver a) (envelopeMessage P d (en_terms a) (en_approved_at a) (en_expires_at a)) (en_signature a)"
  by (auto simp: verifyEnvelope_def not_le algebra_simps split: option.splits if_splits)

lemma sign_verify_envelope:
  assumes "codec_ok P" "key_ok P k" "publicKeyOf P k \<in> set trusted"
    and "in_era now" "in_era (now + APPROVAL_TTL_MS)" "t < now + APPROVAL_TTL_MS"
  shows "verifyEnvelope P d (signEnvelope P d terms k (publicKeyOf P k) now) trusted t = None"
  using assms verify_own_signature
  by (simp add: verifyEnvelope_ok signEnvelope_def Let_def parse_date_def)

text \<open>
  C32. A payout approval that verifies was signed by a trusted approver's key over exactly its
  terms and times and has not expired; and one whose approval time can be read is valid for at
  most an hour from that time.
\<close>

theorem verified_approval_is_fresh_and_signed:
  assumes "verifyApproval P a trusted now = None"
  shows "en_approver a \<in> set trusted
    \<and> (\<exists>u. parse_date P (en_expires_at a) = Some u \<and> now < u
         \<and> (\<forall>t. parse_date P (en_approved_at a) = Some t \<longrightarrow> u \<le> t + 3600000))
    \<and> (\<exists>key sig. b58_decode P (en_approver a) = Some key \<and> decodeSignature P (en_signature a) = Some sig
         \<and> ed_verify P key (approvalMessage P (en_terms a) (en_approved_at a) (en_expires_at a)) sig)"
  using assms verifyDetached_key
  by (fastforce simp: verifyApproval_def verifyEnvelope_ok approvalMessage_def APPROVAL_TTL_MS_def)

definition demo_secret :: bytes where
  "demo_secret = replicate 64 (CHR ''k'')"

definition demo_terms :: payout_terms where
  "demo_terms = \<lparr>pt_payout_id = ''p'', pt_bounty_id = ''b'', pt_repo = ''o/r'', pt_issue_number = 7, pt_pr_number = 8,
     pt_author_login = ''al'', pt_recipient = ''w'', pt_amount_minor = ''5'', pt_currency = ''USDC'', pt_mint = ''m'',
     pt_network = ''solana-devnet'', pt_escrow = None\<rparr>"

lemma demo_keys: "codec_ok toy" "key_ok toy demo_secret"
  by (simp_all add: toy_ok demo_secret_def)

lemma in_era_0: "in_era 0" "in_era 3600000"
  by code_simp+

lemma demo_approval:
  "verifyApproval toy (signApproval toy (terms_entries demo_terms) demo_secret (publicKeyOf toy demo_secret) 0)
     [publicKeyOf toy demo_secret] 5 = None"
  unfolding verifyApproval_def signApproval_def
  by (rule sign_verify_envelope) (simp_all add: demo_keys in_era_0 APPROVAL_TTL_MS_def)

theorem verified_approval_is_fresh_and_signed_witness:
  "\<exists>u. parse_date toy (en_expires_at (signApproval toy (terms_entries demo_terms) demo_secret
     (publicKeyOf toy demo_secret) 0)) = Some u \<and> 5 < u"
  using verified_approval_is_fresh_and_signed [OF demo_approval] by blast

text \<open>
  C33. What the approver signs verifies until its hour is over and not a moment after, whatever
  order the terms object was built in: any object with the same entries is covered by the same
  signature.
\<close>

theorem approval_round_trip:
  assumes "codec_ok P" "key_ok P k" "publicKeyOf P k \<in> set trusted" "in_era now" "in_era (now + APPROVAL_TTL_MS)"
  shows "verifyApproval P (signApproval P terms k (publicKeyOf P k) now) trusted t =
     (if t < now + APPROVAL_TTL_MS then None else Some Approval_expired)"
proof (cases "t < now + APPROVAL_TTL_MS")
  case True
  then show ?thesis using sign_verify_envelope [OF assms True] by (simp add: verifyApproval_def signApproval_def)
next
  case False
  then show ?thesis using assms
    by (simp add: verifyApproval_def signApproval_def verifyEnvelope_def signEnvelope_def Let_def parse_date_def)
qed

theorem approval_round_trip_witness:
  "verifyApproval toy (signApproval toy (terms_entries demo_terms) demo_secret (publicKeyOf toy demo_secret) 0)
     [publicKeyOf toy demo_secret] 3600000 = Some Approval_expired"
  using approval_round_trip [OF demo_keys, of "[publicKeyOf toy demo_secret]" 0] in_era_0
  by (simp add: APPROVAL_TTL_MS_def)

text \<open>
  The text of an approval determines the payout: approvals of two payouts with the same
  signed text are for the same payout, bounty, recipient, amount, mint, network and escrow, and
  for the same hour, so a signature cannot be presented for other terms.
\<close>

theorem approval_text_determines_terms:
  assumes "\<bar>pt_issue_number t\<bar> < 10 ^ 21" "\<bar>pt_pr_number t\<bar> < 10 ^ 21"
    and "\<bar>pt_issue_number u\<bar> < 10 ^ 21" "\<bar>pt_pr_number u\<bar> < 10 ^ 21"
    and "approvalMessage P (terms_entries t) a e = approvalMessage P (terms_entries u) b f"
  shows "t = u \<and> a = b \<and> e = f"
proof -
  have "plain_terms (terms_entries t)" "plain_terms (terms_entries u)"
    using assms(1-4) [THEN plain_int] by (auto simp: plain_terms_def terms_entries_def split: option.splits)
  then have eq: "set (terms_entries t) = set (terms_entries u)" "a = b" "e = f"
    using envelopeMessage_inject assms(5) unfolding approvalMessage_def by blast+
  have in_u: "x \<in> set (terms_entries u)" if "x \<in> set (terms_entries t)" for x using that eq by simp
  have in_t: "x \<in> set (terms_entries t)" if "x \<in> set (terms_entries u)" for x using that eq by simp
  have "pt_escrow t = pt_escrow u"
    using in_u [of "(''escrow'', JStr (the (pt_escrow t)))"] in_t [of "(''escrow'', JStr (the (pt_escrow u)))"]
    by (cases "pt_escrow t"; cases "pt_escrow u") (simp_all add: terms_entries_def)
  moreover have "pt_payout_id t = pt_payout_id u" "pt_bounty_id t = pt_bounty_id u" "pt_repo t = pt_repo u"
    "pt_author_login t = pt_author_login u" "pt_recipient t = pt_recipient u" "pt_amount_minor t = pt_amount_minor u"
    "pt_currency t = pt_currency u" "pt_mint t = pt_mint u" "pt_network t = pt_network u"
    using in_u [of "(''payout_id'', JStr (pt_payout_id t))"] in_u [of "(''bounty_id'', JStr (pt_bounty_id t))"]
      in_u [of "(''repo'', JStr (pt_repo t))"] in_u [of "(''author_login'', JStr (pt_author_login t))"]
      in_u [of "(''recipient'', JStr (pt_recipient t))"] in_u [of "(''amount_minor'', JStr (pt_amount_minor t))"]
      in_u [of "(''currency'', JStr (pt_currency t))"] in_u [of "(''mint'', JStr (pt_mint t))"]
      in_u [of "(''network'', JStr (pt_network t))"]
    by (simp_all add: terms_entries_def split: option.splits)
  moreover have "pt_issue_number t = pt_issue_number u" "pt_pr_number t = pt_pr_number u"
    using in_u [of "(''issue_number'', JNum (of_int (pt_issue_number t)))"]
      in_u [of "(''pr_number'', JNum (of_int (pt_pr_number t)))"]
    by (simp_all add: terms_entries_def split: option.splits)
  ultimately show ?thesis using eq by simp
qed

theorem approval_text_determines_terms_witness:
  "approvalMessage toy (terms_entries demo_terms) ''a'' ''e'' \<noteq> approvalMessage toy (terms_entries (demo_terms\<lparr>pt_recipient := ''x''\<rparr>)) ''a'' ''e''"
proof
  assume "approvalMessage toy (terms_entries demo_terms) ''a'' ''e'' = approvalMessage toy (terms_entries (demo_terms\<lparr>pt_recipient := ''x''\<rparr>)) ''a'' ''e''"
  from approval_text_determines_terms [OF _ _ _ _ this] show False by (simp add: demo_terms_def)
qed

text \<open>
  An approval whose approval time does not parse is not held to the hour: the lifetime check
  compares with NaN and lets it through, however far away its expiry is. So does one whose
  approval time lies in the future, for as long as it is from that time.
\<close>

theorem approval_lifetime_gap:
  assumes "en_approver a \<in> set trusted" "parse_date P (en_expires_at a) = Some expires" "now < expires"
    and "verifyDetached P (en_approver a) (approvalMessage P (en_terms a) (en_approved_at a) (en_expires_at a)) (en_signature a)"
    and "parse_date P (en_approved_at a) = None \<or> parse_date P (en_approved_at a) = Some (expires - 3600000)"
  shows "verifyApproval P a trusted now = None"
  using assms by (auto simp: verifyApproval_def verifyEnvelope_ok approvalMessage_def APPROVAL_TTL_MS_def)

theorem approval_lifetime_gap_witness:
  "verifyApproval toy
     \<lparr>en_terms = [], en_approver = publicKeyOf toy demo_secret, en_approved_at = ''soon'', en_expires_at = toISOString 86400000,
      en_signature = signDetached toy demo_secret (approvalMessage toy [] ''soon'' (toISOString 86400000))\<rparr>
     [publicKeyOf toy demo_secret] 0 = None"
proof (rule approval_lifetime_gap [where expires = 86400000])
  have "in_era 86400000" by code_simp
  then show "parse_date toy (en_expires_at \<lparr>en_terms = [], en_approver = publicKeyOf toy demo_secret,
      en_approved_at = ''soon'', en_expires_at = toISOString 86400000,
      en_signature = signDetached toy demo_secret (approvalMessage toy [] ''soon'' (toISOString 86400000))\<rparr>) = Some 86400000"
    by (simp add: parse_date_def)
  have "parse_date toy ''soon'' = None" by code_simp
  then show "parse_date toy (en_approved_at \<lparr>en_terms = [], en_approver = publicKeyOf toy demo_secret,
      en_approved_at = ''soon'', en_expires_at = toISOString 86400000,
      en_signature = signDetached toy demo_secret (approvalMessage toy [] ''soon'' (toISOString 86400000))\<rparr>) = None
    \<or> parse_date toy (en_approved_at \<lparr>en_terms = [], en_approver = publicKeyOf toy demo_secret,
      en_approved_at = ''soon'', en_expires_at = toISOString 86400000,
      en_signature = signDetached toy demo_secret (approvalMessage toy [] ''soon'' (toISOString 86400000))\<rparr>) = Some (86400000 - 3600000)"
    by simp
qed (simp_all add: verify_own_signature demo_keys)

end
