(* ===== verification/Regex.thy ===== *)
theory Regex
  imports Prelude
begin

text \<open>
  ECMAScript regular expressions, as far as the code uses them: the expressions of the source
  are terms of type \<open>re\<close>, and \<open>rmatch\<close> is the backtracking matcher of the language standard.
  It returns the end states in the order the engine would try them, so the first is the match
  the code sees. Repetition is greedy; an iteration that consumes nothing is cut off once the
  minimum is reached, as the standard says, which is also why the fuel of \<open>rep_match\<close> (the
  minimum plus the length of the rest, plus one) is enough.
\<close>

datatype re =
    Eps
  | Cls "char \<Rightarrow> bool"
  | Seq re re
  | Alt re re
  | Rep nat "nat option" re
  | Grp nat re
  | Bol bool    \<comment> \<open>\<open>^\<close>; true with the m flag\<close>
  | Eol bool    \<comment> \<open>\<open>$\<close>; true with the m flag\<close>
  | WordB       \<comment> \<open>\<open>\b\<close>\<close>

text \<open>The state of a match: the character before, the rest of the input, the captures (latest first).\<close>

record mstate =
  before :: "char option"
  rest :: string
  caps :: "(nat \<times> string) list"

definition is_word_char :: "char \<Rightarrow> bool" where
  "is_word_char c \<longleftrightarrow> is_alnum c \<or> c = CHR ''_''"

definition is_line_end :: "char \<Rightarrow> bool" where
  "is_line_end c \<longleftrightarrow> code c = 10 \<or> code c = 13"

fun rep_match :: "(mstate \<Rightarrow> mstate list) \<Rightarrow> nat \<Rightarrow> nat \<Rightarrow> nat option \<Rightarrow> mstate \<Rightarrow> mstate list" where
  "rep_match f 0 lo hi st = []"
| "rep_match f (Suc n) lo hi st =
     (if hi = Some 0 then (if lo = 0 then [st] else [])
      else (let more = concat (map (\<lambda>st'.
                  if lo = 0 \<and> length (rest st') = length (rest st) then []
                  else rep_match f n (lo - 1) (map_option (\<lambda>h. h - 1) hi) st') (f st))
            in if lo = 0 then more @ [st] else more))"

fun rmatch :: "re \<Rightarrow> mstate \<Rightarrow> mstate list" where
  "rmatch Eps st = [st]"
| "rmatch (Cls p) st =
     (case rest st of [] \<Rightarrow> []
      | c # cs \<Rightarrow> if p c then [st\<lparr>before := Some c, rest := cs\<rparr>] else [])"
| "rmatch (Seq a b) st = concat (map (rmatch b) (rmatch a st))"
| "rmatch (Alt a b) st = rmatch a st @ rmatch b st"
| "rmatch (Rep lo hi a) st = rep_match (rmatch a) (Suc (lo + length (rest st))) lo hi st"
| "rmatch (Grp n a) st =
     map (\<lambda>st'. st'\<lparr>caps := (n, take (length (rest st) - length (rest st')) (rest st)) # caps st'\<rparr>) (rmatch a st)"
| "rmatch (Bol m) st =
     (case before st of None \<Rightarrow> [st] | Some c \<Rightarrow> if m \<and> is_line_end c then [st] else [])"
| "rmatch (Eol m) st =
     (case rest st of [] \<Rightarrow> [st] | c # cs \<Rightarrow> if m \<and> is_line_end c then [st] else [])"
| "rmatch WordB st =
     (let a = (case before st of None \<Rightarrow> False | Some c \<Rightarrow> is_word_char c);
          b = (case rest st of [] \<Rightarrow> False | c # cs \<Rightarrow> is_word_char c)
      in if a \<noteq> b then [st] else [])"

text \<open>\<open>RegExp.prototype.exec\<close>: the first match at the leftmost position where there is one.\<close>

fun search_from :: "re \<Rightarrow> char option \<Rightarrow> string \<Rightarrow> mstate option" where
  "search_from r b s =
     (case rmatch r \<lparr>before = b, rest = s, caps = []\<rparr> of
        st # _ \<Rightarrow> Some st
      | [] \<Rightarrow> (case s of [] \<Rightarrow> None | c # cs \<Rightarrow> search_from r (Some c) cs))"

declare search_from.simps [simp del]

definition re_exec :: "re \<Rightarrow> string \<Rightarrow> (nat \<times> string) list option" where
  "re_exec r s = map_option caps (search_from r None s)"

definition re_test :: "re \<Rightarrow> string \<Rightarrow> bool" where
  "re_test r s \<longleftrightarrow> search_from r None s \<noteq> None"

definition group :: "nat \<Rightarrow> (nat \<times> string) list \<Rightarrow> string option" where
  "group n cs = map_of cs n"

section \<open>Building blocks\<close>

text \<open>A literal, a sequence, a bounded run of a class, and their case-blind forms.\<close>

definition chr :: "char \<Rightarrow> re" where
  "chr c = Cls (\<lambda>d. d = c)"

fun lit :: "string \<Rightarrow> re" where
  "lit [] = Eps"
| "lit (c # cs) = Seq (chr c) (lit cs)"

definition chr_i :: "char \<Rightarrow> re" where
  "chr_i c = Cls (\<lambda>d. to_lower_char d = to_lower_char c)"

fun lit_i :: "string \<Rightarrow> re" where
  "lit_i [] = Eps"
| "lit_i (c # cs) = Seq (chr_i c) (lit_i cs)"

fun seqs :: "re list \<Rightarrow> re" where
  "seqs [] = Eps"
| "seqs [r] = r"
| "seqs (r # rs) = Seq r (seqs rs)"

fun alts :: "re list \<Rightarrow> re" where
  "alts [] = Cls (\<lambda>_. False)"
| "alts [r] = r"
| "alts (r # rs) = Alt r (alts rs)"

definition hexc :: re where
  "hexc = Cls is_lower_hex"

definition digitc :: re where
  "digitc = Cls is_digit"

abbreviation times :: "nat \<Rightarrow> re \<Rightarrow> re" where
  "times n r \<equiv> Rep n (Some n) r"

abbreviation star :: "re \<Rightarrow> re" where
  "star r \<equiv> Rep 0 None r"

abbreviation plus1 :: "re \<Rightarrow> re" where
  "plus1 r \<equiv> Rep 1 None r"

abbreviation opt :: "re \<Rightarrow> re" where
  "opt r \<equiv> Rep 0 (Some 1) r"

section \<open>What a match consumes\<close>

text \<open>
  \<open>consumes st w st'\<close>: the match read exactly \<open>w\<close>. Every end state of the matcher comes from
  reading a prefix of the rest.
\<close>

definition consumes :: "mstate \<Rightarrow> string \<Rightarrow> mstate \<Rightarrow> bool" where
  "consumes st w st' \<longleftrightarrow> rest st = w @ rest st' \<and> before st' = (if w = [] then before st else Some (last w))"

lemma consumes_refl [simp]: "consumes st w st \<longleftrightarrow> w = []"
  by (auto simp: consumes_def)

lemma consumes_trans:
  "consumes st w st' \<Longrightarrow> consumes st' v st'' \<Longrightarrow> consumes st (w @ v) st''"
  by (auto simp: consumes_def)

lemma consumes_caps [simp]: "consumes st w (st'\<lparr>caps := cs\<rparr>) \<longleftrightarrow> consumes st w st'"
  by (simp add: consumes_def)

lemma rep_match_consumes:
  assumes "\<And>st st'. st' \<in> set (f st) \<Longrightarrow> \<exists>w. consumes st w st'"
  shows "st' \<in> set (rep_match f n lo hi st) \<Longrightarrow> \<exists>w. consumes st w st'"
proof (induction n arbitrary: lo hi st)
  case (Suc n)
  show ?case
  proof (cases "st' = st")
    case False
    with Suc.prems obtain st1 hi' where 1: "st1 \<in> set (f st)" "st' \<in> set (rep_match f n (lo - 1) hi' st1)"
      by (auto simp: Let_def split: if_splits)
    then obtain w v where "consumes st w st1" "consumes st1 v st'" using assms Suc.IH by blast
    then show ?thesis by (blast intro: consumes_trans)
  qed auto
qed simp

lemma rmatch_consumes: "st' \<in> set (rmatch r st) \<Longrightarrow> \<exists>w. consumes st w st'"
proof (induction r arbitrary: st st')
  case (Cls p)
  then show ?case by (cases "rest st") (auto simp: consumes_def split: if_splits)
next
  case (Seq a b)
  then obtain st1 where "st1 \<in> set (rmatch a st)" "st' \<in> set (rmatch b st1)" by auto
  with Seq.IH show ?case by (meson consumes_trans)
next
  case (Rep lo hi a)
  then have "st' \<in> set (rep_match (rmatch a) (Suc (lo + length (rest st))) lo hi st)" by simp
  with Rep.IH show ?case by (rule rep_match_consumes [of "rmatch a"])
next
  case (Grp n a)
  then show ?case by fastforce
next
  case (Alt a b)
  then show ?case by auto
next
  case Eps
  then show ?case by auto
next
  case (Bol m)
  then show ?case by (cases "before st") (auto split: if_splits)
next
  case (Eol m)
  then show ?case by (cases "rest st") (auto split: if_splits)
next
  case WordB
  then have "st' = st" by (auto simp: Let_def split: if_splits)
  then show ?case by auto
qed

lemma rmatch_shrinks: "st' \<in> set (rmatch r st) \<Longrightarrow> length (rest st') \<le> length (rest st)"
  using rmatch_consumes [of st' r st] by (auto simp: consumes_def)

text \<open>More fuel changes nothing once there is enough: the repetition really ran to its end.\<close>

lemma rep_match_enough:
  assumes shrink: "\<And>st st'. st' \<in> set (f st) \<Longrightarrow> length (rest st') \<le> length (rest st)"
    and "lo + length (rest st) < n" "lo + length (rest st) < m"
  shows "rep_match f n lo hi st = rep_match f m lo hi st"
  using assms(2,3)
proof (induction n arbitrary: m lo hi st)
  case (Suc n)
  then obtain m' where m: "m = Suc m'" by (cases m) auto
  have "rep_match f n (lo - 1) hi' st' = rep_match f m' (lo - 1) hi' st'"
    if "st' \<in> set (f st)" "\<not> (lo = 0 \<and> length (rest st') = length (rest st))" for st' hi'
    using that Suc.prems shrink [OF that(1)] by (intro Suc.IH) (auto simp: m)
  then have "map (\<lambda>st'. if lo = 0 \<and> length (rest st') = length (rest st) then []
        else rep_match f n (lo - 1) hi' st') (f st)
     = map (\<lambda>st'. if lo = 0 \<and> length (rest st') = length (rest st) then []
        else rep_match f m' (lo - 1) hi' st') (f st)" for hi'
    by (intro map_cong) auto
  then show ?case by (simp only: m rep_match.simps)
qed simp

declare rmatch.simps [simp del] rep_match.simps [simp del]

section \<open>Membership rules\<close>

text \<open>The rules the component proofs rewrite with: what it means for a state to be a match.\<close>

named_theorems re_simps \<open>membership in the results of the matcher\<close>

lemma in_chr [re_simps]:
  "st' \<in> set (rmatch (chr c) st) \<longleftrightarrow> (\<exists>cs. rest st = c # cs \<and> st' = st\<lparr>before := Some c, rest := cs\<rparr>)"
  by (cases "rest st") (auto simp: chr_def rmatch.simps)

lemma in_Seq [re_simps]:
  "st' \<in> set (rmatch (Seq a b) st) \<longleftrightarrow> (\<exists>st1. st1 \<in> set (rmatch a st) \<and> st' \<in> set (rmatch b st1))"
  by (auto simp: rmatch.simps)

lemma in_Alt [re_simps]:
  "st' \<in> set (rmatch (Alt a b) st) \<longleftrightarrow> st' \<in> set (rmatch a st) \<or> st' \<in> set (rmatch b st)"
  by (auto simp: rmatch.simps)

text \<open>The state after reading \<open>w\<close>.\<close>

definition skip :: "string \<Rightarrow> mstate \<Rightarrow> mstate" where
  "skip w st = st\<lparr>before := (if w = [] then before st else Some (last w)), rest := drop (length w) (rest st)\<rparr>"

lemma skip_simps [simp]:
  "skip [] st = st"
  "caps (skip w st) = caps st"
  "rest (skip w st) = drop (length w) (rest st)"
  by (simp_all add: skip_def)

lemma skip_skip [simp]: "skip v (skip w st) = skip (w @ v) st"
  by (simp add: skip_def add.commute)

lemma in_lit [re_simps]:
  "st' \<in> set (rmatch (lit w) st) \<longleftrightarrow> take (length w) (rest st) = w \<and> st' = skip w st"
proof (induction w arbitrary: st)
  case (Cons c cs)
  show ?case
    by (cases "rest st") (auto simp: in_Seq in_chr Cons.IH skip_def)
qed (simp add: rmatch.simps)

lemma in_Cls_skip:
  "st' \<in> set (rmatch (Cls p) st) \<longleftrightarrow> (\<exists>c. take 1 (rest st) = [c] \<and> p c \<and> st' = skip [c] st)"
  by (cases "rest st") (auto simp: skip_def rmatch.simps)

lemma rep_Cls:
  assumes "lo + length (rest st) < n"
  shows "st' \<in> set (rep_match (rmatch (Cls p)) n lo hi st) \<longleftrightarrow>
    (\<exists>w. take (length w) (rest st) = w \<and> list_all p w \<and> lo \<le> length w
       \<and> (case hi of None \<Rightarrow> True | Some h \<Rightarrow> length w \<le> h) \<and> st' = skip w st)"
  using assms
proof (induction n arbitrary: lo hi st)
  case (Suc n)
  let ?ok = "\<lambda>lo hi st w. take (length w) (rest st) = w \<and> list_all p w \<and> lo \<le> length w
       \<and> (case hi of None \<Rightarrow> True | Some h \<Rightarrow> length w \<le> h) \<and> st' = skip w st"
  show ?case
  proof (cases "hi = Some 0")
    case True
    then show ?thesis by (auto simp: rep_match.simps)
  next
    case False
    note hi = False
    show ?thesis
    proof (cases "rest st")
      case Nil
      have "(\<exists>w. ?ok lo hi st w) \<longleftrightarrow> ?ok lo hi st []"
        by (metis Nil take_Nil)
      then have "(\<exists>w. ?ok lo hi st w) \<longleftrightarrow> lo = 0 \<and> st' = st"
        by (simp split: option.splits)
      moreover have "st' \<in> set (rep_match (rmatch (Cls p)) (Suc n) lo hi st) \<longleftrightarrow> lo = 0 \<and> st' = st"
        using False Nil by (auto simp: Let_def rmatch.simps rep_match.simps)
      ultimately show ?thesis by (simp only:)
    next
      case (Cons c cs)
      let ?st1 = "skip [c] st" and ?hi = "map_option (\<lambda>h. h - 1) hi"
      have IH: "st' \<in> set (rep_match (rmatch (Cls p)) n (lo - 1) ?hi ?st1) \<longleftrightarrow> (\<exists>w. ?ok (lo - 1) ?hi ?st1 w)"
        if "lo + length (rest st) < Suc n"
        using that Cons by (intro Suc.IH) (auto split: nat_diff_split)
      have cls: "rmatch (Cls p) st = (if p c then [?st1] else [])"
        by (simp add: Cons skip_def rmatch.simps)
      have step: "st' \<in> set (rep_match (rmatch (Cls p)) (Suc n) lo hi st) \<longleftrightarrow>
          (p c \<and> st' \<in> set (rep_match (rmatch (Cls p)) n (lo - 1) ?hi ?st1)) \<or> (lo = 0 \<and> st' = st)"
        using hi by (auto simp: cls Let_def Cons rep_match.simps)
      have cons: "?ok lo hi st (c # w) \<longleftrightarrow> p c \<and> ?ok (lo - 1) ?hi ?st1 w" for w
        using hi by (auto simp: Cons split: option.splits)
      have "(\<exists>w. ?ok lo hi st w) \<longleftrightarrow> (p c \<and> (\<exists>w. ?ok (lo - 1) ?hi ?st1 w)) \<or> (lo = 0 \<and> st' = st)"
      proof
        assume "\<exists>w. ?ok lo hi st w"
        then obtain w where w: "?ok lo hi st w" ..
        show "(p c \<and> (\<exists>w. ?ok (lo - 1) ?hi ?st1 w)) \<or> (lo = 0 \<and> st' = st)"
        proof (cases w)
          case Nil
          with w show ?thesis by simp
        next
          case (Cons d v)
          with w \<open>rest st = c # cs\<close> have "d = c" by simp
          with w Cons cons [of v] show ?thesis by blast
        qed
      next
        assume "(p c \<and> (\<exists>w. ?ok (lo - 1) ?hi ?st1 w)) \<or> (lo = 0 \<and> st' = st)"
        then show "\<exists>w. ?ok lo hi st w"
        proof
          assume "p c \<and> (\<exists>w. ?ok (lo - 1) ?hi ?st1 w)"
          then show ?thesis using cons by blast
        next
          assume "lo = 0 \<and> st' = st"
          then have "?ok lo hi st []" by (simp split: option.splits)
          then show ?thesis by blast
        qed
      qed
      then show ?thesis by (simp only: step IH [OF Suc.prems])
    qed
  qed
qed simp

lemma in_Rep_Cls [re_simps]:
  "st' \<in> set (rmatch (Rep lo hi (Cls p)) st) \<longleftrightarrow>
    (\<exists>w. take (length w) (rest st) = w \<and> list_all p w \<and> lo \<le> length w
       \<and> (case hi of None \<Rightarrow> True | Some h \<Rightarrow> length w \<le> h) \<and> st' = skip w st)"
  by (simp add: rep_Cls rmatch.simps)

lemma in_Cls [re_simps]:
  "st' \<in> set (rmatch (Cls p) st) \<longleftrightarrow> (\<exists>c cs. rest st = c # cs \<and> p c \<and> st' = skip [c] st)"
  by (cases "rest st") (auto simp: skip_def rmatch.simps)

lemma in_Grp [re_simps]:
  "st' \<in> set (rmatch (Grp n a) st) \<longleftrightarrow>
     (\<exists>st1 w. st1 \<in> set (rmatch a st) \<and> consumes st w st1 \<and> st' = st1\<lparr>caps := (n, w) # caps st1\<rparr>)"
proof -
  have "take (length (rest st) - length (rest st1)) (rest st) = w" if "consumes st w st1" for st1 w
    using that by (auto simp: consumes_def)
  then show ?thesis using rmatch_consumes [of _ a st] by (fastforce simp: rmatch.simps)
qed

lemma in_Eol [re_simps]: "st' \<in> set (rmatch (Eol False) st) \<longleftrightarrow> rest st = [] \<and> st' = st"
  by (cases "rest st") (auto simp: rmatch.simps)

lemma in_Bol [re_simps]: "st' \<in> set (rmatch (Bol False) st) \<longleftrightarrow> before st = None \<and> st' = st"
  by (cases "before st") (auto simp: rmatch.simps)

lemma in_Eps [re_simps]: "st' \<in> set (rmatch Eps st) \<longleftrightarrow> st' = st"
  by (simp add: rmatch.simps)

text \<open>An expression that starts with \<open>^\<close> (no m flag) can match only at the start of the input.\<close>

lemma search_Bol_later: "search_from (Seq (Bol False) r) (Some c) s = None"
proof (induction s arbitrary: c)
  case Nil
  show ?case by (subst search_from.simps) (simp add: rmatch.simps)
next
  case (Cons d s)
  show ?case by (subst search_from.simps) (simp add: Cons rmatch.simps)
qed

lemma search_Bol:
  "search_from (Seq (Bol False) r) None s =
     (case rmatch r \<lparr>before = None, rest = s, caps = []\<rparr> of st # _ \<Rightarrow> Some st | [] \<Rightarrow> None)"
  by (subst search_from.simps) (simp add: search_Bol_later rmatch.simps split: list.splits)

lemma re_exec_anchored:
  assumes "re_exec (Seq (Bol False) r) s = Some cs"
  shows "\<exists>st \<in> set (rmatch r \<lparr>before = None, rest = s, caps = []\<rparr>). caps st = cs"
  using assms by (auto simp: re_exec_def search_Bol split: list.splits)

lemma re_exec_anchored_None:
  "re_exec (Seq (Bol False) r) s = None \<longleftrightarrow> set (rmatch r \<lparr>before = None, rest = s, caps = []\<rparr>) = {}"
  by (auto simp: re_exec_def search_Bol split: list.splits)

lemma re_test_anchored:
  "re_test (Seq (Bol False) r) s \<longleftrightarrow> set (rmatch r \<lparr>before = None, rest = s, caps = []\<rparr>) \<noteq> {}"
  by (auto simp: re_test_def search_Bol split: list.splits)

section \<open>What a whole match captured\<close>

text \<open>
  \<open>yields r w cs\<close>: reading the word \<open>w\<close> with \<open>r\<close> captured \<open>cs\<close>, latest first. It forgets where the
  match happened and which of several ways the engine preferred.
\<close>

inductive yields :: "re \<Rightarrow> string \<Rightarrow> (nat \<times> string) list \<Rightarrow> bool" where
  y_Eps: "yields Eps [] []"
| y_Cls: "p c \<Longrightarrow> yields (Cls p) [c] []"
| y_Seq: "yields a u cs \<Longrightarrow> yields b v ds \<Longrightarrow> yields (Seq a b) (u @ v) (ds @ cs)"
| y_Alt1: "yields a w cs \<Longrightarrow> yields (Alt a b) w cs"
| y_Alt2: "yields b w cs \<Longrightarrow> yields (Alt a b) w cs"
| y_Rep0: "yields (Rep 0 hi a) [] []"
| y_Rep: "yields a u cs \<Longrightarrow> yields (Rep (lo - 1) (map_option (\<lambda>h. h - 1) hi) a) v ds \<Longrightarrow> hi \<noteq> Some 0
    \<Longrightarrow> yields (Rep lo hi a) (u @ v) (ds @ cs)"
| y_Grp: "yields a w cs \<Longrightarrow> yields (Grp n a) w ((n, w) # cs)"
| y_Bol: "yields (Bol m) [] []"
| y_Eol: "yields (Eol m) [] []"
| y_WordB: "yields WordB [] []"

inductive_simps yields_Eps [simp]: "yields Eps w cs"
inductive_simps yields_Cls [simp]: "yields (Cls p) w cs"
inductive_simps yields_Seq: "yields (Seq a b) w cs"
inductive_simps yields_Alt: "yields (Alt a b) w cs"
inductive_simps yields_Grp: "yields (Grp n a) w cs"
inductive_simps yields_Eol [simp]: "yields (Eol m) w cs"
inductive_simps yields_Bol [simp]: "yields (Bol m) w cs"

lemma yields_chr [simp]: "yields (chr c) w cs \<longleftrightarrow> w = [c] \<and> cs = []"
  by (auto simp: chr_def)

lemma yields_lit [simp]: "yields (lit t) w cs \<longleftrightarrow> w = t \<and> cs = []"
  by (induction t arbitrary: w cs) (auto simp: yields_Seq)

lemma yields_Rep_Cls: "yields (Rep lo hi (Cls p)) w cs \<Longrightarrow>
    cs = [] \<and> list_all p w \<and> lo \<le> length w \<and> (case hi of None \<Rightarrow> True | Some h \<Rightarrow> length w \<le> h)"
  by (induction "Rep lo hi (Cls p)" w cs arbitrary: lo hi rule: yields.induct) (auto split: option.splits)

lemma rep_match_yields:
  assumes "\<And>st st'. st' \<in> set (f st) \<Longrightarrow> \<exists>w cs. yields a w cs \<and> consumes st w st' \<and> caps st' = cs @ caps st"
  shows "st' \<in> set (rep_match f n lo hi st) \<Longrightarrow>
    \<exists>w cs. yields (Rep lo hi a) w cs \<and> consumes st w st' \<and> caps st' = cs @ caps st"
proof (induction n arbitrary: lo hi st)
  case (Suc n)
  from Suc.prems consider (stop) "lo = 0" "st' = st"
    | (more) st1 where "hi \<noteq> Some 0" "st1 \<in> set (f st)" "st' \<in> set (rep_match f n (lo - 1) (map_option (\<lambda>h. h - 1) hi) st1)"
    by (auto simp: rep_match.simps Let_def split: if_splits)
  then show ?case
  proof cases
    case stop
    then show ?thesis using y_Rep0 by auto
  next
    case more
    obtain w cs where w: "yields a w cs" "consumes st w st1" "caps st1 = cs @ caps st" using assms [OF more(2)] by blast
    obtain v ds where v: "yields (Rep (lo - 1) (map_option (\<lambda>h. h - 1) hi) a) v ds" "consumes st1 v st'" "caps st' = ds @ caps st1"
      using Suc.IH [OF more(3)] by blast
    have "yields (Rep lo hi a) (w @ v) (ds @ cs)" using w(1) v(1) more(1) by (rule y_Rep)
    moreover have "consumes st (w @ v) st'" using w(2) v(2) by (rule consumes_trans)
    ultimately show ?thesis using w(3) v(3) by auto
  qed
qed (simp add: rep_match.simps)

lemma rmatch_yields:
  "st' \<in> set (rmatch r st) \<Longrightarrow> \<exists>w cs. yields r w cs \<and> consumes st w st' \<and> caps st' = cs @ caps st"
proof (induction r arbitrary: st st')
  case (Seq a b)
  then obtain st1 where "st1 \<in> set (rmatch a st)" "st' \<in> set (rmatch b st1)" by (auto simp: in_Seq)
  then show ?case using Seq.IH(1) [of st1 st] Seq.IH(2) [of st' st1] by (fastforce intro: y_Seq consumes_trans)
next
  case (Rep lo hi a)
  show ?case using Rep.prems unfolding rmatch.simps by (rule rep_match_yields [rotated]) (rule Rep.IH)
next
  case (Grp n a)
  then obtain st1 w where st1: "st1 \<in> set (rmatch a st)" "consumes st w st1" "st' = st1\<lparr>caps := (n, w) # caps st1\<rparr>"
    by (auto simp: in_Grp)
  obtain v cs where v: "yields a v cs" "consumes st v st1" "caps st1 = cs @ caps st" using Grp.IH [OF st1(1)] by blast
  have "v = w" using v(2) st1(2) by (simp add: consumes_def)
  then show ?case using v st1 by (auto intro: y_Grp)
next
  case (Alt a b)
  then show ?case by (auto simp: in_Alt dest!: Alt.IH) (blast intro: y_Alt1 y_Alt2)+
next
  case (Cls p)
  then have "\<exists>c cs. rest st = c # cs \<and> p c \<and> st' = skip [c] st" by (simp add: in_Cls)
  then show ?case by (auto simp: consumes_def skip_def)
next
  case WordB
  then have "st' = st" by (auto simp: rmatch.simps Let_def split: if_splits)
  then show ?case using y_WordB by force
next
  case (Bol m)
  then have "st' = st" by (auto simp: rmatch.simps split: option.splits if_splits)
  then show ?case by simp
next
  case (Eol m)
  then have "st' = st" by (auto simp: rmatch.simps split: list.splits if_splits)
  then show ?case by simp
qed (simp add: rmatch.simps)

text \<open>An expression that ends in \<open>$\<close> (no m flag) reads to the end of the input.\<close>

fun ends_eol :: "re \<Rightarrow> bool" where
  "ends_eol (Seq a b) = ends_eol b"
| "ends_eol (Eol m) = (\<not> m)"
| "ends_eol r = False"

lemma ends_eol_rest: "st' \<in> set (rmatch r st) \<Longrightarrow> ends_eol r \<Longrightarrow> rest st' = []"
  by (induction r arbitrary: st st') (auto simp: rmatch.simps split: list.splits)

lemma full_match:
  assumes "re_exec (Seq (Bol False) r) s = Some cs" "ends_eol r" shows "yields r s cs"
proof -
  obtain st' where st': "st' \<in> set (rmatch r \<lparr>before = None, rest = s, caps = []\<rparr>)" "caps st' = cs"
    using re_exec_anchored [OF assms(1)] by blast
  obtain w ds where "yields r w ds" "consumes \<lparr>before = None, rest = s, caps = []\<rparr> w st'" "caps st' = ds"
    using rmatch_yields [OF st'(1)] by auto
  then show ?thesis using st' ends_eol_rest [OF st'(1) assms(2)] by (simp add: consumes_def)
qed

fun no_groups :: "re \<Rightarrow> bool" where
  "no_groups (Seq a b) = (no_groups a \<and> no_groups b)"
| "no_groups (Alt a b) = (no_groups a \<and> no_groups b)"
| "no_groups (Rep lo hi a) = no_groups a"
| "no_groups (Grp n a) = False"
| "no_groups r = True"

lemma yields_no_groups: "yields r w cs \<Longrightarrow> no_groups r \<Longrightarrow> cs = []"
  by (induction rule: yields.induct) auto

fun reads_only :: "(char \<Rightarrow> bool) \<Rightarrow> re \<Rightarrow> bool" where
  "reads_only P (Cls p) = (\<forall>c. p c \<longrightarrow> P c)"
| "reads_only P (Seq a b) = (reads_only P a \<and> reads_only P b)"
| "reads_only P (Alt a b) = (reads_only P a \<and> reads_only P b)"
| "reads_only P (Rep lo hi a) = reads_only P a"
| "reads_only P (Grp n a) = reads_only P a"
| "reads_only P r = True"

lemma yields_reads_only: "yields r w cs \<Longrightarrow> reads_only P r \<Longrightarrow> list_all P w"
  by (induction rule: yields.induct) auto

end
