(* ===== verification/GrainhackStatement.thy ===== *)
theory GrainhackStatement
  imports Ed25519 JsonParse Regex
begin

text \<open>
  packages/gate/src/grainhack-statement.ts: the signed results statement of a hackathon. A refusal
  is a constructor; the text of its message is left out. \<open>statement_of\<close> is the typed view the code
  takes of an object whose shape it has checked.
\<close>

section \<open>The patterns\<close>

definition UUID :: re where
  "UUID = Seq (Bol False) (seqs [times 8 hexc, chr (CHR ''-''), times 4 hexc, chr (CHR ''-''), times 4 hexc, chr (CHR ''-''),
     times 4 hexc, chr (CHR ''-''), times 12 hexc, Eol False])"

definition MINOR :: re where
  "MINOR = Seq (Bol False) (Seq (Grp 1 (Alt (chr (CHR ''0''))
     (Seq (Cls (\<lambda>c. is_digit c \<and> c \<noteq> CHR ''0'')) (Rep 0 (Some 29) digitc)))) (Eol False))"

definition LOGIN :: re where
  "LOGIN = Seq (Bol False) (seqs [Cls is_alnum, Rep 0 (Some 38) (Cls (\<lambda>c. is_alnum c \<or> c = CHR ''-'')), Eol False])"

definition RFC3339_UTC :: re where
  "RFC3339_UTC = Seq (Bol False) (seqs [times 4 digitc, chr (CHR ''-''), times 2 digitc, chr (CHR ''-''), times 2 digitc,
     chr (CHR ''T''), times 2 digitc, chr (CHR '':''), times 2 digitc, chr (CHR '':''), times 2 digitc,
     opt (Grp 1 (Seq (chr (CHR ''.'')) (Rep 1 (Some 9) digitc))), chr (CHR ''Z''), Eol False])"

definition CURRENCY :: re where
  "CURRENCY = Seq (Bol False) (seqs [Cls is_upper, Rep 1 (Some 9) (Cls (\<lambda>c. is_upper c \<or> is_digit c)), Eol False])"

definition RESULTS_PUBKEY :: re where
  "RESULTS_PUBKEY = Seq (Bol False) (seqs [times 43 (Cls (\<lambda>c. is_alnum c \<or> c = CHR ''+'' \<or> c = CHR ''/'')),
     chr (CHR ''=''), Eol False])"

section \<open>The statement\<close>

definition RESULTS_DOMAIN :: string where
  "RESULTS_DOMAIN = ''grainlify-grainhack-results:v1'' @ newline"

definition STATEMENT_NETWORKS :: "string list" where
  "STATEMENT_NETWORKS = [''solana-devnet'', ''solana-mainnet'']"

definition STATEMENT_POOLS :: "string list" where
  "STATEMENT_POOLS = [''contributor'']"

record statement_line =
  sl_github_user_id :: jsnum
  sl_login :: string
  sl_amount_minor :: string
  sl_status :: string

record results_statement =
  rs_statement_id :: string
  rs_supersedes :: "string option"
  rs_hackathon_id :: string
  rs_hackathon_name :: string
  rs_pool :: string
  rs_computation_id :: string
  rs_currency :: string
  rs_network :: string
  rs_pool_minor :: string
  rs_lines :: "statement_line list"
  rs_issued_at :: string

definition statementSha256 :: "platform \<Rightarrow> string \<Rightarrow> string" where
  "statementSha256 P statementJson = sha256_hex P statementJson"

definition resultsMessage :: "string \<Rightarrow> string" where
  "resultsMessage statementJson = RESULTS_DOMAIN @ statementJson"

definition TOP_KEYS :: "string list" where
  "TOP_KEYS = [''computation_id'', ''currency'', ''hackathon_id'', ''hackathon_name'', ''issued_at'', ''kind'', ''lines'',
     ''network'', ''pool'', ''pool_minor'', ''statement_id'', ''supersedes'', ''v'']"

definition LINE_KEYS :: "string list" where
  "LINE_KEYS = [''amount_minor'', ''github_user_id'', ''login'', ''status'']"

definition sameKeys :: "(string \<times> json) list \<Rightarrow> string list \<Rightarrow> bool" where
  "sameKeys es keys \<longleftrightarrow> sort (map fst es) = keys"

datatype statement_error = Not_an_object | Wrong_keys | Wrong_version | Wrong_kind | Not_a_uuid string
  | Bad_supersedes | Supersedes_itself | No_hackathon_name | Pool_not_paid | Bad_currency | Bad_network | Bad_pool_minor
  | Bad_issued_at | Lines_not_an_array | Line_keys nat | Line_user nat | Line_order nat | Line_login nat
  | Line_amount nat | Line_status nat | Lines_do_not_add_up bigint string

text \<open>A field that is a string matching the test; anything else fails it.\<close>

definition is_str :: "(string \<times> json) list \<Rightarrow> string \<Rightarrow> (string \<Rightarrow> bool) \<Rightarrow> bool" where
  "is_str es k ok = (case map_of es k of Some (JStr s) \<Rightarrow> ok s | _ \<Rightarrow> False)"

definition str_of :: "(string \<times> json) list \<Rightarrow> string \<Rightarrow> string" where
  "str_of es k = (case map_of es k of Some (JStr s) \<Rightarrow> s | _ \<Rightarrow> [])"

definition num_of :: "(string \<times> json) list \<Rightarrow> string \<Rightarrow> jsnum" where
  "num_of es k = (case map_of es k of Some (JNum n) \<Rightarrow> n | _ \<Rightarrow> 0)"

definition amount_of :: "string \<Rightarrow> bigint" where
  "amount_of s = (case bigint_of s of Some n \<Rightarrow> n | None \<Rightarrow> 0)"

fun check_lines :: "nat \<Rightarrow> bigint \<Rightarrow> jsnum \<Rightarrow> json list \<Rightarrow> statement_error + bigint" where
  "check_lines i tot prev [] = Inr tot"
| "check_lines i tot prev (l # ls) =
     (case l of
        JObj es \<Rightarrow>
          if \<not> sameKeys es LINE_KEYS then Inl (Line_keys i)
          else if (case map_of es ''github_user_id'' of Some (JNum n) \<Rightarrow> \<not> is_safe_integer n \<or> n \<le> 0 | _ \<Rightarrow> True)
            then Inl (Line_user i)
          else if num_of es ''github_user_id'' \<le> prev then Inl (Line_order i)
          else if \<not> is_str es ''login'' (re_test LOGIN) then Inl (Line_login i)
          else if \<not> is_str es ''amount_minor'' (re_test MINOR) then Inl (Line_amount i)
          else if \<not> is_str es ''status'' (\<lambda>s. s = ''payable'' \<or> s = ''held_kyc'') then Inl (Line_status i)
          else check_lines (Suc i) (tot + amount_of (str_of es ''amount_minor'')) (num_of es ''github_user_id'') ls
      | _ \<Rightarrow> Inl (Line_keys i))"

definition checkStatementShape :: "platform \<Rightarrow> json \<Rightarrow> statement_error option" where
  "checkStatementShape P s =
     (case s of
        JObj es \<Rightarrow>
          if \<not> sameKeys es TOP_KEYS then Some Wrong_keys
          else if map_of es ''v'' \<noteq> Some (JNum 1) then Some Wrong_version
          else if map_of es ''kind'' \<noteq> Some (JStr ''grainhack_results'') then Some Wrong_kind
          else (case find (\<lambda>k. \<not> is_str es k (re_test UUID)) [''statement_id'', ''hackathon_id'', ''computation_id''] of
            Some k \<Rightarrow> Some (Not_a_uuid k)
          | None \<Rightarrow>
              if map_of es ''supersedes'' \<noteq> Some JNull \<and> \<not> is_str es ''supersedes'' (re_test UUID) then Some Bad_supersedes
              else if map_of es ''supersedes'' = map_of es ''statement_id'' then Some Supersedes_itself
              else if \<not> is_str es ''hackathon_name'' (\<lambda>s. js_trim s \<noteq> [] \<and> length s \<le> 200) then Some No_hackathon_name
              else if \<not> is_str es ''pool'' (\<lambda>s. s \<in> set STATEMENT_POOLS) then Some Pool_not_paid
              else if \<not> is_str es ''currency'' (re_test CURRENCY) then Some Bad_currency
              else if \<not> is_str es ''network'' (\<lambda>s. s \<in> set STATEMENT_NETWORKS) then Some Bad_network
              else if \<not> is_str es ''pool_minor'' (re_test MINOR) then Some Bad_pool_minor
              else if \<not> is_str es ''issued_at'' (\<lambda>s. re_test RFC3339_UTC s \<and> parse_date P s \<noteq> None) then Some Bad_issued_at
              else (case map_of es ''lines'' of
                 Some (JArr ls) \<Rightarrow>
                   (case check_lines 0 0 0 ls of
                      Inl e \<Rightarrow> Some e
                    | Inr tot \<Rightarrow>
                        if tot \<noteq> amount_of (str_of es ''pool_minor'')
                        then Some (Lines_do_not_add_up tot (str_of es ''pool_minor'')) else None)
               | _ \<Rightarrow> Some Lines_not_an_array))
      | _ \<Rightarrow> Some Not_an_object)"

definition line_of :: "json \<Rightarrow> statement_line" where
  "line_of j = (case j of
     JObj es \<Rightarrow> \<lparr>sl_github_user_id = num_of es ''github_user_id'', sl_login = str_of es ''login'',
                 sl_amount_minor = str_of es ''amount_minor'', sl_status = str_of es ''status''\<rparr>
   | _ \<Rightarrow> \<lparr>sl_github_user_id = 0, sl_login = [], sl_amount_minor = [], sl_status = []\<rparr>)"

definition entries_of :: "json \<Rightarrow> (string \<times> json) list" where
  "entries_of j = (case j of JObj es \<Rightarrow> es | _ \<Rightarrow> [])"

definition statement_of :: "json \<Rightarrow> results_statement" where
  "statement_of j =
     (let es = entries_of j in
      \<lparr>rs_statement_id = str_of es ''statement_id'',
       rs_supersedes = (case map_of es ''supersedes'' of Some (JStr s) \<Rightarrow> Some s | _ \<Rightarrow> None),
       rs_hackathon_id = str_of es ''hackathon_id'', rs_hackathon_name = str_of es ''hackathon_name'',
       rs_pool = str_of es ''pool'', rs_computation_id = str_of es ''computation_id'',
       rs_currency = str_of es ''currency'', rs_network = str_of es ''network'', rs_pool_minor = str_of es ''pool_minor'',
       rs_lines = (case map_of es ''lines'' of Some (JArr ls) \<Rightarrow> map line_of ls | _ \<Rightarrow> []),
       rs_issued_at = str_of es ''issued_at''\<rparr>)"

definition verifyResultsSignature :: "platform \<Rightarrow> string \<Rightarrow> string \<Rightarrow> string \<Rightarrow> bool" where
  "verifyResultsSignature P statementJson sigB64 pubB64 \<longleftrightarrow>
     length (b64_decode P pubB64) = 32 \<and> length (b64_decode P sigB64) = 64
     \<and> ed_verify P (b64_decode P pubB64) (resultsMessage statementJson) (b64_decode P sigB64)"

datatype statement_refusal = Must_be_strings | Signature_does_not_verify | Statement_not_json | Not_canonical
  | Bad_shape statement_error

text \<open>
  The arguments come from a request body: \<open>None\<close> is anything that is not a string. Every parsed
  value has a canonical form, so the code's branch for one that has none is never taken.
\<close>

definition verifyStatement ::
    "platform \<Rightarrow> string option \<Rightarrow> string option \<Rightarrow> string \<Rightarrow> statement_refusal + results_statement \<times> string" where
  "verifyStatement P statementJson signatureB64 resultsPubkeyB64 =
     (case (statementJson, signatureB64) of
        (Some text, Some sig) \<Rightarrow>
          if \<not> verifyResultsSignature P text sig resultsPubkeyB64 then Inl Signature_does_not_verify
          else (case json_parse text of
             None \<Rightarrow> Inl Statement_not_json
           | Some parsed \<Rightarrow>
               if canonicalJson (other_number P) parsed \<noteq> text then Inl Not_canonical
               else (case checkStatementShape P parsed of
                  Some e \<Rightarrow> Inl (Bad_shape e)
                | None \<Rightarrow> Inr (statement_of parsed, statementSha256 P text)))
      | _ \<Rightarrow> Inl Must_be_strings)"

definition isResultsPubkey :: "platform \<Rightarrow> string option \<Rightarrow> bool" where
  "isResultsPubkey P s =
     (case s of None \<Rightarrow> False
      | Some k \<Rightarrow> re_test RESULTS_PUBKEY k \<and> b64_encode P (b64_decode P k) = k)"

definition lineFor :: "results_statement \<Rightarrow> jsnum \<Rightarrow> statement_line option" where
  "lineFor s githubUserId = find (\<lambda>l. sl_github_user_id l = githubUserId) (rs_lines s)"

section \<open>What an accepted statement says\<close>

definition minor_string :: "string \<Rightarrow> bool" where
  "minor_string s \<longleftrightarrow> s \<noteq> [] \<and> list_all is_digit s \<and> length s \<le> 30"

lemma digit_0: "is_digit (CHR ''0'')"
  by (simp add: is_digit_def code_def)

lemma re_test_MINOR: "re_test MINOR s \<Longrightarrow> minor_string s"
proof -
  assume "re_test MINOR s"
  then show ?thesis
    unfolding MINOR_def re_test_anchored ex_in_conv [symmetric] digitc_def re_simps minor_string_def
    by (auto simp: consumes_def digit_0)
qed

lemma amount_minor: "minor_string s \<Longrightarrow> bigint_of s = Some (int (digits_val s)) \<and> amount_of s = int (digits_val s)"
  by (simp add: minor_string_def amount_of_def bigint_of_digits)

lemma check_lines_ok:
  "check_lines i tot prev ls = Inr t \<Longrightarrow>
     sorted_wrt (<) (prev # map (sl_github_user_id \<circ> line_of) ls)
     \<and> t = tot + sum_list (map (amount_of \<circ> sl_amount_minor \<circ> line_of) ls)
     \<and> (\<forall>l \<in> set ls. minor_string (sl_amount_minor (line_of l)) \<and> is_safe_integer (sl_github_user_id (line_of l))
          \<and> 0 < sl_github_user_id (line_of l)
          \<and> sl_status (line_of l) \<in> {''payable'', ''held_kyc''})"
proof (induction ls arbitrary: i tot prev)
  case (Cons l ls)
  obtain es where l: "l = JObj es" using Cons.prems by (cases l) auto
  from Cons.prems have
    u: "\<exists>n. map_of es ''github_user_id'' = Some (JNum n) \<and> is_safe_integer n \<and> 0 < n \<and> prev < n"
    and a: "\<exists>s. map_of es ''amount_minor'' = Some (JStr s) \<and> re_test MINOR s"
    and st: "\<exists>s. map_of es ''status'' = Some (JStr s) \<and> s \<in> {''payable'', ''held_kyc''}"
    and r: "check_lines (Suc i) (tot + amount_of (str_of es ''amount_minor'')) (num_of es ''github_user_id'') ls = Inr t"
    by (simp_all add: l is_str_def num_of_def not_le split: if_splits option.splits json.splits)
  note IH = Cons.IH [OF r]
  have line: "sl_github_user_id (line_of l) = num_of es ''github_user_id''"
    "sl_amount_minor (line_of l) = str_of es ''amount_minor''" "sl_status (line_of l) = str_of es ''status''"
    by (simp_all add: l line_of_def)
  have n: "is_safe_integer (num_of es ''github_user_id'')" "0 < num_of es ''github_user_id''" "prev < num_of es ''github_user_id''"
    using u by (auto simp: num_of_def)
  moreover have "minor_string (str_of es ''amount_minor'')" using a re_test_MINOR by (auto simp: str_of_def)
  moreover have "str_of es ''status'' \<in> {''payable'', ''held_kyc''}" using st by (auto simp: str_of_def)
  ultimately show ?case using IH by (auto simp: line intro: less_trans)
qed simp

text \<open>What a checked statement promises.\<close>

definition statement_ok :: "results_statement \<Rightarrow> bool" where
  "statement_ok s \<longleftrightarrow>
     sorted_wrt (<) (map sl_github_user_id (rs_lines s))
     \<and> (\<forall>l \<in> set (rs_lines s). minor_string (sl_amount_minor l) \<and> 0 < sl_github_user_id l
          \<and> is_safe_integer (sl_github_user_id l) \<and> sl_status l \<in> {''payable'', ''held_kyc''})
     \<and> sum_list (map (amount_of \<circ> sl_amount_minor) (rs_lines s)) = amount_of (rs_pool_minor s)
     \<and> minor_string (rs_pool_minor s) \<and> rs_network s \<in> set STATEMENT_NETWORKS \<and> rs_pool s \<in> set STATEMENT_POOLS
     \<and> rs_supersedes s \<noteq> Some (rs_statement_id s)"

lemma is_strD: "is_str es k ok \<Longrightarrow> map_of es k = Some (JStr (str_of es k)) \<and> ok (str_of es k)"
  by (auto simp: is_str_def str_of_def split: option.splits json.splits)

lemma checkStatementShape_ok:
  assumes "checkStatementShape P j = None" shows "statement_ok (statement_of j)"
proof -
  obtain es where j: "j = JObj es" using assms by (cases j) (auto simp: checkStatementShape_def)
  have c: "map_of es ''supersedes'' \<noteq> map_of es ''statement_id''" "is_str es ''pool'' (\<lambda>s. s \<in> set STATEMENT_POOLS)"
      "is_str es ''network'' (\<lambda>s. s \<in> set STATEMENT_NETWORKS)" "is_str es ''pool_minor'' (re_test MINOR)"
      "is_str es ''statement_id'' (re_test UUID)"
    and "\<exists>ls t. map_of es ''lines'' = Some (JArr ls) \<and> check_lines 0 0 0 ls = Inr t \<and> t = amount_of (str_of es ''pool_minor'')"
    using assms by (simp_all add: j checkStatementShape_def split: if_splits option.splits json.splits sum.splits)
  then obtain ls where ls: "map_of es ''lines'' = Some (JArr ls)"
      "check_lines 0 0 0 ls = Inr (amount_of (str_of es ''pool_minor''))" by blast
  note lines = check_lines_ok [OF ls(2)]
  have id: "map_of es ''statement_id'' = Some (JStr (str_of es ''statement_id''))" using is_strD [OF c(5)] ..
  have "rs_supersedes (statement_of j) \<noteq> Some (rs_statement_id (statement_of j))"
    using c(1) id by (auto simp: statement_of_def j entries_of_def Let_def split: option.splits json.splits)
  then show ?thesis
    using lines is_strD [OF c(2)] is_strD [OF c(3)] is_strD [OF c(4)] ls(1)
    by (auto simp: statement_ok_def statement_of_def j entries_of_def Let_def re_test_MINOR o_assoc comp_def)
qed

text \<open>
  C37. A statement is accepted only if the results key signed exactly its text, its text is the
  canonical form of the value it holds, and its digest is of that text; its lines are in
  ascending order of user, nobody is named twice, every amount is a decimal string of minor
  units, and together they come to the pool to the last unit.
\<close>

theorem accepted_statement_adds_up:
  assumes "verifyStatement P (Some text) (Some sig) pub = Inr (s, sha)"
  shows "ed_verify P (b64_decode P pub) (RESULTS_DOMAIN @ text) (b64_decode P sig)
    \<and> (\<exists>v. json_parse text = Some v \<and> canonicalJson (other_number P) v = text \<and> s = statement_of v)
    \<and> sha = sha256_hex P text
    \<and> sorted_wrt (<) (map sl_github_user_id (rs_lines s)) \<and> distinct (map sl_github_user_id (rs_lines s))
    \<and> (\<forall>l \<in> set (rs_lines s). bigint_of (sl_amount_minor l) = Some (amount_of (sl_amount_minor l)) \<and> 0 \<le> amount_of (sl_amount_minor l))
    \<and> sum_list (map (amount_of \<circ> sl_amount_minor) (rs_lines s)) = amount_of (rs_pool_minor s)"
proof -
  obtain v where v: "verifyResultsSignature P text sig pub" "json_parse text = Some v"
      "canonicalJson (other_number P) v = text" "checkStatementShape P v = None" "s = statement_of v" "sha = sha256_hex P text"
    using assms by (auto simp: verifyStatement_def statementSha256_def split: if_splits option.splits)
  have ok: "statement_ok s" using checkStatementShape_ok v by simp
  then have "sorted_wrt (<) (map sl_github_user_id (rs_lines s))" by (simp add: statement_ok_def)
  then have "distinct (map sl_github_user_id (rs_lines s))" by (simp add: strict_sorted_iff)
  then show ?thesis
    using v ok by (auto simp: verifyResultsSignature_def resultsMessage_def statement_ok_def amount_minor)
qed

text \<open>
  In an accepted statement a person has at most one line, the one \<open>lineFor\<close> finds, and it is
  never more than the pool.
\<close>

theorem line_is_unique_and_within_pool:
  assumes "verifyStatement P text sig pub = Inr (s, sha)" "l \<in> set (rs_lines s)"
  shows "lineFor s (sl_github_user_id l) = Some l \<and> amount_of (sl_amount_minor l) \<le> amount_of (rs_pool_minor s)"
proof -
  obtain v where "checkStatementShape P v = None" "s = statement_of v"
    using assms(1) by (auto simp: verifyStatement_def split: if_splits option.splits)
  then have ok: "statement_ok s" using checkStatementShape_ok by simp
  then have "distinct (map sl_github_user_id (rs_lines s))" by (simp add: statement_ok_def strict_sorted_iff)
  then have "lineFor s (sl_github_user_id l) = Some l" unfolding lineFor_def by (rule find_key_eq [OF _ assms(2) refl])
  moreover have "amount_of (sl_amount_minor l) \<le> sum_list (map (amount_of \<circ> sl_amount_minor) (rs_lines s))"
    using ok assms(2) by (intro member_le_sum_list) (auto simp: statement_ok_def amount_minor)
  ultimately show ?thesis using ok by (simp add: statement_ok_def)
qed

section \<open>A statement\<close>

definition demo_uuid :: "char \<Rightarrow> string" where
  "demo_uuid c = replicate 8 c @ ''-'' @ replicate 4 c @ ''-'' @ replicate 4 c @ ''-'' @ replicate 4 c @ ''-'' @ replicate 12 c"

definition demo_line :: "int \<Rightarrow> string \<Rightarrow> string \<Rightarrow> json" where
  "demo_line uid login amount = JObj [(''amount_minor'', JStr amount), (''github_user_id'', JNum (of_int uid)),
     (''login'', JStr login), (''status'', JStr ''payable'')]"

definition demo_statement :: json where
  "demo_statement = JObj
     [(''computation_id'', JStr (demo_uuid (CHR ''a''))), (''currency'', JStr ''USDC''),
      (''hackathon_id'', JStr (demo_uuid (CHR ''b''))), (''hackathon_name'', JStr ''H''),
      (''issued_at'', JStr ''2026-01-01T00:00:00Z''), (''kind'', JStr ''grainhack_results''),
      (''lines'', JArr [demo_line 1 ''al'' ''3'', demo_line 2 ''bo'' ''4'']), (''network'', JStr ''solana-devnet''),
      (''pool'', JStr ''contributor''), (''pool_minor'', JStr ''7''), (''statement_id'', JStr (demo_uuid (CHR ''c''))),
      (''supersedes'', JNull), (''v'', JNum 1)]"

definition demo_text :: string where
  "demo_text = canonicalJson (other_number toy) demo_statement"

definition demo_sig :: string where
  "demo_sig = toy_sign [] (resultsMessage demo_text)"

lemma demo_text_parses: "json_parse demo_text = Some demo_statement"
  by code_simp

lemma demo_shape: "checkStatementShape toy demo_statement = None"
  by code_simp

lemma demo_verified:
  "verifyStatement toy (Some demo_text) (Some demo_sig) (replicate 32 (CHR ''k'')) =
     Inr (statement_of demo_statement, demo_text)"
proof -
  have "verifyResultsSignature toy demo_text demo_sig (replicate 32 (CHR ''k''))"
    by (simp add: verifyResultsSignature_def toy_def demo_sig_def toy_sign_def min_def)
  moreover have "canonicalJson (other_number toy) demo_statement = demo_text" by (simp add: demo_text_def)
  ultimately show ?thesis
    by (simp add: verifyStatement_def demo_text_parses demo_shape statementSha256_def) (simp add: toy_def)
qed

theorem accepted_statement_adds_up_witness:
  "sum_list (map (amount_of \<circ> sl_amount_minor) (rs_lines (statement_of demo_statement))) = 7"
proof -
  have "amount_of (rs_pool_minor (statement_of demo_statement)) = 7" by code_simp
  then show ?thesis using accepted_statement_adds_up [OF demo_verified] by simp
qed

theorem line_is_unique_and_within_pool_witness:
  "lineFor (statement_of demo_statement) 2 =
     Some \<lparr>sl_github_user_id = 2, sl_login = ''bo'', sl_amount_minor = ''4'', sl_status = ''payable''\<rparr>"
proof -
  let ?l = "\<lparr>sl_github_user_id = 2, sl_login = ''bo'', sl_amount_minor = ''4'', sl_status = ''payable''\<rparr>"
  have "?l \<in> set (rs_lines (statement_of demo_statement))"
    by (simp add: statement_of_def entries_of_def demo_statement_def line_of_def demo_line_def num_of_def str_of_def Let_def)
  from line_is_unique_and_within_pool [OF demo_verified this] show ?thesis by simp
qed

end
