(* ===== verification/GrainhackApproval.thy ===== *)
theory GrainhackApproval
  imports Approval GrainhackStatement
begin

text \<open>
  packages/gate/src/grainhack-approval.ts: the approval of one hackathon payout, the same envelope
  as a bounty approval under its own domain, over terms whose shape is checked key by key.
\<close>

definition GRAINHACK_APPROVAL_DOMAIN :: string where
  "GRAINHACK_APPROVAL_DOMAIN = ''grainlify-grainhack-payout-approval:v1'' @ newline"

record grainhack_terms =
  gt_payout_id :: string
  gt_statement_id :: string
  gt_statement_sha256 :: string
  gt_hackathon_id :: string
  gt_pool :: string
  gt_github_user_id :: jsnum
  gt_login :: string
  gt_recipient :: string
  gt_amount_minor :: string
  gt_currency :: string
  gt_mint :: string
  gt_network :: string

definition GRAINHACK_TERM_KEYS :: "string list" where
  "GRAINHACK_TERM_KEYS = [''amount_minor'', ''currency'', ''github_user_id'', ''hackathon_id'', ''login'', ''mint'', ''network'',
     ''payout_id'', ''pool'', ''recipient'', ''statement_id'', ''statement_sha256'']"

definition SHA256_HEX :: re where
  "SHA256_HEX = Seq (Bol False) (Seq (times 64 hexc) (Eol False))"

definition POSITIVE_MINOR :: re where
  "POSITIVE_MINOR = Seq (Bol False) (seqs [Cls (\<lambda>c. is_digit c \<and> c \<noteq> CHR ''0''), Rep 0 (Some 29) digitc, Eol False])"

datatype terms_error = Missing_approval_terms | For_a_bounty_payout | Terms_not_exactly | Term_not_a_uuid string
  | Term_bad_sha | Term_bad_user | Term_bad_amount | Term_missing string | Term_bad_mint

definition checkGrainhackTermsShape :: "platform \<Rightarrow> json \<Rightarrow> terms_error option" where
  "checkGrainhackTermsShape P t =
     (case t of
        JObj es \<Rightarrow>
          if map_of es ''bounty_id'' \<noteq> None \<or> map_of es ''repo'' \<noteq> None \<or> map_of es ''escrow'' \<noteq> None
          then Some For_a_bounty_payout
          else if \<not> sameKeys es GRAINHACK_TERM_KEYS then Some Terms_not_exactly
          else (case find (\<lambda>k. \<not> is_str es k (re_test UUID)) [''payout_id'', ''statement_id'', ''hackathon_id''] of
            Some k \<Rightarrow> Some (Term_not_a_uuid k)
          | None \<Rightarrow>
              if \<not> is_str es ''statement_sha256'' (re_test SHA256_HEX) then Some Term_bad_sha
              else if (case map_of es ''github_user_id'' of Some (JNum n) \<Rightarrow> \<not> is_safe_integer n \<or> n \<le> 0 | _ \<Rightarrow> True)
                then Some Term_bad_user
              else if \<not> is_str es ''amount_minor'' (re_test POSITIVE_MINOR) then Some Term_bad_amount
              else (case find (\<lambda>k. \<not> is_str es k (\<lambda>s. s \<noteq> []))
                           [''pool'', ''login'', ''recipient'', ''currency'', ''mint'', ''network''] of
                 Some k \<Rightarrow> Some (Term_missing k)
               | None \<Rightarrow> if \<not> isSolanaAddress P (str_of es ''mint'') then Some Term_bad_mint else None))
      | _ \<Rightarrow> Some Missing_approval_terms)"

definition grainhack_entries :: "grainhack_terms \<Rightarrow> entries" where
  "grainhack_entries t =
     [(''payout_id'', JStr (gt_payout_id t)), (''statement_id'', JStr (gt_statement_id t)),
      (''statement_sha256'', JStr (gt_statement_sha256 t)), (''hackathon_id'', JStr (gt_hackathon_id t)),
      (''pool'', JStr (gt_pool t)), (''github_user_id'', JNum (gt_github_user_id t)), (''login'', JStr (gt_login t)),
      (''recipient'', JStr (gt_recipient t)), (''amount_minor'', JStr (gt_amount_minor t)),
      (''currency'', JStr (gt_currency t)), (''mint'', JStr (gt_mint t)), (''network'', JStr (gt_network t))]"

text \<open>The typed view of terms whose shape was checked.\<close>

definition grainhack_terms_of :: "entries \<Rightarrow> grainhack_terms" where
  "grainhack_terms_of es =
     \<lparr>gt_payout_id = str_of es ''payout_id'', gt_statement_id = str_of es ''statement_id'',
      gt_statement_sha256 = str_of es ''statement_sha256'', gt_hackathon_id = str_of es ''hackathon_id'',
      gt_pool = str_of es ''pool'', gt_github_user_id = num_of es ''github_user_id'', gt_login = str_of es ''login'',
      gt_recipient = str_of es ''recipient'', gt_amount_minor = str_of es ''amount_minor'',
      gt_currency = str_of es ''currency'', gt_mint = str_of es ''mint'', gt_network = str_of es ''network''\<rparr>"

definition signGrainhackApproval :: "platform \<Rightarrow> entries \<Rightarrow> bytes \<Rightarrow> string \<Rightarrow> time_ms \<Rightarrow> entries envelope" where
  "signGrainhackApproval P terms secret64 address now = signEnvelope P GRAINHACK_APPROVAL_DOMAIN terms secret64 address now"

definition verifyGrainhackApproval :: "platform \<Rightarrow> entries envelope \<Rightarrow> string list \<Rightarrow> time_ms \<Rightarrow> approval_refusal option" where
  "verifyGrainhackApproval P a trustedApprovers now = verifyEnvelope P GRAINHACK_APPROVAL_DOMAIN a trustedApprovers now"

definition terms_canon :: "platform \<Rightarrow> entries \<Rightarrow> string" where
  "terms_canon P t = stringify (other_number P) (JArr (map (\<lambda>e. JArr [JStr (fst e), snd e]) (sort_entries t)))"

definition sameGrainhackTerms :: "platform \<Rightarrow> entries \<Rightarrow> entries \<Rightarrow> bool" where
  "sameGrainhackTerms P a b \<longleftrightarrow> terms_canon P a = terms_canon P b"

section \<open>The two kinds of approval never stand for each other\<close>

lemma domains_differ: "PREFIX @ x \<noteq> GRAINHACK_APPROVAL_DOMAIN @ y"
  by (simp add: PREFIX_def GRAINHACK_APPROVAL_DOMAIN_def)

text \<open>
  A bounty approval and a hackathon approval never have the same signed text, whatever their
  terms; and terms for a bounty are refused by the hackathon route before anything else.
\<close>

theorem approval_domains_disjoint:
  "approvalMessage P t a e \<noteq> envelopeMessage P GRAINHACK_APPROVAL_DOMAIN u b f
   \<and> checkGrainhackTermsShape P (JObj (terms_entries w)) = Some For_a_bounty_payout"
  using domains_differ
  by (simp add: approvalMessage_def envelopeMessage_def checkGrainhackTermsShape_def terms_entries_def)

lemma re_test_POSITIVE: "re_test POSITIVE_MINOR s \<Longrightarrow> minor_string s \<and> s \<noteq> ''0'' \<and> hd s \<noteq> CHR ''0''"
  unfolding POSITIVE_MINOR_def re_test_anchored ex_in_conv [symmetric] digitc_def seqs.simps re_simps minor_string_def
  by auto

lemma digits_pos: "list_all is_digit s \<Longrightarrow> s \<noteq> [] \<Longrightarrow> hd s \<noteq> CHR ''0'' \<Longrightarrow> 0 < digits_val s"
proof (induction s rule: rev_induct)
  case (snoc c s)
  show ?case
  proof (cases s)
    case Nil
    have "code (CHR ''0'') = 48" by (simp add: code_def)
    then have "code c \<noteq> 48" using snoc.prems Nil code_inject [of c "CHR ''0''"] by auto
    then show ?thesis using snoc.prems Nil by (simp add: digits_val_def is_digit_def)
  next
    case (Cons d t)
    then have "0 < digits_val s" using snoc by simp
    then show ?thesis by simp
  qed
qed simp

lemma entries_determined:
  assumes "distinct (map fst es)" "fst ` set es = fst ` set gs" "\<forall>(k, v) \<in> set gs. map_of es k = Some v"
  shows "set es = set gs"
proof (intro set_eqI iffI)
  fix e assume e: "e \<in> set es"
  then obtain v where "(fst e, v) \<in> set gs" using assms(2) by (metis imageE imageI prod.collapse)
  moreover have "map_of es (fst e) = Some (snd e)" using e assms(1) by simp
  ultimately show "e \<in> set gs" using assms(3) by force
qed (use assms(3) in \<open>auto dest: map_of_SomeD\<close>)

lemma entries_by_keys: "distinct (map fst xs) \<Longrightarrow> xs = map (\<lambda>k. (k, the (map_of xs k))) (map fst xs)"
proof (rule nth_equalityI)
  fix i assume d: "distinct (map fst xs)" and i: "i < length xs"
  have "map_of xs (fst (xs ! i)) = Some (snd (xs ! i))" using d i by (simp add: map_of_is_SomeI)
  then show "xs ! i = map (\<lambda>k. (k, the (map_of xs k))) (map fst xs) ! i" using i by (simp add: prod_eq_iff)
qed simp

lemma sort_entries_unique:
  fixes es :: "(string \<times> 'a) list"
  assumes "distinct (map fst es)" "distinct (map fst fs)" "set es = set fs"
  shows "sort_entries es = sort_entries fs"
proof -
  let ?x = "sort_entries es" and ?y = "sort_entries fs"
  have d: "distinct (map fst ?x)" "distinct (map fst ?y)"
    using assms by (simp_all add: sort_entries_def distinct_map distinct_sort)
  have "map fst ?x = map fst ?y"
  proof (rule sorted_distinct_set_unique)
    show "sorted (map fst ?x)" "sorted (map fst ?y)" by (simp_all add: sort_entries_def)
    show "set (map fst ?x) = set (map fst ?y)" using assms(3) by simp
  qed (rule d)+
  moreover have "map_of ?x = map_of ?y" using d assms(3) by (intro map_of_inject_set [THEN iffD2]) simp_all
  ultimately show ?thesis using entries_by_keys [OF d(1)] entries_by_keys [OF d(2)] by metis
qed

lemma checked_terms:
  assumes "checkGrainhackTermsShape P (JObj es) = None"
  shows "distinct (map fst es)" "set es = set (grainhack_entries (grainhack_terms_of es))"
    "minor_string (gt_amount_minor (grainhack_terms_of es))" "hd (gt_amount_minor (grainhack_terms_of es)) \<noteq> CHR ''0''"
    "0 < gt_github_user_id (grainhack_terms_of es)" "is_safe_integer (gt_github_user_id (grainhack_terms_of es))"
    "isSolanaAddress P (gt_mint (grainhack_terms_of es))"
proof -
  have keys: "sort (map fst es) = GRAINHACK_TERM_KEYS"
    and u: "\<exists>n. map_of es ''github_user_id'' = Some (JNum n) \<and> is_safe_integer n \<and> 0 < n"
    and f: "is_str es ''payout_id'' (re_test UUID)" "is_str es ''statement_id'' (re_test UUID)"
      "is_str es ''hackathon_id'' (re_test UUID)" "is_str es ''statement_sha256'' (re_test SHA256_HEX)"
      "is_str es ''amount_minor'' (re_test POSITIVE_MINOR)" "is_str es ''pool'' (\<lambda>s. s \<noteq> [])"
      "is_str es ''login'' (\<lambda>s. s \<noteq> [])" "is_str es ''recipient'' (\<lambda>s. s \<noteq> [])" "is_str es ''currency'' (\<lambda>s. s \<noteq> [])"
      "is_str es ''mint'' (\<lambda>s. s \<noteq> [])" "is_str es ''network'' (\<lambda>s. s \<noteq> [])" "isSolanaAddress P (str_of es ''mint'')"
    using assms by (simp_all add: checkGrainhackTermsShape_def sameKeys_def not_le split: if_splits option.splits json.splits)
  have "distinct GRAINHACK_TERM_KEYS" by (simp add: GRAINHACK_TERM_KEYS_def)
  then show d: "distinct (map fst es)" using keys by (metis distinct_sort)
  have n: "map_of es ''github_user_id'' = Some (JNum (num_of es ''github_user_id''))"
      "0 < num_of es ''github_user_id''" "is_safe_integer (num_of es ''github_user_id'')"
    using u by (auto simp: num_of_def)
  have "set (map fst es) = set GRAINHACK_TERM_KEYS" using keys by (metis set_sort)
  then have "fst ` set es = fst ` set (grainhack_entries (grainhack_terms_of es))"
    by (auto simp: GRAINHACK_TERM_KEYS_def grainhack_entries_def)
  then show "set es = set (grainhack_entries (grainhack_terms_of es))"
    using f(1-11) [THEN is_strD] n(1)
    by (intro entries_determined [OF d]) (simp_all add: grainhack_entries_def grainhack_terms_of_def)
  show "minor_string (gt_amount_minor (grainhack_terms_of es))" "hd (gt_amount_minor (grainhack_terms_of es)) \<noteq> CHR ''0''"
    using is_strD [OF f(5)] re_test_POSITIVE by (simp_all add: grainhack_terms_of_def)
  show "0 < gt_github_user_id (grainhack_terms_of es)" "is_safe_integer (gt_github_user_id (grainhack_terms_of es))"
    using n by (simp_all add: grainhack_terms_of_def)
  show "isSolanaAddress P (gt_mint (grainhack_terms_of es))" using f(12) by (simp add: grainhack_terms_of_def)
qed

lemma safe_plain: "is_safe_integer n \<Longrightarrow> plain_json (JNum n)"
  by (auto simp: is_safe_integer_def MAX_SAFE_INTEGER_def)

lemma checked_terms_plain:
  "checkGrainhackTermsShape P (JObj es) = None \<Longrightarrow> plain_terms es"
  using checked_terms(2,6) [of P es] safe_plain by (auto simp: plain_terms_def grainhack_entries_def)

lemma terms_canon_inject:
  assumes "plain_terms es" "plain_terms fs" "terms_canon P es = terms_canon P fs" shows "set es = set fs"
proof -
  let ?o = "\<lambda>es. JArr (map (\<lambda>e. JArr [JStr (fst e), snd e]) (sort_entries es))"
  have "plain_json (?o es)" "plain_json (?o fs)" using assms(1,2) by (simp_all add: plain_terms_def)
  then have "?o es = ?o fs" using assms(3) unfolding terms_canon_def by (rule stringify_inject [THEN iffD1])
  then have "map (\<lambda>e. JArr [JStr (fst e), snd e]) (sort_entries es) = map (\<lambda>e. JArr [JStr (fst e), snd e]) (sort_entries fs)"
    by simp
  moreover have "inj (\<lambda>e :: string \<times> json. JArr [JStr (fst e), snd e])" by (auto simp: inj_def)
  ultimately have "sort_entries es = sort_entries fs" by (simp add: inj_map_eq_map)
  then show ?thesis by (metis set_sort_entries)
qed

text \<open>
  Terms that pass the shape check are the object of their typed reading, key for key, and
  name a positive amount of minor units, a positive user and a Solana mint. Two such sets of terms
  are the same to \<open>sameGrainhackTerms\<close> exactly when their readings are.
\<close>

theorem checked_terms_are_typed:
  assumes "checkGrainhackTermsShape P (JObj es) = None" "checkGrainhackTermsShape P (JObj fs) = None"
  shows "set es = set (grainhack_entries (grainhack_terms_of es))
    \<and> (\<exists>n. bigint_of (gt_amount_minor (grainhack_terms_of es)) = Some n \<and> 0 < n)
    \<and> 0 < gt_github_user_id (grainhack_terms_of es) \<and> isSolanaAddress P (gt_mint (grainhack_terms_of es))
    \<and> (sameGrainhackTerms P es fs \<longleftrightarrow> grainhack_terms_of es = grainhack_terms_of fs)"
proof -
  note e = checked_terms [OF assms(1)] and f = checked_terms [OF assms(2)]
  have "sameGrainhackTerms P es fs \<longleftrightarrow> set es = set fs"
    using terms_canon_inject [OF checked_terms_plain [OF assms(1)] checked_terms_plain [OF assms(2)]]
      sort_entries_unique [OF e(1) f(1)]
    unfolding sameGrainhackTerms_def by (metis terms_canon_def)
  also have "\<dots> \<longleftrightarrow> grainhack_terms_of es = grainhack_terms_of fs"
  proof
    assume "set es = set fs"
    then have "map_of es = map_of fs" using e(1) f(1) by (intro map_of_inject_set [THEN iffD2])
    then show "grainhack_terms_of es = grainhack_terms_of fs" by (simp add: grainhack_terms_of_def str_of_def num_of_def)
  qed (use e(2) f(2) in simp)
  finally have same: "sameGrainhackTerms P es fs \<longleftrightarrow> grainhack_terms_of es = grainhack_terms_of fs" .
  have "0 < digits_val (gt_amount_minor (grainhack_terms_of es))" using e(3,4) by (simp add: minor_string_def digits_pos)
  then show ?thesis using e(2,5,7) amount_minor [OF e(3)] same by simp
qed

definition demo_grainhack :: grainhack_terms where
  "demo_grainhack = \<lparr>gt_payout_id = demo_uuid (CHR ''a''), gt_statement_id = demo_uuid (CHR ''b''),
     gt_statement_sha256 = replicate 64 (CHR ''c''), gt_hackathon_id = demo_uuid (CHR ''d''), gt_pool = ''contributor'',
     gt_github_user_id = 5, gt_login = ''al'', gt_recipient = ''w'', gt_amount_minor = ''30'', gt_currency = ''USDC'',
     gt_mint = replicate 32 (CHR ''m''), gt_network = ''solana-devnet''\<rparr>"

lemma demo_grainhack_ok: "checkGrainhackTermsShape toy (JObj (grainhack_entries demo_grainhack)) = None"
  by code_simp

theorem checked_terms_are_typed_witness:
  "\<exists>n. bigint_of (gt_amount_minor (grainhack_terms_of (grainhack_entries demo_grainhack))) = Some n \<and> 0 < n"
  using checked_terms_are_typed [OF demo_grainhack_ok demo_grainhack_ok] by blast

end
