(* ===== verification/Session.thy ===== *)
theory Session
  imports GrainhackApproval
begin

text \<open>
  packages/gate/src/session-link.ts, session-read.ts and session-action.ts: the messages
  Grainlify countersigns for a signed-in person. Each names the person, a nonce and a window of
  at most ten minutes; the domain signed before the message says what it may be used for. The
  reasons in prose are left out; a refusal is its code.
\<close>

section \<open>The messages\<close>

definition login_re :: re where
  "login_re = Seq (Cls is_alnum) (Rep 0 (Some 38) (Cls (\<lambda>c. is_alnum c \<or> c = CHR ''-'')))"

definition id_re :: re where
  "id_re = Seq (Cls (\<lambda>c. is_digit c \<and> c \<noteq> CHR ''0'')) (Rep 0 (Some 15) digitc)"

definition stamp_re :: re where
  "stamp_re = seqs [times 4 digitc, chr (CHR ''-''), times 2 digitc, chr (CHR ''-''), times 2 digitc, chr (CHR ''T''),
     times 2 digitc, chr (CHR '':''), times 2 digitc, chr (CHR '':''), times 2 digitc, chr (CHR ''Z'')]"

definition base58_char :: "char \<Rightarrow> bool" where
  "base58_char c \<longleftrightarrow> is_alnum c \<and> c \<notin> {CHR ''0'', CHR ''O'', CHR ''I'', CHR ''l''}"

definition subject_char :: "char \<Rightarrow> bool" where
  "subject_char c \<longleftrightarrow> is_alnum c \<or> c \<in> {CHR ''_'', CHR ''.'', CHR '':'', CHR ''/'', CHR ''-''}"

text \<open>The lines the three patterns share, each followed by its newline, by the number of its first group.\<close>

definition github_line :: "nat \<Rightarrow> re list" where
  "github_line n = [lit ''GitHub: '', Grp n login_re, lit '' (id '', Grp (n + 1) id_re, lit '')'', lit newline]"

definition closing_lines :: "nat \<Rightarrow> re list" where
  "closing_lines n = [lit ''Nonce: '', Grp n (times 32 hexc), lit newline, lit ''Issued: '', Grp (n + 1) stamp_re, lit newline,
     lit ''Expires: '', Grp (n + 2) stamp_re, Eol False]"

definition LINK_MESSAGE :: re where
  "LINK_MESSAGE = Seq (Bol False) (seqs ([lit ''Grainlify: link this wallet to my GitHub account'', lit newline] @ github_line 1 @
     [lit ''Wallet: '', Grp 3 (Rep 32 (Some 44) (Cls base58_char)), lit newline] @ closing_lines 4))"

definition READ_MESSAGE :: re where
  "READ_MESSAGE = Seq (Bol False) (seqs ([lit ''Grainlify: read my linked wallet'', lit newline] @ github_line 1 @ closing_lines 3))"

definition ACTION_MESSAGE :: re where
  "ACTION_MESSAGE = Seq (Bol False) (seqs
     ([lit ''Grainlify: '', Grp 1 (alts [lit ''apply for a bounty'', lit ''admin action'', lit ''maintainer action'', lit ''erase account'']),
       lit newline,
       lit ''Action: '', Grp 2 (Seq (Cls is_lower) (Rep 0 (Some 63) (Cls (\<lambda>c. is_lower c \<or> is_digit c \<or> c = CHR ''_'')))), lit newline]
      @ github_line 3 @ [lit ''Subject: '', Grp 5 (Rep 0 (Some 128) (Cls subject_char)), lit newline] @ closing_lines 6))"

record link_fields =
  lf_login :: string
  lf_githubUserId :: jsnum
  lf_wallet :: string
  lf_nonce :: string
  lf_issuedAt :: time_ms
  lf_expiresAt :: time_ms

record read_fields =
  rf_login :: string
  rf_githubUserId :: jsnum
  rf_nonce :: string
  rf_issuedAt :: time_ms
  rf_expiresAt :: time_ms

datatype action_kind = Apply | AdminAction | Maintainer | Erasure

record action_fields =
  af_kind :: action_kind
  af_action :: string
  af_login :: string
  af_githubUserId :: jsnum
  af_subject :: string
  af_nonce :: string
  af_issuedAt :: time_ms
  af_expiresAt :: time_ms

text \<open>A capture that did not take part is the empty string here; every group of these patterns does.\<close>

definition cap :: "nat \<Rightarrow> (nat \<times> string) list \<Rightarrow> string" where
  "cap n cs = (case group n cs of Some s \<Rightarrow> s | None \<Rightarrow> [])"

definition safe_id :: "string \<Rightarrow> jsnum option" where
  "safe_id s = (case Number_of s of Fin n \<Rightarrow> if is_safe_integer n then Some n else None | _ \<Rightarrow> None)"

definition parseSessionLinkMessage :: "platform \<Rightarrow> string \<Rightarrow> link_fields option" where
  "parseSessionLinkMessage P message =
     (case re_exec LINK_MESSAGE message of
        None \<Rightarrow> None
      | Some m \<Rightarrow>
          (case (safe_id (cap 2 m), parse_date P (cap 5 m), parse_date P (cap 6 m)) of
             (Some uid, Some issuedAt, Some expiresAt) \<Rightarrow>
               if \<not> isSolanaAddress P (cap 3 m) then None
               else Some \<lparr>lf_login = cap 1 m, lf_githubUserId = uid, lf_wallet = cap 3 m, lf_nonce = cap 4 m,
                          lf_issuedAt = issuedAt, lf_expiresAt = expiresAt\<rparr>
           | _ \<Rightarrow> None))"

definition parseSessionReadMessage :: "platform \<Rightarrow> string \<Rightarrow> read_fields option" where
  "parseSessionReadMessage P message =
     (case re_exec READ_MESSAGE message of
        None \<Rightarrow> None
      | Some m \<Rightarrow>
          (case (safe_id (cap 2 m), parse_date P (cap 4 m), parse_date P (cap 5 m)) of
             (Some uid, Some issuedAt, Some expiresAt) \<Rightarrow>
               Some \<lparr>rf_login = cap 1 m, rf_githubUserId = uid, rf_nonce = cap 3 m,
                     rf_issuedAt = issuedAt, rf_expiresAt = expiresAt\<rparr>
           | _ \<Rightarrow> None))"

definition HEADLINE :: "string \<Rightarrow> action_kind" where
  "HEADLINE s = (if s = ''apply for a bounty'' then Apply else if s = ''admin action'' then AdminAction
     else if s = ''maintainer action'' then Maintainer else Erasure)"

definition parseSessionActionMessage :: "platform \<Rightarrow> string \<Rightarrow> action_fields option" where
  "parseSessionActionMessage P message =
     (case re_exec ACTION_MESSAGE message of
        None \<Rightarrow> None
      | Some m \<Rightarrow>
          (case (safe_id (cap 4 m), parse_date P (cap 7 m), parse_date P (cap 8 m)) of
             (Some uid, Some issuedAt, Some expiresAt) \<Rightarrow>
               Some \<lparr>af_kind = HEADLINE (cap 1 m), af_action = cap 2 m, af_login = cap 3 m, af_githubUserId = uid,
                     af_subject = cap 5 m, af_nonce = cap 6 m, af_issuedAt = issuedAt, af_expiresAt = expiresAt\<rparr>
           | _ \<Rightarrow> None))"

section \<open>Verification\<close>

definition SESSION_LINK_DOMAIN :: string where
  "SESSION_LINK_DOMAIN = ''grainlify-bounty-wallet-link:v1'' @ newline"

definition SESSION_READ_DOMAIN :: string where
  "SESSION_READ_DOMAIN = ''grainlify-bounty-wallet-read:v1'' @ newline"

definition SESSION_APPLY_DOMAIN :: string where
  "SESSION_APPLY_DOMAIN = ''grainlify-bounty-apply:v1'' @ newline"

definition SESSION_ADMIN_DOMAIN :: string where
  "SESSION_ADMIN_DOMAIN = ''grainlify-bounty-admin:v1'' @ newline"

definition SESSION_MAINTAINER_DOMAIN :: string where
  "SESSION_MAINTAINER_DOMAIN = ''grainlify-bounty-maintainer:v1'' @ newline"

definition SESSION_ERASURE_DOMAIN :: string where
  "SESSION_ERASURE_DOMAIN = ''grainlify-account-erasure:v1'' @ newline"

fun DOMAIN :: "action_kind \<Rightarrow> string" where
  "DOMAIN Apply = SESSION_APPLY_DOMAIN"
| "DOMAIN AdminAction = SESSION_ADMIN_DOMAIN"
| "DOMAIN Maintainer = SESSION_MAINTAINER_DOMAIN"
| "DOMAIN Erasure = SESSION_ERASURE_DOMAIN"

definition SESSION_LINK_MAX_WINDOW_MS :: time_ms where
  "SESSION_LINK_MAX_WINDOW_MS = 10 * 60000"

definition SESSION_READ_MAX_WINDOW_MS :: time_ms where
  "SESSION_READ_MAX_WINDOW_MS = 10 * 60000"

definition SESSION_ACTION_MAX_WINDOW_MS :: time_ms where
  "SESSION_ACTION_MAX_WINDOW_MS = 10 * 60000"

definition CLOCK_SKEW_MS :: time_ms where
  "CLOCK_SKEW_MS = 60000"

definition verifyCountersignature :: "platform \<Rightarrow> string \<Rightarrow> string \<Rightarrow> string \<Rightarrow> string \<Rightarrow> bool" where
  "verifyCountersignature P domain message sigB64 pubB64 \<longleftrightarrow>
     length (b64_decode P pubB64) = 32 \<and> length (b64_decode P sigB64) = 64
     \<and> ed_verify P (b64_decode P pubB64) (domain @ message) (b64_decode P sigB64)"

datatype session_refusal = Malformed | Bad_countersignature | Not_yet_valid | Expired_message | Bad_window
  | Bad_wallet_signature | Wrong_domain

text \<open>The parts of a request body: \<open>None\<close> is anything that is not a string.\<close>

record signed_message =
  sm_message :: "string option"
  sm_countersignature :: "string option"

definition verifySessionLink ::
    "platform \<Rightarrow> signed_message \<Rightarrow> string option \<Rightarrow> string \<Rightarrow> time_ms \<Rightarrow> session_refusal + link_fields" where
  "verifySessionLink P input walletSignature pubB64 now =
     (case (sm_message input, sm_countersignature input, walletSignature) of
        (Some message, Some countersignature, Some walletSig) \<Rightarrow>
          (case parseSessionLinkMessage P message of
             None \<Rightarrow> Inl Malformed
           | Some f \<Rightarrow>
               if \<not> verifyCountersignature P SESSION_LINK_DOMAIN message countersignature pubB64 then Inl Bad_countersignature
               else if lf_issuedAt f > now + CLOCK_SKEW_MS then Inl Not_yet_valid
               else if lf_expiresAt f - lf_issuedAt f > SESSION_LINK_MAX_WINDOW_MS \<or> lf_expiresAt f \<le> lf_issuedAt f
                 then Inl Bad_window
               else if now > lf_expiresAt f then Inl Expired_message
               else if \<not> verifyDetached P (lf_wallet f) message walletSig then Inl Bad_wallet_signature
               else Inr f)
      | _ \<Rightarrow> Inl Malformed)"

definition verifySessionRead :: "platform \<Rightarrow> signed_message \<Rightarrow> string \<Rightarrow> time_ms \<Rightarrow> session_refusal + read_fields" where
  "verifySessionRead P input pubB64 now =
     (case (sm_message input, sm_countersignature input) of
        (Some message, Some countersignature) \<Rightarrow>
          (case parseSessionReadMessage P message of
             None \<Rightarrow> Inl Malformed
           | Some f \<Rightarrow>
               if \<not> verifyCountersignature P SESSION_READ_DOMAIN message countersignature pubB64 then Inl Bad_countersignature
               else if rf_issuedAt f > now + CLOCK_SKEW_MS then Inl Not_yet_valid
               else if rf_expiresAt f - rf_issuedAt f > SESSION_READ_MAX_WINDOW_MS \<or> rf_expiresAt f \<le> rf_issuedAt f
                 then Inl Bad_window
               else if now > rf_expiresAt f then Inl Expired_message
               else Inr f)
      | _ \<Rightarrow> Inl Malformed)"

definition verifySessionAction ::
    "platform \<Rightarrow> signed_message \<Rightarrow> string \<Rightarrow> action_kind \<Rightarrow> time_ms \<Rightarrow> session_refusal + action_fields" where
  "verifySessionAction P input pubB64 expected now =
     (case (sm_message input, sm_countersignature input) of
        (Some message, Some countersignature) \<Rightarrow>
          (case parseSessionActionMessage P message of
             None \<Rightarrow> Inl Malformed
           | Some f \<Rightarrow>
               if af_kind f \<noteq> expected then Inl Wrong_domain
               else if \<not> verifyCountersignature P (DOMAIN expected) message countersignature pubB64 then Inl Bad_countersignature
               else if af_issuedAt f > now + CLOCK_SKEW_MS then Inl Not_yet_valid
               else if af_expiresAt f - af_issuedAt f > SESSION_ACTION_MAX_WINDOW_MS \<or> af_expiresAt f \<le> af_issuedAt f
                 then Inl Bad_window
               else if now > af_expiresAt f then Inl Expired_message
               else Inr f)
      | _ \<Rightarrow> Inl Malformed)"

section \<open>The contract of a countersigned message\<close>

text \<open>
  What an endpoint that checks a countersigned message relies on: acceptance names the fields of
  the message, was signed for the endpoint's purpose, and depends on the time only through the
  message's own window.
\<close>

locale countersigned =
  fixes verify :: "'i \<Rightarrow> time_ms \<Rightarrow> session_refusal + 'f"
    and parsed :: "'i \<Rightarrow> 'f option"
    and signed :: "'i \<Rightarrow> bool"
    and issued :: "'f \<Rightarrow> time_ms"
    and expires :: "'f \<Rightarrow> time_ms"
  assumes accepted: "verify i t = Inr f \<Longrightarrow> parsed i = Some f \<and> signed i \<and> issued f \<le> t + 60000 \<and> t \<le> expires f
      \<and> issued f < expires f \<and> expires f \<le> issued f + 600000"
    and stable: "verify i t = Inr f \<Longrightarrow> issued f \<le> u + 60000 \<Longrightarrow> u \<le> expires f \<Longrightarrow> verify i u = Inr f"
begin

lemma same_fields: "verify i t = Inr f \<Longrightarrow> verify i u = Inr g \<Longrightarrow> f = g"
  using accepted [of i t f] accepted [of i u g] by simp

lemma window: "verify i t = Inr f \<Longrightarrow> verify i u = Inr g \<Longrightarrow> f = g \<and> \<bar>t - u\<bar> \<le> 660000"
  using accepted [of i t f] accepted [of i u g] same_fields [of i t f u g] by auto

lemma accepted_when: "verify i t = Inr f \<Longrightarrow> verify i u = Inr f \<longleftrightarrow> issued f \<le> u + 60000 \<and> u \<le> expires f"
  using accepted stable by blast

end

lemma verifySessionLink_ok:
  "verifySessionLink P i w pub t = Inr f \<longleftrightarrow>
     (\<exists>m c s. sm_message i = Some m \<and> sm_countersignature i = Some c \<and> w = Some s \<and> parseSessionLinkMessage P m = Some f
        \<and> verifyCountersignature P SESSION_LINK_DOMAIN m c pub \<and> lf_issuedAt f \<le> t + 60000
        \<and> lf_expiresAt f \<le> lf_issuedAt f + 600000 \<and> lf_issuedAt f < lf_expiresAt f \<and> t \<le> lf_expiresAt f
        \<and> verifyDetached P (lf_wallet f) m s)"
  by (auto simp: verifySessionLink_def CLOCK_SKEW_MS_def SESSION_LINK_MAX_WINDOW_MS_def not_le not_less algebra_simps
      split: option.splits if_splits)

lemma verifySessionRead_ok:
  "verifySessionRead P i pub t = Inr f \<longleftrightarrow>
     (\<exists>m c. sm_message i = Some m \<and> sm_countersignature i = Some c \<and> parseSessionReadMessage P m = Some f
        \<and> verifyCountersignature P SESSION_READ_DOMAIN m c pub \<and> rf_issuedAt f \<le> t + 60000
        \<and> rf_expiresAt f \<le> rf_issuedAt f + 600000 \<and> rf_issuedAt f < rf_expiresAt f \<and> t \<le> rf_expiresAt f)"
  by (auto simp: verifySessionRead_def CLOCK_SKEW_MS_def SESSION_READ_MAX_WINDOW_MS_def not_le not_less algebra_simps
      split: option.splits if_splits)

lemma verifySessionAction_ok:
  "verifySessionAction P i pub k t = Inr f \<longleftrightarrow>
     (\<exists>m c. sm_message i = Some m \<and> sm_countersignature i = Some c \<and> parseSessionActionMessage P m = Some f \<and> af_kind f = k
        \<and> verifyCountersignature P (DOMAIN k) m c pub \<and> af_issuedAt f \<le> t + 60000
        \<and> af_expiresAt f \<le> af_issuedAt f + 600000 \<and> af_issuedAt f < af_expiresAt f \<and> t \<le> af_expiresAt f)"
  by (auto simp: verifySessionAction_def CLOCK_SKEW_MS_def SESSION_ACTION_MAX_WINDOW_MS_def not_le not_less algebra_simps
      split: option.splits if_splits)

definition signed_for :: "platform \<Rightarrow> string \<Rightarrow> string \<Rightarrow> signed_message \<Rightarrow> bool" where
  "signed_for P pub domain i \<longleftrightarrow>
     (\<exists>m c. sm_message i = Some m \<and> sm_countersignature i = Some c \<and> verifyCountersignature P domain m c pub)"

interpretation link_message: countersigned
  "\<lambda>(i, w). verifySessionLink P i w pub" "\<lambda>(i, w). Option.bind (sm_message i) (parseSessionLinkMessage P)"
  "\<lambda>(i, w). signed_for P pub SESSION_LINK_DOMAIN i" lf_issuedAt lf_expiresAt
  for P pub
  by unfold_locales (auto simp: verifySessionLink_ok signed_for_def)

interpretation read_message: countersigned
  "\<lambda>i. verifySessionRead P i pub" "\<lambda>i. Option.bind (sm_message i) (parseSessionReadMessage P)"
  "signed_for P pub SESSION_READ_DOMAIN" rf_issuedAt rf_expiresAt
  for P pub
  by unfold_locales (auto simp: verifySessionRead_ok signed_for_def)

interpretation action_message: countersigned
  "\<lambda>i. verifySessionAction P i pub k" "\<lambda>i. Option.bind (sm_message i) (parseSessionActionMessage P)"
  "signed_for P pub (DOMAIN k)" af_issuedAt af_expiresAt
  for P pub k
  by unfold_locales (auto simp: verifySessionAction_ok signed_for_def)

section \<open>What the messages say\<close>

lemma safe_id_Number: "safe_id s = Some n \<Longrightarrow> Number_of s = Fin n"
  by (auto simp: safe_id_def split: xnum.splits if_splits)

lemma message_ends: "ends_eol (seqs (rs @ closing_lines n))"
  by (induction rs rule: seqs.induct) (simp_all add: closing_lines_def)

text \<open>No capture of these patterns can hold a line break, so nothing quoted in a message adds a line to it.\<close>

definition one_line :: "string \<Rightarrow> bool" where
  "one_line w \<longleftrightarrow> list_all (\<lambda>c. c \<noteq> CHR 0x0A) w"

definition line_re :: "re \<Rightarrow> bool" where
  "line_re r \<longleftrightarrow> no_groups r \<and> reads_only (\<lambda>c. c \<noteq> CHR 0x0A) r"

lemma yields_line_Grp: "line_re r \<Longrightarrow> yields (Grp n r) w cs \<Longrightarrow> cs = [(n, w)] \<and> one_line w \<and> yields r w []"
  using yields_no_groups yields_reads_only unfolding yields_Grp line_re_def one_line_def by blast

lemma not_lf: "\<not> is_alnum (CHR 0x0A)" "\<not> is_lower (CHR 0x0A)" "\<not> is_digit (CHR 0x0A)" "\<not> is_lower_hex (CHR 0x0A)"
  by (simp_all add: is_alnum_def is_upper_def is_lower_def is_lower_hex_def is_digit_def code_def)

lemma line_res:
  "line_re login_re" "line_re id_re" "line_re stamp_re" "line_re (times 32 hexc)"
  "line_re (Rep 32 (Some 44) (Cls base58_char))" "line_re (Rep 0 (Some 128) (Cls subject_char))"
  "line_re (Seq (Cls is_lower) (Rep 0 (Some 63) (Cls (\<lambda>c. is_lower c \<or> is_digit c \<or> c = CHR ''_''))))"
  "line_re (alts [lit ''apply for a bounty'', lit ''admin action'', lit ''maintainer action'', lit ''erase account''])"
  using not_lf by (auto simp: line_re_def login_re_def id_re_def stamp_re_def hexc_def digitc_def base58_char_def
      subject_char_def chr_def)

definition github_text :: "string \<Rightarrow> string \<Rightarrow> string" where
  "github_text login uid = ''GitHub: '' @ login @ '' (id '' @ uid @ '')'' @ newline"

definition closing_text :: "string \<Rightarrow> string \<Rightarrow> string \<Rightarrow> string" where
  "closing_text nonce iss expi = ''Nonce: '' @ nonce @ newline @ ''Issued: '' @ iss @ newline @ ''Expires: '' @ expi"

lemma yields_closing:
  "yields (seqs (closing_lines n)) w cs \<Longrightarrow> \<exists>nonce iss expi. w = closing_text nonce iss expi
     \<and> cs = [(n + 2, expi), (n + 1, iss), (n, nonce)] \<and> one_line nonce \<and> one_line iss \<and> one_line expi"
  by (auto simp: closing_lines_def yields_Seq closing_text_def
      dest!: yields_line_Grp [OF line_res(3)] yields_line_Grp [OF line_res(4)])

lemma seqs_append: "rs \<noteq> [] \<Longrightarrow> seqs (r # rs) = Seq r (seqs rs)"
  by (cases rs) simp_all

lemma closing_nonempty [simp]: "closing_lines n \<noteq> []"
  by (simp add: closing_lines_def)

lemma yields_github:
  "rs \<noteq> [] \<Longrightarrow> yields (seqs (github_line n @ rs)) w cs \<Longrightarrow> \<exists>login uid v ds. w = github_text login uid @ v
     \<and> cs = ds @ [(n + 1, uid), (n, login)] \<and> yields (seqs rs) v ds \<and> one_line login \<and> one_line uid"
  by (auto simp: github_line_def seqs_append yields_Seq github_text_def
      dest!: yields_line_Grp [OF line_res(1)] yields_line_Grp [OF line_res(2)])

text \<open>
  A wallet-link message that parses is exactly the six lines Grainlify writes around the
  fields it yields: whom, which wallet, the nonce and the window. No field holds a line break, so
  no field can add a line or stand in for another.
\<close>

theorem link_message_text:
  assumes "parseSessionLinkMessage P m = Some f"
  shows "\<exists>uid iss expi. m = ''Grainlify: link this wallet to my GitHub account'' @ newline @ github_text (lf_login f) uid
        @ ''Wallet: '' @ lf_wallet f @ newline @ closing_text (lf_nonce f) iss expi
     \<and> Number_of uid = Fin (lf_githubUserId f) \<and> parse_date P iss = Some (lf_issuedAt f)
     \<and> parse_date P expi = Some (lf_expiresAt f) \<and> isSolanaAddress P (lf_wallet f)
     \<and> list_all one_line [lf_login f, uid, lf_wallet f, lf_nonce f, iss, expi]"
proof -
  obtain cs where cs: "re_exec LINK_MESSAGE m = Some cs"
    using assms by (auto simp: parseSessionLinkMessage_def split: option.splits)
  have "\<exists>login uid wallet nonce iss expi. m = ''Grainlify: link this wallet to my GitHub account'' @ newline
      @ github_text login uid @ ''Wallet: '' @ wallet @ newline @ closing_text nonce iss expi
    \<and> cs = [(6, expi), (5, iss), (4, nonce), (3, wallet), (2, uid), (1, login)]
    \<and> list_all one_line [login, uid, wallet, nonce, iss, expi]"
    using full_match [OF cs [unfolded LINK_MESSAGE_def] message_ends [of "_ @ _ @ _", unfolded append_assoc]]
    by (auto simp: seqs_append yields_Seq
        dest!: yields_github [rotated] yields_line_Grp [OF line_res(5)] yields_closing)
  then obtain login uid wallet nonce iss expi where t: "m = ''Grainlify: link this wallet to my GitHub account'' @ newline
      @ github_text login uid @ ''Wallet: '' @ wallet @ newline @ closing_text nonce iss expi"
    "cs = [(6, expi), (5, iss), (4, nonce), (3, wallet), (2, uid), (1, login)]"
    "list_all one_line [login, uid, wallet, nonce, iss, expi]" by blast
  have "cap 1 cs = login" "cap 2 cs = uid" "cap 3 cs = wallet" "cap 4 cs = nonce" "cap 5 cs = iss" "cap 6 cs = expi"
    by (simp_all add: t(2) cap_def group_def)
  then have "lf_login f = login" "lf_wallet f = wallet" "lf_nonce f = nonce" "safe_id uid = Some (lf_githubUserId f)"
      "parse_date P iss = Some (lf_issuedAt f)" "parse_date P expi = Some (lf_expiresAt f)" "isSolanaAddress P wallet"
    using assms cs by (auto simp: parseSessionLinkMessage_def split: option.splits if_splits)
  then show ?thesis
    using t(1,3) safe_id_Number by (intro exI [of _ uid] exI [of _ iss] exI [of _ expi]) simp
qed

definition demo_stamp :: string where
  "demo_stamp = ''2026-01-01T00:00:00Z''"

definition demo_closing :: string where
  "demo_closing = closing_text (replicate 32 (CHR ''a'')) demo_stamp ''2026-01-01T00:10:00Z''"

definition demo_link :: string where
  "demo_link = ''Grainlify: link this wallet to my GitHub account'' @ newline @ github_text ''al'' ''42''
     @ ''Wallet: '' @ replicate 32 (CHR ''W'') @ newline @ demo_closing"

definition demo_action :: string where
  "demo_action = ''Grainlify: apply for a bounty'' @ newline @ ''Action: apply'' @ newline @ github_text ''al'' ''42''
     @ ''Subject: b-1'' @ newline @ demo_closing"

definition demo_read :: string where
  "demo_read = ''Grainlify: read my linked wallet'' @ newline @ github_text ''al'' ''42'' @ demo_closing"

definition demo_time :: time_ms where
  "demo_time = 1767225600000"

lemma demo_link_parses: "parseSessionLinkMessage toy demo_link = Some \<lparr>lf_login = ''al'', lf_githubUserId = 42,
    lf_wallet = replicate 32 (CHR ''W''), lf_nonce = replicate 32 (CHR ''a''), lf_issuedAt = demo_time,
    lf_expiresAt = demo_time + 600000\<rparr>"
  by code_simp

lemma demo_action_parses: "parseSessionActionMessage toy demo_action = Some \<lparr>af_kind = Apply, af_action = ''apply'',
    af_login = ''al'', af_githubUserId = 42, af_subject = ''b-1'', af_nonce = replicate 32 (CHR ''a''),
    af_issuedAt = demo_time, af_expiresAt = demo_time + 600000\<rparr>"
  by code_simp

lemma demo_read_parses: "parseSessionReadMessage toy demo_read = Some \<lparr>rf_login = ''al'', rf_githubUserId = 42,
    rf_nonce = replicate 32 (CHR ''a''), rf_issuedAt = demo_time, rf_expiresAt = demo_time + 600000\<rparr>"
  by code_simp

theorem link_message_text_witness: "isSolanaAddress toy (replicate 32 (CHR ''W''))"
  using link_message_text [OF demo_link_parses] by auto

lemma read_message_head:
  "parseSessionReadMessage P m = Some f \<Longrightarrow> \<exists>v. m = ''Grainlify: read my linked wallet'' @ newline @ v"
proof -
  assume "parseSessionReadMessage P m = Some f"
  then obtain cs where cs: "re_exec READ_MESSAGE m = Some cs" by (auto simp: parseSessionReadMessage_def split: option.splits)
  show ?thesis
    using full_match [OF cs [unfolded READ_MESSAGE_def] message_ends [of "_ @ _", unfolded append_assoc]]
    by (auto simp: seqs_append yields_Seq)
qed

lemma link_message_head:
  "parseSessionLinkMessage P m = Some f \<Longrightarrow> \<exists>v. m = ''Grainlify: link this wallet to my GitHub account'' @ newline @ v"
  using link_message_text [of P m f] by blast

definition is_headline :: "string \<Rightarrow> bool" where
  "is_headline w \<longleftrightarrow> w \<in> {''apply for a bounty'', ''admin action'', ''maintainer action'', ''erase account''}"

lemma yields_headline:
  "yields (Grp n (alts [lit ''apply for a bounty'', lit ''admin action'', lit ''maintainer action'', lit ''erase account''])) w cs
   \<Longrightarrow> cs = [(n, w)] \<and> is_headline w"
  by (auto simp: yields_Grp yields_Alt is_headline_def simp del: lit.simps)

text \<open>
  An action message that parses says in its headline which of the four kinds it is, and is
  exactly the lines Grainlify writes around its fields; none of them, the free subject included,
  holds a line break.
\<close>

theorem action_message_text:
  assumes "parseSessionActionMessage P m = Some f"
  shows "\<exists>headline uid iss expi. m = ''Grainlify: '' @ headline @ newline @ ''Action: '' @ af_action f @ newline
        @ github_text (af_login f) uid @ ''Subject: '' @ af_subject f @ newline @ closing_text (af_nonce f) iss expi
     \<and> headline = (case af_kind f of Apply \<Rightarrow> ''apply for a bounty'' | AdminAction \<Rightarrow> ''admin action''
         | Maintainer \<Rightarrow> ''maintainer action'' | Erasure \<Rightarrow> ''erase account'')
     \<and> Number_of uid = Fin (af_githubUserId f) \<and> parse_date P iss = Some (af_issuedAt f)
     \<and> parse_date P expi = Some (af_expiresAt f)
     \<and> list_all one_line [af_action f, af_login f, uid, af_subject f, af_nonce f, iss, expi]"
proof -
  obtain cs where cs: "re_exec ACTION_MESSAGE m = Some cs"
    using assms by (auto simp: parseSessionActionMessage_def split: option.splits)
  have "\<exists>headline action login uid subject nonce iss expi. m = ''Grainlify: '' @ headline @ newline @ ''Action: '' @ action @ newline
      @ github_text login uid @ ''Subject: '' @ subject @ newline @ closing_text nonce iss expi
    \<and> cs = [(8, expi), (7, iss), (6, nonce), (5, subject), (4, uid), (3, login), (2, action), (1, headline)]
    \<and> is_headline headline \<and> list_all one_line [action, login, uid, subject, nonce, iss, expi]"
    using full_match [OF cs [unfolded ACTION_MESSAGE_def] message_ends [of "_ @ _ @ _", unfolded append_assoc]]
    by (auto simp: seqs_append yields_Seq simp del: lit.simps alts.simps
        dest!: yields_headline yields_github [rotated] yields_line_Grp [OF line_res(6)] yields_line_Grp [OF line_res(7)]
          yields_closing)
  then obtain headline action login uid subject nonce iss expi where t: "m = ''Grainlify: '' @ headline @ newline @ ''Action: ''
      @ action @ newline @ github_text login uid @ ''Subject: '' @ subject @ newline @ closing_text nonce iss expi"
    "cs = [(8, expi), (7, iss), (6, nonce), (5, subject), (4, uid), (3, login), (2, action), (1, headline)]"
    "is_headline headline" "list_all one_line [action, login, uid, subject, nonce, iss, expi]" by blast
  have "cap 1 cs = headline" "cap 2 cs = action" "cap 3 cs = login" "cap 4 cs = uid" "cap 5 cs = subject" "cap 6 cs = nonce"
      "cap 7 cs = iss" "cap 8 cs = expi"
    by (simp_all add: t(2) cap_def group_def)
  then have f: "af_kind f = HEADLINE headline" "af_action f = action" "af_login f = login" "af_subject f = subject"
      "af_nonce f = nonce" "safe_id uid = Some (af_githubUserId f)" "parse_date P iss = Some (af_issuedAt f)"
      "parse_date P expi = Some (af_expiresAt f)"
    using assms cs by (auto simp: parseSessionActionMessage_def split: option.splits if_splits)
  have "headline = (case af_kind f of Apply \<Rightarrow> ''apply for a bounty'' | AdminAction \<Rightarrow> ''admin action''
         | Maintainer \<Rightarrow> ''maintainer action'' | Erasure \<Rightarrow> ''erase account'')"
    using t(3) by (auto simp: f(1) HEADLINE_def is_headline_def)
  then show ?thesis
    using t(1,4) f safe_id_Number by (intro exI [of _ headline] exI [of _ uid] exI [of _ iss] exI [of _ expi]) simp
qed

theorem action_message_text_witness: "one_line ''b-1''"
  using action_message_text [OF demo_action_parses] by auto

section \<open>What acceptance means\<close>

text \<open>
  A message of one family never parses as one of another: a challenge to read a link can
  never be taken for an instruction to link a wallet or for an action, nor these for each other.
\<close>

theorem message_families_are_disjoint:
  "(parseSessionLinkMessage P m \<noteq> None \<longrightarrow> parseSessionReadMessage P m = None \<and> parseSessionActionMessage P m = None)
   \<and> (parseSessionReadMessage P m \<noteq> None \<longrightarrow> parseSessionActionMessage P m = None)"
proof -
  have action: "\<exists>h v. m = ''Grainlify: '' @ h @ newline @ v \<and> h \<in> {''apply for a bounty'', ''admin action'', ''maintainer action'', ''erase account''}"
    if p: "parseSessionActionMessage P m = Some f" for f
  proof -
    obtain h v where "m = ''Grainlify: '' @ h @ newline @ v"
      "h = (case af_kind f of Apply \<Rightarrow> ''apply for a bounty'' | AdminAction \<Rightarrow> ''admin action''
         | Maintainer \<Rightarrow> ''maintainer action'' | Erasure \<Rightarrow> ''erase account'')"
      using action_message_text [OF p] by blast
    moreover from this(2) have "h \<in> {''apply for a bounty'', ''admin action'', ''maintainer action'', ''erase account''}"
      by (simp split: action_kind.splits)
    ultimately show ?thesis by blast
  qed
  have "False" if "parseSessionLinkMessage P m = Some f" "parseSessionReadMessage P m = Some g" for f g
    using link_message_head [OF that(1)] read_message_head [OF that(2)] by auto
  moreover have "False" if "parseSessionLinkMessage P m = Some f" "parseSessionActionMessage P m = Some g" for f g
    using link_message_head [OF that(1)] action [OF that(2)] by auto
  moreover have "False" if "parseSessionReadMessage P m = Some f" "parseSessionActionMessage P m = Some g" for f g
    using read_message_head [OF that(1)] action [OF that(2)] by auto
  ultimately show ?thesis by (metis not_Some_eq)
qed

theorem message_families_are_disjoint_witness: "parseSessionReadMessage toy demo_link = None"
  using message_families_are_disjoint [of toy demo_link] by (simp add: demo_link_parses)

text \<open>The domains of everything this repository signs or checks a signature of.\<close>

definition all_domains :: "string list" where
  "all_domains = [SESSION_LINK_DOMAIN, SESSION_READ_DOMAIN, SESSION_APPLY_DOMAIN, SESSION_ADMIN_DOMAIN,
     SESSION_MAINTAINER_DOMAIN, SESSION_ERASURE_DOMAIN, RESULTS_DOMAIN, PREFIX, GRAINHACK_APPROVAL_DOMAIN]"

definition apart :: "string \<Rightarrow> string \<Rightarrow> bool" where
  "apart d e = list_ex (\<lambda>(a, b). a \<noteq> b) (zip d e)"

lemma apart_append: "apart d e \<Longrightarrow> d @ x \<noteq> e @ y"
proof (induction d arbitrary: e)
  case (Cons a d)
  then show ?case by (cases e) (auto simp: apart_def)
qed (simp add: apart_def)

lemma domains_apart: "sorted_wrt apart all_domains"
  by code_simp

text \<open>
  Under one key or several, the text signed for one purpose is never the text signed for
  another: no two of the nine domains can be extended to the same text, so a signature over a
  link, read, apply, admin, maintainer, erasure or results message, or a payout approval of either
  kind, is over that purpose alone.
\<close>

theorem purposes_never_collide:
  assumes "i < length all_domains" "j < length all_domains" "all_domains ! i @ x = all_domains ! j @ y"
  shows "i = j \<and> x = y"
proof -
  have less: "all_domains ! k @ u \<noteq> all_domains ! l @ v" if "k < l" "l < length all_domains" for k l u v
    using sorted_wrt_nth_less [OF domains_apart that] by (rule apart_append)
  have "i = j" using less [of i j x y] less [of j i y x] assms by (cases i j rule: linorder_cases) auto
  then show ?thesis using assms(3) by simp
qed

theorem purposes_never_collide_witness: "SESSION_APPLY_DOMAIN @ ''x'' \<noteq> SESSION_ADMIN_DOMAIN @ ''x''"
  using purposes_never_collide [of 2 3 "''x''" "''x''"] by (auto simp: all_domains_def)


definition demo_countersigned :: "string \<Rightarrow> string \<Rightarrow> signed_message" where
  "demo_countersigned domain m = \<lparr>sm_message = Some m, sm_countersignature = Some (toy_sign [] (domain @ m))\<rparr>"

lemma toy_countersigned: "verifyCountersignature toy d m (toy_sign [] (d @ m)) (replicate 32 (CHR ''k''))"
  by (simp add: verifyCountersignature_def toy_def toy_sign_def min_def)

lemma demo_action_accepted:
  "verifySessionAction toy (demo_countersigned SESSION_APPLY_DOMAIN demo_action) (replicate 32 (CHR ''k'')) Apply demo_time =
     Inr (the (parseSessionActionMessage toy demo_action))"
  using toy_countersigned [of SESSION_APPLY_DOMAIN demo_action]
  by (simp add: verifySessionAction_ok demo_countersigned_def demo_action_parses)


text \<open>
  A wallet is linked only by a message that Grainlify countersigned and the wallet itself
  signed, both over the same text and within its window; the same request is accepted at any other
  moment of that window, skew included, and at no moment outside it.
\<close>

theorem accepted_link_has_both_signatures:
  assumes "verifySessionLink P i w pub t = Inr f"
  shows "(\<exists>m c s key sig. sm_message i = Some m \<and> sm_countersignature i = Some c \<and> w = Some s
        \<and> parseSessionLinkMessage P m = Some f
        \<and> ed_verify P (b64_decode P pub) (SESSION_LINK_DOMAIN @ m) (b64_decode P c)
        \<and> b58_decode P (lf_wallet f) = Some key \<and> decodeSignature P s = Some sig \<and> ed_verify P key m sig)
    \<and> (\<forall>u. verifySessionLink P i w pub u = Inr f \<longleftrightarrow> lf_issuedAt f \<le> u + 60000 \<and> u \<le> lf_expiresAt f)
    \<and> lf_expiresAt f \<le> lf_issuedAt f + 600000"
proof -
  obtain m c s where m: "sm_message i = Some m" "sm_countersignature i = Some c" "w = Some s" "parseSessionLinkMessage P m = Some f"
      "verifyCountersignature P SESSION_LINK_DOMAIN m c pub" "verifyDetached P (lf_wallet f) m s" "lf_expiresAt f \<le> lf_issuedAt f + 600000"
    using assms by (auto simp: verifySessionLink_ok)
  have "\<exists>key sig. b58_decode P (lf_wallet f) = Some key \<and> decodeSignature P s = Some sig \<and> ed_verify P key m sig"
    using verifyDetached_key [OF m(6)] by blast
  moreover have "(\<lambda>(i, w). verifySessionLink P i w pub) (i, w) t = Inr f" using assms by simp
  note link_message.accepted_when [OF this]
  ultimately show ?thesis using m by (auto simp: verifyCountersignature_def)
qed

theorem accepted_link_has_both_signatures_witness:
  "verifySessionLink toy (demo_countersigned SESSION_LINK_DOMAIN demo_link) (Some (toy_sign [] demo_link))
     (replicate 32 (CHR ''k'')) (demo_time - 60000) = Inr (the (parseSessionLinkMessage toy demo_link))"
proof -
  have "verifySessionLink toy (demo_countersigned SESSION_LINK_DOMAIN demo_link) (Some (toy_sign [] demo_link))
     (replicate 32 (CHR ''k'')) demo_time = Inr (the (parseSessionLinkMessage toy demo_link))"
    using toy_countersigned [of SESSION_LINK_DOMAIN demo_link]
    by (simp add: verifySessionLink_ok demo_countersigned_def demo_link_parses)
  from accepted_link_has_both_signatures [OF this] show ?thesis by (simp add: demo_link_parses)
qed

end
