(* ===== verification/SpendJournal.thy ===== *)
theory SpendJournal
  imports SpendBook
begin

text \<open>
  services/signer/src/journal.ts: the signer's own journal of inference payments, a SQLite file only
  the signer opens. Each operation is one statement or one IMMEDIATE transaction, so it is one step
  here; a violated constraint throws and leaves the file as it was. Rows come in order of id.
\<close>

datatype payment_status = PReserved | PSent | PConfirmed | PFailedUnsent

record payment_row =
  pr_id :: nat
  pr_quote_id :: string
  pr_pay_to :: string
  pr_amount_micro :: jsnum
  pr_fee_reserve_micro :: jsnum
  pr_fee_micro :: "jsnum option"
  pr_status :: payment_status
  pr_tx_signature :: "string option"
  pr_error :: "string option"
  pr_created_at :: time_ms
  pr_updated_at :: time_ms

datatype rail_kind = MockRail | SolanaRail

record journal =
  j_payments :: "payment_row list"
  j_next_id :: nat
  j_rail :: "rail_kind option"
  j_proofs :: "string list"

datatype journal_error = Payments_without_rail | Wrong_rail rail_kind | Constraint_failed | Illegal_transition nat

text \<open>What opening a file leaves in it. A journal bound to one rail never serves the other.\<close>

definition open_journal :: "rail_kind \<Rightarrow> journal \<Rightarrow> journal_error + journal" where
  "open_journal rail j =
     (if j_rail j = None \<and> j_payments j \<noteq> [] then Inl Payments_without_rail
      else let bound = (case j_rail j of None \<Rightarrow> rail | Some r \<Rightarrow> r) in
        if bound \<noteq> rail then Inl (Wrong_rail bound) else Inr (j\<lparr>j_rail := Some bound\<rparr>))"

definition row_committed :: "payment_row \<Rightarrow> jsnum" where
  "row_committed r =
     (if pr_status r = PFailedUnsent then 0
      else if pr_status r = PConfirmed
        then pr_amount_micro r + (case pr_fee_micro r of None \<Rightarrow> pr_fee_reserve_micro r | Some f \<Rightarrow> f)
      else pr_amount_micro r + pr_fee_reserve_micro r)"

definition journal_committedMicro :: "journal \<Rightarrow> jsnum" where
  "journal_committedMicro j = sum_list (map row_committed (j_payments j))"

definition byQuote :: "journal \<Rightarrow> string \<Rightarrow> payment_row option" where
  "byQuote j quoteId = find (\<lambda>r. pr_quote_id r = quoteId) (j_payments j)"

record reserve_args =
  ra_quoteId :: string
  ra_payTo :: string
  ra_amountMicro :: jsnum
  ra_feeReserveMicro :: jsnum
  ra_ceilingMicro :: jsnum

datatype reserve_result = Reserved_id nat | Quote_exists payment_row | Over_ceiling jsnum jsnum jsnum

definition journal_reserve :: "time_ms \<Rightarrow> reserve_args \<Rightarrow> journal \<Rightarrow> journal_error + (reserve_result \<times> journal)" where
  "journal_reserve now a j =
     (case byQuote j (ra_quoteId a) of
        Some existing \<Rightarrow> Inr (Quote_exists existing, j)
      | None \<Rightarrow>
          (let committed = journal_committedMicro j;
               after = committed + ra_amountMicro a + ra_feeReserveMicro a in
           if after > ra_ceilingMicro a then Inr (Over_ceiling after (ra_ceilingMicro a) committed, j)
           else if ra_amountMicro a \<le> 0 \<or> ra_feeReserveMicro a < 0 then Inl Constraint_failed
           else Inr (Reserved_id (j_next_id j),
             j\<lparr>j_payments := j_payments j @ [\<lparr>pr_id = j_next_id j, pr_quote_id = ra_quoteId a, pr_pay_to = ra_payTo a,
                  pr_amount_micro = ra_amountMicro a, pr_fee_reserve_micro = ra_feeReserveMicro a, pr_fee_micro = None,
                  pr_status = PReserved, pr_tx_signature = None, pr_error = None, pr_created_at = now, pr_updated_at = now\<rparr>],
               j_next_id := j_next_id j + 1\<rparr>)))"

text \<open>The guarded update: exactly one row must have the id and the expected status.\<close>

definition journal_update :: "time_ms \<Rightarrow> nat \<Rightarrow> (payment_row \<Rightarrow> payment_row) \<Rightarrow> payment_status \<Rightarrow> journal \<Rightarrow> journal_error + journal" where
  "journal_update now i set_row from j =
     (if length (filter (\<lambda>r. pr_id r = i \<and> pr_status r = from) (j_payments j)) \<noteq> 1 then Inl (Illegal_transition i)
      else Inr (j\<lparr>j_payments := update_where (\<lambda>r. pr_id r = i \<and> pr_status r = from)
                    (\<lambda>r. (set_row r)\<lparr>pr_updated_at := now\<rparr>) (j_payments j)\<rparr>))"

definition markSent :: "time_ms \<Rightarrow> nat \<Rightarrow> string \<Rightarrow> journal \<Rightarrow> journal_error + journal" where
  "markSent now i txSignature j =
     (if (\<exists>r \<in> set (j_payments j). pr_id r = i \<and> pr_status r = PReserved)
         \<and> (\<exists>r \<in> set (j_payments j). pr_tx_signature r = Some txSignature \<and> pr_id r \<noteq> i) then Inl Constraint_failed
      else journal_update now i (\<lambda>r. r\<lparr>pr_status := PSent, pr_tx_signature := Some txSignature\<rparr>) PReserved j)"

definition markConfirmed :: "time_ms \<Rightarrow> nat \<Rightarrow> jsnum \<Rightarrow> journal \<Rightarrow> journal_error + journal" where
  "markConfirmed now i feeMicro = journal_update now i (\<lambda>r. r\<lparr>pr_status := PConfirmed, pr_fee_micro := Some feeMicro\<rparr>) PSent"

definition markFailedUnsent :: "time_ms \<Rightarrow> nat \<Rightarrow> string \<Rightarrow> journal \<Rightarrow> journal_error + journal" where
  "markFailedUnsent now i err =
     journal_update now i (\<lambda>r. r\<lparr>pr_status := PFailedUnsent, pr_error := Some (take 500 err)\<rparr>) PReserved"

definition markError :: "time_ms \<Rightarrow> nat \<Rightarrow> string \<Rightarrow> journal \<Rightarrow> journal" where
  "markError now i err j =
     j\<lparr>j_payments := update_where (\<lambda>r. pr_id r = i) (\<lambda>r. r\<lparr>pr_error := Some (take 500 err), pr_updated_at := now\<rparr>) (j_payments j)\<rparr>"

definition recordBalanceProof :: "string \<Rightarrow> journal \<Rightarrow> bool \<times> journal" where
  "recordBalanceProof quoteId j =
     (if quoteId \<in> set (j_proofs j) then (False, j) else (True, j\<lparr>j_proofs := j_proofs j @ [quoteId]\<rparr>))"

definition all_payments :: "journal \<Rightarrow> payment_row list" where
  "all_payments j = j_payments j"

definition empty_journal :: journal where
  "empty_journal = \<lparr>j_payments = [], j_next_id = 1, j_rail = None, j_proofs = []\<rparr>"

section \<open>The invariant\<close>

definition journal_ok :: "journal \<Rightarrow> bool" where
  "journal_ok j \<longleftrightarrow> distinct (map pr_id (j_payments j)) \<and> distinct (map pr_quote_id (j_payments j))
     \<and> (\<forall>r \<in> set (j_payments j). pr_id r < j_next_id j \<and> 0 < pr_amount_micro r \<and> 0 \<le> pr_fee_reserve_micro r)"

lemma journal_ok_empty [simp]: "journal_ok empty_journal"
  by (simp add: journal_ok_def empty_journal_def)

lemma reserve_new_row:
  assumes "journal_reserve now a j = Inr (Reserved_id i, j')"
  shows "\<exists>r. j_payments j' = j_payments j @ [r] \<and> j_next_id j' = j_next_id j + 1 \<and> i = j_next_id j \<and> pr_id r = i
    \<and> pr_quote_id r = ra_quoteId a \<and> pr_pay_to r = ra_payTo a \<and> pr_amount_micro r = ra_amountMicro a
    \<and> pr_fee_reserve_micro r = ra_feeReserveMicro a \<and> pr_status r = PReserved \<and> pr_tx_signature r = None
    \<and> 0 < ra_amountMicro a \<and> 0 \<le> ra_feeReserveMicro a \<and> byQuote j (ra_quoteId a) = None
    \<and> journal_committedMicro j + ra_amountMicro a + ra_feeReserveMicro a \<le> ra_ceilingMicro a"
  using assms by (auto simp: journal_reserve_def Let_def split: option.splits if_splits)

lemma reserve_same:
  "journal_reserve now a j = Inr (x, j') \<Longrightarrow> (\<forall>i. x \<noteq> Reserved_id i) \<Longrightarrow> j' = j"
  by (auto simp: journal_reserve_def Let_def split: option.splits if_splits)

lemma byQuote_None: "byQuote j q = None \<longleftrightarrow> (\<forall>r \<in> set (j_payments j). pr_quote_id r \<noteq> q)"
  by (auto simp: byQuote_def find_None_iff)

lemma reserve_ok:
  assumes "journal_ok j" "journal_reserve now a j = Inr (x, j')" shows "journal_ok j'"
proof (cases x)
  case (Reserved_id i)
  then show ?thesis
    using assms reserve_new_row [of now a j i j'] by (fastforce simp: journal_ok_def byQuote_None image_iff)
qed (use assms reserve_same [of now a j x j'] in auto)

text \<open>Updates that keep a row's key, quote and amounts keep the invariant.\<close>

definition keeps_amounts :: "(payment_row \<Rightarrow> payment_row) \<Rightarrow> bool" where
  "keeps_amounts f \<longleftrightarrow> (\<forall>r. pr_id (f r) = pr_id r \<and> pr_quote_id (f r) = pr_quote_id r
     \<and> pr_amount_micro (f r) = pr_amount_micro r \<and> pr_fee_reserve_micro (f r) = pr_fee_reserve_micro r)"

lemma update_where_ok:
  "journal_ok j \<Longrightarrow> keeps_amounts f \<Longrightarrow> journal_ok (j\<lparr>j_payments := update_where P f (j_payments j)\<rparr>)"
  by (auto simp: journal_ok_def keeps_amounts_def map_update_where_same elim!: in_update_whereE)

lemma journal_update_row:
  assumes "journal_ok j" "journal_update now i f from j = Inr j'"
  obtains r where "r \<in> set (j_payments j)" "pr_id r = i" "pr_status r = from"
    "j_payments j' = update_where (\<lambda>r. pr_id r = i) (\<lambda>r. (f r)\<lparr>pr_updated_at := now\<rparr>) (j_payments j)"
    "j_next_id j' = j_next_id j"
proof -
  have len: "length (filter (\<lambda>r. pr_id r = i \<and> pr_status r = from) (j_payments j)) = 1"
    using assms(2) by (auto simp: journal_update_def split: if_splits)
  then have "filter (\<lambda>r. pr_id r = i \<and> pr_status r = from) (j_payments j) \<noteq> []" by auto
  then obtain r where r: "r \<in> set (j_payments j)" "pr_id r = i" "pr_status r = from"
    by (auto simp: filter_empty_conv)
  have same: "pr_status x = from" if "x \<in> set (j_payments j)" "pr_id x = i" for x
    using that r assms(1) by (metis (mono_tags, lifting) distinct_map inj_onD journal_ok_def)
  have "update_where (\<lambda>r. pr_id r = i \<and> pr_status r = from) g (j_payments j) = update_where (\<lambda>r. pr_id r = i) g (j_payments j)" for g
    using same by (auto simp: update_where_def)
  then show thesis using that [OF r] assms(2) len by (auto simp: journal_update_def)
qed

lemma journal_update_ok:
  assumes "journal_ok j" "keeps_amounts f" "journal_update now i f from j = Inr j'" shows "journal_ok j'"
proof -
  have "keeps_amounts (\<lambda>r. (f r)\<lparr>pr_updated_at := now\<rparr>)" using assms(2) by (simp add: keeps_amounts_def)
  then show ?thesis using assms update_where_ok by (auto simp: journal_update_def split: if_splits)
qed

lemma mark_ok:
  "journal_ok j \<Longrightarrow> markSent now i s j = Inr j' \<Longrightarrow> journal_ok j'"
  "journal_ok j \<Longrightarrow> markConfirmed now i f j = Inr j' \<Longrightarrow> journal_ok j'"
  "journal_ok j \<Longrightarrow> markFailedUnsent now i e j = Inr j' \<Longrightarrow> journal_ok j'"
proof -
  assume j: "journal_ok j"
  show "markSent now i s j = Inr j' \<Longrightarrow> journal_ok j'"
    by (rule journal_update_ok [OF j, where f = "\<lambda>r. r\<lparr>pr_status := PSent, pr_tx_signature := Some s\<rparr>"])
       (simp_all add: markSent_def keeps_amounts_def split: if_splits)
  show "markConfirmed now i f j = Inr j' \<Longrightarrow> journal_ok j'"
    by (rule journal_update_ok [OF j, where f = "\<lambda>r. r\<lparr>pr_status := PConfirmed, pr_fee_micro := Some f\<rparr>"])
       (simp_all add: markConfirmed_def keeps_amounts_def)
  show "markFailedUnsent now i e j = Inr j' \<Longrightarrow> journal_ok j'"
    by (rule journal_update_ok [OF j, where f = "\<lambda>r. r\<lparr>pr_status := PFailedUnsent, pr_error := Some (take 500 e)\<rparr>"])
       (simp_all add: markFailedUnsent_def keeps_amounts_def)
qed

lemma markError_ok: "journal_ok j \<Longrightarrow> journal_ok (markError now i e j)"
  unfolding markError_def by (rule update_where_ok) (simp_all add: keeps_amounts_def)

section \<open>The journal keeps the spend-book contract\<close>

text \<open>Here a payment that is out holds its fee reserve, and confirming it costs the fee paid.\<close>

definition journal_res :: "time_ms \<times> reserve_args \<Rightarrow> journal \<Rightarrow> journal" where
  "journal_res a j = (case journal_reserve (fst a) (snd a) j of Inl _ \<Rightarrow> j | Inr (_, j') \<Rightarrow> j')"

definition journal_settle :: "nat \<Rightarrow> time_ms \<times> jsnum \<Rightarrow> journal \<Rightarrow> journal" where
  "journal_settle i a j = (case markConfirmed (fst a) i (snd a) j of Inl _ \<Rightarrow> j | Inr j' \<Rightarrow> j')"

definition journal_rel :: "time_ms \<times> string \<Rightarrow> nat \<Rightarrow> journal \<Rightarrow> journal" where
  "journal_rel a i j = (case markFailedUnsent (fst a) i (snd a) j of Inl _ \<Rightarrow> j | Inr j' \<Rightarrow> j')"

definition sent_fee :: "journal \<Rightarrow> nat \<Rightarrow> jsnum option" where
  "sent_fee j i = (case find (\<lambda>r. pr_id r = i) (j_payments j) of
     None \<Rightarrow> None | Some r \<Rightarrow> if pr_status r = PSent then Some (pr_fee_reserve_micro r) else None)"

lemma update_committed:
  assumes "journal_ok j" "journal_update now i f from j = Inr j'"
  shows "\<exists>r \<in> set (j_payments j). pr_id r = i \<and> pr_status r = from
     \<and> (\<forall>g. sum_list (map g (j_payments j')) = sum_list (map g (j_payments j)) - g r + (g ((f r)\<lparr>pr_updated_at := now\<rparr>) :: jsnum))"
proof -
  obtain r where r: "r \<in> set (j_payments j)" "pr_id r = i" "pr_status r = from"
      "j_payments j' = update_where (\<lambda>r. pr_id r = i) (\<lambda>r. (f r)\<lparr>pr_updated_at := now\<rparr>) (j_payments j)"
    using journal_update_row [OF assms] by blast
  have "distinct (map pr_id (j_payments j))" using assms(1) by (simp add: journal_ok_def)
  then show ?thesis using r(1,2,3)
    by (intro bexI [of _ r]) (simp_all add: r(4) sum_update_where_key [where r = r])
qed

lemma sent_feeD: "sent_fee j i = Some h \<Longrightarrow>
    \<exists>r \<in> set (j_payments j). pr_id r = i \<and> pr_status r = PSent \<and> pr_fee_reserve_micro r = h"
  by (auto simp: sent_fee_def dest!: find_SomeD split: option.splits if_splits)

lemma sent_fee_row:
  "journal_ok j \<Longrightarrow> r \<in> set (j_payments j) \<Longrightarrow> pr_id r = i \<Longrightarrow> pr_status r = PSent \<Longrightarrow> sent_fee j i = Some (pr_fee_reserve_micro r)"
  using find_key_eq [of pr_id "j_payments j" r i] by (simp add: sent_fee_def journal_ok_def)

lemma filter_the: "distinct xs \<Longrightarrow> r \<in> set xs \<Longrightarrow> filter ((=) r) xs = [r]"
  by (induction xs) (auto simp: filter_empty_conv)

lemma markConfirmed_sent:
  assumes "journal_ok j" "r \<in> set (j_payments j)" "pr_id r = i" "pr_status r = PSent"
  shows "\<exists>j'. markConfirmed now i fee j = Inr j'"
proof -
  have "distinct (j_payments j)" using assms(1) by (simp add: journal_ok_def distinct_map)
  moreover have "x = r" if "x \<in> set (j_payments j)" "pr_id x = i" for x
    using that assms by (metis (no_types, lifting) distinct_map inj_onD journal_ok_def)
  ultimately have "filter (\<lambda>x. pr_id x = i \<and> pr_status x = PSent) (j_payments j) = filter ((=) r) (j_payments j)"
    using assms(3,4) by (intro filter_cong) auto
  also have "\<dots> = [r]"
    by (rule filter_the) (use \<open>distinct (j_payments j)\<close> assms(2) in auto)
  finally show ?thesis by (simp add: markConfirmed_def journal_update_def)
qed

interpretation journal_book: spend_book journal_ok journal_committedMicro sent_fee
  "\<lambda>a. journal_res (fst a, (snd a)\<lparr>ra_ceilingMicro := limit\<rparr>)" journal_settle "journal_rel w" snd limit
  for limit and w :: "time_ms \<times> string"
proof unfold_locales
  show "journal_ok j \<Longrightarrow> journal_ok (journal_res (fst a, (snd a)\<lparr>ra_ceilingMicro := limit\<rparr>) j)" for j a
    using reserve_ok by (auto simp: journal_res_def split: sum.splits)
  show "journal_committedMicro (journal_res (fst a, (snd a)\<lparr>ra_ceilingMicro := limit\<rparr>) j) \<le> limit"
    if "journal_ok j" "journal_committedMicro j \<le> limit" for j a
  proof (cases "journal_reserve (fst a) ((snd a)\<lparr>ra_ceilingMicro := limit\<rparr>) j")
    case (Inr p)
    obtain x j' where p: "p = (x, j')" by (cases p)
    show ?thesis
    proof (cases x)
      case (Reserved_id i)
      then show ?thesis using reserve_new_row [of "fst a" "(snd a)\<lparr>ra_ceilingMicro := limit\<rparr>" j i j'] Inr p
        by (auto simp: journal_res_def journal_committedMicro_def row_committed_def algebra_simps)
    qed (use that Inr p reserve_same [of "fst a" "(snd a)\<lparr>ra_ceilingMicro := limit\<rparr>" j x j'] in \<open>auto simp: journal_res_def\<close>)
  qed (use that in \<open>simp add: journal_res_def\<close>)
  show "journal_ok j \<Longrightarrow> journal_ok (journal_settle i p j)" for j i p
    using mark_ok(2) by (auto simp: journal_settle_def split: sum.splits)
  show "journal_committedMicro (journal_settle i p j) \<le> max (journal_committedMicro j) (journal_committedMicro j - h + snd p)"
    if ok: "journal_ok j" and h: "sent_fee j i = Some h" for j i h p
  proof -
    obtain r where r: "r \<in> set (j_payments j)" "pr_id r = i" "pr_status r = PSent" "pr_fee_reserve_micro r = h"
      using sent_feeD [OF h] by blast
    obtain j' where j': "markConfirmed (fst p) i (snd p) j = Inr j'" using markConfirmed_sent [OF ok r(1-3)] by blast
    obtain r' where r': "r' \<in> set (j_payments j)" "pr_id r' = i" "pr_status r' = PSent"
      "\<forall>g. sum_list (map g (j_payments j')) = sum_list (map g (j_payments j)) - g r'
         + (g (r'\<lparr>pr_status := PConfirmed, pr_fee_micro := Some (snd p), pr_updated_at := fst p\<rparr>) :: jsnum)"
      using update_committed [OF ok j' [unfolded markConfirmed_def]] by auto
    have "sent_fee j i = Some (pr_fee_reserve_micro r')" by (rule sent_fee_row [OF ok r'(1-3)])
    then have "pr_fee_reserve_micro r' = h" using h by simp
    then show ?thesis using r' by (simp add: journal_settle_def j' journal_committedMicro_def row_committed_def le_max_iff_disj)
  qed
  show "journal_committedMicro (journal_settle i p j) \<le> journal_committedMicro j"
    if ok: "journal_ok j" and free: "sent_fee j i = None" for j i p
  proof (cases "markConfirmed (fst p) i (snd p) j")
    case (Inr j')
    then obtain r' where "r' \<in> set (j_payments j)" "pr_id r' = i" "pr_status r' = PSent"
      using update_committed [OF ok Inr [unfolded markConfirmed_def]] by blast
    then have False using sent_fee_row [OF ok] free by fastforce
    then show ?thesis ..
  qed (simp add: journal_settle_def)
  show "journal_ok j \<Longrightarrow> journal_ok (journal_rel w i j)" for j i
    using mark_ok(3) by (auto simp: journal_rel_def split: sum.splits)
  show "journal_committedMicro (journal_rel w i j) \<le> journal_committedMicro j" if ok: "journal_ok j" for j i
  proof (cases "markFailedUnsent (fst w) i (snd w) j")
    case (Inr j')
    then obtain r where r: "r \<in> set (j_payments j)" "pr_status r = PReserved"
      "\<forall>g. sum_list (map g (j_payments j')) = sum_list (map g (j_payments j)) - g r
         + (g (r\<lparr>pr_status := PFailedUnsent, pr_error := Some (take 500 (snd w)), pr_updated_at := fst w\<rparr>) :: jsnum)"
      using update_committed [OF ok Inr [unfolded markFailedUnsent_def]] by auto
    have "0 < pr_amount_micro r" "0 \<le> pr_fee_reserve_micro r" using ok r(1) by (auto simp: journal_ok_def)
    then show ?thesis using r by (simp add: journal_rel_def Inr journal_committedMicro_def row_committed_def)
  qed (simp add: journal_rel_def)
qed

end
