(* ===== verification/Signer.thy ===== *)
theory Signer
  imports Budget SpendJournal X402Protocol GrainhackStatement
begin

text \<open>
  services/signer/src/signer.ts: the decision to pay one inference quote. \<open>payQuote\<close> is asynchronous:
  it waits for the transfer to be built and again for it to be broadcast, and between its steps
  other requests may run or the process may die. Its three stretches of code are three functions;
  the answers of the payment rail are their arguments. \<open>signer_step\<close> lets any number of requests run
  interleaved in any order over one journal.
\<close>

section \<open>Configuration\<close>

record signer_config =
  sc_lifetimeCeilingMicro :: jsnum
  sc_maxPerCallMicro :: jsnum
  sc_solUsdCeilingPrice :: jsnum

definition FEE_RESERVE_LAMPORTS :: jsnum where
  "FEE_RESERVE_LAMPORTS = 10000"

text \<open>A variable that is set must be a finite number not below zero. \<open>Inl\<close> names the one that is not.\<close>

definition env_number :: "(string \<rightharpoonup> string) \<Rightarrow> string \<Rightarrow> jsnum \<Rightarrow> string + jsnum" where
  "env_number env k d =
     (case env k of
        None \<Rightarrow> Inr d
      | Some v \<Rightarrow> if v = [] then Inr d
                  else (case Number_of v of Fin n \<Rightarrow> if n < 0 then Inl k else Inr n | _ \<Rightarrow> Inl k))"

definition signerConfig :: "(string \<rightharpoonup> string) \<Rightarrow> string + signer_config" where
  "signerConfig env =
     (case env_number env ''SIGNER_LIFETIME_CEILING_MICRO'' HARD_LIFETIME_CEILING_MICRO of
        Inl k \<Rightarrow> Inl k
      | Inr limit \<Rightarrow>
          (case env_number env ''SIGNER_MAX_PER_CALL_MICRO'' 50000 of
             Inl k \<Rightarrow> Inl k
           | Inr perCall \<Rightarrow>
               (case env_number env ''SIGNER_SOL_USD_CEILING_PRICE'' 400 of
                  Inl k \<Rightarrow> Inl k
                | Inr price \<Rightarrow> Inr \<lparr>sc_lifetimeCeilingMicro = min limit HARD_LIFETIME_CEILING_MICRO,
                    sc_maxPerCallMicro = perCall, sc_solUsdCeilingPrice = price\<rparr>)))"

section \<open>Paying a quote\<close>

text \<open>
  A request as it was read from JSON: \<open>None\<close> for a quote id that is no string or an amount that is no
  number; another field that is no string differs from every constant it is compared with.
\<close>

record pay_quote_request =
  pq_quote_id :: "string option"
  pq_network :: string
  pq_asset :: string
  pq_pay_to :: string
  pq_amount_microunits :: "jsnum option"
  pq_expires_at :: "json option"

definition hexc_i :: re where
  "hexc_i = Cls (\<lambda>c. is_lower_hex c \<or> 65 \<le> code c \<and> code c \<le> 70)"

definition SIGNER_UUID :: re where
  "SIGNER_UUID = Seq (Bol False) (seqs [times 8 hexc_i, chr (CHR ''-''), times 4 hexc_i, chr (CHR ''-''), times 4 hexc_i,
     chr (CHR ''-''), times 4 hexc_i, chr (CHR ''-''), times 12 hexc_i, Eol False])"

datatype pay_error = Quote_id_not_uuid | Network_not_mainnet string | Asset_not_usdc string | Pay_to_not_allowed string
  | Amount_not_positive_integer | Amount_over_per_call jsnum jsnum | Quote_expired | Quote_already_paid string payment_status
  | Lifetime_ceiling jsnum jsnum jsnum | Could_not_build_transfer string | Broadcast_unknown string string
  | Journal_threw journal_error | Ceiling_reached_no_proof

datatype pay_result = PayOk (po_wallet: string) (po_signature: string) (po_amount: jsnum) (po_fee_lamports: jsnum) (po_fee: jsnum)
  | PayRefused (pr_status_code: int) (pr_reason: pay_error)

definition check_request :: "platform \<Rightarrow> signer_config \<Rightarrow> time_ms \<Rightarrow> pay_quote_request \<Rightarrow> pay_result + string \<times> jsnum" where
  "check_request P cfg now req =
     (case pq_quote_id req of
        None \<Rightarrow> Inl (PayRefused 400 Quote_id_not_uuid)
      | Some q \<Rightarrow>
          if \<not> re_test SIGNER_UUID q then Inl (PayRefused 400 Quote_id_not_uuid)
          else if pq_network req \<noteq> SOLANA_MAINNET then Inl (PayRefused 403 (Network_not_mainnet (pq_network req)))
          else if pq_asset req \<noteq> ''USDC'' then Inl (PayRefused 403 (Asset_not_usdc (pq_asset req)))
          else if pq_pay_to req \<notin> set USEPOD_PAY_TO_ALLOWLIST then Inl (PayRefused 403 (Pay_to_not_allowed (pq_pay_to req)))
          else (case pq_amount_microunits req of
             None \<Rightarrow> Inl (PayRefused 400 Amount_not_positive_integer)
           | Some amount \<Rightarrow>
               if \<not> is_safe_integer amount \<or> amount \<le> 0 then Inl (PayRefused 400 Amount_not_positive_integer)
               else if amount > sc_maxPerCallMicro cfg then Inl (PayRefused 403 (Amount_over_per_call amount (sc_maxPerCallMicro cfg)))
               else if truthy (pq_expires_at req)
                 \<and> (case parse_date_json P (pq_expires_at req) of Some t \<Rightarrow> t \<le> now + 10000 | None \<Rightarrow> False)
                 then Inl (PayRefused 400 Quote_expired)
               else Inr (q, amount)))"

definition fee_reserve :: "signer_config \<Rightarrow> jsnum" where
  "fee_reserve cfg = lamportsToMicroCeil FEE_RESERVE_LAMPORTS (sc_solUsdCeilingPrice cfg)"

text \<open>Up to the first wait: a result, or the id of the reservation while the transfer is being built.\<close>

definition payQuote_start :: "platform \<Rightarrow> signer_config \<Rightarrow> string \<Rightarrow> time_ms \<Rightarrow> pay_quote_request \<Rightarrow> journal
    \<Rightarrow> (pay_result + nat) \<times> journal" where
  "payQuote_start P cfg wallet now req j =
     (case check_request P cfg now req of
        Inl r \<Rightarrow> (Inl r, j)
      | Inr (q, amount) \<Rightarrow>
          (case journal_reserve now \<lparr>ra_quoteId = q, ra_payTo = pq_pay_to req, ra_amountMicro = amount,
                 ra_feeReserveMicro = fee_reserve cfg, ra_ceilingMicro = sc_lifetimeCeilingMicro cfg\<rparr> j of
             Inl e \<Rightarrow> (Inl (PayRefused 400 (Journal_threw e)), j)
           | Inr (Reserved_id i, j') \<Rightarrow> (Inr i, j')
           | Inr (Over_ceiling after limit committed, j') \<Rightarrow>
               (Inl (PayRefused 403 (Lifetime_ceiling after limit committed)), j')
           | Inr (Quote_exists ex, j') \<Rightarrow>
               (case pr_tx_signature ex of
                  Some sig \<Rightarrow>
                    if pr_status ex = PConfirmed \<and> sig \<noteq> []
                    then (Inl (PayOk wallet sig (pr_amount_micro ex) 0 (case pr_fee_micro ex of Some f \<Rightarrow> f | None \<Rightarrow> 0)), j')
                    else (Inl (PayRefused 409 (Quote_already_paid q (pr_status ex))), j')
                | None \<Rightarrow> (Inl (PayRefused 409 (Quote_already_paid q (pr_status ex))), j'))))"

text \<open>
  The transfer was built (its signature) or could not be (the error): a result, or the signature
  to broadcast. When the journal refuses to record the signature the call throws.
\<close>

definition payQuote_prepared :: "time_ms \<Rightarrow> nat \<Rightarrow> string + string \<Rightarrow> journal \<Rightarrow> (pay_result + string) \<times> journal" where
  "payQuote_prepared now i prepared j =
     (case prepared of
        Inl e \<Rightarrow>
          (case markFailedUnsent now i e j of
             Inl err \<Rightarrow> (Inl (PayRefused 400 (Journal_threw err)), j)
           | Inr j' \<Rightarrow> (Inl (PayRefused 422 (Could_not_build_transfer e)), j'))
      | Inr sig \<Rightarrow>
          (case markSent now i sig j of
             Inl err \<Rightarrow> (Inl (PayRefused 400 (Journal_threw err)), j)
           | Inr j' \<Rightarrow> (Inr sig, j')))"

text \<open>What the journal throws when a row is not in the status expected, as text.\<close>

definition illegal_text :: "nat \<Rightarrow> string" where
  "illegal_text i = ''Error: payment '' @ show_nat i @ '': illegal transition (expected status sent)''"

text \<open>The broadcast answered with the signature and the fee in lamports, or threw.\<close>

definition payQuote_broadcast :: "signer_config \<Rightarrow> string \<Rightarrow> time_ms \<Rightarrow> nat \<Rightarrow> string \<Rightarrow> jsnum
    \<Rightarrow> string + string \<times> jsnum \<Rightarrow> journal \<Rightarrow> pay_result \<times> journal" where
  "payQuote_broadcast cfg wallet now i sig amount outcome j =
     (case outcome of
        Inl e \<Rightarrow> (PayRefused 502 (Broadcast_unknown sig e), markError now i e j)
      | Inr (resSig, feeLamports) \<Rightarrow>
          (let feeMicro = lamportsToMicroCeil feeLamports (sc_solUsdCeilingPrice cfg) in
           case markConfirmed now i feeMicro j of
             Inl err \<Rightarrow> (PayRefused 502 (Broadcast_unknown sig (illegal_text i)), markError now i (illegal_text i) j)
           | Inr j' \<Rightarrow> (PayOk wallet resSig amount feeLamports feeMicro, j')))"

text \<open>The spend proof for surplus credit: refused at the ceiling.\<close>

definition balanceProof :: "signer_config \<Rightarrow> string option \<Rightarrow> journal \<Rightarrow> (int \<times> pay_error + string) \<times> journal" where
  "balanceProof cfg quoteId j =
     (case quoteId of
        None \<Rightarrow> (Inl (400, Quote_id_not_uuid), j)
      | Some q \<Rightarrow>
          if \<not> re_test SIGNER_UUID q then (Inl (400, Quote_id_not_uuid), j)
          else if journal_committedMicro j \<ge> sc_lifetimeCeilingMicro cfg then (Inl (403, Ceiling_reached_no_proof), j)
          else (Inr (balanceProofMessage q), snd (recordBalanceProof q j)))"

section \<open>Requests interleaved over one journal\<close>

datatype in_flight = Preparing (fl_id: nat) | Broadcasting (fl_id: nat) (fl_sig: string)

text \<open>\<open>sg_broadcasts\<close> is what was handed to the network so far: the row, its quote, the amount and the signature.\<close>

record signer_sys =
  sg_journal :: journal
  sg_flying :: "in_flight list"
  sg_broadcasts :: "(nat \<times> string \<times> jsnum \<times> string) list"

definition row_of :: "journal \<Rightarrow> nat \<Rightarrow> payment_row option" where
  "row_of j i = find (\<lambda>r. pr_id r = i) (j_payments j)"

inductive signer_step :: "platform \<Rightarrow> signer_config \<Rightarrow> signer_sys \<Rightarrow> signer_sys \<Rightarrow> bool" for P cfg where
  refused: "payQuote_start P cfg w now req (sg_journal s) = (Inl res, j) \<Longrightarrow>
     signer_step P cfg s (s\<lparr>sg_journal := j\<rparr>)"
| reserved: "payQuote_start P cfg w now req (sg_journal s) = (Inr i, j) \<Longrightarrow>
     signer_step P cfg s (s\<lparr>sg_journal := j, sg_flying := Preparing i # sg_flying s\<rparr>)"
| not_built: "Preparing i \<in> set (sg_flying s) \<Longrightarrow> payQuote_prepared now i a (sg_journal s) = (Inl res, j) \<Longrightarrow>
     signer_step P cfg s (s\<lparr>sg_journal := j, sg_flying := remove1 (Preparing i) (sg_flying s)\<rparr>)"
| broadcast: "Preparing i \<in> set (sg_flying s) \<Longrightarrow> payQuote_prepared now i a (sg_journal s) = (Inr sig, j) \<Longrightarrow>
     row_of (sg_journal s) i = Some r \<Longrightarrow>
     signer_step P cfg s (s\<lparr>sg_journal := j, sg_flying := Broadcasting i sig # remove1 (Preparing i) (sg_flying s),
       sg_broadcasts := (i, pr_quote_id r, pr_amount_micro r, sig) # sg_broadcasts s\<rparr>)"
| answered: "Broadcasting i sig \<in> set (sg_flying s) \<Longrightarrow> (\<And>x fee. out = Inr (x, fee) \<Longrightarrow> 0 \<le> fee) \<Longrightarrow>
     payQuote_broadcast cfg w now i sig amount out (sg_journal s) = (res, j) \<Longrightarrow>
     signer_step P cfg s (s\<lparr>sg_journal := j, sg_flying := remove1 (Broadcasting i sig) (sg_flying s)\<rparr>)"
| proof_signed: "balanceProof cfg q (sg_journal s) = (res, j) \<Longrightarrow> signer_step P cfg s (s\<lparr>sg_journal := j\<rparr>)"
| crashed: "signer_step P cfg s (s\<lparr>sg_flying := []\<rparr>)"

text \<open>The states a signer can come to from a new journal.\<close>

inductive signer_reach :: "platform \<Rightarrow> signer_config \<Rightarrow> signer_sys \<Rightarrow> bool" for P cfg where
  start: "signer_reach P cfg \<lparr>sg_journal = empty_journal, sg_flying = [], sg_broadcasts = []\<rparr>"
| step: "signer_reach P cfg s \<Longrightarrow> signer_step P cfg s s' \<Longrightarrow> signer_reach P cfg s'"

section \<open>The invariant\<close>

text \<open>
  Amounts that are or may be out stay within the ceiling; every broadcast has a row of its own, in
  status sent or confirmed, for the same quote, amount and signature.
\<close>

definition live_amount :: "payment_row \<Rightarrow> jsnum" where
  "live_amount r = (if pr_status r = PFailedUnsent then 0 else pr_amount_micro r)"

definition backs :: "payment_row \<Rightarrow> nat \<times> string \<times> jsnum \<times> string \<Rightarrow> bool" where
  "backs r b = (case b of (i, q, a, sig) \<Rightarrow> pr_id r = i \<and> pr_quote_id r = q \<and> pr_amount_micro r = a
     \<and> pr_tx_signature r = Some sig \<and> pr_status r \<in> {PSent, PConfirmed})"

definition rows_inv :: "signer_config \<Rightarrow> payment_row list \<Rightarrow> (nat \<times> string \<times> jsnum \<times> string) list \<Rightarrow> bool" where
  "rows_inv cfg rs bs \<longleftrightarrow>
     (\<forall>r \<in> set rs. \<forall>f. pr_fee_micro r = Some f \<longrightarrow> 0 \<le> f)
     \<and> sum_list (map live_amount rs) \<le> max 0 (sc_lifetimeCeilingMicro cfg)
     \<and> (\<forall>b \<in> set bs. \<exists>r \<in> set rs. backs r b)"

definition signer_inv :: "signer_config \<Rightarrow> signer_sys \<Rightarrow> bool" where
  "signer_inv cfg s \<longleftrightarrow> journal_ok (sg_journal s) \<and> distinct (map fst (sg_broadcasts s))
     \<and> rows_inv cfg (j_payments (sg_journal s)) (sg_broadcasts s)"

lemma live_le_committed: "0 < pr_amount_micro r \<Longrightarrow> 0 \<le> pr_fee_reserve_micro r \<Longrightarrow> (\<And>f. pr_fee_micro r = Some f \<Longrightarrow> 0 \<le> f)
   \<Longrightarrow> live_amount r \<le> row_committed r"
  by (auto simp: live_amount_def row_committed_def split: option.split)

lemma live_sum_le:
  "journal_ok j \<Longrightarrow> rows_inv cfg (j_payments j) bs \<Longrightarrow> sum_list (map live_amount (j_payments j)) \<le> journal_committedMicro j"
  unfolding journal_committedMicro_def
  by (rule sum_list_map_mono) (auto simp: journal_ok_def rows_inv_def intro!: live_le_committed)

lemma reserve_inv:
  assumes "journal_ok j" "rows_inv cfg (j_payments j) bs" "ra_ceilingMicro a = sc_lifetimeCeilingMicro cfg"
    and "journal_reserve now a j = Inr (x, j')"
  shows "rows_inv cfg (j_payments j') bs"
proof (cases x)
  case (Reserved_id i)
  then obtain r where r: "j_payments j' = j_payments j @ [r]" "pr_amount_micro r = ra_amountMicro a" "pr_status r = PReserved"
    "0 \<le> ra_feeReserveMicro a" "journal_committedMicro j + ra_amountMicro a + ra_feeReserveMicro a \<le> sc_lifetimeCeilingMicro cfg"
    using reserve_new_row [of now a j i j'] assms(3,4) by auto
  have "pr_fee_micro r = None"
    using assms(4) Reserved_id r(1) by (auto simp: journal_reserve_def Let_def split: option.splits if_splits)
  then show ?thesis using assms(2) live_sum_le [OF assms(1,2)] r
    by (auto simp: rows_inv_def live_amount_def)
qed (use assms reserve_same [of now a j x j'] in auto)

lemma live_updated: "live_amount (r\<lparr>pr_updated_at := x\<rparr>) = live_amount r"
  by (simp add: live_amount_def)

lemma backs_updated: "backs (r\<lparr>pr_updated_at := x\<rparr>) b = backs r b"
  by (simp add: backs_def)

lemma update_inv:
  assumes "journal_ok j" "rows_inv cfg (j_payments j) bs" "journal_update now i f st j = Inr j'"
    and "\<And>r. pr_status r = st \<Longrightarrow> live_amount (f r) \<le> live_amount r"
    and "\<And>r b. pr_status r = st \<Longrightarrow> backs r b \<Longrightarrow> backs (f r) b"
    and "\<And>r x. pr_fee_micro (f r) = Some x \<Longrightarrow> pr_fee_micro r = Some x \<or> 0 \<le> x"
  shows "rows_inv cfg (j_payments j') bs"
proof -
  let ?f = "\<lambda>r. (f r)\<lparr>pr_updated_at := now\<rparr>" and ?P = "\<lambda>r. pr_id r = i \<and> pr_status r = st"
  have j': "j_payments j' = update_where ?P ?f (j_payments j)"
    using assms(3) by (auto simp: journal_update_def split: if_splits)
  have live: "live_amount (?f r) \<le> live_amount r" if "?P r" for r
    using that assms(4) [of r] by (simp only: live_updated)
  have "sum_list (map live_amount (j_payments j')) \<le> sum_list (map live_amount (j_payments j))"
    unfolding j' update_where_def map_map by (rule sum_list_map_mono) (use live in auto)
  moreover have "\<exists>r \<in> set (j_payments j'). backs r b" if b: "r \<in> set (j_payments j)" "backs r b" for r b
  proof -
    have "backs (if ?P r then ?f r else r) b" using b assms(5) [of r b] by (simp add: backs_updated)
    moreover have "(if ?P r then ?f r else r) \<in> set (j_payments j')"
      using b(1) unfolding j' update_where_def set_map by (rule imageI)
    ultimately show ?thesis by blast
  qed
  moreover have "0 \<le> x" if r: "r \<in> set (j_payments j')" "pr_fee_micro r = Some x" for r x
  proof -
    obtain r0 where r0: "r0 \<in> set (j_payments j)" "r = (if ?P r0 then ?f r0 else r0)"
      using r(1) unfolding j' by (rule in_update_whereE)
    have "pr_fee_micro r0 = Some x \<or> 0 \<le> x" using r(2) r0(2) assms(6) [of r0 x] by (auto split: if_splits)
    then show ?thesis using r0(1) assms(2) by (auto simp: rows_inv_def)
  qed
  ultimately show ?thesis using assms(2) unfolding rows_inv_def by (meson order_trans)
qed

lemma markError_inv: "rows_inv cfg (j_payments j) bs \<Longrightarrow> rows_inv cfg (j_payments (markError now i e j)) bs"
proof -
  let ?f = "\<lambda>r. r\<lparr>pr_error := Some (take 500 e), pr_updated_at := now\<rparr>"
  assume inv: "rows_inv cfg (j_payments j) bs"
  have "map live_amount (update_where (\<lambda>r. pr_id r = i) ?f (j_payments j)) = map live_amount (j_payments j)"
    by (rule map_update_where_same) (simp add: live_amount_def)
  moreover have "\<exists>r \<in> set (update_where (\<lambda>r. pr_id r = i) ?f (j_payments j)). backs r b"
    if "r \<in> set (j_payments j)" "backs r b" for r b
    using that by (intro bexI [of _ "if pr_id r = i then ?f r else r"]) (auto simp: backs_def update_where_def)
  moreover have "0 \<le> x" if "r \<in> set (update_where (\<lambda>r. pr_id r = i) ?f (j_payments j))" "pr_fee_micro r = Some x" for r x
    using that inv by (auto simp: rows_inv_def elim!: in_update_whereE split: if_splits)
  ultimately show ?thesis using inv unfolding rows_inv_def markError_def by simp blast
qed

lemma marks_inv:
  assumes "journal_ok j" "rows_inv cfg (j_payments j) bs"
  shows "markSent now i sig j = Inr j' \<Longrightarrow> rows_inv cfg (j_payments j') bs"
    "0 \<le> fee \<Longrightarrow> markConfirmed now i fee j = Inr j' \<Longrightarrow> rows_inv cfg (j_payments j') bs"
    "markFailedUnsent now i e j = Inr j' \<Longrightarrow> rows_inv cfg (j_payments j') bs"
proof -
  show "markSent now i sig j = Inr j' \<Longrightarrow> rows_inv cfg (j_payments j') bs"
    by (rule update_inv [OF assms, where f = "\<lambda>r. r\<lparr>pr_status := PSent, pr_tx_signature := Some sig\<rparr>" and st = PReserved])
       (auto simp: markSent_def live_amount_def backs_def split: if_splits)
  show "0 \<le> fee \<Longrightarrow> markConfirmed now i fee j = Inr j' \<Longrightarrow> rows_inv cfg (j_payments j') bs"
    by (rule update_inv [OF assms, where f = "\<lambda>r. r\<lparr>pr_status := PConfirmed, pr_fee_micro := Some fee\<rparr>" and st = PSent])
       (auto simp: markConfirmed_def live_amount_def backs_def)
  show "markFailedUnsent now i e j = Inr j' \<Longrightarrow> rows_inv cfg (j_payments j') bs"
  proof -
    assume m: "markFailedUnsent now i e j = Inr j'"
    have pos: "0 < pr_amount_micro r" if "r \<in> set (j_payments j)" for r using that assms(1) by (simp add: journal_ok_def)
    let ?f = "\<lambda>r. r\<lparr>pr_status := PFailedUnsent, pr_error := Some (take 500 e), pr_updated_at := now\<rparr>"
    let ?P = "\<lambda>r. pr_id r = i \<and> pr_status r = PReserved"
    have j': "j_payments j' = update_where ?P ?f (j_payments j)"
      using m by (auto simp: markFailedUnsent_def journal_update_def split: if_splits)
    have "sum_list (map live_amount (j_payments j')) \<le> sum_list (map live_amount (j_payments j))"
      unfolding j' update_where_def map_map
      by (rule sum_list_map_mono) (use pos in \<open>auto simp: live_amount_def less_imp_le\<close>)
    moreover have "\<exists>r \<in> set (j_payments j'). backs r b" if "r \<in> set (j_payments j)" "backs r b" for r b
      using that by (intro bexI [of _ r]) (auto simp: j' update_where_def backs_def image_iff intro!: bexI [of _ r])
    moreover have "0 \<le> x" if "r \<in> set (j_payments j')" "pr_fee_micro r = Some x" for r x
      using that assms(2) by (auto simp: j' rows_inv_def elim!: in_update_whereE split: if_splits)
    ultimately show ?thesis using assms(2) unfolding rows_inv_def by (meson order_trans)
  qed
qed

lemma start_inv:
  assumes "journal_ok j" "rows_inv cfg (j_payments j) bs" "payQuote_start P cfg w now req j = (res, j')"
  shows "journal_ok j' \<and> rows_inv cfg (j_payments j') bs"
proof (cases "check_request P cfg now req")
  case (Inr p)
  obtain q amount where p: "p = (q, amount)" by (cases p)
  let ?a = "\<lparr>ra_quoteId = q, ra_payTo = pq_pay_to req, ra_amountMicro = amount, ra_feeReserveMicro = fee_reserve cfg,
      ra_ceilingMicro = sc_lifetimeCeilingMicro cfg\<rparr>"
  show ?thesis
  proof (cases "journal_reserve now ?a j")
    case (Inr y)
    obtain x k where y: "y = (x, k)" by (cases y)
    have "j' = k" using assms(3) \<open>check_request P cfg now req = Inr p\<close> Inr
      by (auto simp: payQuote_start_def p y split: reserve_result.splits option.splits if_splits)
    then show ?thesis using reserve_ok [OF assms(1), of now ?a x k] reserve_inv [OF assms(1,2), of ?a now x k] Inr y by simp
  qed (use assms Inr in \<open>auto simp: payQuote_start_def p\<close>)
qed (use assms in \<open>auto simp: payQuote_start_def\<close>)

lemma prepared_inv:
  assumes "journal_ok j" "rows_inv cfg (j_payments j) bs" "payQuote_prepared now i a j = (res, j')"
  shows "journal_ok j' \<and> rows_inv cfg (j_payments j') bs"
proof -
  note ok = mark_ok(1,3) [OF assms(1)] and inv = marks_inv(1,3) [OF assms(1,2)]
  show ?thesis
  proof (cases a)
    case (Inl e)
    show ?thesis using assms Inl ok(2) [of now i e] inv(2) [of now i e]
      by (cases "markFailedUnsent now i e j") (auto simp: payQuote_prepared_def)
  next
    case (Inr sig)
    show ?thesis using assms Inr ok(1) [of now i sig] inv(1) [of now i sig]
      by (cases "markSent now i sig j") (auto simp: payQuote_prepared_def)
  qed
qed

lemma ceil_lamports_nonneg: "0 \<le> fee \<Longrightarrow> 0 \<le> price \<Longrightarrow> 0 \<le> lamportsToMicroCeil fee price"
  by (simp add: lamportsToMicroCeil_def ceil_nonneg)

lemma broadcast_inv:
  assumes "journal_ok j" "rows_inv cfg (j_payments j) bs" "0 \<le> sc_solUsdCeilingPrice cfg"
    and "payQuote_broadcast cfg w now i sig amount out j = (res, j')" "\<And>x fee. out = Inr (x, fee) \<Longrightarrow> 0 \<le> fee"
  shows "journal_ok j' \<and> rows_inv cfg (j_payments j') bs"
proof (cases out)
  case (Inl e)
  then show ?thesis using assms markError_ok markError_inv by (auto simp: payQuote_broadcast_def)
next
  case (Inr p)
  obtain x fee where p: "p = (x, fee)" by (cases p)
  then have "0 \<le> lamportsToMicroCeil fee (sc_solUsdCeilingPrice cfg)" using assms(3,5) Inr ceil_lamports_nonneg by blast
  then show ?thesis
    using assms(1,2,4) Inr p mark_ok(2) [OF assms(1)] marks_inv(2) [OF assms(1,2)] markError_ok markError_inv
    by (auto simp: payQuote_broadcast_def Let_def split: sum.splits)
qed

lemma prepared_backs:
  assumes "journal_ok j" "payQuote_prepared now i a j = (Inr sig, j')" "row_of j i = Some r"
  shows "\<exists>r' \<in> set (j_payments j'). backs r' (i, pr_quote_id r, pr_amount_micro r, sig)"
    and "pr_status r = PReserved"
proof -
  have m: "journal_update now i (\<lambda>r. r\<lparr>pr_status := PSent, pr_tx_signature := Some sig\<rparr>) PReserved j = Inr j'"
    using assms(2) by (auto simp: payQuote_prepared_def markSent_def split: sum.splits if_splits)
  obtain r0 where r0: "r0 \<in> set (j_payments j)" "pr_id r0 = i" "pr_status r0 = PReserved"
    "j_payments j' = update_where (\<lambda>r. pr_id r = i)
       (\<lambda>r. (r\<lparr>pr_status := PSent, pr_tx_signature := Some sig\<rparr>)\<lparr>pr_updated_at := now\<rparr>) (j_payments j)"
    using journal_update_row [OF assms(1) m] by blast
  have "row_of j i = Some r0"
    using assms(1) r0 by (auto simp: row_of_def journal_ok_def intro: find_key_eq)
  then have "r0 = r" using assms(3) by simp
  then show "pr_status r = PReserved" using r0 by simp
  let ?r = "r\<lparr>pr_status := PSent, pr_tx_signature := Some sig, pr_updated_at := now\<rparr>"
  have "?r \<in> set (j_payments j')" using r0 \<open>r0 = r\<close> by (force simp: update_where_def)
  then show "\<exists>r' \<in> set (j_payments j'). backs r' (i, pr_quote_id r, pr_amount_micro r, sig)"
    using r0 \<open>r0 = r\<close> by (intro bexI [of _ ?r]) (simp_all add: backs_def)
qed

lemma signer_step_inv:
  assumes "signer_step P cfg s s'" "signer_inv cfg s" "0 \<le> sc_solUsdCeilingPrice cfg"
  shows "signer_inv cfg s'"
  using assms(1)
proof cases
  case (broadcast i now a sig j r)
  have ok: "journal_ok (sg_journal s)" "rows_inv cfg (j_payments (sg_journal s)) (sg_broadcasts s)"
    using assms(2) by (simp_all add: signer_inv_def)
  have "i \<notin> fst ` set (sg_broadcasts s)"
  proof
    assume "i \<in> fst ` set (sg_broadcasts s)"
    then obtain b where b: "b \<in> set (sg_broadcasts s)" "fst b = i" by auto
    then obtain r0 where r0: "r0 \<in> set (j_payments (sg_journal s))" "backs r0 b" using ok(2) by (auto simp: rows_inv_def)
    then have "row_of (sg_journal s) i = Some r0"
      using b ok(1) by (auto simp: row_of_def backs_def journal_ok_def split: prod.splits intro!: find_key_eq)
    then have "r0 = r" using broadcast(4) by simp
    then show False using prepared_backs(2) [OF ok(1) broadcast(3,4)] r0(2) by (auto simp: backs_def)
  qed
  then show ?thesis
    using prepared_inv [OF ok broadcast(3)] prepared_backs(1) [OF ok(1) broadcast(3,4)] assms(2) broadcast(1)
    by (auto simp: signer_inv_def rows_inv_def)
next
  case (proof_signed q res j)
  then have "j_payments j = j_payments (sg_journal s) \<and> j_next_id j = j_next_id (sg_journal s)"
    by (auto simp: balanceProof_def recordBalanceProof_def split: option.splits if_splits)
  then show ?thesis using assms(2) proof_signed by (simp add: signer_inv_def journal_ok_def)
next
  case (refused w now req res j)
  then show ?thesis using assms(2) start_inv [OF _ _ refused(2)] by (auto simp: signer_inv_def)
next
  case (reserved w now req i j)
  then show ?thesis using assms(2) start_inv [OF _ _ reserved(2)] by (auto simp: signer_inv_def)
next
  case (not_built i now a res j)
  then show ?thesis using assms(2) prepared_inv [OF _ _ not_built(3)] by (auto simp: signer_inv_def)
next
  case (answered i sig out w now amount res j)
  then show ?thesis using assms(2) broadcast_inv [OF _ _ assms(3) answered(4) answered(3)] by (auto simp: signer_inv_def)
qed (use assms(2) in \<open>simp add: signer_inv_def\<close>)

lemma signer_reach_inv: "signer_reach P cfg s \<Longrightarrow> 0 \<le> sc_solUsdCeilingPrice cfg \<Longrightarrow> signer_inv cfg s"
proof (induction rule: signer_reach.induct)
  case start
  show ?case by (simp add: signer_inv_def rows_inv_def empty_journal_def journal_ok_def)
qed (rule signer_step_inv)

end
