(* ===== verification/PayOnce.thy ===== *)
theory PayOnce
  imports Prelude
begin

text \<open>
  The contract of the payout journals of services/signer: a payment gets a row of its own, with a
  key no other row has, before anything is handed to the network, and a row whose transfer may
  have left is never handed over again. The two payout signers interpret the locale on their own
  steps; what it proves holds of every interleaving of requests.
\<close>

text \<open>A run, with the rows that were handed to the network on the way, latest first.\<close>

inductive paying :: "('s \<Rightarrow> 'r option \<Rightarrow> 's \<Rightarrow> bool) \<Rightarrow> 's \<Rightarrow> 'r list \<Rightarrow> 's \<Rightarrow> bool"
  for step :: "'s \<Rightarrow> 'r option \<Rightarrow> 's \<Rightarrow> bool" and s0 :: 's where
  at_start: "paying step s0 [] s0"
| quiet: "paying step s0 bs s \<Longrightarrow> step s None s' \<Longrightarrow> paying step s0 bs s'"
| hands_over: "paying step s0 bs s \<Longrightarrow> step s (Some b) s' \<Longrightarrow> paying step s0 (b # bs) s'"

text \<open>A row that goes on being the same payment.\<close>

definition same_payment :: "('r \<Rightarrow> nat) \<Rightarrow> ('r \<Rightarrow> 'k) \<Rightarrow> ('r \<Rightarrow> 'n) \<Rightarrow> ('r \<Rightarrow> 'g) \<Rightarrow> 'r \<Rightarrow> 'r \<Rightarrow> bool" where
  "same_payment rid key amount grp r b \<longleftrightarrow> rid r = rid b \<and> key r = key b \<and> amount r = amount b \<and> grp r = grp b"

text \<open>What a sum over some of the payments is at most: the sum over the rows they have.\<close>

lemma sum_matched_rows:
  fixes amount :: "'r \<Rightarrow> 'n::ordered_ab_group_add"
  assumes "distinct (map rid rs)" "distinct (map rid bs)"
    and "\<And>b. b \<in> set bs \<Longrightarrow> \<exists>r \<in> set rs. rid r = rid b \<and> amount r = amount b"
    and "\<And>r. r \<in> set rs \<Longrightarrow> 0 \<le> amount r"
  shows "sum_list (map amount bs) \<le> sum_list (map amount rs)"
  using assms
proof (induction bs arbitrary: rs)
  case Nil
  then show ?case using sum_list_map_mono [of rs "\<lambda>_. 0" amount] by (simp add: sum_list_triv)
next
  case (Cons b bs)
  obtain r where r: "r \<in> set rs" "rid r = rid b" "amount r = amount b" using Cons.prems(3) [of b] by auto
  have "\<exists>x \<in> set (remove1 r rs). rid x = rid c \<and> amount x = amount c" if c: "c \<in> set bs" for c
  proof -
    obtain x where x: "x \<in> set rs" "rid x = rid c" "amount x = amount c" using Cons.prems(3) [of c] c by auto
    have "rid c \<noteq> rid b" using Cons.prems(2) c by (auto simp: image_iff)
    then have "x \<in> set (remove1 r rs)" using x r(2) by (metis in_set_remove1)
    then show ?thesis using x by blast
  qed
  moreover have "distinct (map rid (remove1 r rs))"
    using Cons.prems(1) by (auto simp: distinct_map distinct_remove1 intro: inj_on_subset set_remove1_subset)
  moreover have "0 \<le> amount x" if "x \<in> set (remove1 r rs)" for x
    using that Cons.prems(4) by (meson notin_set_remove1)
  ultimately have "sum_list (map amount bs) \<le> sum_list (map amount (remove1 r rs))"
    using Cons.prems(2) by (intro Cons.IH) auto
  then show ?case using sum_list_map_remove1 [OF r(1), of amount] r(3) by simp
qed

lemma distinct_map_other_key:
  fixes bs :: "'b list"
  assumes "\<And>b c. b \<in> set bs \<Longrightarrow> c \<in> set bs \<Longrightarrow> g b = g c \<Longrightarrow> f b = f c" "distinct (map f bs)"
  shows "distinct (map g bs)"
  using assms
proof (induction bs)
  case (Cons b bs)
  have "g b \<noteq> g c" if "c \<in> set bs" for c using Cons.prems(1) [of b c] Cons.prems(2) that by auto
  then have "g b \<notin> g ` set bs" by auto
  moreover have "distinct (map g bs)" using Cons.prems by (intro Cons.IH) auto
  ultimately show ?case by simp
qed simp

locale pay_once =
  fixes rows :: "'s \<Rightarrow> 'r list"
    and past :: "'s \<Rightarrow> nat \<Rightarrow> bool"
    and rid :: "'r \<Rightarrow> nat"
    and key :: "'r \<Rightarrow> 'k"
    and amount :: "'r \<Rightarrow> 'n::ordered_ab_group_add"
    and grp :: "'r \<Rightarrow> 'g"
    and live :: "'r \<Rightarrow> bool"
    and limit :: "'g \<Rightarrow> 'n"
    and ok :: "'s \<Rightarrow> bool"
    and step :: "'s \<Rightarrow> 'r option \<Rightarrow> 's \<Rightarrow> bool"
  assumes ok_step: "ok s \<Longrightarrow> step s l s' \<Longrightarrow> ok s'"
    and ok_rows: "ok s \<Longrightarrow> distinct (map rid (rows s)) \<and> distinct (map key (rows s))"
    and ok_amounts: "ok s \<Longrightarrow> r \<in> set (rows s) \<Longrightarrow> 0 \<le> amount r"
    and ok_within: "ok s \<Longrightarrow> sum_list (map amount (filter (\<lambda>r. grp r = g \<and> live r) (rows s))) \<le> limit g"
    and kept: "ok s \<Longrightarrow> step s l s' \<Longrightarrow> r \<in> set (rows s) \<Longrightarrow> past s (rid r)
      \<Longrightarrow> \<exists>r' \<in> set (rows s'). same_payment rid key amount grp r' r \<and> past s' (rid r)"
    and handed: "ok s \<Longrightarrow> step s (Some b) s' \<Longrightarrow> b \<in> set (rows s') \<and> past s' (rid b)
      \<and> (\<forall>r \<in> set (rows s). rid r = rid b \<longrightarrow> \<not> past s (rid b))"
begin

lemma row_stays:
  assumes "ok s" "step s l s'" "\<exists>r \<in> set (rows s). same_payment rid key amount grp r b \<and> past s (rid b)"
  shows "\<exists>r \<in> set (rows s'). same_payment rid key amount grp r b \<and> past s' (rid b)"
proof -
  obtain r where r: "r \<in> set (rows s)" "same_payment rid key amount grp r b" "past s (rid r)"
    using assms(3) by (auto simp: same_payment_def)
  then obtain r' where r': "r' \<in> set (rows s')" "same_payment rid key amount grp r' r" "past s' (rid r)"
    using kept [OF assms(1,2)] by blast
  then show ?thesis using r(2) by (intro bexI [of _ r']) (simp_all add: same_payment_def)
qed

lemma same_row:
  assumes "ok s" "r \<in> set (rows s)" "x \<in> set (rows s)" shows "rid r = rid x \<Longrightarrow> r = x" "key r = key x \<Longrightarrow> r = x"
  using assms(2,3) ok_rows [OF assms(1)] by (auto simp: distinct_map inj_on_def)

lemma paying_inv:
  assumes "paying step s0 bs s" "ok s0"
  shows "ok s \<and> distinct (map rid bs) \<and> (\<forall>b \<in> set bs. \<exists>r \<in> set (rows s). same_payment rid key amount grp r b \<and> past s (rid b))"
  using assms
proof (induction rule: paying.induct)
  case (quiet bs s s')
  then have IH: "ok s" "distinct (map rid bs)" "\<forall>b \<in> set bs. \<exists>r \<in> set (rows s). same_payment rid key amount grp r b \<and> past s (rid b)"
    by blast+
  have "\<exists>r \<in> set (rows s'). same_payment rid key amount grp r b \<and> past s' (rid b)" if b: "b \<in> set bs" for b
    using IH(3) b by (intro row_stays [OF IH(1) quiet.hyps(2)]) blast
  then show ?case using IH ok_step [OF IH(1) quiet.hyps(2)] by blast
next
  case (hands_over bs s b s')
  then have IH: "ok s" "distinct (map rid bs)" "\<forall>b \<in> set bs. \<exists>r \<in> set (rows s). same_payment rid key amount grp r b \<and> past s (rid b)"
    by blast+
  note h = handed [OF IH(1) hands_over.hyps(2)]
  have "rid b \<notin> rid ` set bs" using IH(3) h by (auto simp: same_payment_def)
  moreover have "\<exists>r \<in> set (rows s'). same_payment rid key amount grp r c \<and> past s' (rid c)" if c: "c \<in> set bs" for c
    using IH(3) c by (intro row_stays [OF IH(1) hands_over.hyps(2)]) blast
  ultimately show ?case using IH(2) h ok_step [OF IH(1) hands_over.hyps(2)] by (auto simp: same_payment_def)
qed simp

text \<open>Nothing with the same key is handed over twice.\<close>

lemma once: 
  assumes "paying step s0 bs s" "ok s0" shows "distinct (map key bs)"
proof -
  note inv = paying_inv [OF assms]
  have "rid b = rid c" if bc: "b \<in> set bs" "c \<in> set bs" "key b = key c" for b c
  proof -
    obtain r where r: "r \<in> set (rows s)" "rid r = rid b" "key r = key b" using inv bc(1) by (auto simp: same_payment_def)
    obtain x where x: "x \<in> set (rows s)" "rid x = rid c" "key x = key c" using inv bc(2) by (auto simp: same_payment_def)
    have "r = x" using same_row(2) [of s r x] r x bc(3) inv by simp
    then show ?thesis using r x by simp
  qed
  moreover have "distinct (map rid bs)" using inv by blast
  ultimately show ?thesis by (rule distinct_map_other_key)
qed

text \<open>What was handed over in a group and still counts is within the group's limit.\<close>

lemma within:
  assumes "paying step s0 bs s" "ok s0"
  shows "sum_list (map amount (filter (\<lambda>b. grp b = g \<and> (\<exists>r \<in> set (rows s). rid r = rid b \<and> live r)) bs)) \<le> limit g"
proof -
  note inv = paying_inv [OF assms]
  note rows = ok_rows [of s]
  let ?bs = "filter (\<lambda>b. grp b = g \<and> (\<exists>r \<in> set (rows s). rid r = rid b \<and> live r)) bs"
  let ?rs = "filter (\<lambda>r. grp r = g \<and> live r) (rows s)"
  have "sum_list (map amount ?bs) \<le> sum_list (map amount ?rs)"
  proof (rule sum_matched_rows [of rid])
    show "distinct (map rid ?rs)" "distinct (map rid ?bs)" using inv rows by (simp_all add: distinct_map_filter)
    show "0 \<le> amount r" if "r \<in> set ?rs" for r using that inv ok_amounts [of s r] by simp
    show "\<exists>r \<in> set ?rs. rid r = rid b \<and> amount r = amount b" if b: "b \<in> set ?bs" for b
    proof -
      obtain r where r: "r \<in> set (rows s)" "rid r = rid b" "live r" using b by auto
      obtain x where x: "x \<in> set (rows s)" "same_payment rid key amount grp x b" using inv b by auto
      have "x = r" using same_row(1) [of s x r] r x inv by (simp add: same_payment_def)
      then show ?thesis using r x b by (auto simp: same_payment_def)
    qed
  qed
  also have "\<dots> \<le> limit g" using inv ok_within by blast
  finally show ?thesis .
qed

end

text \<open>Where a row handed over never stops counting, everything handed over does.\<close>

locale pay_final = pay_once +
  assumes live_kept: "ok s \<Longrightarrow> step s l s' \<Longrightarrow> r \<in> set (rows s) \<Longrightarrow> past s (rid r) \<Longrightarrow> live r
      \<Longrightarrow> \<exists>r' \<in> set (rows s'). rid r' = rid r \<and> live r'"
    and handed_live: "ok s \<Longrightarrow> step s (Some b) s' \<Longrightarrow> live b"
begin

lemma handed_counts:
  assumes "paying step s0 bs s" "ok s0" "b \<in> set bs"
  shows "\<exists>r \<in> set (rows s). rid r = rid b \<and> live r"
  using assms
proof (induction rule: paying.induct)
  case (quiet bs s s')
  then obtain r where r: "r \<in> set (rows s)" "rid r = rid b" "live r" by blast
  have "ok s \<and> past s (rid r)" using paying_inv [OF quiet.hyps(1) quiet.prems(1)] quiet.prems(2) r(2) by fastforce
  then show ?case using live_kept [of s None s' r] quiet.hyps(2) r by auto
next
  case (hands_over bs s c s')
  show ?case
  proof (cases "b \<in> set bs")
    case True
    then obtain r where r: "r \<in> set (rows s)" "rid r = rid b" "live r" using hands_over by blast
    have "ok s \<and> past s (rid r)" using paying_inv [OF hands_over.hyps(1) hands_over.prems(1)] True r(2) by fastforce
    then show ?thesis using live_kept [of s "Some c" s' r] hands_over.hyps(2) r by auto
  next
    case False
    then have b: "b = c" using hands_over.prems by simp
    have "ok s" using paying_inv [OF hands_over.hyps(1) hands_over.prems(1)] by simp
    then have "b \<in> set (rows s')" "live b"
      using handed [OF _ hands_over.hyps(2)] handed_live [OF _ hands_over.hyps(2)] b by auto
    then show ?thesis by blast
  qed
qed simp

lemma all_within:
  assumes "paying step s0 bs s" "ok s0"
  shows "sum_list (map amount (filter (\<lambda>b. grp b = g) bs)) \<le> limit g"
proof -
  have "filter (\<lambda>b. grp b = g \<and> (\<exists>r \<in> set (rows s). rid r = rid b \<and> live r)) bs = filter (\<lambda>b. grp b = g) bs"
    using handed_counts [OF assms] by (intro filter_cong) auto
  then show ?thesis using within [OF assms, of g] by simp
qed

end

end
