(* ===== verification/SignerSafety.thy ===== *)
theory SignerSafety
  imports Signer PayOnce
begin

text \<open>
  What the signer of services/signer/src/signer.ts promises, over every interleaving of
  requests, failures and crashes that \<open>signer_step\<close> allows.
\<close>

section \<open>What the signer guarantees\<close>

lemma env_number_nonneg: "env_number env k d = Inr n \<Longrightarrow> 0 \<le> d \<Longrightarrow> 0 \<le> n"
  by (auto simp: env_number_def split: option.splits xnum.splits if_splits)

lemma backsD: "backs r b \<Longrightarrow> pr_id r = fst b \<and> pr_quote_id r = fst (snd b)"
  by (auto simp: backs_def split: prod.splits)

lemma signerConfig_bounds:
  "signerConfig env = Inr cfg \<Longrightarrow> 0 \<le> sc_lifetimeCeilingMicro cfg \<and> sc_lifetimeCeilingMicro cfg \<le> 5000000
     \<and> 0 \<le> sc_maxPerCallMicro cfg \<and> 0 \<le> sc_solUsdCeilingPrice cfg"
  using env_number_nonneg
  by (fastforce simp: signerConfig_def HARD_LIFETIME_CEILING_MICRO_def split: sum.splits)
lemma broadcasts_within:
  assumes "distinct (map pr_id rs)" "distinct (map fst bs)" "\<forall>b \<in> set bs. \<exists>r \<in> set rs. backs r b"
    and "\<forall>r \<in> set rs. 0 \<le> live_amount r"
  shows "sum_list (map (\<lambda>(i, q, a, sig). a) bs) \<le> sum_list (map live_amount rs)"
  using assms
proof (induction bs arbitrary: rs)
  case Nil
  then show ?case by (auto intro: sum_list_nonneg_rat)
next
  case (Cons b bs)
  obtain i q a sig where b: "b = (i, q, a, sig)" by (cases b) auto
  obtain r where r: "r \<in> set rs" "backs r b" using Cons.prems(3) by auto
  have id: "pr_id r = i" "live_amount r = a" using r(2) by (auto simp: backs_def b live_amount_def)
  have "\<exists>r' \<in> set (remove1 r rs). backs r' c" if c: "c \<in> set bs" for c
  proof -
    obtain r' where r': "r' \<in> set rs" "backs r' c" using Cons.prems(3) c by auto
    have "fst c \<noteq> i" using Cons.prems(2) c by (auto simp: b image_iff)
    then have "r' \<noteq> r" using r'(2) id by (auto simp: backs_def split: prod.splits)
    then show ?thesis using r' by (auto simp: in_set_remove1)
  qed
  moreover have "distinct (map pr_id (remove1 r rs))"
    using Cons.prems(1) by (auto simp: distinct_map distinct_remove1 intro: inj_on_subset)
  ultimately have "sum_list (map (\<lambda>(i, q, a, sig). a) bs) \<le> sum_list (map live_amount (remove1 r rs))"
    using Cons.prems by (intro Cons.IH) (auto dest: in_set_remove1 [THEN iffD1, rotated] notin_set_remove1 simp: set_remove1_eq distinct_map)
  then show ?case using sum_list_map_remove1 [OF r(1), of live_amount] id by (simp add: b)
qed

text \<open>
  C16. However requests interleave, fail, are repeated, or are cut off by a crash, the amounts the
  signer ever hands to the network stay within its configured ceiling, and so within five
  dollars; each transfer has its own row in the journal, recorded before it was sent.
\<close>

theorem signer_never_broadcasts_past_ceiling:
  assumes "signerConfig env = Inr cfg" "signer_reach P cfg s"
  shows "sum_list (map (\<lambda>(i, q, a, sig). a) (sg_broadcasts s)) \<le> sc_lifetimeCeilingMicro cfg
    \<and> sc_lifetimeCeilingMicro cfg \<le> 5000000
    \<and> (\<forall>(i, q, a, sig) \<in> set (sg_broadcasts s). \<exists>r \<in> set (j_payments (sg_journal s)).
         pr_id r = i \<and> pr_quote_id r = q \<and> pr_amount_micro r = a \<and> pr_tx_signature r = Some sig)"
proof -
  note cfg = signerConfig_bounds [OF assms(1)]
  have inv: "signer_inv cfg s" using signer_reach_inv [OF assms(2)] cfg by simp
  then have "sum_list (map (\<lambda>(i, q, a, sig). a) (sg_broadcasts s)) \<le> sum_list (map live_amount (j_payments (sg_journal s)))"
    by (intro broadcasts_within) (auto simp: signer_inv_def rows_inv_def journal_ok_def live_amount_def)
  moreover have "\<dots> \<le> sc_lifetimeCeilingMicro cfg" using inv cfg by (auto simp: signer_inv_def rows_inv_def)
  moreover have "\<forall>(i, q, a, sig) \<in> set (sg_broadcasts s). \<exists>r \<in> set (j_payments (sg_journal s)).
         pr_id r = i \<and> pr_quote_id r = q \<and> pr_amount_micro r = a \<and> pr_tx_signature r = Some sig"
    using inv unfolding signer_inv_def rows_inv_def backs_def by (fastforce split: prod.splits)
  ultimately show ?thesis using cfg by auto
qed

text \<open>
  C17. No quote is ever paid twice: of all the transfers handed to the network, whatever the order
  of requests, retries and crashes, no two are for the same quote.
\<close>

theorem no_quote_is_broadcast_twice:
  assumes "signerConfig env = Inr cfg" "signer_reach P cfg s"
  shows "distinct (map (\<lambda>(i, q, a, sig). q) (sg_broadcasts s))"
proof -
  have inv: "signer_inv cfg s" using signer_reach_inv [OF assms(2)] signerConfig_bounds [OF assms(1)] by simp
  let ?rs = "j_payments (sg_journal s)"
  have same: "fst b = fst c" if bc: "b \<in> set (sg_broadcasts s)" "c \<in> set (sg_broadcasts s)" "(fst \<circ> snd) b = (fst \<circ> snd) c" for b c
  proof -
    have "\<forall>b \<in> set (sg_broadcasts s). \<exists>r \<in> set ?rs. backs r b" using inv by (simp add: signer_inv_def rows_inv_def)
    then obtain r r' where r: "r \<in> set ?rs" "backs r b" "r' \<in> set ?rs" "backs r' c" using bc(1,2) by blast
    have "pr_quote_id r = pr_quote_id r'" using bc(3) backsD [OF r(2)] backsD [OF r(4)] by simp
    moreover have "inj_on pr_quote_id (set ?rs)" using inv by (simp add: signer_inv_def journal_ok_def distinct_map)
    ultimately have "r = r'" using r(1,3) by (simp add: inj_on_def)
    then show ?thesis using backsD [OF r(2)] backsD [OF r(4)] by simp
  qed
  have "distinct (map fst (sg_broadcasts s))" using inv by (simp add: signer_inv_def)
  with same have "distinct (map (fst \<circ> snd) (sg_broadcasts s))"
    by (rule distinct_map_other_key)
  moreover have "(fst \<circ> snd) = (\<lambda>(i :: nat, q :: string, a :: jsnum, sig :: string). q)" by (simp add: fun_eq_iff)
  ultimately show ?thesis by (simp only:)
qed

text \<open>
  Asking again for a quote that was paid and confirmed returns the same signature and amount,
  pays nothing and changes nothing; asking for one whose transfer may be out, or failed, is refused.
\<close>

theorem confirmed_quote_is_replayed:
  assumes "check_request P cfg now req = Inr (q, amount)" "byQuote j q = Some ex"
  shows "payQuote_start P cfg w now req j =
     (Inl (if pr_status ex = PConfirmed \<and> (\<exists>sig. pr_tx_signature ex = Some sig \<and> sig \<noteq> [])
           then PayOk w (the (pr_tx_signature ex)) (pr_amount_micro ex) 0 (case pr_fee_micro ex of Some f \<Rightarrow> f | None \<Rightarrow> 0)
           else PayRefused 409 (Quote_already_paid q (pr_status ex))), j)"
  using assms by (auto simp: payQuote_start_def journal_reserve_def split: option.split)

text \<open>
  Nothing is reserved, built or sent for a request unless it names a UUID quote, USDC on
  Solana mainnet, the one allowlisted address and a positive whole amount within the per-call
  limit, and unless an expiry that can be read is more than ten seconds away. An expiry that cannot
  be read does not stop it.
\<close>

theorem only_checked_requests_reserve:
  assumes "fst (payQuote_start P cfg w now req j) = Inr i"
  shows "\<exists>q amount. pq_quote_id req = Some q \<and> re_test SIGNER_UUID q \<and> pq_network req = SOLANA_MAINNET \<and> pq_asset req = ''USDC''
        \<and> pq_pay_to req \<in> set USEPOD_PAY_TO_ALLOWLIST \<and> pq_amount_microunits req = Some amount \<and> is_integer amount \<and> 0 < amount
        \<and> amount \<le> sc_maxPerCallMicro cfg \<and> byQuote j q = None
        \<and> journal_committedMicro j + amount + fee_reserve cfg \<le> sc_lifetimeCeilingMicro cfg
        \<and> (truthy (pq_expires_at req) \<longrightarrow>
             (\<forall>t. parse_date_json P (pq_expires_at req) = Some t \<longrightarrow> now + 10000 < t))"
proof -
  obtain q amount where c: "check_request P cfg now req = Inr (q, amount)"
    using assms by (auto simp: payQuote_start_def split: sum.splits)
  let ?a = "\<lparr>ra_quoteId = q, ra_payTo = pq_pay_to req, ra_amountMicro = amount, ra_feeReserveMicro = fee_reserve cfg,
      ra_ceilingMicro = sc_lifetimeCeilingMicro cfg\<rparr>"
  obtain j' where "journal_reserve now ?a j = Inr (Reserved_id i, j')"
    using assms c by (auto simp: payQuote_start_def split: sum.splits reserve_result.splits option.splits if_splits)
  then have r: "byQuote j q = None" "journal_committedMicro j + amount + fee_reserve cfg \<le> sc_lifetimeCeilingMicro cfg"
    using reserve_new_row [of now ?a j i j'] by auto
  have "pq_quote_id req = Some q \<and> re_test SIGNER_UUID q \<and> pq_network req = SOLANA_MAINNET \<and> pq_asset req = ''USDC''
      \<and> pq_pay_to req \<in> set USEPOD_PAY_TO_ALLOWLIST \<and> pq_amount_microunits req = Some amount \<and> is_integer amount \<and> 0 < amount
      \<and> amount \<le> sc_maxPerCallMicro cfg"
    using c by (auto simp: check_request_def is_safe_integer_def not_le not_less split: option.splits if_splits)
  moreover have "truthy (pq_expires_at req) \<longrightarrow> (\<forall>t. parse_date_json P (pq_expires_at req) = Some t \<longrightarrow> now + 10000 < t)"
    using c by (auto simp: check_request_def not_le split: option.splits if_splits)
  ultimately show ?thesis using r by blast
qed

section \<open>A run\<close>

definition demo_cfg :: signer_config where
  "demo_cfg = \<lparr>sc_lifetimeCeilingMicro = 5000000, sc_maxPerCallMicro = 50000, sc_solUsdCeilingPrice = 400\<rparr>"

definition demo_pay :: pay_quote_request where
  "demo_pay = \<lparr>pq_quote_id = Some (demo_uuid (CHR ''a'')), pq_network = SOLANA_MAINNET, pq_asset = ''USDC'',
     pq_pay_to = ''GXfqVnZENHzvim8rNN8TPwqxWXQe8EBbxhcEMYE8Z7BS'', pq_amount_microunits = Some 250, pq_expires_at = None\<rparr>"

lemma demo_cfg: "signerConfig Map.empty = Inr demo_cfg"
  by (simp add: signerConfig_def env_number_def demo_cfg_def HARD_LIFETIME_CEILING_MICRO_def)

lemma demo_uuid_ok: "re_test SIGNER_UUID (demo_uuid (CHR ''a''))"
  by code_simp

lemma demo_checked: "check_request toy demo_cfg now demo_pay = Inr (demo_uuid (CHR ''a''), 250)"
  by (simp add: check_request_def demo_pay_def demo_cfg_def USEPOD_PAY_TO_ALLOWLIST_def is_safe_integer_def
      is_integer_def MAX_SAFE_INTEGER_def demo_uuid_ok truthy_def)

lemma demo_fee: "fee_reserve demo_cfg = 4000"
  by (simp add: fee_reserve_def demo_cfg_def lamportsToMicroCeil_def FEE_RESERVE_LAMPORTS_def ceil_def)

definition demo_row :: payment_row where
  "demo_row = \<lparr>pr_id = 1, pr_quote_id = demo_uuid (CHR ''a''), pr_pay_to = ''GXfqVnZENHzvim8rNN8TPwqxWXQe8EBbxhcEMYE8Z7BS'',
     pr_amount_micro = 250, pr_fee_reserve_micro = 4000, pr_fee_micro = None, pr_status = PReserved,
     pr_tx_signature = None, pr_error = None, pr_created_at = 0, pr_updated_at = 0\<rparr>"

definition demo_journal :: journal where
  "demo_journal = \<lparr>j_payments = [demo_row], j_next_id = 2, j_rail = None, j_proofs = []\<rparr>"

definition demo_sent_row :: payment_row where
  "demo_sent_row = demo_row\<lparr>pr_status := PSent, pr_tx_signature := Some ''sig'', pr_updated_at := 1\<rparr>"

definition demo_sent :: journal where
  "demo_sent = demo_journal\<lparr>j_payments := [demo_sent_row]\<rparr>"

lemma demo_started: "payQuote_start toy demo_cfg ''w'' 0 demo_pay empty_journal = (Inr 1, demo_journal)"
proof -
  have "sc_lifetimeCeilingMicro demo_cfg = 5000000" "pq_pay_to demo_pay = pr_pay_to demo_row"
    by (simp_all add: demo_cfg_def demo_pay_def demo_row_def)
  then show ?thesis
    by (simp add: payQuote_start_def demo_checked demo_fee journal_reserve_def byQuote_def journal_committedMicro_def
        empty_journal_def demo_journal_def demo_row_def)
qed

lemma demo_prepared: "payQuote_prepared 1 1 (Inr ''sig'') demo_journal = (Inr ''sig'', demo_sent)"
  by (simp add: payQuote_prepared_def markSent_def journal_update_def demo_journal_def demo_row_def demo_sent_def
      demo_sent_row_def)

definition demo_broadcasts where
  "demo_broadcasts = [(1 :: nat, demo_uuid (CHR ''a''), 250 :: jsnum, ''sig'')]"

definition demo_end :: signer_sys where
  "demo_end = \<lparr>sg_journal = demo_sent, sg_flying = [Broadcasting 1 ''sig''], sg_broadcasts = demo_broadcasts\<rparr>"

lemma demo_reach: "signer_reach toy demo_cfg demo_end"
proof -
  let ?s0 = "\<lparr>sg_journal = empty_journal, sg_flying = [], sg_broadcasts = []\<rparr>"
  let ?s1 = "\<lparr>sg_journal = demo_journal, sg_flying = [Preparing 1], sg_broadcasts = []\<rparr>"
  have "signer_step toy demo_cfg ?s0 ?s1"
    using signer_step.reserved [of toy demo_cfg "''w''" 0 demo_pay ?s0 1 demo_journal] demo_started by simp
  then have r1: "signer_reach toy demo_cfg ?s1" by (rule signer_reach.step [OF signer_reach.start])
  have "row_of demo_journal 1 = Some demo_row" by (simp add: row_of_def demo_journal_def demo_row_def)
  then have "signer_step toy demo_cfg ?s1 demo_end"
    using signer_step.broadcast [of 1 ?s1 1 "Inr ''sig''" "''sig''" demo_sent demo_row toy demo_cfg] demo_prepared
    by (simp add: demo_broadcasts_def demo_end_def demo_row_def)
  then show ?thesis using r1 by (rule signer_reach.step [rotated])
qed

theorem signer_never_broadcasts_past_ceiling_witness:
  "sum_list (map (\<lambda>(i, q, a, sig). a) (sg_broadcasts demo_end)) \<le> 5000000 \<and> length (sg_broadcasts demo_end) = 1"
  using signer_never_broadcasts_past_ceiling [OF demo_cfg demo_reach]
  by (simp add: demo_end_def demo_broadcasts_def)

theorem no_quote_is_broadcast_twice_witness:
  "distinct (map (\<lambda>(i, q, a, sig). q) (sg_broadcasts demo_end)) \<and> sg_broadcasts demo_end = demo_broadcasts"
  using no_quote_is_broadcast_twice [OF demo_cfg demo_reach] by (simp add: demo_end_def)

theorem confirmed_quote_is_replayed_witness:
  "pr_status_code (projl (fst (payQuote_start toy demo_cfg ''w'' 5 demo_pay demo_sent))) = 409"
proof -
  have "byQuote demo_sent (demo_uuid (CHR ''a'')) = Some demo_sent_row"
    by (simp add: byQuote_def demo_sent_def demo_sent_row_def demo_row_def)
  then show ?thesis
    using confirmed_quote_is_replayed [OF demo_checked, of demo_sent demo_sent_row "''w''" 5] by (simp add: demo_sent_row_def)
qed

theorem only_checked_requests_reserve_witness: "\<exists>q. pq_quote_id demo_pay = Some q \<and> re_test SIGNER_UUID q"
  using only_checked_requests_reserve [of toy demo_cfg "''w''" 0 demo_pay empty_journal 1] demo_started by auto

end
