(* ===== verification/EscrowIx.thy ===== *)
theory EscrowIx
  imports Ed25519 Regex "HOL-Library.Word"
begin

text \<open>
  apps/agent/src/escrow-ix.ts: the bytes the agent and the attestor exchange with the escrow
  program. A \<open>Buffer\<close> is a byte string, a public key its 32 bytes. A number that does not fit its
  field, or a read past the end of the buffer, throws a \<open>RangeError\<close>: \<open>None\<close> here. The program's own
  address, the program addresses derived from seeds and the addresses of Solana's programs come
  from the environment and from @solana/web3.js: they are the fields of \<open>escrow_env\<close>.
\<close>

section \<open>Little-endian fields\<close>

fun le_bytes :: "nat \<Rightarrow> nat \<Rightarrow> bytes" where
  "le_bytes 0 n = []"
| "le_bytes (Suc k) n = char_of (n mod 256) # le_bytes k (n div 256)"

fun le_val :: "bytes \<Rightarrow> nat" where
  "le_val [] = 0"
| "le_val (c # cs) = code c + 256 * le_val cs"

definition u64 :: "int \<Rightarrow> bytes option" where
  "u64 n = (if 0 \<le> n \<and> n < 2 ^ 64 then Some (le_bytes 8 (nat n)) else None)"

text \<open>\<open>writeBigInt64LE\<close>: the two's complement of a 64-bit word.\<close>

definition i64 :: "int \<Rightarrow> bytes option" where
  "i64 n = (if - (2 ^ 63) \<le> n \<and> n < 2 ^ 63 then Some (le_bytes 8 (unat (word_of_int n :: 64 word))) else None)"

definition u16 :: "int \<Rightarrow> bytes option" where
  "u16 n = (if 0 \<le> n \<and> n < 2 ^ 16 then Some (le_bytes 2 (nat n)) else None)"

definition slice :: "nat \<Rightarrow> nat \<Rightarrow> bytes \<Rightarrow> bytes" where
  "slice start finish b = take (finish - start) (drop start b)"

definition read_uint :: "nat \<Rightarrow> nat \<Rightarrow> bytes \<Rightarrow> int option" where
  "read_uint k off b = (if off + k \<le> length b then Some (int (le_val (slice off (off + k) b))) else None)"

definition read_i64 :: "nat \<Rightarrow> bytes \<Rightarrow> int option" where
  "read_i64 off b =
     (if off + 8 \<le> length b then Some (sint (word_of_nat (le_val (slice off (off + 8) b)) :: 64 word)) else None)"

text \<open>\<open>data[o] ?? d\<close>.\<close>

definition byte_or :: "nat \<Rightarrow> nat \<Rightarrow> bytes \<Rightarrow> nat" where
  "byte_or d off b = (if off < length b then code (b ! off) else d)"

section \<open>Instructions\<close>

record escrow_env =
  ee_program_id :: bytes
  ee_find_program_address :: "bytes list \<Rightarrow> bytes \<Rightarrow> bytes \<times> nat"
  ee_token_program :: bytes
  ee_system_program :: bytes
  ee_sysvar_rent :: bytes
  ee_sha256 :: "string \<Rightarrow> bytes"

record account_meta =
  am_pubkey :: bytes
  am_is_signer :: bool
  am_is_writable :: bool

record instruction =
  in_program_id :: bytes
  in_keys :: "account_meta list"
  in_data :: bytes

definition meta :: "bytes \<Rightarrow> bool \<Rightarrow> bool \<Rightarrow> account_meta" where
  "meta k s w = \<lparr>am_pubkey = k, am_is_signer = s, am_is_writable = w\<rparr>"

definition disc :: "escrow_env \<Rightarrow> string \<Rightarrow> bytes" where
  "disc E name = take 8 (ee_sha256 E (''global:'' @ name))"

definition escrowPda :: "escrow_env \<Rightarrow> bytes \<Rightarrow> bytes \<times> nat" where
  "escrowPda E bountyId = ee_find_program_address E [''escrow'', bountyId] (ee_program_id E)"

definition vaultPda :: "escrow_env \<Rightarrow> bytes \<Rightarrow> bytes \<times> nat" where
  "vaultPda E escrow = ee_find_program_address E [''vault'', escrow] (ee_program_id E)"

definition MODE_DRAW :: nat where
  "MODE_DRAW = 0"

definition MODE_SELF :: nat where
  "MODE_SELF = 1"

record init_args =
  ia_funder :: bytes
  ia_escrow :: bytes
  ia_vault :: bytes
  ia_funderToken :: bytes
  ia_mint :: bytes
  ia_feeDestination :: bytes
  ia_attestor :: bytes
  ia_bountyId :: bytes
  ia_amount :: int
  ia_feeBps :: int
  ia_feeMinimum :: int
  ia_deadline :: int
  ia_mode :: nat

definition ixInitialize :: "escrow_env \<Rightarrow> init_args \<Rightarrow> instruction option" where
  "ixInitialize E a =
     (case (u64 (ia_amount a), u16 (ia_feeBps a), u64 (ia_feeMinimum a), i64 (ia_deadline a)) of
        (Some amount, Some bps, Some least, Some deadline) \<Rightarrow>
          Some \<lparr>in_program_id = ee_program_id E,
            in_keys = [meta (ia_funder a) True True, meta (ia_escrow a) False True, meta (ia_vault a) False True,
              meta (ia_funderToken a) False True, meta (ia_mint a) False False, meta (ia_feeDestination a) False False,
              meta (ia_attestor a) False False, meta (ee_token_program E) False False,
              meta (ee_system_program E) False False, meta (ee_sysvar_rent E) False False],
            in_data = disc E ''initialize'' @ ia_bountyId a @ amount @ bps @ least @ deadline @ [char_of (ia_mode a mod 256)]\<rparr>
      | _ \<Rightarrow> None)"

definition ixAssign :: "escrow_env \<Rightarrow> bytes \<Rightarrow> bytes \<Rightarrow> bytes \<Rightarrow> instruction" where
  "ixAssign E signer escrow contributor =
     \<lparr>in_program_id = ee_program_id E, in_keys = [meta signer True False, meta escrow False True],
      in_data = disc E ''assign'' @ contributor\<rparr>"

definition ixUnassign :: "escrow_env \<Rightarrow> bytes \<Rightarrow> bytes \<Rightarrow> instruction" where
  "ixUnassign E signer escrow =
     \<lparr>in_program_id = ee_program_id E, in_keys = [meta signer True False, meta escrow False True], in_data = disc E ''unassign''\<rparr>"

record release_args =
  rl_attestor :: bytes
  rl_funder :: bytes
  rl_escrow :: bytes
  rl_vault :: bytes
  rl_contributorToken :: bytes
  rl_feeToken :: bytes
  rl_mint :: bytes
  rl_mergeCommit :: bytes

definition ixRelease :: "escrow_env \<Rightarrow> release_args \<Rightarrow> instruction" where
  "ixRelease E a =
     \<lparr>in_program_id = ee_program_id E,
      in_keys = [meta (rl_attestor a) True False, meta (rl_funder a) False True, meta (rl_escrow a) False True,
        meta (rl_vault a) False True, meta (rl_contributorToken a) False True, meta (rl_feeToken a) False True,
        meta (rl_mint a) False False, meta (ee_token_program E) False False],
      in_data = disc E ''release'' @ rl_mergeCommit a\<rparr>"

record refund_args =
  rf_funder :: bytes
  rf_escrow :: bytes
  rf_vault :: bytes
  rf_funderToken :: bytes
  rf_mint :: bytes

definition refundLike :: "escrow_env \<Rightarrow> string \<Rightarrow> refund_args \<Rightarrow> instruction" where
  "refundLike E name a =
     \<lparr>in_program_id = ee_program_id E,
      in_keys = [meta (rf_funder a) True True, meta (rf_escrow a) False True, meta (rf_vault a) False True,
        meta (rf_funderToken a) False True, meta (rf_mint a) False False, meta (ee_token_program E) False False],
      in_data = disc E name\<rparr>"

definition ixRefund :: "escrow_env \<Rightarrow> refund_args \<Rightarrow> instruction" where
  "ixRefund E a = refundLike E ''refund'' a"

definition ixCancel :: "escrow_env \<Rightarrow> refund_args \<Rightarrow> instruction" where
  "ixCancel E a = refundLike E ''cancel'' a"

section \<open>Accounts\<close>

datatype escrow_status = Funded | Assigned | Released | Refunded | Unknown_status nat

definition STATE :: "nat \<Rightarrow> escrow_status" where
  "STATE b = (if b = 0 then Funded else if b = 1 then Assigned else if b = 2 then Released
     else if b = 3 then Refunded else Unknown_status b)"

record escrow_account =
  es_bountyId :: bytes
  es_funder :: bytes
  es_mint :: bytes
  es_amount :: int
  es_feeBps :: int
  es_feeMinimum :: int
  es_feeAmount :: int
  es_feeDestination :: bytes
  es_attestor :: bytes
  es_mode :: nat
  es_state :: escrow_status
  es_contributor :: "bytes option"
  es_everAssigned :: bool
  es_deadline :: int
  es_mergeCommit :: "bytes option"

definition decodeEscrow :: "bytes \<Rightarrow> escrow_account option" where
  "decodeEscrow d =
     (case (read_uint 8 88 d, read_uint 2 96 d, read_uint 8 98 d, read_uint 8 106 d) of
        (Some amount, Some bps, Some least, Some fee) \<Rightarrow>
          (let contributor = (if byte_or 0 180 d \<noteq> 0 then Some (slice 181 213 d) else None);
               o1 = (if byte_or 0 180 d \<noteq> 0 then 213 else 181)
           in case read_i64 (o1 + 1) d of
                None \<Rightarrow> None
              | Some deadline \<Rightarrow>
                  Some \<lparr>es_bountyId = slice 8 24 d, es_funder = slice 24 56 d, es_mint = slice 56 88 d, es_amount = amount,
                    es_feeBps = bps, es_feeMinimum = least, es_feeAmount = fee, es_feeDestination = slice 114 146 d,
                    es_attestor = slice 146 178 d, es_mode = byte_or 0 178 d, es_state = STATE (byte_or 255 179 d),
                    es_contributor = contributor, es_everAssigned = (byte_or 0 o1 d = 1), es_deadline = deadline,
                    es_mergeCommit = (if byte_or 0 (o1 + 9) d \<noteq> 0 then Some (slice (o1 + 10) (o1 + 30) d) else None)\<rparr>)
      | _ \<Rightarrow> None)"

section \<open>Events\<close>

definition eventDisc :: "escrow_env \<Rightarrow> string \<Rightarrow> bytes" where
  "eventDisc E name = take 8 (ee_sha256 E (''event:'' @ name))"

definition PROGRAM_DATA :: re where
  "PROGRAM_DATA = Seq (Bol False) (seqs [lit ''Program data: '', Grp 1 (plus1 (Cls (\<lambda>c. \<not> is_line_end c))), Eol False])"

fun findEvent :: "platform \<Rightarrow> escrow_env \<Rightarrow> string list \<Rightarrow> string \<Rightarrow> bytes option" where
  "findEvent P E [] name = None"
| "findEvent P E (line # logs) name =
     (case re_exec PROGRAM_DATA line of
        None \<Rightarrow> findEvent P E logs name
      | Some m \<Rightarrow>
          (case group 1 m of
             None \<Rightarrow> findEvent P E logs name
           | Some g \<Rightarrow>
               if g = [] then findEvent P E logs name
               else let buf = b64_decode P g in
                 if take 8 buf \<noteq> eventDisc E name then findEvent P E logs name else Some (drop 8 buf)))"

section \<open>Fields come back as they were written\<close>

lemma length_le_bytes [simp]: "length (le_bytes k n) = k"
  by (induction k arbitrary: n) auto

lemma le_val_bytes: "le_val (le_bytes k n) = n mod 256 ^ k"
proof (induction k arbitrary: n)
  case (Suc k)
  have "n mod 256 + 256 * (n div 256 mod 256 ^ k) = n mod (256 * 256 ^ k)"
    by (simp add: mod_mult2_eq)
  then show ?case using Suc by (simp add: code_def)
qed simp

lemma le_val_less: "le_val b < 256 ^ length b"
proof (induction b)
  case (Cons c b)
  have "code c + 256 * le_val b < 256 + 256 * le_val b" by simp
  also have "\<dots> \<le> 256 * 256 ^ length b" using Cons by (simp flip: mult_Suc_right)
  finally show ?case by simp
qed simp

lemma u64_val: "u64 n = Some b \<Longrightarrow> int (le_val b) = n \<and> length b = 8"
  by (auto simp: u64_def le_val_bytes nat_mod_as_int split: if_splits)

lemma u16_val: "u16 n = Some b \<Longrightarrow> int (le_val b) = n \<and> length b = 2"
  by (auto simp: u16_def le_val_bytes nat_mod_as_int split: if_splits)

lemma i64_val: "i64 n = Some b \<Longrightarrow> sint (word_of_nat (le_val b) :: 64 word) = n \<and> length b = 8"
proof -
  assume b: "i64 n = Some b"
  have lt: "unat (word_of_int n :: 64 word) < 256 ^ 8" using unsigned_less [of "word_of_int n :: 64 word", where 'a = nat] by simp
  from b have "le_val b = unat (word_of_int n :: 64 word)" "length b = 8"
    using lt by (auto simp: i64_def le_val_bytes split: if_splits)
  moreover have "sint (word_of_int n :: 64 word) = n"
    using b by (auto simp: i64_def signed_of_int signed_take_bit_int_eq_self split: if_splits)
  ultimately show ?thesis by simp
qed

text \<open>
  The layout of the program's account: the specification \<open>decodeEscrow\<close> is compared with. The two
  optional fields take no room when absent.
\<close>

definition opt_bytes :: "bytes option \<Rightarrow> bytes" where
  "opt_bytes b = (case b of None \<Rightarrow> [CHR 0x00] | Some v \<Rightarrow> CHR 0x01 # v)"

definition status_byte :: "escrow_status \<Rightarrow> nat" where
  "status_byte s = (case s of Funded \<Rightarrow> 0 | Assigned \<Rightarrow> 1 | Released \<Rightarrow> 2 | Refunded \<Rightarrow> 3 | Unknown_status n \<Rightarrow> n)"

definition escrow_layout :: "bytes \<Rightarrow> escrow_account \<Rightarrow> bytes" where
  "escrow_layout discriminator e =
     discriminator @ es_bountyId e @ es_funder e @ es_mint e @ le_bytes 8 (nat (es_amount e)) @ le_bytes 2 (nat (es_feeBps e))
     @ le_bytes 8 (nat (es_feeMinimum e)) @ le_bytes 8 (nat (es_feeAmount e)) @ es_feeDestination e @ es_attestor e
     @ [char_of (es_mode e)] @ [char_of (status_byte (es_state e))] @ opt_bytes (es_contributor e)
     @ [if es_everAssigned e then CHR 0x01 else CHR 0x00] @ le_bytes 8 (unat (word_of_int (es_deadline e) :: 64 word))
     @ opt_bytes (es_mergeCommit e)"

definition fits :: "nat \<Rightarrow> int \<Rightarrow> bool" where
  "fits k n \<longleftrightarrow> 0 \<le> n \<and> n < 256 ^ k"

definition escrow_typed :: "escrow_account \<Rightarrow> bool" where
  "escrow_typed e \<longleftrightarrow> length (es_bountyId e) = 16 \<and> length (es_funder e) = 32 \<and> length (es_mint e) = 32
     \<and> fits 8 (es_amount e) \<and> fits 2 (es_feeBps e) \<and> fits 8 (es_feeMinimum e) \<and> fits 8 (es_feeAmount e)
     \<and> length (es_feeDestination e) = 32 \<and> length (es_attestor e) = 32 \<and> es_mode e < 256
     \<and> es_state e \<in> {Funded, Assigned, Released, Refunded}
     \<and> (\<forall>c. es_contributor e = Some c \<longrightarrow> length c = 32) \<and> - (2 ^ 63) \<le> es_deadline e \<and> es_deadline e < 2 ^ 63
     \<and> (\<forall>c. es_mergeCommit e = Some c \<longrightarrow> length c = 20)"

lemma skip_prefix:
  "length a \<le> i \<Longrightarrow> slice i j (a @ b) = slice (i - length a) (j - length a) b"
  "length a \<le> i \<Longrightarrow> read_uint k i (a @ b) = read_uint k (i - length a) b"
  "length a \<le> i \<Longrightarrow> read_i64 i (a @ b) = read_i64 (i - length a) b"
  "length a \<le> i \<Longrightarrow> byte_or d i (a @ b) = byte_or d (i - length a) b"
  by (auto simp: slice_def read_uint_def read_i64_def byte_or_def nth_append)

lemma skip_byte:
  "0 < i \<Longrightarrow> slice i j (c # b) = slice (i - 1) (j - 1) b"
  "0 < i \<Longrightarrow> read_i64 i (c # b) = read_i64 (i - 1) b"
  "0 < i \<Longrightarrow> byte_or d i (c # b) = byte_or d (i - 1) b"
  by (auto simp: slice_def read_i64_def byte_or_def nth_Cons' drop_Cons')

lemma slice_head: "length a = j \<Longrightarrow> slice 0 j (a @ b) = a" "length a = j \<Longrightarrow> slice 0 j a = a"
  by (simp_all add: slice_def)

lemma read_uint_head: "fits k n \<Longrightarrow> read_uint k 0 (le_bytes k (nat n) @ b) = Some n"
  by (simp add: read_uint_def slice_def le_val_bytes fits_def nat_mod_as_int)

lemma read_i64_head:
  "- (2 ^ 63) \<le> n \<Longrightarrow> n < 2 ^ 63 \<Longrightarrow> read_i64 0 (le_bytes 8 (unat (word_of_int n :: 64 word)) @ b) = Some n"
  using i64_val [of n] by (simp add: read_i64_def slice_def i64_def)

lemma byte_or_head: "byte_or d 0 (c # b) = code c"
  by (simp add: byte_or_def)

lemma STATE_byte: "s \<in> {Funded, Assigned, Released, Refunded} \<Longrightarrow> STATE (status_byte s) = s \<and> status_byte s < 256"
  by (auto simp: STATE_def status_byte_def)

lemmas decode_simps = skip_prefix skip_byte slice_head read_uint_head read_i64_head byte_or_head


definition demo_escrow :: escrow_account where
  "demo_escrow = \<lparr>es_bountyId = replicate 16 (CHR ''b''), es_funder = replicate 32 (CHR ''f''), es_mint = replicate 32 (CHR ''m''),
     es_amount = 5000000, es_feeBps = 250, es_feeMinimum = 10000, es_feeAmount = 125000,
     es_feeDestination = replicate 32 (CHR ''d''), es_attestor = replicate 32 (CHR ''a''), es_mode = 0, es_state = Assigned,
     es_contributor = Some (replicate 32 (CHR ''c'')), es_everAssigned = True, es_deadline = -1, es_mergeCommit = None\<rparr>"

lemma demo_escrow_typed: "escrow_typed demo_escrow"
  by (simp add: escrow_typed_def demo_escrow_def fits_def)


text \<open>The instruction that funds an escrow says exactly what was asked for, and only the funder signs it.\<close>

lemma initialize_says:
  assumes "ixInitialize E a = Some ix" "length (disc E ''initialize'') = 8" "length (ia_bountyId a) = 16"
  shows "slice 8 24 (in_data ix) = ia_bountyId a \<and> read_uint 8 24 (in_data ix) = Some (ia_amount a)
    \<and> read_uint 2 32 (in_data ix) = Some (ia_feeBps a) \<and> read_uint 8 34 (in_data ix) = Some (ia_feeMinimum a)
    \<and> read_i64 42 (in_data ix) = Some (ia_deadline a) \<and> map am_pubkey (filter am_is_signer (in_keys ix)) = [ia_funder a]"
proof -
  obtain am bps least dl where w: "u64 (ia_amount a) = Some am" "u16 (ia_feeBps a) = Some bps" "u64 (ia_feeMinimum a) = Some least"
      "i64 (ia_deadline a) = Some dl"
    and d: "in_data ix = disc E ''initialize'' @ ia_bountyId a @ am @ bps @ least @ dl @ [char_of (ia_mode a mod 256)]"
    and k: "map am_pubkey (filter am_is_signer (in_keys ix)) = [ia_funder a]"
    using assms(1) by (auto simp: ixInitialize_def meta_def split: option.splits)
  have v: "int (le_val am) = ia_amount a" "length am = 8" "int (le_val bps) = ia_feeBps a" "length bps = 2"
    "int (le_val least) = ia_feeMinimum a" "length least = 8" "sint (word_of_nat (le_val dl) :: 64 word) = ia_deadline a" "length dl = 8"
    using u64_val [OF w(1)] u16_val [OF w(2)] u64_val [OF w(3)] i64_val [OF w(4)] by simp_all
  have "read_uint (length b) 0 (b @ r) = Some (int (le_val b))" for b r by (simp add: read_uint_def slice_def)
  note num = this [of am] this [of bps] this [of least]
  have "read_i64 0 (dl @ r) = Some (ia_deadline a)" for r using v by (simp add: read_i64_def slice_def)
  then show ?thesis using num v k assms(2,3) by (simp add: d decode_simps)
qed

end
