(* ===== verification/Payout.thy ===== *)
theory Payout
  imports Approval GrainhackStatement EscrowIx PayOnce
begin

text \<open>
  services/signer/src/payout: the payout signer's journal (journal.ts), its decision to pay a bounty
  from the float (payout-signer.ts) and its decision to release a funded escrow
  (escrow-attestor.ts). An approval is of the declared type. A handler is asynchronous only while it
  waits for GitHub, the chain or the rail: its stretches between journal writes are functions of
  the answers, and \<open>payout_step\<close> interleaves any number of them.
\<close>

section \<open>The journal\<close>

datatype payout_row_status = PJ_reserved | PJ_sent | PJ_confirmed | PJ_failed_unsent

record payout_row =
  pj_id :: nat
  pj_payout_id :: string
  pj_bounty_id :: string
  pj_approval_signature :: string
  pj_recipient :: string
  pj_currency :: string
  pj_amount_minor :: string
  pj_day :: string
  pj_status :: payout_row_status
  pj_tx_signature :: "string option"
  pj_error :: "string option"

record payout_journal =
  pj_rows :: "payout_row list"
  pj_next :: nat

definition empty_payout_journal :: payout_journal where
  "empty_payout_journal = \<lparr>pj_rows = [], pj_next = 1\<rparr>"

definition committedToday :: "payout_journal \<Rightarrow> string \<Rightarrow> string \<Rightarrow> bigint" where
  "committedToday j currency day =
     sum_list (map (\<lambda>r. amount_of (pj_amount_minor r))
       (filter (\<lambda>r. pj_currency r = currency \<and> pj_day r = day \<and> pj_status r \<noteq> PJ_failed_unsent) (pj_rows j)))"

record payout_reserve_args =
  pa_payoutId :: string
  pa_bountyId :: string
  pa_approvalSignature :: string
  pa_recipient :: string
  pa_currency :: string
  pa_amountMinor :: bigint
  pa_day :: string
  pa_dailyMaxMinor :: bigint

datatype payout_reserved = PReservedId nat | PExists payout_row | POverDay bigint bigint bigint

text \<open>
  The query names no order: which of several rows that share the payout, the bounty or the approval
  comes first is the database's choice, \<open>pick\<close>.
\<close>

definition payout_matches :: "payout_reserve_args \<Rightarrow> payout_row \<Rightarrow> bool" where
  "payout_matches a r \<longleftrightarrow> pj_payout_id r = pa_payoutId a \<or> pj_bounty_id r = pa_bountyId a
     \<or> pj_approval_signature r = pa_approvalSignature a"

definition payout_reserve :: "(payout_row list \<Rightarrow> payout_row) \<Rightarrow> payout_reserve_args \<Rightarrow> payout_journal
    \<Rightarrow> payout_reserved \<times> payout_journal" where
  "payout_reserve pick a j =
     (let same = filter (payout_matches a) (pj_rows j) in
      if same \<noteq> [] then (PExists (pick same), j)
      else let today = committedToday j (pa_currency a) (pa_day a) in
        if today + pa_amountMinor a > pa_dailyMaxMinor a then (POverDay today (pa_amountMinor a) (pa_dailyMaxMinor a), j)
        else (PReservedId (pj_next j),
          j\<lparr>pj_rows := pj_rows j @ [\<lparr>pj_id = pj_next j, pj_payout_id = pa_payoutId a, pj_bounty_id = pa_bountyId a,
               pj_approval_signature = pa_approvalSignature a, pj_recipient = pa_recipient a, pj_currency = pa_currency a,
               pj_amount_minor = show_int (pa_amountMinor a), pj_day = pa_day a, pj_status = PJ_reserved,
               pj_tx_signature = None, pj_error = None\<rparr>],
            pj_next := pj_next j + 1\<rparr>))"

definition allowed_from :: "payout_row_status \<Rightarrow> payout_row_status list" where
  "allowed_from s = (case s of PJ_reserved \<Rightarrow> [] | PJ_sent \<Rightarrow> [PJ_reserved] | PJ_confirmed \<Rightarrow> [PJ_sent]
     | PJ_failed_unsent \<Rightarrow> [PJ_reserved])"

datatype payout_journal_error = Illegal_payout_transition nat payout_row_status | Signature_taken

definition coalesce :: "'a option \<Rightarrow> 'a option \<Rightarrow> 'a option" where
  "coalesce a b = (case a of None \<Rightarrow> b | Some x \<Rightarrow> Some x)"

definition payout_mark :: "nat \<Rightarrow> payout_row_status \<Rightarrow> string option \<Rightarrow> string option \<Rightarrow> payout_journal
    \<Rightarrow> payout_journal_error + payout_journal" where
  "payout_mark i status tx err j =
     (let hit = (\<lambda>r. pj_id r = i \<and> pj_status r \<in> set (allowed_from status)) in
      if filter hit (pj_rows j) \<noteq> [] \<and> tx \<noteq> None \<and> (\<exists>r \<in> set (pj_rows j). pj_tx_signature r = tx \<and> pj_id r \<noteq> i)
      then Inl Signature_taken
      else if length (filter hit (pj_rows j)) \<noteq> 1 then Inl (Illegal_payout_transition i status)
      else Inr (j\<lparr>pj_rows := update_where hit (\<lambda>r. r\<lparr>pj_status := status,
                   pj_tx_signature := coalesce tx (pj_tx_signature r), pj_error := coalesce err (pj_error r)\<rparr>) (pj_rows j)\<rparr>))"

definition noteError :: "nat \<Rightarrow> string \<Rightarrow> payout_journal \<Rightarrow> payout_journal" where
  "noteError i err j =
     j\<lparr>pj_rows := update_where (\<lambda>r. pj_id r = i) (\<lambda>r. r\<lparr>pj_error := Some (take 500 err)\<rparr>) (pj_rows j)\<rparr>"

section \<open>Paying from the float\<close>

record payout_caps =
  perBountyMaxMinor :: bigint
  dailyMaxMinor :: bigint

definition HARD_CAPS :: "string \<Rightarrow> payout_caps option" where
  "HARD_CAPS currency =
     (if currency = ''USDC'' then Some \<lparr>perBountyMaxMinor = 50000000, dailyMaxMinor = 150000000\<rparr>
      else if currency = ''ANSEM'' then Some \<lparr>perBountyMaxMinor = 6000000, dailyMaxMinor = 10000000\<rparr>
      else None)"

definition capsFor :: "string \<Rightarrow> payout_caps option \<Rightarrow> payout_caps option" where
  "capsFor currency configured =
     (case HARD_CAPS currency of
        None \<Rightarrow> None
      | Some hard \<Rightarrow>
          (case configured of
             None \<Rightarrow> Some hard
           | Some c \<Rightarrow> Some
               \<lparr>perBountyMaxMinor = (if perBountyMaxMinor c < perBountyMaxMinor hard then perBountyMaxMinor c else perBountyMaxMinor hard),
                dailyMaxMinor = (if dailyMaxMinor c < dailyMaxMinor hard then dailyMaxMinor c else dailyMaxMinor hard)\<rparr>))"

record mint_info =
  mi_mint :: string
  mi_decimals :: int

record payout_signer_config =
  ps_network :: string
  ps_mints :: "string \<Rightarrow> mint_info option"
  ps_caps :: "string \<Rightarrow> payout_caps option"
  ps_allowedRepos :: "string list"
  ps_trustedApprovers :: "string list"

record pull_facts =
  pf_merged :: bool
  pf_authorLogin :: string
  pf_mergedByLogin :: "string option"
  pf_mergeCommitSha :: "string option"

datatype payout_error =
    No_approval_terms | Approval_is_for_escrow | Approval_refused approval_refusal | Wrong_network string string
  | Mint_not_configured string string | Repo_not_allowed string | Recipient_not_address | Recipient_is_wallet
  | Amount_not_integer | No_caps string | Amount_outside bigint bigint | Pull_unverifiable string | Not_merged
  | Author_differs string string | Self_merged | Already_recorded payout_row | Over_daily_cap bigint bigint bigint
  | Transfer_not_built string | Outcome_unknown string string | Journal_refused payout_journal_error
  | Approval_not_for_escrow | No_merge_commit | Escrow_not_on_chain | Other_attestor | Escrow_state escrow_status
  | Escrow_assigned_to "string option" string | Escrow_mint string string | Escrow_amount int bigint
  | Escrow_of_other_bounty | Release_unknown string | Escrow_not_address | Contributor_not_address | No_such_escrow
  | Self_assign_escrow

datatype payout_outcome = PaidOut (paid_signature: string) (paid_payer: string) | NotPaid (not_paid_status: int) (not_paid_error: payout_error)

text \<open>The pull request, as both routes check it.\<close>

definition pull_refusal :: "payout_terms \<Rightarrow> pull_facts \<Rightarrow> payout_outcome option" where
  "pull_refusal t pr =
     (if \<not> pf_merged pr then Some (NotPaid 403 Not_merged)
      else if to_lower (pf_authorLogin pr) \<noteq> to_lower (pt_author_login t)
        then Some (NotPaid 403 (Author_differs (pf_authorLogin pr) (pt_author_login t)))
      else if (case pf_mergedByLogin pr of None \<Rightarrow> True
               | Some m \<Rightarrow> m = [] \<or> to_lower m = to_lower (pf_authorLogin pr)) then Some (NotPaid 403 Self_merged)
      else None)"

definition approval_entries :: "payout_terms envelope \<Rightarrow> entries envelope" where
  "approval_entries a = \<lparr>en_terms = terms_entries (en_terms a), en_approver = en_approver a, en_approved_at = en_approved_at a,
     en_expires_at = en_expires_at a, en_signature = en_signature a\<rparr>"

text \<open>The amount both routes read from the terms, and its caps.\<close>

definition capped_amount :: "(string \<Rightarrow> payout_caps option) \<Rightarrow> payout_terms \<Rightarrow> payout_outcome + bigint \<times> payout_caps" where
  "capped_amount configured t =
     (case bigint_of (pt_amount_minor t) of
        None \<Rightarrow> Inl (NotPaid 400 Amount_not_integer)
      | Some amount \<Rightarrow>
          (case capsFor (pt_currency t) (configured (pt_currency t)) of
             None \<Rightarrow> Inl (NotPaid 403 (No_caps (pt_currency t)))
           | Some most \<Rightarrow>
               if amount \<le> 0 \<or> amount > perBountyMaxMinor most then Inl (NotPaid 403 (Amount_outside amount (perBountyMaxMinor most)))
               else Inr (amount, most)))"

definition pay_check :: "platform \<Rightarrow> payout_signer_config \<Rightarrow> string \<Rightarrow> time_ms \<Rightarrow> payout_terms envelope
    \<Rightarrow> payout_outcome + mint_info \<times> bigint \<times> payout_caps" where
  "pay_check P cfg address now approval =
     (let t = en_terms approval in
      if pt_escrow t \<noteq> None then Inl (NotPaid 400 Approval_is_for_escrow)
      else (case verifyApproval P (approval_entries approval) (ps_trustedApprovers cfg) now of
          Some e \<Rightarrow> Inl (NotPaid 403 (Approval_refused e))
        | None \<Rightarrow>
            if pt_network t \<noteq> ps_network cfg then Inl (NotPaid 403 (Wrong_network (pt_network t) (ps_network cfg)))
            else (case ps_mints cfg (pt_currency t) of
                None \<Rightarrow> Inl (NotPaid 403 (Mint_not_configured (pt_mint t) (pt_currency t)))
              | Some mint \<Rightarrow>
                  if mi_mint mint \<noteq> pt_mint t then Inl (NotPaid 403 (Mint_not_configured (pt_mint t) (pt_currency t)))
                  else if pt_repo t \<notin> set (ps_allowedRepos cfg) then Inl (NotPaid 403 (Repo_not_allowed (pt_repo t)))
                  else if \<not> isSolanaAddress P (pt_recipient t) then Inl (NotPaid 400 Recipient_not_address)
                  else if pt_recipient t = address then Inl (NotPaid 403 Recipient_is_wallet)
                  else (case capped_amount (ps_caps cfg) t of Inl e \<Rightarrow> Inl e | Inr (amount, most) \<Rightarrow> Inr (mint, amount, most)))))"

text \<open>The reservation, and the answer when there is one already or the day is full.\<close>

definition reserved_or :: "(string \<Rightarrow> payout_outcome) \<Rightarrow> payout_terms \<Rightarrow> payout_reserved \<times> payout_journal
    \<Rightarrow> (payout_outcome + nat) \<times> payout_journal" where
  "reserved_or paid t res =
     (case res of
        (PReservedId i, j) \<Rightarrow> (Inr i, j)
      | (POverDay today amount cap_max, j) \<Rightarrow> (Inl (NotPaid 403 (Over_daily_cap today amount cap_max)), j)
      | (PExists ex, j) \<Rightarrow>
          (case pj_tx_signature ex of
             Some sig \<Rightarrow>
               if pj_status ex = PJ_confirmed \<and> pj_payout_id ex = pt_payout_id t \<and> sig \<noteq> [] then (Inl (paid sig), j)
               else (Inl (NotPaid 409 (Already_recorded ex)), j)
           | None \<Rightarrow> (Inl (NotPaid 409 (Already_recorded ex)), j)))"

text \<open>Up to the wait for the transfer to be built. \<open>pull\<close> is GitHub's answer, or what reading it threw.\<close>

definition pay_start :: "platform \<Rightarrow> payout_signer_config \<Rightarrow> string \<Rightarrow> (payout_row list \<Rightarrow> payout_row) \<Rightarrow> time_ms
    \<Rightarrow> payout_terms envelope option \<Rightarrow> string + pull_facts \<Rightarrow> payout_journal \<Rightarrow> (payout_outcome + nat) \<times> payout_journal" where
  "pay_start P cfg address pick now approval pull j =
     (case approval of
        None \<Rightarrow> (Inl (NotPaid 400 No_approval_terms), j)
      | Some a \<Rightarrow>
          (case pay_check P cfg address now a of
             Inl e \<Rightarrow> (Inl e, j)
           | Inr (mint, amount, most) \<Rightarrow>
               (case pull of
                  Inl e \<Rightarrow> (Inl (NotPaid 503 (Pull_unverifiable e)), j)
                | Inr pr \<Rightarrow>
                    (case pull_refusal (en_terms a) pr of
                       Some e \<Rightarrow> (Inl e, j)
                     | None \<Rightarrow>
                         reserved_or (\<lambda>sig. PaidOut sig address) (en_terms a)
                           (payout_reserve pick \<lparr>pa_payoutId = pt_payout_id (en_terms a), pa_bountyId = pt_bounty_id (en_terms a),
                              pa_approvalSignature = en_signature a, pa_recipient = pt_recipient (en_terms a),
                              pa_currency = pt_currency (en_terms a), pa_amountMinor = amount, pa_day = utc_day now,
                              pa_dailyMaxMinor = dailyMaxMinor most\<rparr> j)))))"

text \<open>The transfer was built, with its signature, or was not; then it was broadcast, or that threw.\<close>

definition pay_prepared :: "nat \<Rightarrow> string + string \<Rightarrow> payout_journal \<Rightarrow> (payout_outcome + string) \<times> payout_journal" where
  "pay_prepared i prepared j =
     (case prepared of
        Inl e \<Rightarrow>
          (case payout_mark i PJ_failed_unsent None (Some e) j of
             Inl x \<Rightarrow> (Inl (NotPaid 400 (Journal_refused x)), j)
           | Inr j' \<Rightarrow> (Inl (NotPaid 422 (Transfer_not_built e)), j'))
      | Inr sig \<Rightarrow>
          (case payout_mark i PJ_sent (Some sig) None j of
             Inl x \<Rightarrow> (Inl (NotPaid 400 (Journal_refused x)), j)
           | Inr j' \<Rightarrow> (Inr sig, j')))"

definition mark_text :: "nat \<Rightarrow> string" where
  "mark_text i = ''Error: payout journal '' @ show_nat i @ '': illegal transition to confirmed''"

definition pay_broadcast :: "string \<Rightarrow> nat \<Rightarrow> string \<Rightarrow> string option \<Rightarrow> payout_journal \<Rightarrow> payout_outcome \<times> payout_journal" where
  "pay_broadcast address i sig threw j =
     (case threw of
        Some e \<Rightarrow> (NotPaid 502 (Outcome_unknown sig e), noteError i e j)
      | None \<Rightarrow>
          (case payout_mark i PJ_confirmed None None j of
             Inl x \<Rightarrow> (NotPaid 502 (Outcome_unknown sig (mark_text i)), noteError i (mark_text i) j)
           | Inr j' \<Rightarrow> (PaidOut sig address, j')))"

section \<open>Releasing an escrow\<close>

record attestor_config =
  at_network :: string
  at_attestor :: string
  at_allowedRepos :: "string list"
  at_trustedApprovers :: "string list"
  at_caps :: "string \<Rightarrow> payout_caps option"

text \<open>Assigning and unassigning move no money; the answer to send, or a refusal.\<close>

definition drawEscrow :: "platform \<Rightarrow> attestor_config \<Rightarrow> string \<Rightarrow> escrow_account option \<Rightarrow> escrow_status
    \<Rightarrow> payout_outcome + escrow_account" where
  "drawEscrow P cfg escrow on_chain want =
     (if \<not> isSolanaAddress P escrow then Inl (NotPaid 400 Escrow_not_address)
      else (case on_chain of
          None \<Rightarrow> Inl (NotPaid 404 No_such_escrow)
        | Some e \<Rightarrow>
            if b58_encode P (es_attestor e) \<noteq> at_attestor cfg then Inl (NotPaid 403 Other_attestor)
            else if es_mode e \<noteq> MODE_DRAW then Inl (NotPaid 403 Self_assign_escrow)
            else if es_state e \<noteq> want then Inl (NotPaid 409 (Escrow_state (es_state e)))
            else Inr e))"

definition key_bytes :: "platform \<Rightarrow> string \<Rightarrow> bytes" where
  "key_bytes P a = (case b58_decode P a of Some b \<Rightarrow> b | None \<Rightarrow> [])"

definition attest_assign :: "platform \<Rightarrow> escrow_env \<Rightarrow> attestor_config \<Rightarrow> string \<Rightarrow> string \<Rightarrow> escrow_account option
    \<Rightarrow> payout_outcome + instruction" where
  "attest_assign P E cfg escrow contributor on_chain =
     (if \<not> isSolanaAddress P contributor then Inl (NotPaid 400 Contributor_not_address)
      else (case drawEscrow P cfg escrow on_chain Funded of
          Inl e \<Rightarrow> Inl e
        | Inr _ \<Rightarrow> Inr (ixAssign E (key_bytes P (at_attestor cfg)) (key_bytes P escrow) (key_bytes P contributor))))"

definition attest_unassign :: "platform \<Rightarrow> escrow_env \<Rightarrow> attestor_config \<Rightarrow> string \<Rightarrow> escrow_account option
    \<Rightarrow> payout_outcome + instruction" where
  "attest_unassign P E cfg escrow on_chain =
     (case drawEscrow P cfg escrow on_chain Assigned of
        Inl e \<Rightarrow> Inl e
      | Inr _ \<Rightarrow> Inr (ixUnassign E (key_bytes P (at_attestor cfg)) (key_bytes P escrow)))"

definition COMMIT_SHA :: re where
  "COMMIT_SHA = Seq (Bol False) (Seq (times 40 hexc) (Eol False))"

definition hex_digit :: "nat \<Rightarrow> char" where
  "hex_digit n = (if n < 10 then char_of (48 + n) else char_of (87 + n))"

definition hex_string :: "bytes \<Rightarrow> string" where
  "hex_string b = concat (map (\<lambda>c. [hex_digit (code c div 16), hex_digit (code c mod 16)]) b)"

text \<open>The escrow read from the chain against the approved terms.\<close>

definition escrow_refusal :: "platform \<Rightarrow> attestor_config \<Rightarrow> payout_terms \<Rightarrow> bigint \<Rightarrow> escrow_account option \<Rightarrow> payout_outcome option" where
  "escrow_refusal P cfg t amount on_chain =
     (case on_chain of
        None \<Rightarrow> Some (NotPaid 409 Escrow_not_on_chain)
      | Some e \<Rightarrow>
          if b58_encode P (es_attestor e) \<noteq> at_attestor cfg then Some (NotPaid 403 Other_attestor)
          else if es_state e \<noteq> Assigned then Some (NotPaid 409 (Escrow_state (es_state e)))
          else if map_option (b58_encode P) (es_contributor e) \<noteq> Some (pt_recipient t)
            then Some (NotPaid 403 (Escrow_assigned_to (map_option (b58_encode P) (es_contributor e)) (pt_recipient t)))
          else if b58_encode P (es_mint e) \<noteq> pt_mint t then Some (NotPaid 403 (Escrow_mint (b58_encode P (es_mint e)) (pt_mint t)))
          else if es_amount e \<noteq> amount then Some (NotPaid 403 (Escrow_amount (es_amount e) amount))
          else if hex_string (es_bountyId e) \<noteq> filter (\<lambda>c. c \<noteq> CHR ''-'') (pt_bounty_id t)
            then Some (NotPaid 403 Escrow_of_other_bounty)
          else None)"

text \<open>The ledger currency keeps test tokens apart from real payouts.\<close>

definition ledgerCurrency :: "attestor_config \<Rightarrow> string \<Rightarrow> string" where
  "ledgerCurrency cfg currency =
     (if at_network cfg = ''solana-mainnet'' then currency else currency @ ''@'' @ at_network cfg)"

definition release_check :: "platform \<Rightarrow> attestor_config \<Rightarrow> time_ms \<Rightarrow> payout_terms envelope
    \<Rightarrow> payout_outcome + bigint \<times> payout_caps" where
  "release_check P cfg now approval =
     (let t = en_terms approval in
      if (case pt_escrow t of None \<Rightarrow> True | Some e \<Rightarrow> \<not> isSolanaAddress P e) then Inl (NotPaid 400 Approval_not_for_escrow)
      else (case verifyApproval P (approval_entries approval) (at_trustedApprovers cfg) now of
          Some e \<Rightarrow> Inl (NotPaid 403 (Approval_refused e))
        | None \<Rightarrow>
            if pt_network t \<noteq> at_network cfg then Inl (NotPaid 403 (Wrong_network (pt_network t) (at_network cfg)))
            else if pt_repo t \<notin> set (at_allowedRepos cfg) then Inl (NotPaid 403 (Repo_not_allowed (pt_repo t)))
            else if \<not> isSolanaAddress P (pt_recipient t) then Inl (NotPaid 400 Recipient_not_address)
            else capped_amount (at_caps cfg) t))"

text \<open>Up to the wait for the release to be sent: the transaction is handed over as soon as the row exists.\<close>

definition release_start :: "platform \<Rightarrow> attestor_config \<Rightarrow> (payout_row list \<Rightarrow> payout_row) \<Rightarrow> time_ms
    \<Rightarrow> payout_terms envelope option \<Rightarrow> string + pull_facts \<Rightarrow> escrow_account option \<Rightarrow> payout_journal
    \<Rightarrow> (payout_outcome + nat) \<times> payout_journal" where
  "release_start P cfg pick now approval pull on_chain j =
     (case approval of
        None \<Rightarrow> (Inl (NotPaid 400 No_approval_terms), j)
      | Some a \<Rightarrow>
          (case release_check P cfg now a of
             Inl e \<Rightarrow> (Inl e, j)
           | Inr (amount, most) \<Rightarrow>
               (case pull of
                  Inl e \<Rightarrow> (Inl (NotPaid 503 (Pull_unverifiable e)), j)
                | Inr pr \<Rightarrow>
                    (case pull_refusal (en_terms a) pr of
                       Some e \<Rightarrow> (Inl e, j)
                     | None \<Rightarrow>
                         if (case pf_mergeCommitSha pr of None \<Rightarrow> True | Some sha \<Rightarrow> \<not> re_test COMMIT_SHA sha)
                         then (Inl (NotPaid 503 No_merge_commit), j)
                         else (case escrow_refusal P cfg (en_terms a) amount on_chain of
                             Some e \<Rightarrow> (Inl e, j)
                           | None \<Rightarrow>
                               reserved_or (\<lambda>sig. PaidOut sig (at_attestor cfg)) (en_terms a)
                                 (payout_reserve pick \<lparr>pa_payoutId = pt_payout_id (en_terms a), pa_bountyId = pt_bounty_id (en_terms a),
                                    pa_approvalSignature = en_signature a, pa_recipient = pt_recipient (en_terms a),
                                    pa_currency = ledgerCurrency cfg (pt_currency (en_terms a)), pa_amountMinor = amount,
                                    pa_day = utc_day now, pa_dailyMaxMinor = dailyMaxMinor most\<rparr> j))))))"

definition release_sent :: "attestor_config \<Rightarrow> nat \<Rightarrow> string + string \<Rightarrow> payout_journal \<Rightarrow> payout_outcome \<times> payout_journal" where
  "release_sent cfg i sent j =
     (case sent of
        Inl e \<Rightarrow> (NotPaid 502 (Release_unknown e), noteError i e j)
      | Inr sig \<Rightarrow>
          (case payout_mark i PJ_sent (Some sig) None j of
             Inl x \<Rightarrow> (NotPaid 400 (Journal_refused x), j)
           | Inr j' \<Rightarrow>
               (case payout_mark i PJ_confirmed None None j' of
                  Inl x \<Rightarrow> (NotPaid 400 (Journal_refused x), j')
                | Inr j'' \<Rightarrow> (PaidOut sig (at_attestor cfg), j''))))"

end
