(* ===== verification/PayoutSafety.thy ===== *)
theory PayoutSafety
  imports Payout
begin

text \<open>
  What the payout signer of services/signer/src/payout promises over every interleaving of payouts
  from the float, escrow releases, failures and crashes: its step relation, the proof that it
  keeps the \<open>pay_once\<close> contract, and the properties that follow.
\<close>

section \<open>Payouts and releases interleaved over one journal\<close>

text \<open>\<open>py_preparing\<close> holds the rows whose transfer is being built, by a request that still runs.\<close>

record payout_sys =
  py_journal :: payout_journal
  py_preparing :: "nat list"

definition payout_row_of :: "payout_journal \<Rightarrow> nat \<Rightarrow> payout_row option" where
  "payout_row_of j i = find (\<lambda>r. pj_id r = i) (pj_rows j)"

text \<open>
  The label of a step is the row whose transaction the step hands to the network. A late answer may
  arrive for any row.
\<close>

inductive payout_step :: "platform \<Rightarrow> payout_signer_config \<Rightarrow> attestor_config \<Rightarrow> string \<Rightarrow> payout_sys \<Rightarrow> payout_row option
    \<Rightarrow> payout_sys \<Rightarrow> bool" for P cfg acfg address where
  pay_refused: "pay_start P cfg address pick now a pull (py_journal s) = (Inl res, j) \<Longrightarrow>
     payout_step P cfg acfg address s None (s\<lparr>py_journal := j\<rparr>)"
| pay_reserved: "pay_start P cfg address pick now a pull (py_journal s) = (Inr i, j) \<Longrightarrow>
     payout_step P cfg acfg address s None \<lparr>py_journal = j, py_preparing = i # py_preparing s\<rparr>"
| pay_not_sent: "i \<in> set (py_preparing s) \<Longrightarrow> pay_prepared i prepared (py_journal s) = (Inl res, j) \<Longrightarrow>
     payout_step P cfg acfg address s None \<lparr>py_journal = j, py_preparing = removeAll i (py_preparing s)\<rparr>"
| pay_sent: "i \<in> set (py_preparing s) \<Longrightarrow> pay_prepared i prepared (py_journal s) = (Inr sig, j) \<Longrightarrow>
     payout_row_of j i = Some b \<Longrightarrow>
     payout_step P cfg acfg address s (Some b) \<lparr>py_journal = j, py_preparing = removeAll i (py_preparing s)\<rparr>"
| pay_answered: "pay_broadcast address i sig threw (py_journal s) = (res, j) \<Longrightarrow>
     payout_step P cfg acfg address s None (s\<lparr>py_journal := j\<rparr>)"
| release_refused: "release_start P acfg pick now a pull on_chain (py_journal s) = (Inl res, j) \<Longrightarrow>
     payout_step P cfg acfg address s None (s\<lparr>py_journal := j\<rparr>)"
| release_handed: "release_start P acfg pick now a pull on_chain (py_journal s) = (Inr i, j) \<Longrightarrow>
     payout_row_of j i = Some b \<Longrightarrow> payout_step P cfg acfg address s (Some b) (s\<lparr>py_journal := j\<rparr>)"
| release_answered: "release_sent acfg i sent (py_journal s) = (res, j) \<Longrightarrow>
     payout_step P cfg acfg address s None (s\<lparr>py_journal := j\<rparr>)"
| crashed: "payout_step P cfg acfg address s None (s\<lparr>py_preparing := []\<rparr>)"

definition payout_boot :: payout_sys where
  "payout_boot = \<lparr>py_journal = empty_payout_journal, py_preparing = []\<rparr>"

section \<open>The invariant\<close>

text \<open>The most a ledger currency may pay on one day, whatever is configured: test tokens have a ledger of their own.\<close>

definition day_limit :: "string \<Rightarrow> bigint" where
  "day_limit currency = (case HARD_CAPS (takeWhile (\<lambda>c. c \<noteq> CHR ''@'') currency) of Some h \<Rightarrow> dailyMaxMinor h | None \<Rightarrow> 0)"

abbreviation row_amount :: "payout_row \<Rightarrow> bigint" where
  "row_amount r \<equiv> amount_of (pj_amount_minor r)"

definition payout_ok :: "payout_sys \<Rightarrow> bool" where
  "payout_ok s \<longleftrightarrow> (let rs = pj_rows (py_journal s) in
     distinct (map pj_id rs) \<and> distinct (map pj_bounty_id rs)
     \<and> (\<forall>r \<in> set rs. pj_id r < pj_next (py_journal s) \<and> 0 < row_amount r)
     \<and> (\<forall>i \<in> set (py_preparing s). i < pj_next (py_journal s))
     \<and> (\<forall>c d. committedToday (py_journal s) c d \<le> day_limit c))"

lemma HARD_CAPS_at: "HARD_CAPS c = Some h \<Longrightarrow> takeWhile (\<lambda>x. x \<noteq> CHR ''@'') c = c \<and> 0 \<le> dailyMaxMinor h"
  by (auto simp: HARD_CAPS_def split: if_splits)

lemma day_limit_known: "HARD_CAPS c = Some h \<Longrightarrow> day_limit c = dailyMaxMinor h"
  using HARD_CAPS_at [of c h] by (simp add: day_limit_def del: takeWhile_eq_all_conv)

lemma day_limit_nonneg: "0 \<le> day_limit c"
  using HARD_CAPS_at by (auto simp: day_limit_def split: option.splits)

text \<open>What a start that reserved did to the journal.\<close>

definition adds_row :: "payout_journal \<Rightarrow> payout_journal \<Rightarrow> nat \<Rightarrow> bool" where
  "adds_row j j' i \<longleftrightarrow> (\<exists>r. pj_rows j' = pj_rows j @ [r] \<and> pj_next j' = pj_next j + 1 \<and> i = pj_next j \<and> pj_id r = i
     \<and> 0 < row_amount r \<and> pj_status r = PJ_reserved
     \<and> committedToday j (pj_currency r) (pj_day r) + row_amount r \<le> day_limit (pj_currency r)
     \<and> (\<forall>x \<in> set (pj_rows j). pj_bounty_id x \<noteq> pj_bounty_id r))"

lemma amount_of_show: "0 \<le> n \<Longrightarrow> amount_of (show_int n) = n"
  by (simp add: amount_of_def show_int_def)

lemma payout_reserve_adds:
  assumes "payout_reserve pick a j = (PReservedId i, j')" "0 < pa_amountMinor a" "pa_dailyMaxMinor a \<le> day_limit (pa_currency a)"
  shows "adds_row j j' i"
  using assms by (auto simp: payout_reserve_def adds_row_def payout_matches_def filter_empty_conv amount_of_show Let_def split: if_splits)

lemma reserved_orD:
  "reserved_or paid t (payout_reserve pick a j) = (Inr i, j') \<Longrightarrow> payout_reserve pick a j = (PReservedId i, j')"
  "reserved_or paid t (payout_reserve pick a j) = (Inl e, j') \<Longrightarrow> j' = j"
  by (auto simp: reserved_or_def payout_reserve_def Let_def split: payout_reserved.splits option.splits if_splits)

lemma capped_amountD:
  assumes "capped_amount f t = Inr (amount, most)"
  shows "bigint_of (pt_amount_minor t) = Some amount \<and> 0 < amount \<and> amount \<le> perBountyMaxMinor most
    \<and> dailyMaxMinor most \<le> day_limit (pt_currency t)
    \<and> (\<exists>h. HARD_CAPS (pt_currency t) = Some h \<and> perBountyMaxMinor most \<le> perBountyMaxMinor h)"
proof -
  have a: "bigint_of (pt_amount_minor t) = Some amount" "capsFor (pt_currency t) (f (pt_currency t)) = Some most"
      "0 < amount" "amount \<le> perBountyMaxMinor most"
    using assms by (auto simp: capped_amount_def split: option.splits if_splits)
  then obtain h where h: "HARD_CAPS (pt_currency t) = Some h" by (auto simp: capsFor_def split: option.splits)
  then have "perBountyMaxMinor most \<le> perBountyMaxMinor h \<and> dailyMaxMinor most \<le> dailyMaxMinor h"
    using a(2) by (auto simp: capsFor_def split: option.splits)
  then show ?thesis using a h day_limit_known [OF h] by simp
qed

lemma day_limit_ledger: "HARD_CAPS c = Some h \<Longrightarrow> day_limit (ledgerCurrency cfg c) = day_limit c"
proof -
  assume h: "HARD_CAPS c = Some h"
  then have "CHR ''@'' \<notin> set c" by (auto simp: HARD_CAPS_def split: if_splits)
  then have t: "takeWhile (\<lambda>x. x \<noteq> CHR ''@'') (c @ ''@'' @ y) = c" for y by (simp add: takeWhile_append)
  show ?thesis
  proof (cases "at_network cfg = ''solana-mainnet''")
    case False
    then have "day_limit (ledgerCurrency cfg c) = dailyMaxMinor h"
      unfolding day_limit_def ledgerCurrency_def if_not_P [OF False] t by (simp add: h)
    then show ?thesis using day_limit_known [OF h] by simp
  qed (simp add: ledgerCurrency_def)
qed

lemma pay_checkD: "pay_check P cfg addr now a = Inr (m, amount, most) \<Longrightarrow>
    pt_escrow (en_terms a) = None \<and> verifyApproval P (approval_entries a) (ps_trustedApprovers cfg) now = None
    \<and> pt_network (en_terms a) = ps_network cfg \<and> ps_mints cfg (pt_currency (en_terms a)) = Some m
    \<and> mi_mint m = pt_mint (en_terms a) \<and> pt_repo (en_terms a) \<in> set (ps_allowedRepos cfg)
    \<and> isSolanaAddress P (pt_recipient (en_terms a)) \<and> pt_recipient (en_terms a) \<noteq> addr
    \<and> capped_amount (ps_caps cfg) (en_terms a) = Inr (amount, most)"
  by (auto simp: pay_check_def Let_def split: option.splits sum.splits if_splits)

lemma release_checkD: "release_check P cfg now a = Inr (amount, most) \<Longrightarrow>
    (\<exists>e. pt_escrow (en_terms a) = Some e \<and> isSolanaAddress P e)
    \<and> verifyApproval P (approval_entries a) (at_trustedApprovers cfg) now = None
    \<and> pt_network (en_terms a) = at_network cfg \<and> pt_repo (en_terms a) \<in> set (at_allowedRepos cfg)
    \<and> isSolanaAddress P (pt_recipient (en_terms a)) \<and> capped_amount (at_caps cfg) (en_terms a) = Inr (amount, most)"
  by (auto simp: release_check_def Let_def split: option.splits if_splits)

lemma pay_startD:
  assumes "pay_start P cfg addr pick now a pull j = (Inr i, j')"
  shows "\<exists>ap m amount most pr. a = Some ap \<and> pay_check P cfg addr now ap = Inr (m, amount, most) \<and> pull = Inr pr
    \<and> pull_refusal (en_terms ap) pr = None
    \<and> payout_reserve pick \<lparr>pa_payoutId = pt_payout_id (en_terms ap), pa_bountyId = pt_bounty_id (en_terms ap),
         pa_approvalSignature = en_signature ap, pa_recipient = pt_recipient (en_terms ap), pa_currency = pt_currency (en_terms ap),
         pa_amountMinor = amount, pa_day = utc_day now, pa_dailyMaxMinor = dailyMaxMinor most\<rparr> j = (PReservedId i, j')"
  using assms by (auto simp: pay_start_def dest: reserved_orD(1) split: option.splits sum.splits prod.splits)

lemma release_startD:
  assumes "release_start P cfg pick now a pull on_chain j = (Inr i, j')"
  shows "\<exists>ap amount most pr sha. a = Some ap \<and> release_check P cfg now ap = Inr (amount, most) \<and> pull = Inr pr
    \<and> pull_refusal (en_terms ap) pr = None \<and> pf_mergeCommitSha pr = Some sha \<and> re_test COMMIT_SHA sha
    \<and> escrow_refusal P cfg (en_terms ap) amount on_chain = None
    \<and> payout_reserve pick \<lparr>pa_payoutId = pt_payout_id (en_terms ap), pa_bountyId = pt_bounty_id (en_terms ap),
         pa_approvalSignature = en_signature ap, pa_recipient = pt_recipient (en_terms ap),
         pa_currency = ledgerCurrency cfg (pt_currency (en_terms ap)),
         pa_amountMinor = amount, pa_day = utc_day now, pa_dailyMaxMinor = dailyMaxMinor most\<rparr> j = (PReservedId i, j')"
  using assms by (auto simp: release_start_def dest: reserved_orD(1) split: option.splits sum.splits prod.splits if_splits)

lemma starts_refuse:
  "pay_start P cfg addr pick now a pull j = (Inl e, j') \<Longrightarrow> j' = j"
  "release_start P acfg pick now a pull on_chain j = (Inl e, j') \<Longrightarrow> j' = j"
  by (auto simp: pay_start_def dest: reserved_orD(2) split: option.splits sum.splits prod.splits)
     (auto simp: release_start_def dest: reserved_orD(2) split: option.splits sum.splits prod.splits if_splits)

lemma starts_add:
  "pay_start P cfg addr pick now a pull j = (Inr i, j') \<Longrightarrow> adds_row j j' i"
  "release_start P acfg pick now a pull on_chain j = (Inr i, j') \<Longrightarrow> adds_row j j' i"
proof -
  assume "pay_start P cfg addr pick now a pull j = (Inr i, j')"
  then show "adds_row j j' i"
    by (auto dest!: pay_startD pay_checkD capped_amountD intro!: payout_reserve_adds)
next
  assume "release_start P acfg pick now a pull on_chain j = (Inr i, j')"
  then show "adds_row j j' i"
    by (auto dest!: release_startD release_checkD capped_amountD intro!: payout_reserve_adds simp: day_limit_ledger)
qed

text \<open>
  What every later write does: the rows stay the same payments, one that counts no longer never counts
  again, and only the rows in \<open>F\<close> may stop counting.
\<close>

definition row_change :: "nat set \<Rightarrow> payout_row \<Rightarrow> payout_row \<Rightarrow> bool" where
  "row_change F r r' \<longleftrightarrow> pj_id r' = pj_id r \<and> pj_bounty_id r' = pj_bounty_id r \<and> pj_amount_minor r' = pj_amount_minor r
     \<and> pj_currency r' = pj_currency r \<and> pj_day r' = pj_day r
     \<and> (pj_status r = PJ_failed_unsent \<longrightarrow> pj_status r' = PJ_failed_unsent)
     \<and> (pj_status r' = PJ_failed_unsent \<longrightarrow> pj_status r = PJ_failed_unsent \<or> pj_id r \<in> F)"

definition row_update :: "nat set \<Rightarrow> (payout_row \<Rightarrow> payout_row) \<Rightarrow> bool" where
  "row_update F f \<longleftrightarrow> (\<forall>r. row_change F r (f r))"

lemma row_change_trans: "row_change F a b \<Longrightarrow> row_change F b c \<Longrightarrow> row_change F a c"
  by (auto simp: row_change_def)

definition updates :: "nat set \<Rightarrow> payout_journal \<Rightarrow> payout_journal \<Rightarrow> bool" where
  "updates F j j' \<longleftrightarrow> pj_next j' = pj_next j \<and> (\<exists>f. row_update F f \<and> pj_rows j' = map f (pj_rows j))"

lemma row_update_id: "row_update F (\<lambda>r. r)"
  by (simp add: row_update_def row_change_def)

lemma updates_refl [simp]: "updates F j j"
  unfolding updates_def using row_update_id by (intro conjI exI [of _ "\<lambda>r. r"]) auto

lemma updates_trans: "updates F j k \<Longrightarrow> updates F k l \<Longrightarrow> updates F j l"
proof -
  assume "updates F j k" "updates F k l"
  then obtain f g where f: "row_update F f" "pj_rows k = map f (pj_rows j)" "row_update F g" "pj_rows l = map g (pj_rows k)"
      "pj_next l = pj_next j"
    by (auto simp: updates_def)
  have "row_update F (g \<circ> f)" using f(1,3) unfolding row_update_def comp_def by (blast intro: row_change_trans)
  then show ?thesis unfolding updates_def using f(2,4,5) by (intro conjI exI [of _ "g \<circ> f"]) simp_all
qed

lemma payout_mark_updates:
  assumes "payout_mark i st tx err j = Inr j'" shows "updates (if st = PJ_failed_unsent then {i} else {}) j j'"
proof -
  let ?hit = "\<lambda>r. pj_id r = i \<and> pj_status r \<in> set (allowed_from st)"
  let ?f = "\<lambda>r. r\<lparr>pj_status := st, pj_tx_signature := coalesce tx (pj_tx_signature r), pj_error := coalesce err (pj_error r)\<rparr>"
  have j': "j' = j\<lparr>pj_rows := update_where ?hit ?f (pj_rows j)\<rparr>"
    using assms by (auto simp: payout_mark_def Let_def split: if_splits)
  have "row_update (if st = PJ_failed_unsent then {i} else {}) (\<lambda>r. if ?hit r then ?f r else r)"
    by (auto simp: row_update_def row_change_def allowed_from_def split: payout_row_status.splits)
  then show ?thesis unfolding updates_def j' update_where_def by (intro conjI exI [of _ "\<lambda>r. if ?hit r then ?f r else r"]) simp_all
qed

lemma noteError_updates: "updates F j (noteError i e j)"
proof -
  have "row_update F (\<lambda>r. if pj_id r = i then r\<lparr>pj_error := Some (take 500 e)\<rparr> else r)" by (simp add: row_update_def row_change_def)
  then show ?thesis unfolding updates_def noteError_def update_where_def by (auto intro!: exI)
qed

lemma updates_mono: "updates F j j' \<Longrightarrow> F \<subseteq> G \<Longrightarrow> updates G j j'"
proof -
  assume "updates F j j'" "F \<subseteq> G"
  then obtain f where "row_update F f" "pj_next j' = pj_next j" "pj_rows j' = map f (pj_rows j)" by (auto simp: updates_def)
  moreover have "row_update G f" using \<open>row_update F f\<close> \<open>F \<subseteq> G\<close> by (auto simp: row_update_def row_change_def)
  ultimately show ?thesis by (auto simp: updates_def)
qed

lemma mark_updates:
  "payout_mark i PJ_failed_unsent tx err j = Inr j' \<Longrightarrow> updates {i} j j'"
  "payout_mark i PJ_sent tx err j = Inr j' \<Longrightarrow> updates {} j j'"
  "payout_mark i PJ_confirmed tx err j = Inr j' \<Longrightarrow> updates {} j j'"
  using payout_mark_updates by fastforce+

lemma prepared_updates: "pay_prepared i a j = (res, j') \<Longrightarrow> updates {i} j j'"
  unfolding pay_prepared_def
  by (auto intro: mark_updates(1) updates_mono [OF mark_updates(2)] split: sum.splits)

lemma prepared_sent_updates: "pay_prepared i a j = (Inr sig, j') \<Longrightarrow> updates {} j j'"
  unfolding pay_prepared_def by (auto intro: mark_updates(2) split: sum.splits)

lemma broadcast_updates: "pay_broadcast addr i sig threw j = (res, j') \<Longrightarrow> updates {} j j'"
  unfolding pay_broadcast_def by (auto intro: mark_updates(3) noteError_updates split: sum.splits option.splits)

lemma release_sent_updates:
  assumes "release_sent cfg i sent j = (res, j')" shows "updates {} j j'"
proof (cases sent)
  case (Inl e)
  then show ?thesis using assms noteError_updates by (auto simp: release_sent_def)
next
  case (Inr sig)
  show ?thesis
  proof (cases "payout_mark i PJ_sent (Some sig) None j")
    case (Inr k)
    show ?thesis
    proof (cases "payout_mark i PJ_confirmed None None k")
      case (Inr l)
      then show ?thesis using assms \<open>sent = Inr sig\<close> \<open>payout_mark i PJ_sent (Some sig) None j = Inr k\<close>
          updates_trans [OF mark_updates(2) mark_updates(3)] by (auto simp: release_sent_def)
    qed (use assms \<open>sent = Inr sig\<close> Inr mark_updates(2) in \<open>auto simp: release_sent_def\<close>)
  qed (use assms \<open>sent = Inr sig\<close> in \<open>auto simp: release_sent_def\<close>)
qed

text \<open>Every step has one of two shapes.\<close>

lemma payout_row_ofD: "payout_row_of j i = Some b \<Longrightarrow> b \<in> set (pj_rows j) \<and> pj_id b = i"
  unfolding payout_row_of_def by (drule find_SomeD) simp

lemma prepared_sent_status: "pay_prepared i a j = (Inr sig, j') \<Longrightarrow> b \<in> set (pj_rows j') \<Longrightarrow> pj_id b = i
    \<Longrightarrow> distinct (map pj_id (pj_rows j)) \<Longrightarrow> pj_status b \<noteq> PJ_failed_unsent"
proof -
  assume p: "pay_prepared i a j = (Inr sig, j')" and b: "b \<in> set (pj_rows j')" "pj_id b = i" and d: "distinct (map pj_id (pj_rows j))"
  let ?hit = "\<lambda>r. pj_id r = i \<and> pj_status r \<in> set (allowed_from PJ_sent)"
  let ?f = "\<lambda>r. r\<lparr>pj_status := PJ_sent, pj_tx_signature := coalesce (Some sig) (pj_tx_signature r), pj_error := coalesce None (pj_error r)\<rparr>"
  have m: "payout_mark i PJ_sent (Some sig) None j = Inr j'" using p by (auto simp: pay_prepared_def split: sum.splits)
  then have j': "pj_rows j' = update_where ?hit ?f (pj_rows j)" and one: "length (filter ?hit (pj_rows j)) = 1"
    by (auto simp: payout_mark_def Let_def split: if_splits)
  obtain r where r: "r \<in> set (pj_rows j)" "?hit r"
    using one by (metis (mono_tags, lifting) filter_empty_conv length_0_conv zero_neq_one)
  obtain x where x: "x \<in> set (pj_rows j)" "b = (if ?hit x then ?f x else x)" using b(1) unfolding j' by (rule in_update_whereE)
  have "pj_id x = i" using x(2) b(2) by (auto split: if_splits)
  then have "x = r" using x(1) r d by (auto simp: distinct_map inj_on_def)
  then show ?thesis using x(2) r(2) by simp
qed

definition updating :: "payout_sys \<Rightarrow> payout_row option \<Rightarrow> payout_sys \<Rightarrow> bool" where
  "updating s l s' \<longleftrightarrow> (\<exists>F. updates F (py_journal s) (py_journal s') \<and> F \<subseteq> set (py_preparing s))
     \<and> set (py_preparing s') \<subseteq> set (py_preparing s)
     \<and> (\<forall>b. l = Some b \<longrightarrow> b \<in> set (pj_rows (py_journal s')) \<and> pj_id b \<in> set (py_preparing s) \<and> pj_id b \<notin> set (py_preparing s')
          \<and> (distinct (map pj_id (pj_rows (py_journal s))) \<longrightarrow> pj_status b \<noteq> PJ_failed_unsent))"

definition adding :: "payout_sys \<Rightarrow> payout_row option \<Rightarrow> payout_sys \<Rightarrow> bool" where
  "adding s l s' \<longleftrightarrow> (\<exists>i. adds_row (py_journal s) (py_journal s') i
     \<and> (if l = None then py_preparing s' = i # py_preparing s else py_preparing s' = py_preparing s)
     \<and> (\<forall>b. l = Some b \<longrightarrow> b \<in> set (pj_rows (py_journal s')) \<and> pj_id b = i))"

lemma step_shape: "payout_step P cfg acfg address s l s' \<Longrightarrow> updating s l s' \<or> adding s l s'"
proof (induction rule: payout_step.cases)
  case (pay_reserved pick now a pull s' i j)
  then show ?case using starts_add(1) by (fastforce simp: adding_def)
next
  case (release_handed pick now a pull on_chain s' i j b)
  then show ?case using starts_add(2) [OF release_handed(4)] payout_row_ofD [OF release_handed(5)] by (auto simp: adding_def)
next
  case (pay_not_sent i s' prepared res j)
  then have "updates {i} (py_journal s) j" using prepared_updates by blast
  then show ?case using pay_not_sent by (auto simp: updating_def)
next
  case (pay_sent i s' prepared sig j b)
  then show ?case
    using prepared_sent_updates [OF pay_sent(5)] payout_row_ofD [OF pay_sent(6)] prepared_sent_status [OF pay_sent(5), of b]
    by (auto simp: updating_def)
next
  case (pay_answered i sig threw s' res j)
  then show ?case using broadcast_updates [OF pay_answered(4)] by (auto simp: updating_def)
next
  case (release_answered i sent s' res j)
  then show ?case using release_sent_updates [OF release_answered(4)] by (auto simp: updating_def)
next
  case (pay_refused pick now a pull s' res j)
  then show ?case using starts_refuse(1) [OF pay_refused(4)] by (auto simp: updating_def intro!: exI [of _ "{}"])
next
  case (release_refused pick now a pull on_chain s' res j)
  then show ?case using starts_refuse(2) [OF release_refused(4)] by (auto simp: updating_def intro!: exI [of _ "{}"])
next
  case (crashed s')
  then show ?case by (auto simp: updating_def intro!: exI [of _ "{}"])
qed

section \<open>The payout journal keeps the contract\<close>

definition counts :: "payout_row \<Rightarrow> bool" where
  "counts r \<longleftrightarrow> pj_status r \<noteq> PJ_failed_unsent"

definition row_group :: "payout_row \<Rightarrow> string \<times> string" where
  "row_group r = (pj_currency r, pj_day r)"

lemma committedToday_group:
  "committedToday j c d = sum_list (map row_amount (filter (\<lambda>r. row_group r = (c, d) \<and> counts r) (pj_rows j)))"
  by (simp add: committedToday_def row_group_def counts_def conj_assoc)

lemma committedToday_if:
  "committedToday j c d = sum_list (map (\<lambda>r. if row_group r = (c, d) \<and> counts r then row_amount r else 0) (pj_rows j))"
  unfolding committedToday_group by (induction "pj_rows j") (auto simp: sum_list_map_filter')

lemma row_change_keeps: "row_change F r r' \<Longrightarrow> row_group r' = row_group r \<and> row_amount r' = row_amount r \<and> (counts r' \<longrightarrow> counts r)"
  by (auto simp: row_change_def row_group_def counts_def)

lemma updates_rows:
  "updates F j j' \<Longrightarrow> \<exists>f. pj_rows j' = map f (pj_rows j) \<and> (\<forall>r. row_change F r (f r)) \<and> pj_next j' = pj_next j"
  by (auto simp: updates_def row_update_def)

lemma updates_committed:
  assumes "updates F j j'" "\<forall>r \<in> set (pj_rows j). 0 < row_amount r" shows "committedToday j' c d \<le> committedToday j c d"
proof -
  obtain f where f: "pj_rows j' = map f (pj_rows j)" "\<And>r. row_change F r (f r)" using updates_rows [OF assms(1)] by blast
  show ?thesis
    unfolding committedToday_if f(1) map_map
  proof (rule sum_list_map_mono)
    fix r assume "r \<in> set (pj_rows j)"
    then have "0 \<le> row_amount r" using assms(2) by fastforce
    then show "((\<lambda>r. if row_group r = (c, d) \<and> counts r then row_amount r else 0) \<circ> f) r
        \<le> (if row_group r = (c, d) \<and> counts r then row_amount r else 0)"
      using row_change_keeps [OF f(2) [of r]] by auto
  qed
qed

lemma updating_ok: "updating s l s' \<Longrightarrow> payout_ok s \<Longrightarrow> payout_ok s'"
proof -
  assume u: "updating s l s'" and ok: "payout_ok s"
  obtain F where F: "updates F (py_journal s) (py_journal s')" "set (py_preparing s') \<subseteq> set (py_preparing s)"
    using u by (auto simp: updating_def)
  obtain f where f: "pj_rows (py_journal s') = map f (pj_rows (py_journal s))" "\<And>r. row_change F r (f r)"
      "pj_next (py_journal s') = pj_next (py_journal s)"
    using updates_rows [OF F(1)] by blast
  have same: "pj_id (f r) = pj_id r" "pj_bounty_id (f r) = pj_bounty_id r" "row_amount (f r) = row_amount r" for r
    using f(2) [of r] by (simp_all add: row_change_def)
  have "committedToday (py_journal s') c d \<le> day_limit c" for c d
    using updates_committed [OF F(1), of c d] ok order_trans by (fastforce simp: payout_ok_def Let_def)
  moreover have "pj_id \<circ> f = pj_id" "pj_bounty_id \<circ> f = pj_bounty_id" using same by (simp_all add: fun_eq_iff)
  ultimately show ?thesis using ok F(2) by (auto simp: payout_ok_def Let_def f(1,3) same)
qed

lemma adding_ok: "adding s l s' \<Longrightarrow> payout_ok s \<Longrightarrow> payout_ok s'"
proof -
  assume a: "adding s l s'" and ok: "payout_ok s"
  obtain i where i: "adds_row (py_journal s) (py_journal s') i"
    and p: "if l = None then py_preparing s' = i # py_preparing s else py_preparing s' = py_preparing s"
    using a unfolding adding_def by blast
  have prep: "set (py_preparing s') \<subseteq> insert i (set (py_preparing s))" using p by (cases l) auto
  obtain r where r: "pj_rows (py_journal s') = pj_rows (py_journal s) @ [r]" "pj_next (py_journal s') = pj_next (py_journal s) + 1"
      "i = pj_next (py_journal s)" "pj_id r = i" "0 < row_amount r" "pj_status r = PJ_reserved"
      "committedToday (py_journal s) (pj_currency r) (pj_day r) + row_amount r \<le> day_limit (pj_currency r)"
      "\<forall>x \<in> set (pj_rows (py_journal s)). pj_bounty_id x \<noteq> pj_bounty_id r"
    using i unfolding adds_row_def by blast
  have inv: "distinct (map pj_id (pj_rows (py_journal s)))" "distinct (map pj_bounty_id (pj_rows (py_journal s)))"
    "\<And>x. x \<in> set (pj_rows (py_journal s)) \<Longrightarrow> pj_id x < pj_next (py_journal s) \<and> 0 < row_amount x"
    "\<And>i. i \<in> set (py_preparing s) \<Longrightarrow> i < pj_next (py_journal s)" "\<And>c d. committedToday (py_journal s) c d \<le> day_limit c"
    using ok by (simp_all add: payout_ok_def Let_def)
  have "committedToday (py_journal s') c d \<le> day_limit c" for c d
    using r(1,7) inv(5) [of c d] by (auto simp: committedToday_group row_group_def)
  moreover have "pj_id r \<notin> pj_id ` set (pj_rows (py_journal s))" using inv(3) r(3,4) by fastforce
  moreover have "pj_bounty_id r \<notin> pj_bounty_id ` set (pj_rows (py_journal s))" using r(8) by auto
  moreover have "pj_id x < pj_next (py_journal s') \<and> 0 < row_amount x" if "x \<in> set (pj_rows (py_journal s'))" for x
  proof (cases "x = r")
    case False
    then show ?thesis using that inv(3) [of x] r(1,2) by simp
  qed (use r in simp)
  moreover have "i < pj_next (py_journal s')" if "i \<in> set (py_preparing s')" for i
    using that prep inv(4) [of i] r(2,3) by auto
  ultimately show ?thesis using inv(1,2) unfolding payout_ok_def Let_def r(1) by simp
qed

lemma payout_step_ok: "payout_step P cfg acfg addr s l s' \<Longrightarrow> payout_ok s \<Longrightarrow> payout_ok s'"
  using step_shape updating_ok adding_ok by blast

text \<open>The row of a step, before and after.\<close>

lemma adds_row_member: "adds_row j j' i \<Longrightarrow> r \<in> set (pj_rows j) \<Longrightarrow> r \<in> set (pj_rows j')"
  by (auto simp: adds_row_def)

lemma row_kept:
  assumes "payout_step P cfg acfg addr s l s'" "r \<in> set (pj_rows (py_journal s))" "pj_id r \<notin> set (py_preparing s)" "payout_ok s"
  shows "\<exists>r' \<in> set (pj_rows (py_journal s')). pj_id r' = pj_id r \<and> pj_bounty_id r' = pj_bounty_id r \<and> row_amount r' = row_amount r
     \<and> row_group r' = row_group r \<and> (counts r \<longrightarrow> counts r') \<and> pj_id r \<notin> set (py_preparing s')"
  using step_shape [OF assms(1)]
proof
  assume "updating s l s'"
  then obtain F where F: "updates F (py_journal s) (py_journal s')" "F \<subseteq> set (py_preparing s)" "set (py_preparing s') \<subseteq> set (py_preparing s)"
    by (auto simp: updating_def)
  obtain f where f: "pj_rows (py_journal s') = map f (pj_rows (py_journal s))" "\<And>r. row_change F r (f r)"
    using updates_rows [OF F(1)] by blast
  have "counts r \<longrightarrow> counts (f r)" using f(2) [of r] F(2) assms(3) by (auto simp: row_change_def counts_def)
  then show ?thesis
    using f(2) [of r] assms(2,3) F(3) by (intro bexI [of _ "f r"]) (auto simp: row_change_def row_group_def f(1))
next
  assume "adding s l s'"
  then obtain i where i: "adds_row (py_journal s) (py_journal s') i"
    and p: "if l = None then py_preparing s' = i # py_preparing s else py_preparing s' = py_preparing s"
    unfolding adding_def by blast
  have "pj_id r \<noteq> i" using assms(2,4) i by (fastforce simp: payout_ok_def adds_row_def Let_def)
  then have "pj_id r \<notin> set (py_preparing s')" using p assms(3) by (cases l) auto
  then show ?thesis using adds_row_member [OF i assms(2)] by blast
qed

lemma row_handed:
  assumes "payout_step P cfg acfg addr s (Some b) s'" "payout_ok s"
  shows "b \<in> set (pj_rows (py_journal s')) \<and> pj_id b \<notin> set (py_preparing s') \<and> counts b
    \<and> (\<forall>r \<in> set (pj_rows (py_journal s)). pj_id r = pj_id b \<longrightarrow> pj_id b \<in> set (py_preparing s))"
  using step_shape [OF assms(1)]
proof
  assume "updating s (Some b) s'"
  then show ?thesis using assms(2) by (auto simp: updating_def payout_ok_def counts_def Let_def)
next
  assume "adding s (Some b) s'"
  then obtain i where i: "adds_row (py_journal s) (py_journal s') i" "py_preparing s' = py_preparing s"
    "b \<in> set (pj_rows (py_journal s'))" "pj_id b = i"
    by (auto simp: adding_def)
  have old: "pj_id r < pj_next (py_journal s)" if "r \<in> set (pj_rows (py_journal s))" for r
    using that assms(2) by (simp add: payout_ok_def Let_def)
  have flying: "x < pj_next (py_journal s)" if "x \<in> set (py_preparing s)" for x using that assms(2) by (simp add: payout_ok_def Let_def)
  obtain r where r: "pj_rows (py_journal s') = pj_rows (py_journal s) @ [r]" "i = pj_next (py_journal s)" "pj_status r = PJ_reserved"
    using i(1) unfolding adds_row_def by blast
  have "b = r" using i(3,4) r(1,2) old [of b] by auto
  moreover have "pj_id x \<noteq> i" if "x \<in> set (pj_rows (py_journal s))" for x using old [OF that] r(2) by simp
  moreover have "i \<notin> set (py_preparing s)" using flying r(2) by blast
  ultimately show ?thesis using i r(3) by (simp add: counts_def)
qed

interpretation payouts: pay_final "\<lambda>s. pj_rows (py_journal s)" "\<lambda>s i. i \<notin> set (py_preparing s)" pj_id pj_bounty_id row_amount
  row_group counts "\<lambda>(c, d). day_limit c" payout_ok "payout_step P cfg acfg addr"
  for P cfg acfg addr
proof unfold_locales
  show "payout_ok s \<Longrightarrow> payout_step P cfg acfg addr s l s' \<Longrightarrow> payout_ok s'" for s l s' by (rule payout_step_ok)
  show "distinct (map pj_id (pj_rows (py_journal s))) \<and> distinct (map pj_bounty_id (pj_rows (py_journal s)))" if "payout_ok s" for s
    using that by (simp add: payout_ok_def Let_def)
  show "0 \<le> row_amount r" if "payout_ok s" "r \<in> set (pj_rows (py_journal s))" for s r
    using that by (fastforce simp: payout_ok_def Let_def)
  show "sum_list (map row_amount (filter (\<lambda>r. row_group r = g \<and> counts r) (pj_rows (py_journal s)))) \<le> (case g of (c, d) \<Rightarrow> day_limit c)"
    if "payout_ok s" for s g
  proof (cases g)
    case (Pair c d)
    have "committedToday (py_journal s) c d \<le> day_limit c" using that by (simp add: payout_ok_def Let_def)
    then show ?thesis by (simp add: Pair committedToday_group)
  qed
  show "\<exists>r' \<in> set (pj_rows (py_journal s')). same_payment pj_id pj_bounty_id row_amount row_group r' r \<and> pj_id r \<notin> set (py_preparing s')"
    if "payout_ok s" "payout_step P cfg acfg addr s l s'" "r \<in> set (pj_rows (py_journal s))" "pj_id r \<notin> set (py_preparing s)" for s l s' r
    using row_kept [OF that(2,3,4,1)] by (auto simp: same_payment_def)
  show "b \<in> set (pj_rows (py_journal s')) \<and> pj_id b \<notin> set (py_preparing s')
      \<and> (\<forall>r \<in> set (pj_rows (py_journal s)). pj_id r = pj_id b \<longrightarrow> \<not> pj_id b \<notin> set (py_preparing s))"
    if "payout_ok s" "payout_step P cfg acfg addr s (Some b) s'" for s b s'
    using row_handed [OF that(2,1)] by blast
  show "\<exists>r' \<in> set (pj_rows (py_journal s')). pj_id r' = pj_id r \<and> counts r'"
    if "payout_ok s" "payout_step P cfg acfg addr s l s'" "r \<in> set (pj_rows (py_journal s))" "pj_id r \<notin> set (py_preparing s)" "counts r" for s l s' r
    using row_kept [OF that(2,3,4,1)] that(5) by blast
  show "counts b" if "payout_ok s" "payout_step P cfg acfg addr s (Some b) s'" for s b s'
    using row_handed [OF that(2,1)] by blast
qed

lemma payout_boot_ok: "payout_ok payout_boot"
  by (simp add: payout_ok_def payout_boot_def empty_payout_journal_def committedToday_def day_limit_nonneg)

section \<open>What the payout signer guarantees\<close>


text \<open>
  C2. A payout from the float is reserved only for what a trusted approver signed as a payout from
  the float: this network, the configured mint of the currency, an allowlisted repository, a
  recipient that is an address and not the wallet, an amount within the caps, a pull request merged
  by somebody other than its author, and a bounty never recorded before.
\<close>

theorem payout_is_authorised:
  assumes "pay_start P cfg address pick now (Some a) pull j = (Inr i, j')"
  shows "let t = en_terms a in
    en_approver a \<in> set (ps_trustedApprovers cfg)
    \<and> verifyDetached P (en_approver a) (approvalMessage P (terms_entries t) (en_approved_at a) (en_expires_at a)) (en_signature a)
    \<and> pt_escrow t = None \<and> pt_network t = ps_network cfg \<and> (\<exists>m. ps_mints cfg (pt_currency t) = Some m \<and> mi_mint m = pt_mint t)
    \<and> pt_repo t \<in> set (ps_allowedRepos cfg) \<and> isSolanaAddress P (pt_recipient t) \<and> pt_recipient t \<noteq> address
    \<and> (\<exists>amount h. bigint_of (pt_amount_minor t) = Some amount \<and> 0 < amount \<and> HARD_CAPS (pt_currency t) = Some h
         \<and> amount \<le> perBountyMaxMinor h)
    \<and> (\<exists>pr m. pull = Inr pr \<and> pf_merged pr \<and> to_lower (pf_authorLogin pr) = to_lower (pt_author_login t)
         \<and> pf_mergedByLogin pr = Some m \<and> m \<noteq> [] \<and> to_lower m \<noteq> to_lower (pf_authorLogin pr))
    \<and> pt_bounty_id t \<notin> pj_bounty_id ` set (pj_rows j)"
proof -
  obtain m amount most pr where s: "pay_check P cfg address now a = Inr (m, amount, most)" "pull = Inr pr"
    "pull_refusal (en_terms a) pr = None"
    and r: "payout_reserve pick \<lparr>pa_payoutId = pt_payout_id (en_terms a), pa_bountyId = pt_bounty_id (en_terms a),
         pa_approvalSignature = en_signature a, pa_recipient = pt_recipient (en_terms a), pa_currency = pt_currency (en_terms a),
         pa_amountMinor = amount, pa_day = utc_day now, pa_dailyMaxMinor = dailyMaxMinor most\<rparr> j = (PReservedId i, j')"
    using pay_startD [OF assms] by blast
  note c = pay_checkD [OF s(1)]
  have v: "en_approver a \<in> set (ps_trustedApprovers cfg)"
    "verifyDetached P (en_approver a) (approvalMessage P (terms_entries (en_terms a)) (en_approved_at a) (en_expires_at a)) (en_signature a)"
    using c by (auto simp: verifyApproval_def verifyEnvelope_def approval_entries_def approvalMessage_def split: option.splits if_splits)
  have am: "\<exists>amount h. bigint_of (pt_amount_minor (en_terms a)) = Some amount \<and> 0 < amount \<and> HARD_CAPS (pt_currency (en_terms a)) = Some h
         \<and> amount \<le> perBountyMaxMinor h"
    using capped_amountD [of "ps_caps cfg" "en_terms a" amount most] c by (meson order_trans)
  have pl: "\<exists>pr m. pull = Inr pr \<and> pf_merged pr \<and> to_lower (pf_authorLogin pr) = to_lower (pt_author_login (en_terms a))
         \<and> pf_mergedByLogin pr = Some m \<and> m \<noteq> [] \<and> to_lower m \<noteq> to_lower (pf_authorLogin pr)"
    using s(2,3) by (auto simp: pull_refusal_def split: option.splits if_splits)
  have "pt_bounty_id (en_terms a) \<notin> pj_bounty_id ` set (pj_rows j)"
    using r by (auto simp: payout_reserve_def payout_matches_def filter_empty_conv Let_def split: if_splits)
  then show ?thesis unfolding Let_def using c v am pl by blast
qed

text \<open>
  C6. A release is reserved only when the escrow, read from the chain, names this attestor, is
  assigned to the approved recipient, and holds exactly the approved amount of the approved mint for
  the approved bounty; and the approval was for a release and the pull request is merged at a commit.
\<close>

theorem release_is_authorised:
  assumes "release_start P cfg pick now (Some a) pull on_chain j = (Inr i, j')"
  shows "let t = en_terms a in
    en_approver a \<in> set (at_trustedApprovers cfg)
    \<and> verifyDetached P (en_approver a) (approvalMessage P (terms_entries t) (en_approved_at a) (en_expires_at a)) (en_signature a)
    \<and> (\<exists>x. pt_escrow t = Some x \<and> isSolanaAddress P x) \<and> pt_network t = at_network cfg \<and> pt_repo t \<in> set (at_allowedRepos cfg)
    \<and> (\<exists>e. on_chain = Some e \<and> es_state e = Assigned \<and> b58_encode P (es_attestor e) = at_attestor cfg
         \<and> map_option (b58_encode P) (es_contributor e) = Some (pt_recipient t) \<and> b58_encode P (es_mint e) = pt_mint t
         \<and> bigint_of (pt_amount_minor t) = Some (es_amount e)
         \<and> hex_string (es_bountyId e) = filter (\<lambda>c. c \<noteq> CHR ''-'') (pt_bounty_id t))
    \<and> (\<exists>pr sha. pull = Inr pr \<and> pf_merged pr \<and> pf_mergeCommitSha pr = Some sha \<and> re_test COMMIT_SHA sha)
    \<and> pt_bounty_id t \<notin> pj_bounty_id ` set (pj_rows j)"
proof -
  obtain amount most pr sha where s: "release_check P cfg now a = Inr (amount, most)" "pull = Inr pr"
    "pull_refusal (en_terms a) pr = None" "pf_mergeCommitSha pr = Some sha" "re_test COMMIT_SHA sha"
    "escrow_refusal P cfg (en_terms a) amount on_chain = None"
    and r: "payout_reserve pick \<lparr>pa_payoutId = pt_payout_id (en_terms a), pa_bountyId = pt_bounty_id (en_terms a),
         pa_approvalSignature = en_signature a, pa_recipient = pt_recipient (en_terms a),
         pa_currency = ledgerCurrency cfg (pt_currency (en_terms a)),
         pa_amountMinor = amount, pa_day = utc_day now, pa_dailyMaxMinor = dailyMaxMinor most\<rparr> j = (PReservedId i, j')"
    using release_startD [OF assms] by blast
  note c = release_checkD [OF s(1)]
  have v: "en_approver a \<in> set (at_trustedApprovers cfg)"
    "verifyDetached P (en_approver a) (approvalMessage P (terms_entries (en_terms a)) (en_approved_at a) (en_expires_at a)) (en_signature a)"
    using c by (auto simp: verifyApproval_def verifyEnvelope_def approval_entries_def approvalMessage_def split: option.splits if_splits)
  have am: "bigint_of (pt_amount_minor (en_terms a)) = Some amount" using capped_amountD [of "at_caps cfg" "en_terms a" amount most] c by blast
  have e: "\<exists>e. on_chain = Some e \<and> es_state e = Assigned \<and> b58_encode P (es_attestor e) = at_attestor cfg
         \<and> map_option (b58_encode P) (es_contributor e) = Some (pt_recipient (en_terms a)) \<and> b58_encode P (es_mint e) = pt_mint (en_terms a)
         \<and> bigint_of (pt_amount_minor (en_terms a)) = Some (es_amount e)
         \<and> hex_string (es_bountyId e) = filter (\<lambda>c. c \<noteq> CHR ''-'') (pt_bounty_id (en_terms a))"
    using s(6) am by (auto simp: escrow_refusal_def split: option.splits if_splits)
  have m: "pf_merged pr" using s(3) by (auto simp: pull_refusal_def split: if_splits)
  have "pt_bounty_id (en_terms a) \<notin> pj_bounty_id ` set (pj_rows j)"
    using r by (auto simp: payout_reserve_def payout_matches_def filter_empty_conv Let_def split: if_splits)
  then show ?thesis unfolding Let_def using c v e m s by blast
qed

section \<open>A run\<close>

definition demo_address :: string where
  "demo_address = replicate 32 (CHR ''k'')"

definition demo_payout :: payout_terms where
  "demo_payout = \<lparr>pt_payout_id = ''p'', pt_bounty_id = ''00'', pt_repo = ''r'', pt_issue_number = 1, pt_pr_number = 2,
     pt_author_login = ''Ann'', pt_recipient = replicate 32 (CHR ''w''), pt_amount_minor = ''5'', pt_currency = ''USDC'',
     pt_mint = ''m'', pt_network = ''n'', pt_escrow = None\<rparr>"

definition demo_release :: payout_terms where
  "demo_release = demo_payout\<lparr>pt_escrow := Some (replicate 32 (CHR ''e''))\<rparr>"

definition demo_signed :: "payout_terms \<Rightarrow> payout_terms envelope" where
  "demo_signed t = \<lparr>en_terms = t, en_approver = demo_address, en_approved_at = toISOString 0, en_expires_at = toISOString 3600000,
     en_signature = toy_sign [] (approvalMessage toy (terms_entries t) (toISOString 0) (toISOString 3600000))\<rparr>"

definition demo_payout_cfg :: payout_signer_config where
  "demo_payout_cfg = \<lparr>ps_network = ''n'', ps_mints = (\<lambda>_. Some \<lparr>mi_mint = ''m'', mi_decimals = 6\<rparr>), ps_caps = (\<lambda>_. None),
     ps_allowedRepos = [''r''], ps_trustedApprovers = [demo_address]\<rparr>"

definition demo_attestor_cfg :: attestor_config where
  "demo_attestor_cfg = \<lparr>at_network = ''n'', at_attestor = ''a'', at_allowedRepos = [''r''], at_trustedApprovers = [demo_address],
     at_caps = (\<lambda>_. None)\<rparr>"

definition demo_pull :: pull_facts where
  "demo_pull = \<lparr>pf_merged = True, pf_authorLogin = ''ann'', pf_mergedByLogin = Some ''bob'',
     pf_mergeCommitSha = Some (replicate 40 (CHR ''0''))\<rparr>"

definition demo_on_chain :: escrow_account where
  "demo_on_chain = demo_escrow\<lparr>es_bountyId := [CHR 0x00], es_attestor := ''a'', es_contributor := Some (replicate 32 (CHR ''w'')),
     es_mint := ''m'', es_amount := 5\<rparr>"

definition demo_paid_row :: payout_row where
  "demo_paid_row = \<lparr>pj_id = 1, pj_payout_id = ''p'', pj_bounty_id = ''00'', pj_approval_signature = en_signature (demo_signed demo_payout),
     pj_recipient = replicate 32 (CHR ''w''), pj_currency = ''USDC'', pj_amount_minor = show_int 5, pj_day = utc_day 0,
     pj_status = PJ_reserved, pj_tx_signature = None, pj_error = None\<rparr>"

definition demo_handed_row :: payout_row where
  "demo_handed_row = demo_paid_row\<lparr>pj_status := PJ_sent, pj_tx_signature := Some ''sig''\<rparr>"

lemma demo_signed_ok: "verifyApproval toy (approval_entries (demo_signed t)) [demo_address] 0 = None"
  by (simp add: verifyApproval_def verifyEnvelope_def approval_entries_def demo_signed_def parse_date_def in_era_0
      APPROVAL_TTL_MS_def approvalMessage_def demo_address_def)

lemma demo_five: "bigint_of ''5'' = Some 5"
  by code_simp

lemma demo_capped: "capped_amount (\<lambda>_. None) t = Inr (5, \<lparr>perBountyMaxMinor = 50000000, dailyMaxMinor = 150000000\<rparr>)"
  if "pt_amount_minor t = ''5''" "pt_currency t = ''USDC''"
  using that demo_five by (simp add: capped_amount_def capsFor_def HARD_CAPS_def)

lemma demo_pull_ok: "pull_refusal demo_payout demo_pull = None" "pull_refusal demo_release demo_pull = None"
  by code_simp+

lemma demo_pay_check: "pay_check toy demo_payout_cfg ''k'' 0 (demo_signed demo_payout) =
    Inr (\<lparr>mi_mint = ''m'', mi_decimals = 6\<rparr>, 5, \<lparr>perBountyMaxMinor = 50000000, dailyMaxMinor = 150000000\<rparr>)"
proof -
  have t: "en_terms (demo_signed demo_payout) = demo_payout" by (simp add: demo_signed_def)
  have f: "pt_escrow demo_payout = None" "pt_network demo_payout = ''n''" "pt_currency demo_payout = ''USDC''" "pt_mint demo_payout = ''m''"
    "pt_repo demo_payout = ''r''" "pt_recipient demo_payout = replicate 32 (CHR ''w'')" "pt_amount_minor demo_payout = ''5''"
    by (simp_all add: demo_payout_def)
  have "replicate 32 (CHR ''w'') \<noteq> ''k''" by (simp add: numeral_eq_Suc)
  then show ?thesis
    by (simp add: pay_check_def t f demo_signed_ok demo_capped demo_payout_cfg_def)
qed

lemma demo_pay_start: "pay_start toy demo_payout_cfg ''k'' hd 0 (Some (demo_signed demo_payout)) (Inr demo_pull) empty_payout_journal =
    (Inr 1, \<lparr>pj_rows = [demo_paid_row], pj_next = 2\<rparr>)"
proof -
  have t: "en_terms (demo_signed demo_payout) = demo_payout" by (simp add: demo_signed_def)
  show ?thesis
    by (simp add: pay_start_def demo_pay_check t demo_pull_ok reserved_or_def payout_reserve_def empty_payout_journal_def
        committedToday_def demo_paid_row_def) (simp add: demo_payout_def)
qed

lemma demo_pay_prepared: "pay_prepared 1 (Inr ''sig'') \<lparr>pj_rows = [demo_paid_row], pj_next = 2\<rparr> =
    (Inr ''sig'', \<lparr>pj_rows = [demo_handed_row], pj_next = 2\<rparr>)"
  by (simp add: pay_prepared_def payout_mark_def allowed_from_def demo_paid_row_def demo_handed_row_def coalesce_def)

lemma demo_paying:
  "paying (payout_step toy demo_payout_cfg demo_attestor_cfg ''k'') payout_boot [demo_handed_row]
     \<lparr>py_journal = \<lparr>pj_rows = [demo_handed_row], pj_next = 2\<rparr>, py_preparing = []\<rparr>"
proof -
  let ?s1 = "\<lparr>py_journal = \<lparr>pj_rows = [demo_paid_row], pj_next = 2\<rparr>, py_preparing = [1]\<rparr>"
  let ?s2 = "\<lparr>py_journal = \<lparr>pj_rows = [demo_handed_row], pj_next = 2\<rparr>, py_preparing = []\<rparr>"
  have "payout_step toy demo_payout_cfg demo_attestor_cfg ''k'' payout_boot None ?s1"
    using payout_step.pay_reserved [where s = payout_boot, of toy demo_payout_cfg "''k''" hd 0] demo_pay_start
    by (simp add: payout_boot_def)
  then have "paying (payout_step toy demo_payout_cfg demo_attestor_cfg ''k'') payout_boot [] ?s1"
    by (rule paying.quiet [OF paying.at_start])
  moreover have "payout_step toy demo_payout_cfg demo_attestor_cfg ''k'' ?s1 (Some demo_handed_row) ?s2"
    using payout_step.pay_sent [of 1 ?s1 "Inr ''sig''" "''sig''" "\<lparr>pj_rows = [demo_handed_row], pj_next = 2\<rparr>" demo_handed_row]
      demo_pay_prepared
    by (simp add: payout_row_of_def demo_handed_row_def demo_paid_row_def)
  ultimately show ?thesis by (rule paying.hands_over)
qed


theorem payout_is_authorised_witness: "isSolanaAddress toy (pt_recipient demo_payout) \<and> pt_escrow demo_payout = None"
  using payout_is_authorised [OF demo_pay_start] by (simp add: Let_def demo_signed_def)

lemma demo_release_check: "release_check toy demo_attestor_cfg 0 (demo_signed demo_release) =
    Inr (5, \<lparr>perBountyMaxMinor = 50000000, dailyMaxMinor = 150000000\<rparr>)"
proof -
  have t: "en_terms (demo_signed demo_release) = demo_release" by (simp add: demo_signed_def)
  have f: "pt_escrow demo_release = Some (replicate 32 (CHR ''e''))" "pt_network demo_release = ''n''" "pt_currency demo_release = ''USDC''"
    "pt_repo demo_release = ''r''" "pt_recipient demo_release = replicate 32 (CHR ''w'')" "pt_amount_minor demo_release = ''5''"
    by (simp_all add: demo_release_def demo_payout_def)
  show ?thesis by (simp add: release_check_def t f demo_signed_ok demo_capped demo_attestor_cfg_def)
qed

lemma demo_hex: "hex_string [CHR 0x00] = ''00''"
  by code_simp

lemma demo_escrow_agrees: "escrow_refusal toy demo_attestor_cfg demo_release 5 (Some demo_on_chain) = None"
  by (simp add: escrow_refusal_def demo_on_chain_def demo_escrow_def demo_attestor_cfg_def demo_release_def demo_payout_def
      toy_def demo_hex)

lemma demo_sha: "re_test COMMIT_SHA (replicate 40 (CHR ''0''))"
  by code_simp

lemma demo_release_start:
  "\<exists>j. release_start toy demo_attestor_cfg hd 0 (Some (demo_signed demo_release)) (Inr demo_pull) (Some demo_on_chain)
     empty_payout_journal = (Inr 1, j)"
proof -
  have t: "en_terms (demo_signed demo_release) = demo_release" by (simp add: demo_signed_def)
  have s: "pf_mergeCommitSha demo_pull = Some (replicate 40 (CHR ''0''))" by (simp add: demo_pull_def)
  show ?thesis
    by (simp add: release_start_def demo_release_check t demo_pull_ok s demo_sha demo_escrow_agrees reserved_or_def payout_reserve_def
        empty_payout_journal_def committedToday_def)
qed

theorem release_is_authorised_witness: "map_option (b58_encode toy) (es_contributor demo_on_chain) = Some (pt_recipient demo_release)"
proof -
  obtain j where "release_start toy demo_attestor_cfg hd 0 (Some (demo_signed demo_release)) (Inr demo_pull) (Some demo_on_chain)
     empty_payout_journal = (Inr 1, j)" using demo_release_start by blast
  then show ?thesis using release_is_authorised by (fastforce simp: Let_def demo_signed_def)
qed

end
