(* ===== verification/GrainhackSigner.thy ===== *)
theory GrainhackSigner
  imports GrainhackApproval PayOnce
begin

text \<open>
  services/signer/src/grainhack: the journal of hackathon payouts (journal.ts), its caps (caps.ts), the
  decision to pay one winner (grainhack-signer.ts) and the resolution of an unknown outcome from the
  chain (resolve.ts). Each journal operation is one transaction; what violates a constraint throws and
  leaves the file as it was.
\<close>

section \<open>The journal\<close>

datatype gh_status = GH_reserved | GH_sent | GH_confirmed | GH_unknown | GH_failed_unsent

record reservation =
  rv_payoutId :: string
  rv_approvalSignature :: string
  rv_approver :: string
  rv_statementId :: string
  rv_statementSha256 :: string
  rv_hackathonId :: string
  rv_pool :: string
  rv_githubUserId :: jsnum
  rv_login :: string
  rv_recipient :: string
  rv_currency :: string
  rv_network :: string
  rv_mint :: string
  rv_amountMinor :: bigint
  rv_day :: string

record gh_row =
  gh_id :: nat
  gh_payout_id :: string
  gh_approval_signature :: string
  gh_approver :: string
  gh_statement_id :: string
  gh_statement_sha256 :: string
  gh_hackathon_id :: string
  gh_pool :: string
  gh_github_user_id :: jsnum
  gh_login :: string
  gh_recipient :: string
  gh_currency :: string
  gh_network :: string
  gh_mint :: string
  gh_amount_minor :: string
  gh_day :: string
  gh_row_status :: gh_status
  gh_tx_signature :: string
  gh_last_valid_block_height :: "jsnum option"
  gh_error :: "string option"
  gh_resolved_by :: "string option"
  gh_resolved_reason :: "string option"
  gh_resolved_at :: "time_ms option"
  gh_resolution :: "string option"
  gh_created_at :: time_ms
  gh_updated_at :: time_ms

record gh_transition =
  tr_row :: nat
  tr_from :: "gh_status option"
  tr_to :: gh_status
  tr_actor :: string
  tr_reason :: "string option"
  tr_at :: time_ms

record gh_journal =
  gj_rows :: "gh_row list"
  gj_transitions :: "gh_transition list"
  gj_next :: nat

definition empty_gh_journal :: gh_journal where
  "empty_gh_journal = \<lparr>gj_rows = [], gj_transitions = [], gj_next = 1\<rparr>"

record cap_limits =
  cl_eventMaxMinor :: bigint
  cl_dailyMaxMinor :: bigint

definition AUTO :: "gh_status \<Rightarrow> gh_status list" where
  "AUTO s = (case s of GH_reserved \<Rightarrow> [] | GH_sent \<Rightarrow> [GH_reserved] | GH_confirmed \<Rightarrow> [GH_sent] | GH_unknown \<Rightarrow> [GH_sent]
     | GH_failed_unsent \<Rightarrow> [])"

definition committedToEvent :: "gh_journal \<Rightarrow> string \<Rightarrow> string \<Rightarrow> string \<Rightarrow> string \<Rightarrow> bigint" where
  "committedToEvent j hackathonId pool currency network =
     sum_list (map (\<lambda>r. amount_of (gh_amount_minor r))
       (filter (\<lambda>r. gh_hackathon_id r = hackathonId \<and> gh_pool r = pool \<and> gh_currency r = currency \<and> gh_network r = network
          \<and> gh_row_status r \<noteq> GH_failed_unsent) (gj_rows j)))"

definition committedOnDay :: "gh_journal \<Rightarrow> string \<Rightarrow> string \<Rightarrow> string \<Rightarrow> bigint" where
  "committedOnDay j currency network day =
     sum_list (map (\<lambda>r. amount_of (gh_amount_minor r))
       (filter (\<lambda>r. gh_currency r = currency \<and> gh_network r = network \<and> gh_day r = day
          \<and> gh_row_status r \<noteq> GH_failed_unsent) (gj_rows j)))"

definition forWinner :: "gh_journal \<Rightarrow> string \<Rightarrow> string \<Rightarrow> jsnum \<Rightarrow> gh_row option" where
  "forWinner j hackathonId pool userId =
     find (\<lambda>r. gh_hackathon_id r = hackathonId \<and> gh_pool r = pool \<and> gh_github_user_id r = userId) (gj_rows j)"

definition byPayoutId :: "gh_journal \<Rightarrow> string \<Rightarrow> gh_row option" where
  "byPayoutId j payoutId = find (\<lambda>r. gh_payout_id r = payoutId) (gj_rows j)"

datatype gh_refusal = Event_cap bigint bigint bigint | Daily_cap bigint string bigint bigint | Winner_recorded gh_row | Same_recorded gh_row

text \<open>The last query names no order: which row comes first is the database's choice, \<open>pick\<close>.\<close>

definition gh_check :: "(gh_row list \<Rightarrow> gh_row) \<Rightarrow> reservation \<Rightarrow> cap_limits \<Rightarrow> gh_journal \<Rightarrow> gh_refusal option" where
  "gh_check pick r limits j =
     (let event = committedToEvent j (rv_hackathonId r) (rv_pool r) (rv_currency r) (rv_network r) in
      if event + rv_amountMinor r > cl_eventMaxMinor limits then Some (Event_cap event (rv_amountMinor r) (cl_eventMaxMinor limits))
      else let today = committedOnDay j (rv_currency r) (rv_network r) (rv_day r) in
      if today + rv_amountMinor r > cl_dailyMaxMinor limits
        then Some (Daily_cap today (rv_day r) (rv_amountMinor r) (cl_dailyMaxMinor limits))
      else (case forWinner j (rv_hackathonId r) (rv_pool r) (rv_githubUserId r) of
          Some winner \<Rightarrow> Some (Winner_recorded winner)
        | None \<Rightarrow>
            (let same = filter (\<lambda>x. gh_payout_id x = rv_payoutId r \<or> gh_approval_signature x = rv_approvalSignature r) (gj_rows j)
             in if same \<noteq> [] then Some (Same_recorded (pick same)) else None)))"

datatype gh_journal_error = Illegal_gh_transition nat "gh_status option" gh_status | Gh_signature_taken
  | Needs_actor_and_reason | No_journal_row string

definition new_gh_row :: "time_ms \<Rightarrow> nat \<Rightarrow> reservation \<Rightarrow> string \<Rightarrow> jsnum option \<Rightarrow> gh_row" where
  "new_gh_row now i r tx lastValid =
     \<lparr>gh_id = i, gh_payout_id = rv_payoutId r, gh_approval_signature = rv_approvalSignature r, gh_approver = rv_approver r,
      gh_statement_id = rv_statementId r, gh_statement_sha256 = rv_statementSha256 r, gh_hackathon_id = rv_hackathonId r,
      gh_pool = rv_pool r, gh_github_user_id = rv_githubUserId r, gh_login = rv_login r, gh_recipient = rv_recipient r,
      gh_currency = rv_currency r, gh_network = rv_network r, gh_mint = rv_mint r, gh_amount_minor = show_int (rv_amountMinor r),
      gh_day = rv_day r, gh_row_status = GH_reserved, gh_tx_signature = tx, gh_last_valid_block_height = lastValid,
      gh_error = None, gh_resolved_by = None, gh_resolved_reason = None, gh_resolved_at = None, gh_resolution = None,
      gh_created_at = now, gh_updated_at = now\<rparr>"

definition gh_reserve :: "(gh_row list \<Rightarrow> gh_row) \<Rightarrow> time_ms \<Rightarrow> reservation \<Rightarrow> string \<Rightarrow> jsnum option \<Rightarrow> cap_limits \<Rightarrow> gh_journal
    \<Rightarrow> gh_journal_error + (gh_refusal + nat) \<times> gh_journal" where
  "gh_reserve pick now r tx lastValid limits j =
     (case gh_check pick r limits j of
        Some refused \<Rightarrow> Inr (Inl refused, j)
      | None \<Rightarrow>
          if \<exists>x \<in> set (gj_rows j). gh_tx_signature x = tx then Inl Gh_signature_taken
          else Inr (Inr (gj_next j),
            j\<lparr>gj_rows := gj_rows j @ [new_gh_row now (gj_next j) r tx lastValid],
              gj_transitions := gj_transitions j @ [\<lparr>tr_row = gj_next j, tr_from = None, tr_to = GH_reserved,
                tr_actor = ''grainhack-signer'', tr_reason = None, tr_at = now\<rparr>],
              gj_next := gj_next j + 1\<rparr>))"

definition coalesce_text :: "string option \<Rightarrow> string option \<Rightarrow> string option" where
  "coalesce_text a b = (case a of None \<Rightarrow> b | Some x \<Rightarrow> Some x)"

definition gh_row_of :: "gh_journal \<Rightarrow> nat \<Rightarrow> gh_row option" where
  "gh_row_of j i = find (\<lambda>r. gh_id r = i) (gj_rows j)"

text \<open>A \<open>resolution\<close> is given when a person resolves; an empty error text is no error.\<close>

definition transition :: "time_ms \<Rightarrow> nat \<Rightarrow> gh_status \<Rightarrow> gh_status list \<Rightarrow> string \<Rightarrow> string option \<Rightarrow> string option
    \<Rightarrow> string option \<Rightarrow> gh_journal \<Rightarrow> gh_journal_error + gh_journal" where
  "transition now i to_status allowed actor reason err resolution j =
     (case gh_row_of j i of
        None \<Rightarrow> Inl (Illegal_gh_transition i None to_status)
      | Some cur \<Rightarrow>
          if gh_row_status cur \<notin> set allowed then Inl (Illegal_gh_transition i (Some (gh_row_status cur)) to_status)
          else let resolving = (resolution \<noteq> None);
                   e = (case err of None \<Rightarrow> None | Some t \<Rightarrow> if t = [] then None else Some (take 500 t)) in
            Inr (j\<lparr>gj_rows := update_where (\<lambda>r. gh_id r = i)
                     (\<lambda>r. r\<lparr>gh_row_status := to_status, gh_error := coalesce_text e (gh_error r), gh_updated_at := now,
                        gh_resolved_by := (if resolving then Some actor else gh_resolved_by r),
                        gh_resolved_reason := (if resolving then reason else gh_resolved_reason r),
                        gh_resolved_at := (if resolving then Some now else gh_resolved_at r),
                        gh_resolution := coalesce_text resolution (gh_resolution r)\<rparr>) (gj_rows j),
                   gj_transitions := gj_transitions j @ [\<lparr>tr_row = i, tr_from = Some (gh_row_status cur), tr_to = to_status,
                     tr_actor = actor, tr_reason = reason, tr_at = now\<rparr>]\<rparr>))"

definition gh_mark :: "time_ms \<Rightarrow> nat \<Rightarrow> gh_status \<Rightarrow> string option \<Rightarrow> gh_journal \<Rightarrow> gh_journal_error + gh_journal" where
  "gh_mark now i status err j = transition now i status (AUTO status) ''grainhack-signer'' None err None j"

text \<open>\<open>to\<close> is confirmed or failed_unsent.\<close>

definition gh_resolve :: "time_ms \<Rightarrow> string \<Rightarrow> gh_status \<Rightarrow> string \<Rightarrow> string \<Rightarrow> string \<Rightarrow> gh_journal \<Rightarrow> gh_journal_error + gh_journal" where
  "gh_resolve now payoutId to_status actor reason evidence j =
     (if js_trim actor = [] \<or> js_trim reason = [] then Inl Needs_actor_and_reason
      else (case byPayoutId j payoutId of
          None \<Rightarrow> Inl (No_journal_row payoutId)
        | Some row \<Rightarrow>
            transition now (gh_id row) to_status [GH_reserved, GH_sent, GH_unknown] actor (Some reason) None (Some evidence) j))"

definition gh_transitions :: "gh_journal \<Rightarrow> string \<Rightarrow> gh_transition list" where
  "gh_transitions j payoutId =
     (case byPayoutId j payoutId of None \<Rightarrow> [] | Some p \<Rightarrow> filter (\<lambda>t. tr_row t = gh_id p) (gj_transitions j))"

section \<open>Caps\<close>

record gh_caps =
  gc_perPayoutMaxMinor :: bigint
  gc_perEventMaxMinor :: bigint
  gc_dailyMaxMinor :: bigint

record gh_lower_caps =
  lc_perPayoutMaxMinor :: "bigint option"
  lc_perEventMaxMinor :: "bigint option"
  lc_dailyMaxMinor :: "bigint option"

definition GRAINHACK_HARD_CAPS :: "string \<Rightarrow> gh_caps option" where
  "GRAINHACK_HARD_CAPS currency =
     (if currency = ''USDC'' then Some \<lparr>gc_perPayoutMaxMinor = 500000000, gc_perEventMaxMinor = 5000000000, gc_dailyMaxMinor = 2500000000\<rparr>
      else None)"

definition lower_cap :: "bigint \<Rightarrow> bigint option \<Rightarrow> bigint" where
  "lower_cap hard configured = (case configured of None \<Rightarrow> hard | Some c \<Rightarrow> if c > 0 \<and> c < hard then c else hard)"

definition no_caps :: gh_lower_caps where
  "no_caps = \<lparr>lc_perPayoutMaxMinor = None, lc_perEventMaxMinor = None, lc_dailyMaxMinor = None\<rparr>"

definition grainhackCapsFor :: "string \<Rightarrow> gh_lower_caps option \<Rightarrow> gh_caps option" where
  "grainhackCapsFor currency configured =
     (case GRAINHACK_HARD_CAPS currency of
        None \<Rightarrow> None
      | Some hard \<Rightarrow>
          (let c = (case configured of None \<Rightarrow> no_caps | Some x \<Rightarrow> x) in
           Some \<lparr>gc_perPayoutMaxMinor = lower_cap (gc_perPayoutMaxMinor hard) (lc_perPayoutMaxMinor c),
                 gc_perEventMaxMinor = lower_cap (gc_perEventMaxMinor hard) (lc_perEventMaxMinor c),
                 gc_dailyMaxMinor = lower_cap (gc_dailyMaxMinor hard) (lc_dailyMaxMinor c)\<rparr>))"

section \<open>Paying a winner\<close>

record gh_mint =
  gm_mint :: string
  gm_decimals :: int

record gh_config =
  gf_network :: string
  gf_mints :: "string \<Rightarrow> gh_mint option"
  gf_lower :: "string \<Rightarrow> gh_lower_caps option"
  gf_approvers :: "string list"
  gf_resultsPubkey :: string

text \<open>A request as read from JSON: the terms are any value, absent with the approval.\<close>

record gh_request =
  gq_approval :: "json envelope option"
  gq_statement :: "string option"
  gq_statement_signature :: "string option"

datatype gh_error =
    Bad_terms terms_error | Gh_approval approval_refusal | Gh_statement statement_refusal | Statement_sha_differs
  | Statement_id_differs string string | Statement_event_differs | Gh_network string string string | Gh_currency string string
  | Gh_mint string string | No_line jsnum | Line_not_payable string | Line_amount_differs string string
  | Line_login_differs string string | Gh_recipient_not_address | Gh_recipient_is_float | Gh_no_caps string
  | Per_payout_cap bigint bigint | Gh_not_built string | Gh_outcome_unknown string string | By_journal gh_refusal
  | Gh_journal_threw gh_journal_error

datatype gh_outcome = GhPaid string string | GhRefused int gh_error

definition refused_by_journal :: "gh_refusal \<Rightarrow> gh_outcome" where
  "refused_by_journal r =
     GhRefused (case r of Event_cap _ _ _ \<Rightarrow> 403 | Daily_cap _ _ _ _ \<Rightarrow> 403 | Winner_recorded _ \<Rightarrow> 409 | Same_recorded _ \<Rightarrow> 409) (By_journal r)"

definition gh_entries :: "json envelope \<Rightarrow> entries envelope" where
  "gh_entries a = \<lparr>en_terms = entries_of (en_terms a), en_approver = en_approver a, en_approved_at = en_approved_at a,
     en_expires_at = en_expires_at a, en_signature = en_signature a\<rparr>"

text \<open>Checks 1 to 5, on the approval and the statement.\<close>

definition gh_documents :: "platform \<Rightarrow> gh_config \<Rightarrow> string \<Rightarrow> time_ms \<Rightarrow> gh_request
    \<Rightarrow> gh_outcome + grainhack_terms \<times> results_statement \<times> gh_mint \<times> json envelope" where
  "gh_documents P cfg address now req =
     (let tj = (case gq_approval req of None \<Rightarrow> JNull | Some a \<Rightarrow> en_terms a) in
      case checkGrainhackTermsShape P tj of
        Some e \<Rightarrow> Inl (GhRefused 400 (Bad_terms e))
      | None \<Rightarrow>
      (case gq_approval req of
        None \<Rightarrow> Inl (GhRefused 400 (Bad_terms Missing_approval_terms))
      | Some a \<Rightarrow>
      (case verifyGrainhackApproval P (gh_entries a) (gf_approvers cfg) now of
        Some e \<Rightarrow> Inl (GhRefused 403 (Gh_approval e))
      | None \<Rightarrow>
      (case verifyStatement P (gq_statement req) (gq_statement_signature req) (gf_resultsPubkey cfg) of
        Inl e \<Rightarrow> Inl (GhRefused 403 (Gh_statement e))
      | Inr (st, sha) \<Rightarrow>
          let t = grainhack_terms_of (entries_of tj) in
          if sha \<noteq> gt_statement_sha256 t then Inl (GhRefused 403 Statement_sha_differs)
          else if rs_statement_id st \<noteq> gt_statement_id t then Inl (GhRefused 403 (Statement_id_differs (rs_statement_id st) (gt_statement_id t)))
          else if rs_hackathon_id st \<noteq> gt_hackathon_id t \<or> rs_pool st \<noteq> gt_pool t then Inl (GhRefused 403 Statement_event_differs)
          else if rs_network st \<noteq> gf_network cfg \<or> gt_network t \<noteq> gf_network cfg
            then Inl (GhRefused 403 (Gh_network (rs_network st) (gt_network t) (gf_network cfg)))
          else if rs_currency st \<noteq> gt_currency t then Inl (GhRefused 403 (Gh_currency (rs_currency st) (gt_currency t)))
          else (case gf_mints cfg (gt_currency t) of
              None \<Rightarrow> Inl (GhRefused 403 (Gh_mint (gt_mint t) (gt_currency t)))
            | Some mint \<Rightarrow>
                if gm_mint mint \<noteq> gt_mint t then Inl (GhRefused 403 (Gh_mint (gt_mint t) (gt_currency t)))
                else (case lineFor st (gt_github_user_id t) of
                    None \<Rightarrow> Inl (GhRefused 403 (No_line (gt_github_user_id t)))
                  | Some line \<Rightarrow>
                      if sl_status line \<noteq> ''payable'' then Inl (GhRefused 403 (Line_not_payable (sl_status line)))
                      else if sl_amount_minor line \<noteq> gt_amount_minor t
                        then Inl (GhRefused 403 (Line_amount_differs (gt_amount_minor t) (sl_amount_minor line)))
                      else if sl_login line \<noteq> gt_login t then Inl (GhRefused 403 (Line_login_differs (gt_login t) (sl_login line)))
                      else if \<not> isSolanaAddress P (gt_recipient t) then Inl (GhRefused 400 Gh_recipient_not_address)
                      else if gt_recipient t = address then Inl (GhRefused 403 Gh_recipient_is_float)
                      else Inr (t, st, mint, a)))))))"

text \<open>Check 6 up to the journal: the reservation asked for, and its limits.\<close>

definition gh_reservation :: "platform \<Rightarrow> gh_config \<Rightarrow> string \<Rightarrow> time_ms \<Rightarrow> gh_request
    \<Rightarrow> gh_outcome + reservation \<times> cap_limits" where
  "gh_reservation P cfg address now req =
     (case gh_documents P cfg address now req of
        Inl e \<Rightarrow> Inl e
      | Inr (t, st, mint, a) \<Rightarrow>
          (case grainhackCapsFor (gt_currency t) (gf_lower cfg (gt_currency t)) of
             None \<Rightarrow> Inl (GhRefused 403 (Gh_no_caps (gt_currency t)))
           | Some most \<Rightarrow>
               (let amount = amount_of (gt_amount_minor t); poolMinor = amount_of (rs_pool_minor st) in
                if amount \<le> 0 \<or> amount > gc_perPayoutMaxMinor most
                then Inl (GhRefused 403 (Per_payout_cap amount (gc_perPayoutMaxMinor most)))
                else Inr (\<lparr>rv_payoutId = gt_payout_id t, rv_approvalSignature = en_signature a, rv_approver = en_approver a,
                    rv_statementId = rs_statement_id st, rv_statementSha256 = gt_statement_sha256 t,
                    rv_hackathonId = gt_hackathon_id t, rv_pool = gt_pool t, rv_githubUserId = gt_github_user_id t,
                    rv_login = gt_login t, rv_recipient = gt_recipient t, rv_currency = gt_currency t, rv_network = gf_network cfg,
                    rv_mint = gm_mint mint, rv_amountMinor = amount, rv_day = utc_day now\<rparr>,
                  \<lparr>cl_eventMaxMinor = (if poolMinor < gc_perEventMaxMinor most then poolMinor else gc_perEventMaxMinor most),
                   cl_dailyMaxMinor = gc_dailyMaxMinor most\<rparr>))))"

text \<open>Up to the wait for the transfer: an answer, or the reservation to build it for. Nothing is written.\<close>

definition gh_pay_start :: "platform \<Rightarrow> gh_config \<Rightarrow> string \<Rightarrow> (gh_row list \<Rightarrow> gh_row) \<Rightarrow> time_ms \<Rightarrow> gh_request \<Rightarrow> gh_journal
    \<Rightarrow> gh_outcome + reservation \<times> cap_limits" where
  "gh_pay_start P cfg address pick now req j =
     (case gh_reservation P cfg address now req of
        Inl e \<Rightarrow> Inl e
      | Inr (r, limits) \<Rightarrow>
          (let asked = (case gh_check pick r limits j of Some refused \<Rightarrow> Inl (refused_by_journal refused) | None \<Rightarrow> Inr (r, limits)) in
           case byPayoutId j (rv_payoutId r) of
             Some replay \<Rightarrow>
               if gh_approval_signature replay = rv_approvalSignature r \<and> gh_row_status replay = GH_confirmed
               then Inl (GhPaid (gh_tx_signature replay) address) else asked
           | None \<Rightarrow> asked))"

text \<open>The transfer was built, with its signature and last valid height, or was not: reserve, mark it sent and broadcast it.\<close>

definition gh_pay_built :: "(gh_row list \<Rightarrow> gh_row) \<Rightarrow> time_ms \<Rightarrow> reservation \<Rightarrow> cap_limits \<Rightarrow> string + string \<times> jsnum option \<Rightarrow> gh_journal
    \<Rightarrow> (gh_outcome + nat) \<times> gh_journal" where
  "gh_pay_built pick now r limits prepared j =
     (case prepared of
        Inl e \<Rightarrow> (Inl (GhRefused 422 (Gh_not_built e)), j)
      | Inr (sig, lastValid) \<Rightarrow>
          (case gh_reserve pick now r sig lastValid limits j of
             Inl e \<Rightarrow> (Inl (GhRefused 400 (Gh_journal_threw e)), j)
           | Inr (Inl refused, j') \<Rightarrow> (Inl (refused_by_journal refused), j')
           | Inr (Inr i, j') \<Rightarrow>
               (case gh_mark now i GH_sent None j' of
                  Inl e \<Rightarrow> (Inl (GhRefused 400 (Gh_journal_threw e)), j')
                | Inr j'' \<Rightarrow> (Inr i, j''))))"

definition gh_pay_answered :: "string \<Rightarrow> time_ms \<Rightarrow> nat \<Rightarrow> string \<Rightarrow> string option \<Rightarrow> gh_journal \<Rightarrow> gh_outcome \<times> gh_journal" where
  "gh_pay_answered address now i sig threw j =
     (case threw of
        Some e \<Rightarrow>
          (case gh_mark now i GH_unknown (Some e) j of
             Inl x \<Rightarrow> (GhRefused 400 (Gh_journal_threw x), j)
           | Inr j' \<Rightarrow> (GhRefused 502 (Gh_outcome_unknown sig e), j'))
      | None \<Rightarrow>
          (case gh_mark now i GH_confirmed None j of
             Inl x \<Rightarrow> (GhRefused 400 (Gh_journal_threw x), j)
           | Inr j' \<Rightarrow> (GhPaid sig address, j')))"

section \<open>Resolving an unknown outcome\<close>

text \<open>What the chain says of a signature. \<open>err\<close> is absent when the transaction landed without error.\<close>

datatype chain_status = Not_found (finalized_height: jsnum) | Found (chain_err: "json option") (commitment: "string option") (chain_slot: jsnum)

datatype resolve_why = Already gh_status | Seen_only "string option" | Landed | Landed_with_error json | No_height
  | Blockhash_expired jsnum jsnum | May_still_land jsnum jsnum

definition gh_decide :: "gh_row \<Rightarrow> chain_status \<Rightarrow> gh_status option \<times> resolve_why" where
  "gh_decide row chain =
     (if gh_row_status row = GH_confirmed \<or> gh_row_status row = GH_failed_unsent then (None, Already (gh_row_status row))
      else (case chain of
          Found err c s \<Rightarrow>
            if c \<noteq> Some ''confirmed'' \<and> c \<noteq> Some ''finalized'' then (None, Seen_only c)
            else (case err of
                None \<Rightarrow> (Some GH_confirmed, Landed)
              | Some JNull \<Rightarrow> (Some GH_confirmed, Landed)
              | Some e \<Rightarrow> (Some GH_failed_unsent, Landed_with_error e))
        | Not_found height \<Rightarrow>
            (case gh_last_valid_block_height row of
               None \<Rightarrow> (None, No_height)
             | Some h \<Rightarrow> if height > h then (Some GH_failed_unsent, Blockhash_expired height h) else (None, May_still_land h height))))"

text \<open>\<open>status\<close> is the chain's answer for a signature; the evidence recorded is its text.\<close>

definition resolvePayout :: "(string \<Rightarrow> chain_status) \<Rightarrow> (chain_status \<Rightarrow> resolve_why \<Rightarrow> string) \<Rightarrow> time_ms \<Rightarrow> string \<Rightarrow> string \<Rightarrow> string
    \<Rightarrow> gh_journal \<Rightarrow> (gh_journal_error + bool \<times> resolve_why) \<times> gh_journal" where
  "resolvePayout status evidence now payoutId actor reason j =
     (if js_trim actor = [] \<or> js_trim reason = [] then (Inl Needs_actor_and_reason, j)
      else (case byPayoutId j payoutId of
          None \<Rightarrow> (Inl (No_journal_row payoutId), j)
        | Some row \<Rightarrow>
            (let chain = status (gh_tx_signature row) in
             case gh_decide row chain of
               (None, why) \<Rightarrow> (Inr (False, why), j)
             | (Some to_status, why) \<Rightarrow>
                 (case gh_resolve now payoutId to_status actor reason (evidence chain why) j of
                    Inl e \<Rightarrow> (Inl e, j)
                  | Inr j' \<Rightarrow> (Inr (True, why), j')))))"

end
