(* ===== verification/GrainhackSafety.thy ===== *)
theory GrainhackSafety
  imports GrainhackSigner
begin

text \<open>
  What the hackathon signer of services/signer/src/grainhack promises over every interleaving of
  payments, answers, failures and resolutions by a person: one payout per winner, the caps per event
  and per day, and a history of every row that only the documented transitions wrote.
\<close>

section \<open>Payments and resolutions interleaved over one journal\<close>

text \<open>
  The label of a step is the row whose transaction it hands to the network. Between the decision to
  pay and the reservation any other step may run, so a reservation may be for any request that passed
  the checks on its documents.
\<close>

inductive gh_step :: "platform \<Rightarrow> gh_config \<Rightarrow> string \<Rightarrow> gh_journal \<Rightarrow> gh_row option \<Rightarrow> gh_journal \<Rightarrow> bool" for P cfg address where
  gh_handed: "gh_reservation P cfg address t0 req = Inr (r, limits) \<Longrightarrow> gh_pay_built pick now r limits prepared j = (Inr i, j') \<Longrightarrow>
     gh_row_of j' i = Some b \<Longrightarrow> gh_step P cfg address j (Some b) j'"
| gh_refused: "gh_reservation P cfg address t0 req = Inr (r, limits) \<Longrightarrow> gh_pay_built pick now r limits prepared j = (Inl res, j') \<Longrightarrow>
     gh_step P cfg address j None j'"
| gh_answered: "gh_pay_answered address now i sig threw j = (res, j') \<Longrightarrow> gh_step P cfg address j None j'"
| gh_resolved: "resolvePayout status evidence now payoutId actor reason j = (res, j') \<Longrightarrow> gh_step P cfg address j None j'"

section \<open>The history of a row\<close>

text \<open>
  The changes there are: the payment path's own, which give no reason, and a person's, which must, and
  only ever end an open row.
\<close>

definition given :: "string option \<Rightarrow> bool" where
  "given reason \<longleftrightarrow> (case reason of None \<Rightarrow> False | Some s \<Rightarrow> js_trim s \<noteq> [])"

definition legal_change :: "gh_transition \<Rightarrow> bool" where
  "legal_change t \<longleftrightarrow>
     (case tr_from t of
        None \<Rightarrow> tr_to t = GH_reserved
      | Some s \<Rightarrow>
          (s, tr_to t) \<in> {(GH_reserved, GH_sent), (GH_sent, GH_confirmed), (GH_sent, GH_unknown)}
          \<or> (s \<in> {GH_reserved, GH_sent, GH_unknown} \<and> tr_to t \<in> {GH_confirmed, GH_failed_unsent} \<and> given (tr_reason t)))"

fun legal_history :: "gh_status option \<Rightarrow> gh_transition list \<Rightarrow> gh_status option \<Rightarrow> bool" where
  "legal_history s [] e \<longleftrightarrow> s = e"
| "legal_history s (t # ts) e \<longleftrightarrow> tr_from t = s \<and> legal_change t \<and> legal_history (Some (tr_to t)) ts e"

lemma legal_history_snoc:
  "legal_history s ts m \<Longrightarrow> tr_from t = m \<Longrightarrow> legal_change t \<Longrightarrow> legal_history s (ts @ [t]) (Some (tr_to t))"
  by (induction ts arbitrary: s) auto

section \<open>The invariant\<close>

abbreviation gh_amount :: "gh_row \<Rightarrow> bigint" where
  "gh_amount r \<equiv> amount_of (gh_amount_minor r)"

definition gh_winner :: "gh_row \<Rightarrow> string \<times> string \<times> jsnum" where
  "gh_winner r = (gh_hackathon_id r, gh_pool r, gh_github_user_id r)"

definition gh_live :: "gh_row \<Rightarrow> bool" where
  "gh_live r \<longleftrightarrow> gh_row_status r \<noteq> GH_failed_unsent"

definition event_group :: "gh_row \<Rightarrow> string \<times> string \<times> string \<times> string" where
  "event_group r = (gh_hackathon_id r, gh_pool r, gh_currency r, gh_network r)"

definition day_group :: "gh_row \<Rightarrow> string \<times> string \<times> string" where
  "day_group r = (gh_currency r, gh_network r, gh_day r)"

definition gh_event_limit :: "string \<Rightarrow> bigint" where
  "gh_event_limit c = (case GRAINHACK_HARD_CAPS c of Some h \<Rightarrow> gc_perEventMaxMinor h | None \<Rightarrow> 0)"

definition gh_day_limit :: "string \<Rightarrow> bigint" where
  "gh_day_limit c = (case GRAINHACK_HARD_CAPS c of Some h \<Rightarrow> gc_dailyMaxMinor h | None \<Rightarrow> 0)"

definition rows_ok :: "gh_journal \<Rightarrow> bool" where
  "rows_ok j \<longleftrightarrow> distinct (map gh_id (gj_rows j)) \<and> distinct (map gh_winner (gj_rows j))
     \<and> (\<forall>r \<in> set (gj_rows j). gh_id r < gj_next j \<and> 0 < gh_amount r)"

definition caps_ok :: "gh_journal \<Rightarrow> bool" where
  "caps_ok j \<longleftrightarrow> (\<forall>h p c n. committedToEvent j h p c n \<le> gh_event_limit c) \<and> (\<forall>c n d. committedOnDay j c n d \<le> gh_day_limit c)"

definition history_ok :: "gh_journal \<Rightarrow> bool" where
  "history_ok j \<longleftrightarrow> (\<forall>t \<in> set (gj_transitions j). tr_row t < gj_next j)
     \<and> (\<forall>r \<in> set (gj_rows j).
          legal_history None (filter (\<lambda>t. tr_row t = gh_id r) (gj_transitions j)) (Some (gh_row_status r)))"

definition gh_ok :: "gh_journal \<Rightarrow> bool" where
  "gh_ok j \<longleftrightarrow> rows_ok j \<and> caps_ok j \<and> history_ok j"

lemma hard_caps_nonneg: "0 \<le> gh_event_limit c" "0 \<le> gh_day_limit c"
  by (auto simp: gh_event_limit_def gh_day_limit_def GRAINHACK_HARD_CAPS_def split: option.splits if_splits)

lemma gh_ok_empty: "gh_ok empty_gh_journal"
  by (simp add: gh_ok_def rows_ok_def caps_ok_def history_ok_def empty_gh_journal_def committedToEvent_def committedOnDay_def
      hard_caps_nonneg)

lemma committed_groups:
  "committedToEvent j h p c n = sum_list (map gh_amount (filter (\<lambda>r. event_group r = (h, p, c, n) \<and> gh_live r) (gj_rows j)))"
  "committedOnDay j c n d = sum_list (map gh_amount (filter (\<lambda>r. day_group r = (c, n, d) \<and> gh_live r) (gj_rows j)))"
  by (simp_all add: committedToEvent_def committedOnDay_def event_group_def day_group_def gh_live_def conj_assoc)

text \<open>A sum over a filtered table changes no more than the rows that stay or join the filter.\<close>

lemma sum_filter_map_le:
  fixes amount :: "'r \<Rightarrow> bigint"
  assumes "\<And>r. r \<in> set rs \<Longrightarrow> amount (f r) = amount r \<and> 0 \<le> amount r" "\<And>r. r \<in> set rs \<Longrightarrow> Q (f r) \<Longrightarrow> Q r"
  shows "sum_list (map amount (filter Q (map f rs))) \<le> sum_list (map amount (filter Q rs))"
  using assms by (induction rs) (auto, smt (verit) list.set_intros)

section \<open>Every operation keeps it\<close>

text \<open>What a transition that went through did.\<close>

definition same_gh :: "gh_row \<Rightarrow> gh_row \<Rightarrow> bool" where
  "same_gh r' r \<longleftrightarrow> gh_id r' = gh_id r \<and> gh_winner r' = gh_winner r \<and> gh_amount_minor r' = gh_amount_minor r
     \<and> event_group r' = event_group r \<and> day_group r' = day_group r \<and> gh_tx_signature r' = gh_tx_signature r
     \<and> gh_recipient r' = gh_recipient r"

lemma transition_did:
  assumes "transition now i st allowed actor reason err resol j = Inr j'"
  shows "\<exists>cur f. gh_row_of j i = Some cur \<and> gh_row_status cur \<in> set allowed \<and> gj_next j' = gj_next j
    \<and> gj_rows j' = update_where (\<lambda>r. gh_id r = i) f (gj_rows j) \<and> (\<forall>r. same_gh (f r) r \<and> gh_row_status (f r) = st)
    \<and> gj_transitions j' = gj_transitions j @ [\<lparr>tr_row = i, tr_from = Some (gh_row_status cur), tr_to = st, tr_actor = actor,
         tr_reason = reason, tr_at = now\<rparr>]"
proof -
  obtain cur where cur: "gh_row_of j i = Some cur" "gh_row_status cur \<in> set allowed"
    using assms by (auto simp: transition_def split: option.splits if_splits)
  show ?thesis
    using assms cur
    by (intro exI [of _ cur] exI [of _ "\<lambda>r. r\<lparr>gh_row_status := st,
          gh_error := coalesce_text (case err of None \<Rightarrow> None | Some t \<Rightarrow> if t = [] then None else Some (take 500 t)) (gh_error r),
          gh_updated_at := now, gh_resolved_by := (if resol \<noteq> None then Some actor else gh_resolved_by r),
          gh_resolved_reason := (if resol \<noteq> None then reason else gh_resolved_reason r),
          gh_resolved_at := (if resol \<noteq> None then Some now else gh_resolved_at r),
          gh_resolution := coalesce_text resol (gh_resolution r)\<rparr>"])
       (auto simp: transition_def Let_def same_gh_def gh_winner_def event_group_def day_group_def)
qed

lemma row_ofD: "gh_row_of j i = Some r \<Longrightarrow> r \<in> set (gj_rows j) \<and> gh_id r = i"
  unfolding gh_row_of_def by (drule find_SomeD) simp

lemma transition_ok:
  assumes "transition now i st allowed actor reason err resol j = Inr j'" "gh_ok j"
    and "GH_failed_unsent \<notin> set allowed"
    and "\<And>s. s \<in> set allowed \<Longrightarrow> legal_change \<lparr>tr_row = i, tr_from = Some s, tr_to = st, tr_actor = actor, tr_reason = reason, tr_at = now\<rparr>"
  shows "gh_ok j'"
proof -
  obtain cur f where did: "gh_row_of j i = Some cur" "gh_row_status cur \<in> set allowed" "gj_next j' = gj_next j"
    "gj_rows j' = update_where (\<lambda>r. gh_id r = i) f (gj_rows j)" "\<And>r. same_gh (f r) r" "\<And>r. gh_row_status (f r) = st"
    "gj_transitions j' = gj_transitions j @ [\<lparr>tr_row = i, tr_from = Some (gh_row_status cur), tr_to = st, tr_actor = actor,
         tr_reason = reason, tr_at = now\<rparr>]"
    using transition_did [OF assms(1)] by blast
  obtain g where g: "g = (\<lambda>r. if gh_id r = i then f r else r)" by simp
  have rows: "gj_rows j' = map g (gj_rows j)" using did(4) by (simp add: update_where_def g)
  have same: "same_gh (g r) r" for r using did(5) by (simp add: same_gh_def g)
  have keep: "gh_id (g r) = gh_id r" "gh_winner (g r) = gh_winner r" "gh_amount (g r) = gh_amount r" "event_group (g r) = event_group r"
    "day_group (g r) = day_group r" for r using same [of r] by (simp_all add: same_gh_def)
  note cur = row_ofD [OF did(1)]
  have ok: "rows_ok j" "caps_ok j" "history_ok j" using assms(2) by (simp_all add: gh_ok_def)
  have the: "r = cur" if "r \<in> set (gj_rows j)" "gh_id r = i" for r
    using that cur ok(1) by (auto simp: rows_ok_def distinct_map inj_on_def)
  have pos: "0 < gh_amount r" if "r \<in> set (gj_rows j)" for r using that ok(1) by (simp add: rows_ok_def)
  have "gh_id \<circ> g = gh_id" "gh_winner \<circ> g = gh_winner" by (simp_all add: fun_eq_iff keep)
  then have "rows_ok j'" using ok(1) by (simp add: rows_ok_def rows did(3) keep)
  moreover have "caps_ok j'"
  proof -
    have live: "gh_live r" if "r \<in> set (gj_rows j)" "gh_live (g r)" for r
      using that the [of r] did(2) assms(3) by (cases "gh_id r = i") (auto simp: gh_live_def g)
    have le: "sum_list (map gh_amount (filter (\<lambda>r. k r = x \<and> gh_live r) (gj_rows j')))
        \<le> sum_list (map gh_amount (filter (\<lambda>r. k r = x \<and> gh_live r) (gj_rows j)))" if "\<And>r. k (g r) = k r" for k :: "gh_row \<Rightarrow> 'x" and x
      unfolding rows
      by (rule sum_filter_map_le) (use keep pos live that in \<open>auto simp: less_imp_le\<close>)
    note le [of event_group, OF keep(4)] le [of day_group, OF keep(5)]
    then show ?thesis using ok(2) unfolding caps_ok_def committed_groups by (meson order_trans)
  qed
  moreover have "history_ok j'"
  proof -
    have l: "legal_change \<lparr>tr_row = i, tr_from = Some (gh_row_status cur), tr_to = st, tr_actor = actor, tr_reason = reason, tr_at = now\<rparr>"
      using assms(4) did(2) by blast
    have "legal_history None (filter (\<lambda>t. tr_row t = gh_id (g r)) (gj_transitions j')) (Some (gh_row_status (g r)))"
      if r: "r \<in> set (gj_rows j)" for r
    proof (cases "gh_id r = i")
      case True
      have "legal_history None (filter (\<lambda>t. tr_row t = i) (gj_transitions j)) (Some (gh_row_status cur))"
        using ok(3) cur by (auto simp: history_ok_def)
      then have "legal_history None (filter (\<lambda>t. tr_row t = i) (gj_transitions j) @ [\<lparr>tr_row = i, tr_from = Some (gh_row_status cur),
          tr_to = st, tr_actor = actor, tr_reason = reason, tr_at = now\<rparr>]) (Some st)"
        using legal_history_snoc [OF _ _ l] by simp
      moreover have "gh_id (f r) = i" using did(5) [of r] True by (simp add: same_gh_def)
      ultimately show ?thesis using True did(6) by (simp add: did(7) g)
    next
      case False
      then show ?thesis using ok(3) r by (simp add: history_ok_def did(7) g)
    qed
    moreover have "i < gj_next j" using cur ok(1) by (auto simp: rows_ok_def)
    ultimately show ?thesis using ok(3) unfolding history_ok_def rows did(3) by (auto simp: did(7))
  qed
  ultimately show ?thesis by (simp add: gh_ok_def)
qed

text \<open>The automatic transitions and the resolution are legal.\<close>

lemma gh_mark_ok: "gh_mark now i st e j = Inr j' \<Longrightarrow> gh_ok j \<Longrightarrow> gh_ok j'"
  unfolding gh_mark_def
  by (rule transition_ok) (auto simp: AUTO_def legal_change_def split: gh_status.splits)

lemma gh_resolve_ok:
  assumes "gh_resolve now p st actor reason ev j = Inr j'" "st \<in> {GH_confirmed, GH_failed_unsent}" "gh_ok j" shows "gh_ok j'"
proof -
  have reason: "js_trim reason \<noteq> []" using assms(1) by (auto simp: gh_resolve_def split: if_splits)
  obtain row :: gh_row where t: "transition now (gh_id row) st [GH_reserved, GH_sent, GH_unknown] actor (Some reason) None (Some ev) j = Inr j'"
    using assms(1) by (auto simp: gh_resolve_def split: option.splits if_splits)
  show ?thesis using assms(2,3) reason
    by (intro transition_ok [OF t]) (auto simp: legal_change_def given_def)
qed

lemma resolvePayout_ok:
  assumes "resolvePayout status evidence now p actor reason j = (res, j')" "gh_ok j" shows "gh_ok j'"
proof (cases "js_trim actor = [] \<or> js_trim reason = []")
  case False
  show ?thesis
  proof (cases "byPayoutId j p")
    case (Some row)
    obtain d why where d: "gh_decide row (status (gh_tx_signature row)) = (d, why)" by (cases "gh_decide row (status (gh_tx_signature row))")
    show ?thesis
    proof (cases d)
      case (Some st)
      then have "st \<in> {GH_confirmed, GH_failed_unsent}"
        using d by (auto simp: gh_decide_def split: chain_status.splits option.splits json.splits if_splits)
      then show ?thesis
        using assms False \<open>byPayoutId j p = Some row\<close> d Some gh_resolve_ok [of now p st actor reason "evidence (status (gh_tx_signature row)) why" j]
        by (cases "gh_resolve now p st actor reason (evidence (status (gh_tx_signature row)) why) j")
           (auto simp: resolvePayout_def Let_def)
    qed (use assms False \<open>byPayoutId j p = Some row\<close> d in \<open>auto simp: resolvePayout_def Let_def\<close>)
  qed (use assms False in \<open>auto simp: resolvePayout_def\<close>)
qed (use assms in \<open>auto simp: resolvePayout_def\<close>)

lemma answered_ok: "gh_pay_answered address now i sig threw j = (res, j') \<Longrightarrow> gh_ok j \<Longrightarrow> gh_ok j'"
  using gh_mark_ok by (auto simp: gh_pay_answered_def split: option.splits sum.splits)

text \<open>A reservation adds a row with a key of its own, within the caps.\<close>

lemma gh_check_None:
  assumes "gh_check pick r limits j = None"
  shows "committedToEvent j (rv_hackathonId r) (rv_pool r) (rv_currency r) (rv_network r) + rv_amountMinor r \<le> cl_eventMaxMinor limits
    \<and> committedOnDay j (rv_currency r) (rv_network r) (rv_day r) + rv_amountMinor r \<le> cl_dailyMaxMinor limits
    \<and> (\<forall>x \<in> set (gj_rows j). gh_winner x \<noteq> (rv_hackathonId r, rv_pool r, rv_githubUserId r))"
  using assms by (auto simp: gh_check_def Let_def forWinner_def find_None_iff gh_winner_def not_less split: option.splits if_splits)

lemma reservation_within:
  assumes "gh_reservation P cfg address now req = Inr (r, limits)"
  shows "0 < rv_amountMinor r \<and> cl_eventMaxMinor limits \<le> gh_event_limit (rv_currency r) \<and> cl_dailyMaxMinor limits \<le> gh_day_limit (rv_currency r)"
proof -
  obtain t st m a most where g: "gh_documents P cfg address now req = Inr (t, st, m, a)"
      "grainhackCapsFor (gt_currency t) (gf_lower cfg (gt_currency t)) = Some most"
    using assms by (auto simp: gh_reservation_def split: sum.splits option.splits)
  obtain hard where h: "GRAINHACK_HARD_CAPS (gt_currency t) = Some hard" "gc_perEventMaxMinor most \<le> gc_perEventMaxMinor hard"
      "gc_dailyMaxMinor most \<le> gc_dailyMaxMinor hard"
    using g(2) by (auto simp: grainhackCapsFor_def Let_def lower_cap_def split: option.splits)
  have r: "0 < rv_amountMinor r" "rv_currency r = gt_currency t" "cl_dailyMaxMinor limits = gc_dailyMaxMinor most"
    "cl_eventMaxMinor limits \<le> gc_perEventMaxMinor most"
    using assms g by (auto simp: gh_reservation_def Let_def split: if_splits)
  then show ?thesis using h by (simp add: gh_event_limit_def gh_day_limit_def)
qed

lemma gh_reserve_did:
  assumes "gh_reserve pick now r tx lv limits j = Inr (Inr i, j')"
  shows "gh_check pick r limits j = None \<and> i = gj_next j \<and> gj_next j' = gj_next j + 1
    \<and> gj_rows j' = gj_rows j @ [new_gh_row now i r tx lv]
    \<and> gj_transitions j' = gj_transitions j @ [\<lparr>tr_row = i, tr_from = None, tr_to = GH_reserved, tr_actor = ''grainhack-signer'',
         tr_reason = None, tr_at = now\<rparr>]"
  using assms by (auto simp: gh_reserve_def split: option.splits if_splits)

lemma new_row_simps:
  "gh_id (new_gh_row now i r tx lv) = i" "gh_winner (new_gh_row now i r tx lv) = (rv_hackathonId r, rv_pool r, rv_githubUserId r)"
  "event_group (new_gh_row now i r tx lv) = (rv_hackathonId r, rv_pool r, rv_currency r, rv_network r)"
  "day_group (new_gh_row now i r tx lv) = (rv_currency r, rv_network r, rv_day r)"
  "gh_row_status (new_gh_row now i r tx lv) = GH_reserved"
  "0 \<le> rv_amountMinor r \<Longrightarrow> gh_amount (new_gh_row now i r tx lv) = rv_amountMinor r"
  by (simp_all add: new_gh_row_def gh_winner_def event_group_def day_group_def amount_of_def show_int_def)

lemma gh_reserve_ok:
  assumes res: "gh_reserve pick now r tx lv limits j = Inr (Inr i, j')" and req: "gh_reservation P cfg address t0 req = Inr (r, limits)"
    and ok: "gh_ok j"
  shows "gh_ok j'"
proof -
  note did = gh_reserve_did [OF res]
  have parts: "rows_ok j" "caps_ok j" "history_ok j" using ok by (simp_all add: gh_ok_def)
  note within = reservation_within [OF req]
  have free: "committedToEvent j (rv_hackathonId r) (rv_pool r) (rv_currency r) (rv_network r) + rv_amountMinor r \<le> cl_eventMaxMinor limits"
    "committedOnDay j (rv_currency r) (rv_network r) (rv_day r) + rv_amountMinor r \<le> cl_dailyMaxMinor limits"
    "\<And>x. x \<in> set (gj_rows j) \<Longrightarrow> gh_winner x \<noteq> (rv_hackathonId r, rv_pool r, rv_githubUserId r)"
    using gh_check_None [of pick r limits j] did by simp_all
  let ?n = "new_gh_row now i r tx lv"
  have amount: "gh_amount ?n = rv_amountMinor r" "gh_live ?n" using within by (simp_all add: new_row_simps gh_live_def)
  have fresh: "gh_id x \<noteq> i" "tr_row t \<noteq> i" if "x \<in> set (gj_rows j)" "t \<in> set (gj_transitions j)" for x t
    using that parts did by (auto simp: rows_ok_def history_ok_def)
  have fresh_id: "i \<notin> gh_id ` set (gj_rows j)" using parts(1) did by (auto simp: rows_ok_def)
  have fresh_winner: "gh_winner ?n \<notin> gh_winner ` set (gj_rows j)" unfolding new_row_simps using free(3) by (metis imageE)
  have "rows_ok j'" using parts(1) did within fresh_id fresh_winner by (auto simp: rows_ok_def new_row_simps amount)
  moreover have "caps_ok j'"
  proof -
    have "committedToEvent j' h p c n \<le> gh_event_limit c" for h p c n
    proof (cases "(h, p, c, n) = event_group ?n")
      case True
      then show ?thesis using free(1) within did amount by (simp add: committed_groups new_row_simps)
    next
      case False
      then have "committedToEvent j' h p c n = committedToEvent j h p c n" using did by (auto simp: committed_groups)
      then show ?thesis using parts(2) by (simp add: caps_ok_def)
    qed
    moreover have "committedOnDay j' c n d \<le> gh_day_limit c" for c n d
    proof (cases "(c, n, d) = day_group ?n")
      case True
      then show ?thesis using free(2) within did amount by (simp add: committed_groups new_row_simps)
    next
      case False
      then have "committedOnDay j' c n d = committedOnDay j c n d" using did by (auto simp: committed_groups)
      then show ?thesis using parts(2) by (simp add: caps_ok_def)
    qed
    ultimately show ?thesis by (simp add: caps_ok_def)
  qed
  moreover have "history_ok j'"
  proof -
    have "filter (\<lambda>t. tr_row t = i) (gj_transitions j) = []"
      using parts(3) did by (auto simp: history_ok_def filter_empty_conv)
    then have "legal_history None (filter (\<lambda>t. tr_row t = gh_id ?n) (gj_transitions j')) (Some (gh_row_status ?n))"
      using did by (simp add: new_row_simps legal_change_def)
    moreover have "legal_history None (filter (\<lambda>t. tr_row t = gh_id x) (gj_transitions j')) (Some (gh_row_status x))"
      if x: "x \<in> set (gj_rows j)" for x
    proof -
      have "gh_id x \<noteq> i" using x fresh_id by blast
      then show ?thesis using parts(3) x did by (simp add: history_ok_def)
    qed
    ultimately show ?thesis using parts(3) did by (auto simp: history_ok_def)
  qed
  ultimately show ?thesis by (simp add: gh_ok_def)
qed

lemma pay_built_cases:
  assumes "gh_pay_built pick now r limits prepared j = (res, j')"
  obtains (same) "j' = j" "\<forall>i. res \<noteq> Inr i"
    | (reserved) sig lv i where "gh_reserve pick now r sig lv limits j = Inr (Inr i, j')" "\<forall>i. res \<noteq> Inr i"
    | (sent) sig lv i k where "gh_reserve pick now r sig lv limits j = Inr (Inr i, k)" "gh_mark now i GH_sent None k = Inr j'" "res = Inr i"
proof (cases prepared)
  case (Inl e)
  then show thesis using assms same by (auto simp: gh_pay_built_def)
next
  case (Inr p)
  obtain sig lv where p: "p = (sig, lv)" by (cases p)
  show thesis
  proof (cases "gh_reserve pick now r sig lv limits j")
    case (Inl e)
    then show thesis using assms same \<open>prepared = Inr p\<close> p by (auto simp: gh_pay_built_def)
  next
    case (Inr q)
    obtain x k where q: "q = (x, k)" by (cases q)
    show thesis
    proof (cases x)
      case (Inl refused)
      have "k = j" using Inr q Inl by (auto simp: gh_reserve_def split: option.splits if_splits)
      then show thesis using assms same \<open>prepared = Inr p\<close> p Inr q Inl by (auto simp: gh_pay_built_def)
    next
      case (Inr i)
      show thesis
      proof (cases "gh_mark now i GH_sent None k")
        case (Inl e)
        then have "j' = k" "\<forall>i. res \<noteq> Inr i"
          using assms \<open>prepared = Inr p\<close> p \<open>gh_reserve pick now r sig lv limits j = Inr q\<close> q Inr by (auto simp: gh_pay_built_def)
        then show thesis using reserved \<open>gh_reserve pick now r sig lv limits j = Inr q\<close> q Inr by blast
      next
        case (Inr l)
        then have "j' = l" "res = Inr i"
          using assms \<open>prepared = Inr p\<close> p \<open>gh_reserve pick now r sig lv limits j = Inr q\<close> q \<open>x = Inr i\<close> by (auto simp: gh_pay_built_def)
        then show thesis using sent \<open>gh_reserve pick now r sig lv limits j = Inr q\<close> q \<open>x = Inr i\<close> Inr by blast
      qed
    qed
  qed
qed

lemma gh_step_ok: "gh_step P cfg address j l j' \<Longrightarrow> gh_ok j \<Longrightarrow> gh_ok j'"
proof (induction rule: gh_step.cases)
  case (gh_handed t0 req r limits pick now prepared j i j' b)
  from gh_handed(5) show ?case
    by (cases rule: pay_built_cases) (use gh_handed gh_reserve_ok gh_mark_ok in blast)+
next
  case (gh_refused t0 req r limits pick now prepared j res j')
  from gh_refused(5) show ?case
    by (cases rule: pay_built_cases) (use gh_refused gh_reserve_ok gh_mark_ok in blast)+
next
  case (gh_answered now i sig threw j res j')
  then show ?case using answered_ok by blast
next
  case (gh_resolved status evidence now p actor reason j res j')
  then show ?case using resolvePayout_ok by blast
qed

section \<open>The contract, for the event cap and for the day's\<close>

lemma marked_rows:
  assumes "transition now i st allowed actor reason err resol j = Inr j'" "r \<in> set (gj_rows j)"
  shows "\<exists>r' \<in> set (gj_rows j'). same_gh r' r"
proof -
  obtain f where f: "gj_rows j' = update_where (\<lambda>r. gh_id r = i) f (gj_rows j)" "\<And>r. same_gh (f r) r"
    using transition_did [OF assms(1)] by blast
  then have "(if gh_id r = i then f r else r) \<in> set (gj_rows j')" using assms(2) by (simp add: update_where_def)
  moreover have "same_gh (if gh_id r = i then f r else r) r" using f(2) by (simp add: same_gh_def)
  ultimately show ?thesis by blast
qed

lemma same_gh_refl: "same_gh r r"
  by (simp add: same_gh_def)

lemma same_gh_trans: "same_gh a b \<Longrightarrow> same_gh b c \<Longrightarrow> same_gh a c"
  by (simp add: same_gh_def)

lemma resolved_rows:
  assumes "resolvePayout status evidence now p actor reason j = (res, j')" "r \<in> set (gj_rows j)"
  shows "\<exists>r' \<in> set (gj_rows j'). same_gh r' r"
proof (cases "j' = j")
  case True
  then show ?thesis using assms(2) same_gh_refl by blast
next
  case False
  then have "\<exists>i st al rs ev. transition now i st al actor rs None ev j = Inr j'"
    using assms(1)
    by (auto simp: resolvePayout_def gh_resolve_def Let_def split: if_splits option.splits prod.splits sum.splits) blast
  then show ?thesis using marked_rows assms(2) by blast
qed

lemma gh_step_keeps:
  assumes "gh_step P cfg address j l j'" "r \<in> set (gj_rows j)" shows "\<exists>r' \<in> set (gj_rows j'). same_gh r' r"
  using assms
proof (induction rule: gh_step.cases)
  case (gh_handed t0 req r' limits pick now prepared j i j' b)
  from gh_handed(5) show ?case
  proof (cases rule: pay_built_cases)
    case (sent sig lv x k)
    then have "r \<in> set (gj_rows k)" using gh_reserve_did [OF sent(1)] gh_handed by simp
    then show ?thesis using sent(2) gh_handed marked_rows by (auto simp: gh_mark_def)
  qed (use gh_handed in auto)
next
  case (gh_refused t0 req r' limits pick now prepared j res j')
  from gh_refused(5) show ?case
  proof (cases rule: pay_built_cases)
    case (sent sig lv x k)
    then have "r \<in> set (gj_rows k)" using gh_reserve_did [OF sent(1)] gh_refused by simp
    then show ?thesis using sent(2) gh_refused marked_rows by (auto simp: gh_mark_def)
  next
    case (reserved sig lv x)
    then have "r \<in> set (gj_rows j')" using gh_reserve_did [OF reserved(1)] gh_refused by simp
    then show ?thesis using same_gh_refl gh_refused by blast
  qed (use gh_refused same_gh_refl in auto)
next
  case (gh_answered now i sig threw j res j')
  then have "j' = j \<or> (\<exists>st e. gh_mark now i st e j = Inr j')"
    by (auto simp: gh_pay_answered_def split: option.splits sum.splits)
  then show ?case using marked_rows same_gh_refl gh_answered unfolding gh_mark_def by blast
next
  case (gh_resolved status evidence now p actor reason j res j')
  then show ?case using resolved_rows by blast
qed

lemma gh_step_hands:
  assumes "gh_step P cfg address j (Some b) j'" "gh_ok j"
  shows "b \<in> set (gj_rows j') \<and> (\<forall>r \<in> set (gj_rows j). gh_id r \<noteq> gh_id b)"
  using assms
proof (induction rule: gh_step.cases)
  case (gh_handed t0 req r limits pick now prepared j i j' c)
  note b = row_ofD [OF gh_handed(6)]
  have "i = gj_next j"
  proof -
    from gh_handed(5) show ?thesis
    proof (cases rule: pay_built_cases)
      case (sent sig lv x k)
      then show ?thesis using gh_reserve_did [OF sent(1)] by simp
    qed auto
  qed
  moreover have "gh_id r < gj_next j" if "r \<in> set (gj_rows j)" for r
    using that gh_handed by (simp add: gh_ok_def rows_ok_def)
  ultimately show ?case using b gh_handed by fastforce
qed simp_all

text \<open>One payment key per winner; two ways to group the payments.\<close>

interpretation event_payouts: pay_once gj_rows "\<lambda>_ _. True" gh_id gh_winner gh_amount event_group gh_live
  "\<lambda>(h, p, c, n). gh_event_limit c" gh_ok "gh_step P cfg address"
  for P cfg address
proof unfold_locales
  show "gh_ok j \<Longrightarrow> gh_step P cfg address j l j' \<Longrightarrow> gh_ok j'" for j l j' by (rule gh_step_ok)
  show "gh_ok j \<Longrightarrow> distinct (map gh_id (gj_rows j)) \<and> distinct (map gh_winner (gj_rows j))" for j by (simp add: gh_ok_def rows_ok_def)
  show "0 \<le> gh_amount r" if "gh_ok j" "r \<in> set (gj_rows j)" for j r using that by (fastforce simp: gh_ok_def rows_ok_def)
  show "sum_list (map gh_amount (filter (\<lambda>r. event_group r = g \<and> gh_live r) (gj_rows j))) \<le> (case g of (h, p, c, n) \<Rightarrow> gh_event_limit c)"
    if "gh_ok j" for j g
    using that by (cases g) (simp add: gh_ok_def caps_ok_def flip: committed_groups)
  show "\<exists>r' \<in> set (gj_rows j'). same_payment gh_id gh_winner gh_amount event_group r' r \<and> True"
    if "gh_step P cfg address j l j'" "r \<in> set (gj_rows j)" for j l j' r
    using gh_step_keeps [OF that] by (auto simp: same_payment_def same_gh_def)
  show "b \<in> set (gj_rows j') \<and> True \<and> (\<forall>r \<in> set (gj_rows j). gh_id r = gh_id b \<longrightarrow> \<not> True)"
    if "gh_ok j" "gh_step P cfg address j (Some b) j'" for j b j'
    using gh_step_hands [OF that(2,1)] by auto
qed

interpretation day_payouts: pay_once gj_rows "\<lambda>_ _. True" gh_id gh_winner gh_amount day_group gh_live
  "\<lambda>(c, n, d). gh_day_limit c" gh_ok "gh_step P cfg address"
  for P cfg address
proof unfold_locales
  show "gh_ok j \<Longrightarrow> gh_step P cfg address j l j' \<Longrightarrow> gh_ok j'" for j l j' by (rule gh_step_ok)
  show "gh_ok j \<Longrightarrow> distinct (map gh_id (gj_rows j)) \<and> distinct (map gh_winner (gj_rows j))" for j by (simp add: gh_ok_def rows_ok_def)
  show "0 \<le> gh_amount r" if "gh_ok j" "r \<in> set (gj_rows j)" for j r using that by (fastforce simp: gh_ok_def rows_ok_def)
  show "sum_list (map gh_amount (filter (\<lambda>r. day_group r = g \<and> gh_live r) (gj_rows j))) \<le> (case g of (c, n, d) \<Rightarrow> gh_day_limit c)"
    if "gh_ok j" for j g
    using that by (cases g) (simp add: gh_ok_def caps_ok_def flip: committed_groups)
  show "\<exists>r' \<in> set (gj_rows j'). same_payment gh_id gh_winner gh_amount day_group r' r \<and> True"
    if "gh_step P cfg address j l j'" "r \<in> set (gj_rows j)" for j l j' r
    using gh_step_keeps [OF that] by (auto simp: same_payment_def same_gh_def)
  show "b \<in> set (gj_rows j') \<and> True \<and> (\<forall>r \<in> set (gj_rows j). gh_id r = gh_id b \<longrightarrow> \<not> True)"
    if "gh_ok j" "gh_step P cfg address j (Some b) j'" for j b j'
    using gh_step_hands [OF that(2,1)] by auto
qed

section \<open>What the hackathon signer guarantees\<close>

text \<open>
  C20. A winner of an event's pool is paid at most once, ever: however requests, statements, approvals,
  failures and resolutions interleave, no two transactions handed to the network are for the same
  person in the same pool of the same event.
\<close>

theorem winner_paid_once:
  assumes "paying (gh_step P cfg address) empty_gh_journal handed j"
  shows "distinct (map (\<lambda>r. (gh_hackathon_id r, gh_pool r, gh_github_user_id r)) handed)"
proof -
  have "gh_winner = (\<lambda>r. (gh_hackathon_id r, gh_pool r, gh_github_user_id r))" by (simp add: fun_eq_iff gh_winner_def)
  then show ?thesis using event_payouts.once [OF assms gh_ok_empty] by simp
qed

text \<open>
  C21. What was handed to the network and is not proved to have failed stays within the hard caps:
  five thousand USDC per pool of an event, and two and a half thousand per day.
\<close>

theorem hackathon_caps_hold:
  assumes "paying (gh_step P cfg address) empty_gh_journal handed j"
  shows "sum_list (map gh_amount (filter (\<lambda>b. event_group b = (h, p, ''USDC'', n)
        \<and> (\<exists>r \<in> set (gj_rows j). gh_id r = gh_id b \<and> gh_live r)) handed)) \<le> 5000000000
    \<and> sum_list (map gh_amount (filter (\<lambda>b. day_group b = (''USDC'', n, d)
        \<and> (\<exists>r \<in> set (gj_rows j). gh_id r = gh_id b \<and> gh_live r)) handed)) \<le> 2500000000"
  using event_payouts.within [OF assms gh_ok_empty, of "(h, p, ''USDC'', n)"] day_payouts.within [OF assms gh_ok_empty, of "(''USDC'', n, d)"]
  by (simp add: gh_event_limit_def gh_day_limit_def GRAINHACK_HARD_CAPS_def)

text \<open>
  C22. The recorded changes of every row form one unbroken legal history that ends in the row's status:
  it was reserved, then only sent, confirmed or left unknown by the payment path, and only closed by a
  person who gave a reason; a confirmed or failed row never changes again.
\<close>

theorem journal_history_is_legal:
  assumes "paying (gh_step P cfg address) empty_gh_journal handed j" "r \<in> set (gj_rows j)"
  shows "legal_history None (filter (\<lambda>t. tr_row t = gh_id r) (gj_transitions j)) (Some (gh_row_status r))"
proof -
  have "gh_ok j" using event_payouts.paying_inv [OF assms(1) gh_ok_empty] by simp
  then show ?thesis using assms(2) by (simp add: gh_ok_def history_ok_def)
qed

text \<open>
  C23. Resolving decides from the chain alone: to confirmed only when the transaction is confirmed or
  finalized without error, to failed only when it landed with an error or its blockhash has expired
  before it landed; in every other case, and for a row already final, the journal is left as it is.
\<close>

theorem resolution_follows_the_chain:
  assumes "byPayoutId j p = Some row" "resolvePayout status evidence now p actor reason j = (Inr (done, why), j')"
  shows "if done
    then gh_row_status row \<notin> {GH_confirmed, GH_failed_unsent}
      \<and> (case status (gh_tx_signature row) of
           Found err c s \<Rightarrow> c \<in> {Some ''confirmed'', Some ''finalized''}
             \<and> (err \<in> {None, Some JNull} \<longleftrightarrow> tr_to (last (gj_transitions j')) = GH_confirmed)
             \<and> (err \<notin> {None, Some JNull} \<longleftrightarrow> tr_to (last (gj_transitions j')) = GH_failed_unsent)
         | Not_found height \<Rightarrow> tr_to (last (gj_transitions j')) = GH_failed_unsent
             \<and> (\<exists>h. gh_last_valid_block_height row = Some h \<and> h < height))
    else j' = j"
proof -
  let ?c = "status (gh_tx_signature row)"
  obtain d w where d: "gh_decide row ?c = (d, w)" by (cases "gh_decide row ?c")
  have ne: "\<not> (js_trim actor = [] \<or> js_trim reason = [])" using assms(2) by (auto simp: resolvePayout_def split: if_splits)
  show ?thesis
  proof (cases d)
    case None
    then show ?thesis using assms d ne by (auto simp: resolvePayout_def Let_def)
  next
    case (Some st)
    then obtain k where k: "gh_resolve now p st actor reason (evidence ?c w) j = Inr k" "done" "j' = k"
      using assms d ne by (auto simp: resolvePayout_def Let_def split: sum.splits)
    then have "transition now (gh_id row) st [GH_reserved, GH_sent, GH_unknown] actor (Some reason) None (Some (evidence ?c w)) j = Inr k"
      using assms(1) ne by (auto simp: gh_resolve_def)
    then have "tr_to (last (gj_transitions j')) = st" using transition_did k(3) by fastforce
    then show ?thesis using d Some k(2)
      by (auto simp: gh_decide_def split: chain_status.splits option.splits json.splits if_splits)
  qed
qed

section \<open>A run\<close>

text \<open>The statement's digest must look like one: the toy platform with a digest of 64 hexadecimal digits.\<close>

definition toy_sha :: platform where
  "toy_sha = toy\<lparr>sha256_hex := (\<lambda>_. replicate 64 (CHR ''c''))\<rparr>"

definition demo_gh_terms :: grainhack_terms where
  "demo_gh_terms = \<lparr>gt_payout_id = demo_uuid (CHR ''d''), gt_statement_id = demo_uuid (CHR ''c''),
     gt_statement_sha256 = replicate 64 (CHR ''c''), gt_hackathon_id = demo_uuid (CHR ''b''), gt_pool = ''contributor'',
     gt_github_user_id = 2, gt_login = ''bo'', gt_recipient = replicate 32 (CHR ''w''), gt_amount_minor = ''4'',
     gt_currency = ''USDC'', gt_mint = replicate 32 (CHR ''m''), gt_network = ''solana-devnet''\<rparr>"

definition demo_gh_request :: gh_request where
  "demo_gh_request = \<lparr>gq_approval = Some \<lparr>en_terms = JObj (grainhack_entries demo_gh_terms), en_approver = replicate 32 (CHR ''k''),
       en_approved_at = toISOString 0, en_expires_at = toISOString 3600000,
       en_signature = toy_sign [] (envelopeMessage toy_sha GRAINHACK_APPROVAL_DOMAIN (grainhack_entries demo_gh_terms)
         (toISOString 0) (toISOString 3600000))\<rparr>,
     gq_statement = Some demo_text, gq_statement_signature = Some demo_sig\<rparr>"

definition demo_gh_cfg :: gh_config where
  "demo_gh_cfg = \<lparr>gf_network = ''solana-devnet'', gf_mints = (\<lambda>_. Some \<lparr>gm_mint = replicate 32 (CHR ''m''), gm_decimals = 6\<rparr>),
     gf_lower = (\<lambda>_. None), gf_approvers = [replicate 32 (CHR ''k'')], gf_resultsPubkey = replicate 32 (CHR ''k'')\<rparr>"

lemma toy_sha_fields [simp]: "b64_decode toy_sha = b64_decode toy" "ed_verify toy_sha = ed_verify toy" "other_number toy_sha = other_number toy"
  "other_date toy_sha = other_date toy" "b58_decode toy_sha = b58_decode toy" "sha256_hex toy_sha s = replicate 64 (CHR ''c'')"
  by (simp_all add: toy_sha_def)

lemma toy_sha_address: "isSolanaAddress toy_sha = isSolanaAddress toy"
  by (rule ext) (simp add: isSolanaAddress_def)

lemma toy_sha_detached: "verifyDetached toy_sha = verifyDetached toy"
  by (intro ext) (simp only: verifyDetached_def decodeSignature_def toy_sha_fields toy_sha_address)

lemma toy_sha_date: "parse_date toy_sha = parse_date toy"
  by (rule ext) (simp only: parse_date_def toy_sha_fields)

lemma toy_sha_shape: "checkStatementShape toy_sha = checkStatementShape toy"
  by (rule ext) (simp only: checkStatementShape_def toy_sha_fields toy_sha_address toy_sha_date)

lemmas toy_sha_same = toy_sha_address toy_sha_detached toy_sha_date toy_sha_shape

lemma demo_gh_verified:
  "verifyStatement toy_sha (Some demo_text) (Some demo_sig) (replicate 32 (CHR ''k'')) =
     Inr (statement_of demo_statement, replicate 64 (CHR ''c''))"
proof -
  have "verifyResultsSignature toy_sha demo_text demo_sig (replicate 32 (CHR ''k''))"
    by (simp add: verifyResultsSignature_def) (simp add: toy_def demo_sig_def toy_sign_def min_def)
  moreover have "canonicalJson (other_number toy) demo_statement = demo_text" by (simp add: demo_text_def)
  ultimately show ?thesis
    by (simp add: verifyStatement_def demo_text_parses demo_shape statementSha256_def toy_sha_same)
qed

lemma demo_gh_shape: "checkGrainhackTermsShape toy_sha (JObj (grainhack_entries demo_gh_terms)) = None"
  by code_simp

lemma demo_gh_approval: "verifyGrainhackApproval toy_sha (gh_entries (the (gq_approval demo_gh_request))) [replicate 32 (CHR ''k'')] 0 = None"
  by (simp add: verifyGrainhackApproval_def verifyEnvelope_def gh_entries_def demo_gh_request_def entries_of_def toy_sha_same
      parse_date_def in_era_0 APPROVAL_TTL_MS_def)

lemma demo_gh_typed: "grainhack_terms_of (grainhack_entries demo_gh_terms) = demo_gh_terms"
  by (simp add: grainhack_terms_of_def grainhack_entries_def str_of_def num_of_def)

lemma demo_gh_statement:
  "lineFor (statement_of demo_statement) 2 =
     Some \<lparr>sl_github_user_id = 2, sl_login = ''bo'', sl_amount_minor = ''4'', sl_status = ''payable''\<rparr>"
  "rs_statement_id (statement_of demo_statement) = demo_uuid (CHR ''c'')" "rs_hackathon_id (statement_of demo_statement) = demo_uuid (CHR ''b'')"
  "rs_pool (statement_of demo_statement) = ''contributor''" "rs_network (statement_of demo_statement) = ''solana-devnet''"
  "rs_currency (statement_of demo_statement) = ''USDC''" "rs_pool_minor (statement_of demo_statement) = ''7''"
  by (simp_all add: statement_of_def entries_of_def demo_statement_def line_of_def demo_line_def num_of_def str_of_def Let_def lineFor_def)

lemma demo_gh_documents: "\<exists>m a. gh_documents toy_sha demo_gh_cfg ''f'' 0 demo_gh_request = Inr (demo_gh_terms, statement_of demo_statement, m, a)"
proof -
  obtain a where a: "gq_approval demo_gh_request = Some a" "en_terms a = JObj (grainhack_entries demo_gh_terms)"
    by (simp add: demo_gh_request_def)
  have v: "verifyGrainhackApproval toy_sha (gh_entries a) [replicate 32 (CHR ''k'')] 0 = None" using demo_gh_approval a(1) by simp
  have t: "gt_statement_id demo_gh_terms = demo_uuid (CHR ''c'')" "gt_hackathon_id demo_gh_terms = demo_uuid (CHR ''b'')"
    "gt_pool demo_gh_terms = ''contributor''" "gt_network demo_gh_terms = ''solana-devnet''" "gt_currency demo_gh_terms = ''USDC''"
    "gt_mint demo_gh_terms = replicate 32 (CHR ''m'')" "gt_github_user_id demo_gh_terms = 2" "gt_amount_minor demo_gh_terms = ''4''"
    "gt_login demo_gh_terms = ''bo''" "gt_recipient demo_gh_terms = replicate 32 (CHR ''w'')"
    "gt_statement_sha256 demo_gh_terms = replicate 64 (CHR ''c'')"
    by (simp_all add: demo_gh_terms_def)
  have c: "gf_approvers demo_gh_cfg = [replicate 32 (CHR ''k'')]" "gf_resultsPubkey demo_gh_cfg = replicate 32 (CHR ''k'')"
    "gf_network demo_gh_cfg = ''solana-devnet''" "gf_mints demo_gh_cfg = (\<lambda>_. Some \<lparr>gm_mint = replicate 32 (CHR ''m''), gm_decimals = 6\<rparr>)"
    by (simp_all add: demo_gh_cfg_def)
  have s: "gq_statement demo_gh_request = Some demo_text" "gq_statement_signature demo_gh_request = Some demo_sig"
    by (simp_all add: demo_gh_request_def)
  have "replicate 32 (CHR ''w'') \<noteq> ''f''" by (simp add: numeral_eq_Suc)
  then show ?thesis
    by (simp add: gh_documents_def a v demo_gh_shape c s demo_gh_verified demo_gh_typed entries_of_def t demo_gh_statement toy_sha_same Let_def)
qed

lemma demo_gh_amounts: "amount_of ''4'' = 4" "amount_of ''7'' = 7"
  by code_simp+

lemma demo_gh_reservation:
  "\<exists>r. gh_reservation toy_sha demo_gh_cfg ''f'' 0 demo_gh_request = Inr (r, \<lparr>cl_eventMaxMinor = 7, cl_dailyMaxMinor = 2500000000\<rparr>)
     \<and> rv_amountMinor r = 4 \<and> rv_githubUserId r = 2"
proof -
  obtain m a where g: "gh_documents toy_sha demo_gh_cfg ''f'' 0 demo_gh_request = Inr (demo_gh_terms, statement_of demo_statement, m, a)"
    using demo_gh_documents by blast
  have t: "gt_currency demo_gh_terms = ''USDC''" "gt_amount_minor demo_gh_terms = ''4''" "gt_github_user_id demo_gh_terms = 2"
    by (simp_all add: demo_gh_terms_def)
  have c: "grainhackCapsFor ''USDC'' (gf_lower demo_gh_cfg ''USDC'') =
      Some \<lparr>gc_perPayoutMaxMinor = 500000000, gc_perEventMaxMinor = 5000000000, gc_dailyMaxMinor = 2500000000\<rparr>"
    by (simp add: grainhackCapsFor_def GRAINHACK_HARD_CAPS_def demo_gh_cfg_def no_caps_def lower_cap_def Let_def)
  show ?thesis
    by (simp add: gh_reservation_def g t c demo_gh_statement demo_gh_amounts Let_def)
qed

lemma demo_gh_paid:
  "\<exists>b j. paying (gh_step toy_sha demo_gh_cfg ''f'') empty_gh_journal [b] j \<and> gh_github_user_id b = 2 \<and> gj_rows j = [b]
     \<and> gh_row_status b = GH_sent"
proof -
  obtain r where r: "gh_reservation toy_sha demo_gh_cfg ''f'' 0 demo_gh_request = Inr (r, \<lparr>cl_eventMaxMinor = 7, cl_dailyMaxMinor = 2500000000\<rparr>)"
    "rv_amountMinor r = 4" "rv_githubUserId r = 2" using demo_gh_reservation by blast
  let ?l = "\<lparr>cl_eventMaxMinor = 7, cl_dailyMaxMinor = 2500000000\<rparr>"
  let ?b = "(new_gh_row 5 1 r ''sig'' None)\<lparr>gh_row_status := GH_sent, gh_updated_at := 5\<rparr>"
  obtain j where j: "gh_pay_built hd 5 r ?l (Inr (''sig'', None)) empty_gh_journal = (Inr 1, j)" "gj_rows j = [?b]"
    by (simp add: gh_pay_built_def gh_reserve_def gh_check_def empty_gh_journal_def committedToEvent_def committedOnDay_def forWinner_def
        r(2) gh_mark_def transition_def gh_row_of_def AUTO_def new_gh_row_def coalesce_text_def Let_def)
  have "gh_row_of j 1 = Some ?b" by (simp add: gh_row_of_def j(2) new_gh_row_def)
  then have "gh_step toy_sha demo_gh_cfg ''f'' empty_gh_journal (Some ?b) j" using gh_step.gh_handed [OF r(1) j(1)] by simp
  then have "paying (gh_step toy_sha demo_gh_cfg ''f'') empty_gh_journal [?b] j" by (rule paying.hands_over [OF paying.at_start])
  then show ?thesis using j(2) r(3) by (intro exI [of _ ?b] exI [of _ j]) (simp add: new_gh_row_def)
qed

theorem winner_paid_once_witness:
  "\<exists>handed :: gh_row list. length handed = 1 \<and> distinct (map (\<lambda>r. (gh_hackathon_id r, gh_pool r, gh_github_user_id r)) handed)"
proof -
  obtain b j where "paying (gh_step toy_sha demo_gh_cfg ''f'') empty_gh_journal [b] j" using demo_gh_paid by blast
  from winner_paid_once [OF this] have "distinct (map (\<lambda>r. (gh_hackathon_id r, gh_pool r, gh_github_user_id r)) [b])" .
  moreover have "length [b] = 1" by simp
  ultimately show ?thesis by blast
qed

theorem hackathon_caps_hold_witness:
  "\<exists>(handed :: gh_row list) (j :: gh_journal). length handed = 1 \<and> sum_list (map gh_amount (filter (\<lambda>b. day_group b = (''USDC'', ''solana-devnet'', ''d'')
        \<and> (\<exists>r \<in> set (gj_rows j). gh_id r = gh_id b \<and> gh_live r)) handed)) \<le> 2500000000"
proof -
  obtain b j where p: "paying (gh_step toy_sha demo_gh_cfg ''f'') empty_gh_journal [b] j" using demo_gh_paid by blast
  have "length [b] = 1" by simp
  with conjunct2 [OF hackathon_caps_hold [OF p, of "''h''" "''p''" "''solana-devnet''" "''d''"]] show ?thesis by blast
qed

theorem journal_history_is_legal_witness:
  "\<exists>(j :: gh_journal) (b :: gh_row). gh_row_status b = GH_sent
     \<and> legal_history None (filter (\<lambda>t. tr_row t = gh_id b) (gj_transitions j)) (Some GH_sent)"
proof -
  obtain b j where p: "paying (gh_step toy_sha demo_gh_cfg ''f'') empty_gh_journal [b] j" "gj_rows j = [b]" "gh_row_status b = GH_sent"
    using demo_gh_paid by blast
  have "b \<in> set (gj_rows j)" by (simp add: p(2))
  from journal_history_is_legal [OF p(1) this] p(3) show ?thesis by auto
qed

definition demo_gh_row :: gh_row where
  "demo_gh_row = \<lparr>gh_id = 1, gh_payout_id = ''p'', gh_approval_signature = ''a'', gh_approver = ''k'', gh_statement_id = ''s'',
     gh_statement_sha256 = ''h'', gh_hackathon_id = ''h'', gh_pool = ''contributor'', gh_github_user_id = 2, gh_login = ''bo'',
     gh_recipient = ''w'', gh_currency = ''USDC'', gh_network = ''n'', gh_mint = ''m'', gh_amount_minor = ''4'', gh_day = ''d'',
     gh_row_status = GH_unknown, gh_tx_signature = ''sig'', gh_last_valid_block_height = Some 10, gh_error = None,
     gh_resolved_by = None, gh_resolved_reason = None, gh_resolved_at = None, gh_resolution = None, gh_created_at = 0, gh_updated_at = 0\<rparr>"

theorem resolution_follows_the_chain_witness:
  "(let j' = snd (resolvePayout (\<lambda>_. Not_found 11) (\<lambda>_ _. ''e'') 7 ''p'' ''ann'' ''gone'' \<lparr>gj_rows = [demo_gh_row], gj_transitions = [], gj_next = 2\<rparr>)
    in tr_to (last (gj_transitions j')) = GH_failed_unsent)"
proof -
  let ?j = "\<lparr>gj_rows = [demo_gh_row], gj_transitions = [], gj_next = 2\<rparr>"
  have b: "byPayoutId ?j ''p'' = Some demo_gh_row" by (simp add: byPayoutId_def demo_gh_row_def)
  have t: "js_trim ''ann'' \<noteq> []" "js_trim ''gone'' \<noteq> []" by code_simp+
  have f: "gh_id demo_gh_row = 1" "gh_row_status demo_gh_row = GH_unknown" "gh_tx_signature demo_gh_row = ''sig''"
    "gh_last_valid_block_height demo_gh_row = Some 10" by (simp_all add: demo_gh_row_def)
  obtain j' where r: "resolvePayout (\<lambda>_. Not_found 11) (\<lambda>_ _. ''e'') 7 ''p'' ''ann'' ''gone'' ?j = (Inr (True, Blockhash_expired 11 10), j')"
    by (simp add: resolvePayout_def b t gh_decide_def gh_resolve_def transition_def gh_row_of_def f Let_def)
  show ?thesis using resolution_follows_the_chain [OF b r] r by (simp add: Let_def)
qed

end
