(* ===== verification/Link.thy ===== *)
theory Link
  imports Ed25519 Regex
begin

text \<open>
  packages/gate/src/link.ts: linking a wallet to a GitHub account by a signed comment. GitHub says who
  wrote the comment; the message that must be signed is rebuilt from that login.
\<close>

definition LINK_COMMAND :: re where
  "LINK_COMMAND = seqs [Bol True, lit ''/grainlify'', plus1 (Cls is_space), lit ''link'', plus1 (Cls is_space),
     Grp 1 (plus1 (Cls (\<lambda>c. \<not> is_space c))), plus1 (Cls is_space), Grp 2 (plus1 (Cls (\<lambda>c. \<not> is_space c))), plus1 (Cls is_space),
     Grp 3 (plus1 (Cls (\<lambda>c. \<not> is_space c))), star (Cls is_space), Eol True]"

definition LINK_MAX_AGE_MS :: time_ms where
  "LINK_MAX_AGE_MS = 24 * 60 * 60 * 1000"

definition linkMessage :: "string \<Rightarrow> string \<Rightarrow> string \<Rightarrow> string" where
  "linkMessage githubLogin wallet issuedAt =
     ''Grainlify bounty agent: link this wallet to my GitHub account'' @ newline @ ''GitHub: '' @ to_lower githubLogin @ newline
     @ ''Wallet: '' @ wallet @ newline @ ''Issued: '' @ issuedAt"

datatype link_refusal = Not_an_address | Issued_at_invalid | Issued_in_future | Link_too_old | Link_unsigned string

record wallet_link_claim =
  wl_wallet :: string
  wl_signature :: string
  wl_issuedAt :: string
  wl_message :: string

definition parseAndVerifyLinkComment :: "platform \<Rightarrow> string \<Rightarrow> string \<Rightarrow> time_ms \<Rightarrow> (link_refusal + wallet_link_claim) option" where
  "parseAndVerifyLinkComment P body commentAuthorLogin now =
     (case re_exec LINK_COMMAND body of
        None \<Rightarrow> None
      | Some m \<Rightarrow>
          (case (group 1 m, group 2 m, group 3 m) of
             (Some wallet, Some signature, Some issuedAt) \<Rightarrow>
               Some (if \<not> isSolanaAddress P wallet then Inl Not_an_address
                 else case parse_date P issuedAt of
                   None \<Rightarrow> Inl Issued_at_invalid
                 | Some issued \<Rightarrow>
                     if issued > now + 5 * 60000 then Inl Issued_in_future
                     else if now - issued > LINK_MAX_AGE_MS then Inl Link_too_old
                     else let message = linkMessage commentAuthorLogin wallet issuedAt in
                       if \<not> verifyDetached P wallet message signature then Inl (Link_unsigned commentAuthorLogin)
                       else Inr \<lparr>wl_wallet = wallet, wl_signature = signature, wl_issuedAt = issuedAt, wl_message = message\<rparr>)
           | _ \<Rightarrow> None))"

text \<open>What acceptance means: the wallet signed, for this author's account, less than a day before.\<close>

lemma link_comment_accepted:
  assumes "parseAndVerifyLinkComment P body login now = Some (Inr c)"
  shows "verifyDetached P (wl_wallet c) (linkMessage login (wl_wallet c) (wl_issuedAt c)) (wl_signature c)
    \<and> wl_message c = linkMessage login (wl_wallet c) (wl_issuedAt c) \<and> isSolanaAddress P (wl_wallet c)
    \<and> (\<exists>issued. parse_date P (wl_issuedAt c) = Some issued \<and> now - LINK_MAX_AGE_MS \<le> issued \<and> issued \<le> now + 300000)"
  using assms by (auto simp: parseAndVerifyLinkComment_def Let_def split: option.splits if_splits)

text \<open>Messages for two accounts differ, unless the logins differ by case alone.\<close>

lemma linkMessage_login:
  assumes "linkMessage a w i = linkMessage b w i"
  shows "to_lower a = to_lower b"
  using assms by (simp add: linkMessage_def)

end
