(* ===== verification/JsText.thy ===== *)
theory JsText
  imports Regex JsonParse JsNumber
begin

text \<open>
  What the code does with text beyond the prelude: \<open>String.prototype.replace\<close> with a plain replacement,
  \<open>split\<close> at a character, padding, and the conversions \<open>String(v)\<close> and \<open>Object.entries(v)\<close> of a JSON value.
\<close>

section \<open>replace\<close>

text \<open>
  A global replacement goes on behind each match, and one character further when the match was empty.
  The fuel is the length of the text plus one.
\<close>

fun replace_go :: "nat \<Rightarrow> re \<Rightarrow> string \<Rightarrow> char option \<Rightarrow> string \<Rightarrow> string" where
  "replace_go 0 r by b s = s"
| "replace_go (Suc n) r by b s =
     (case rmatch r \<lparr>before = b, rest = s, caps = []\<rparr> of
        st # _ \<Rightarrow>
          if length (rest st) < length s then by @ replace_go n r by (before st) (rest st)
          else by @ (case s of [] \<Rightarrow> [] | c # cs \<Rightarrow> c # replace_go n r by (Some c) cs)
      | [] \<Rightarrow> (case s of [] \<Rightarrow> [] | c # cs \<Rightarrow> c # replace_go n r by (Some c) cs))"

definition replace_all :: "re \<Rightarrow> string \<Rightarrow> string \<Rightarrow> string" where
  "replace_all r by s = replace_go (Suc (length s)) r by None s"

fun replace_from :: "re \<Rightarrow> string \<Rightarrow> char option \<Rightarrow> string \<Rightarrow> string" where
  "replace_from r by b s =
     (case rmatch r \<lparr>before = b, rest = s, caps = []\<rparr> of
        st # _ \<Rightarrow> by @ rest st
      | [] \<Rightarrow> (case s of [] \<Rightarrow> [] | c # cs \<Rightarrow> c # replace_from r by (Some c) cs))"

declare replace_from.simps [simp del]

definition replace_first :: "re \<Rightarrow> string \<Rightarrow> string \<Rightarrow> string" where
  "replace_first r by s = replace_from r by None s"

text \<open>A class of characters replaced one for one.\<close>

lemma replace_go_class:
  "length s < n \<Longrightarrow> replace_go n (Cls p) by b s = concat (map (\<lambda>c. if p c then by else [c]) s)"
proof (induction s arbitrary: n b)
  case Nil
  then show ?case by (cases n) (auto simp: rmatch.simps)
next
  case (Cons c s)
  then obtain m where "n = Suc m" by (cases n) auto
  with Cons show ?case by (auto simp: rmatch.simps)
qed

lemma replace_all_class: "replace_all (Cls p) by s = concat (map (\<lambda>c. if p c then by else [c]) s)"
  by (simp add: replace_all_def replace_go_class del: replace_go.simps)

section \<open>split\<close>

fun split_at :: "char \<Rightarrow> string \<Rightarrow> string list" where
  "split_at d [] = [[]]"
| "split_at d (c # cs) =
     (if c = d then [] # split_at d cs
      else case split_at d cs of [] \<Rightarrow> [[c]] | w # ws \<Rightarrow> (c # w) # ws)"

lemma split_at_nonempty [simp]: "split_at d s \<noteq> []"
  by (induction s) (auto split: list.split)

lemma join_split_at: "join [d] (split_at d s) = s"
proof (induction s)
  case (Cons c cs)
  then show ?case
    by (cases "split_at d cs" rule: list.exhaust; cases "tl (split_at d cs)") (auto simp: neq_Nil_conv)
qed simp

lemma split_at_parts: "w \<in> set (split_at d s) \<Longrightarrow> d \<notin> set w"
  by (induction s arbitrary: w) (auto split: if_splits list.splits)

section \<open>Values as text and entries\<close>

text \<open>\<open>String(j)\<close> of a JSON value; numbers that are no printable integer print as \<open>other\<close> says.\<close>

fun json_String :: "(jsnum \<Rightarrow> string) \<Rightarrow> json \<Rightarrow> string" where
  "json_String other JNull = ''null''"
| "json_String other (JBool b) = (if b then ''true'' else ''false'')"
| "json_String other (JNum n) = js_number_string other n"
| "json_String other (JStr s) = s"
| "json_String other (JArr xs) = join '','' (map (\<lambda>x. if x = JNull then [] else json_String other x) xs)"
| "json_String other (JObj es) = ''[object Object]''"

definition indexed :: "'a list \<Rightarrow> (string \<times> 'a) list" where
  "indexed xs = zip (map show_nat [0..<length xs]) xs"

text \<open>\<open>Object.entries(j)\<close>: it throws on null, and a string has its characters.\<close>

definition js_entries :: "json \<Rightarrow> (string \<times> json) list option" where
  "js_entries j = (case j of JNull \<Rightarrow> None | JObj es \<Rightarrow> Some es | JArr xs \<Rightarrow> Some (indexed xs)
     | JStr s \<Rightarrow> Some (indexed (map (\<lambda>c. JStr [c]) s)) | _ \<Rightarrow> Some [])"

text \<open>\<open>v.k\<close> of a value that may be null or absent, with \<open>?.\<close>\<close>

definition opt_prop :: "json option \<Rightarrow> string \<Rightarrow> json option" where
  "opt_prop v k = (case v of Some (JObj es) \<Rightarrow> map_of es k | _ \<Rightarrow> None)"

end
