(* ===== verification/AgentConfig.thy ===== *)
theory AgentConfig
  imports JsText Gate
begin

text \<open>
  apps/agent/src: configuration helpers (config.ts), the prompts' parsers (prompts.ts) and the check
  that agent and payout signer agree about mints (mint-check.ts). What a model answers is text of any
  shape; the parsers either read it within bounds or throw.
\<close>

section \<open>config.ts\<close>

definition explorerTx :: "string \<Rightarrow> string \<Rightarrow> string" where
  "explorerTx network sig =
     (if network = ''solana-mainnet'' then ''https://solscan.io/tx/'' @ sig
      else if network = ''solana-devnet'' then ''https://solscan.io/tx/'' @ sig @ ''?cluster=devnet''
      else if network = ''base-sepolia'' then ''https://sepolia.basescan.org/tx/'' @ sig
      else ''('' @ network @ '') '' @ sig)"

text \<open>BigInt division truncates, and the remainder takes the sign of the dividend.\<close>

definition formatAmount :: "bigint \<Rightarrow> nat \<Rightarrow> string \<Rightarrow> string" where
  "formatAmount minor decimals currency =
     (let base = 10 ^ decimals;
          whole = sgn minor * (\<bar>minor\<bar> div base);
          remainder = sgn minor * (\<bar>minor\<bar> mod base);
          frac = replace_first (Seq (plus1 (lit ''0'')) (Eol False)) [] (pad_left decimals (CHR ''0'') (show_int remainder)) in
      show_int whole @ (if frac = [] then [] else ''.'' @ frac) @ '' '' @ currency)"

definition allowedPayoutNetworks :: "string option \<Rightarrow> string list" where
  "allowedPayoutNetworks GATE_ALLOW_MAINNET =
     (if GATE_ALLOW_MAINNET = Some ''yes'' then [''solana-mainnet''] else [''solana-devnet'', ''localnet''])"

section \<open>prompts.ts\<close>

datatype prompt_error = No_assistant_text | No_json_object | Not_json | Not_an_object | Suggested_usd_not_a_number | Price_not_whole | Threw_on_null

text \<open>
  \<open>assistantText\<close>: the first choice's message, or the text parts of an Anthropic answer. A value is
  read with \<open>?.\<close> up to the message; a part of the content that is null throws.
\<close>

definition json_index0 :: "json option \<Rightarrow> json option" where
  "json_index0 v = (case v of Some (JArr (x # _)) \<Rightarrow> Some x | Some (JStr (c # _)) \<Rightarrow> Some (JStr [c]) | Some (JObj es) \<Rightarrow> map_of es ''0'' | _ \<Rightarrow> None)"

definition is_truthy :: "json option \<Rightarrow> bool" where
  "is_truthy v = (case v of None \<Rightarrow> False | Some JNull \<Rightarrow> False | Some (JBool b) \<Rightarrow> b | Some (JNum n) \<Rightarrow> n \<noteq> 0
     | Some (JStr s) \<Rightarrow> s \<noteq> [] | Some _ \<Rightarrow> True)"

definition assistantText :: "(jsnum \<Rightarrow> string) \<Rightarrow> json \<Rightarrow> prompt_error + json" where
  "assistantText other resp =
     (let content0 = opt_prop (opt_prop (json_index0 (opt_prop (Some resp) ''choices'')) ''message'') ''content'' in
      if is_truthy content0 then Inr (the content0)
      else case opt_prop (Some resp) ''content'' of
        Some (JArr parts) \<Rightarrow>
          if JNull \<in> set parts then Inl Threw_on_null
          else Inr (JStr (concat (map (\<lambda>c. case opt_prop (Some c) ''text'' of None \<Rightarrow> [] | Some JNull \<Rightarrow> [] | Some t \<Rightarrow> json_String other t)
                 (filter (\<lambda>c. opt_prop (Some c) ''type'' = Some (JStr ''text'')) parts))))
      | _ \<Rightarrow> Inl No_assistant_text)"

definition firstJsonObject :: "string \<Rightarrow> prompt_error + (string \<times> json) list" where
  "firstJsonObject text =
     (let from_brace = dropWhile (\<lambda>c. c \<noteq> CHR ''{'') text;
          to_brace = rev (dropWhile (\<lambda>c. c \<noteq> CHR ''}'') (rev from_brace)) in
      if from_brace = [] \<or> to_brace = [] then Inl No_json_object
      else case json_parse to_brace of
        None \<Rightarrow> Inl Not_json
      | Some (JObj es) \<Rightarrow> Inr es
      | Some _ \<Rightarrow> Inl Not_an_object)"

definition clip :: "(jsnum \<Rightarrow> string) \<Rightarrow> json option \<Rightarrow> nat \<Rightarrow> string" where
  "clip other v n =
     take n (replace_all (Cls (\<lambda>c. code c < 32)) '' '' (case v of None \<Rightarrow> [] | Some JNull \<Rightarrow> [] | Some j \<Rightarrow> json_String other j))"

datatype complexity = Trivial | Small | Medium | Large

record pricing =
  pc_worth_funding :: bool
  pc_effort_hours :: jsnum
  pc_complexity :: complexity
  pc_suggested_usd :: jsnum
  pc_rationale :: string

text \<open>\<open>String(j.complexity)\<close> must be one of the four names; an array holding just one prints as that name too.\<close>

definition complexity_of :: "string \<Rightarrow> complexity option" where
  "complexity_of s = map_of [(''trivial'', Trivial), (''small'', Small), (''medium'', Medium), (''large'', Large)] s"

definition parsePricing :: "(jsnum \<Rightarrow> string) \<Rightarrow> string \<Rightarrow> prompt_error + pricing" where
  "parsePricing other text =
     (case firstJsonObject text of
        Inl e \<Rightarrow> Inl e
      | Inr j \<Rightarrow>
          (case map_of j ''suggested_usd'' of
             Some (JNum suggested) \<Rightarrow>
               Inr \<lparr>pc_worth_funding = (map_of j ''worth_funding'' = Some (JBool True)),
                 pc_effort_hours = (case map_of j ''effort_hours'' of Some (JNum h) \<Rightarrow> max 0 h | _ \<Rightarrow> 0),
                 pc_complexity = (case map_of j ''complexity'' of None \<Rightarrow> Medium
                   | Some c \<Rightarrow> (case complexity_of (json_String other c) of Some x \<Rightarrow> x | None \<Rightarrow> Medium)),
                 pc_suggested_usd = suggested, pc_rationale = clip other (map_of j ''rationale'') 300\<rparr>
           | _ \<Rightarrow> Inl Suggested_usd_not_a_number))"

datatype verdict = Looks_complete | Needs_changes | Unclear

record review =
  rw_verdict :: verdict
  rw_summary :: string
  rw_concerns :: "string list"

definition verdict_of :: "string \<Rightarrow> verdict option" where
  "verdict_of s = map_of [(''looks_complete'', Looks_complete), (''needs_changes'', Needs_changes), (''unclear'', Unclear)] s"

definition parseReview :: "(jsnum \<Rightarrow> string) \<Rightarrow> string \<Rightarrow> prompt_error + review" where
  "parseReview other text =
     (case firstJsonObject text of
        Inl e \<Rightarrow> Inl e
      | Inr j \<Rightarrow>
          Inr \<lparr>rw_verdict = (case map_of j ''verdict'' of None \<Rightarrow> Unclear
                 | Some v \<Rightarrow> (case verdict_of (json_String other v) of Some x \<Rightarrow> x | None \<Rightarrow> Unclear)),
               rw_summary = clip other (map_of j ''summary'') 1200,
               rw_concerns = (case map_of j ''concerns'' of Some (JArr cs) \<Rightarrow> map (\<lambda>c. clip other (Some c) 200) (take 5 cs) | _ \<Rightarrow> [])\<rparr>)"

text \<open>\<open>Math.round\<close>, then clamped; BigInt throws unless that is whole.\<close>

definition clampPriceMinor :: "jsnum \<Rightarrow> jsnum \<Rightarrow> jsnum \<Rightarrow> nat \<Rightarrow> prompt_error + bigint" where
  "clampPriceMinor suggestedUsd minUsd maxUsd decimals =
     (let usd = min maxUsd (max minUsd (of_int \<lfloor>suggestedUsd + 1/2\<rfloor>)) in
      if is_integer usd then Inr (\<lfloor>usd\<rfloor> * 10 ^ decimals) else Inl Price_not_whole)"

lemma clamped_price:
  assumes "clampPriceMinor s (of_int lo) (of_int hi) d = Inr p" "lo \<le> hi"
  shows "lo * 10 ^ d \<le> p \<and> p \<le> hi * 10 ^ d"
proof -
  have "p = min hi (max lo \<lfloor>s + 1/2\<rfloor>) * 10 ^ d"
    using assms(1) by (auto simp: clampPriceMinor_def Let_def min_def max_def split: if_splits)
  with assms(2) show ?thesis by (simp add: mult_right_mono)
qed

lemma clamp_total: "\<exists>p. clampPriceMinor s (of_int lo) (of_int hi) d = Inr p"
  by (auto simp: clampPriceMinor_def Let_def is_integer_def min_def max_def)

section \<open>mint-check.ts\<close>

record agent_mint =
  am_mint :: string
  am_decimals :: jsnum

record agent_mints =
  ag_network :: string
  ag_mints :: "(string \<times> agent_mint) list"

datatype mint_problem = Network_differs string "json option" | No_signer_mint string
  | Mint_differs string string "json option" | Decimals_differ string jsnum "json option"

definition mint_problems :: "json \<Rightarrow> string \<times> agent_mint \<Rightarrow> mint_problem list" where
  "mint_problems signer_mints e =
     (case e of (currency, a) \<Rightarrow>
        let s = opt_prop (Some signer_mints) currency in
        if \<not> is_truthy s then [No_signer_mint currency]
        else (if opt_prop s ''mint'' = Some (JStr (am_mint a)) then [] else [Mint_differs currency (am_mint a) (opt_prop s ''mint'')])
          @ (if opt_prop s ''decimals'' = Some (JNum (am_decimals a)) then [] else [Decimals_differ currency (am_decimals a) (opt_prop s ''decimals'')]))"

definition compareMints :: "agent_mints \<Rightarrow> json \<Rightarrow> mint_problem list" where
  "compareMints agent signer =
     (if opt_prop (Some signer) ''network'' = Some (JStr (ag_network agent)) then []
      else [Network_differs (ag_network agent) (opt_prop (Some signer) ''network'')])
     @ concat (map (mint_problems (case opt_prop (Some signer) ''mints'' of Some m \<Rightarrow> m | None \<Rightarrow> JNull)) (ag_mints agent))"

record mint_check =
  mc_ok :: bool
  mc_problems :: "mint_problem list"
  mc_signer :: "json option"
  mc_unreachable :: bool

definition not_reached :: mint_check where
  "not_reached = \<lparr>mc_ok = True, mc_problems = [], mc_signer = None, mc_unreachable = True\<rparr>"

text \<open>The signer's answer: nothing when the request threw, else its status and body.\<close>

definition checkMintsAgainstSigner :: "agent_mints \<Rightarrow> (bool \<times> string) option \<Rightarrow> mint_check" where
  "checkMintsAgainstSigner agent answer =
     (case answer of
        None \<Rightarrow> not_reached
      | Some (r_ok, body) \<Rightarrow>
          if \<not> r_ok then not_reached
          else (case json_parse body of
             None \<Rightarrow> not_reached
           | Some signer \<Rightarrow>
               if \<not> is_truthy (opt_prop (Some signer) ''mints'') then not_reached
               else let problems = compareMints agent signer in
                 \<lparr>mc_ok = (problems = []), mc_problems = problems, mc_signer = Some signer, mc_unreachable = False\<rparr>))"

definition assertMintsAgree :: "agent_mints \<Rightarrow> string option \<Rightarrow> string option \<Rightarrow> string option \<Rightarrow> (bool \<times> string) option
    \<Rightarrow> mint_problem list + mint_check" where
  "assertMintsAgree agent url token MINT_MISMATCH answer =
     (if url \<in> {None, Some []} \<or> token \<in> {None, Some []} then Inr not_reached
      else let r = checkMintsAgainstSigner agent answer in
        if mc_unreachable r \<or> mc_ok r \<or> MINT_MISMATCH = Some ''warn'' then Inr r else Inl (mc_problems r))"

text \<open>A boot that was not told to go on and that reached the signer has every mint of the agent at the signer.\<close>

lemma mint_problems_none:
  "mint_problems ms (currency, a) = [] \<longleftrightarrow> (\<exists>es. opt_prop (Some ms) currency = Some (JObj es)
     \<and> map_of es ''mint'' = Some (JStr (am_mint a)) \<and> map_of es ''decimals'' = Some (JNum (am_decimals a)))"
  by (auto simp: mint_problems_def Let_def is_truthy_def opt_prop_def split: option.splits json.splits if_splits)

lemma boot_agrees:
  assumes "assertMintsAgree agent url token warn answer = Inr r" "\<not> mc_unreachable r" "warn \<noteq> Some ''warn''"
  shows "\<exists>signer. mc_signer r = Some signer \<and> opt_prop (Some signer) ''network'' = Some (JStr (ag_network agent))
    \<and> (\<forall>(c, a) \<in> set (ag_mints agent). \<exists>es. opt_prop (opt_prop (Some signer) ''mints'') c = Some (JObj es)
        \<and> map_of es ''mint'' = Some (JStr (am_mint a)) \<and> map_of es ''decimals'' = Some (JNum (am_decimals a)))"
proof -
  obtain signer where s: "mc_signer r = Some signer" "compareMints agent signer = []" "is_truthy (opt_prop (Some signer) ''mints'')"
    using assms by (auto simp: assertMintsAgree_def checkMintsAgainstSigner_def not_reached_def Let_def split: option.splits if_splits)
  then show ?thesis
    by (fastforce simp: compareMints_def mint_problems_none is_truthy_def split: option.splits if_splits)
qed

end
