(* ===== verification/Fit.thy ===== *)
theory Fit
  imports JsText
begin

text \<open>
  packages/gate/src/fit.ts: what goes into the fit assessment and what is read out of it. The system
  prompt itself is prose and not modelled. A text that is cut ends in the character U+2026, which the
  8-bit characters of this development do not have: it is the argument \<open>dots\<close>.
\<close>

datatype fit = Strong | Plausible | Weak

datatype difficulty_match = Below | Matched | Above

record fit_assessment =
  fa_fit :: fit
  fa_difficulty_match :: difficulty_match
  fa_evidence :: string
  fa_relevant_languages_present :: bool
  fa_read_the_issue :: bool
  fa_concerns :: "string list"

definition FIT_CONCERNS :: "string list" where
  "FIT_CONCERNS = [''instruction_injection_attempt'', ''evidence_contradicts_claims'', ''no_public_code'']"

section \<open>Into the prompt\<close>

record fit_input =
  fi_title :: string
  fi_body :: string
  fi_acceptanceCriteria :: string
  fi_difficultyTier :: string
  fi_primaryLanguage :: string
  fi_evidence :: "json option"
  fi_applicationText :: string

record fit_caps =
  fc_title :: nat
  fc_body :: nat
  fc_acceptanceCriteria :: nat
  fc_applicationText :: nat
  fc_language :: nat

definition FIT_CAPS :: fit_caps where
  "FIT_CAPS = \<lparr>fc_title = 300, fc_body = 4000, fc_acceptanceCriteria = 2000, fc_applicationText = 2000, fc_language = 50\<rparr>"

definition truncate :: "string \<Rightarrow> string \<Rightarrow> nat \<Rightarrow> string" where
  "truncate dots s n = (if length s \<le> n then s else take n s @ dots)"

definition spaces :: re where
  "spaces = star (Cls is_space)"

definition OUR_TAGS :: re where
  "OUR_TAGS = seqs [lit ''<'', spaces, opt (lit ''/''), spaces,
     Grp 1 (alts [lit_i ''issue'', lit_i ''issue_body'', lit_i ''acceptance_criteria'', lit_i ''contributor_evidence'',
       lit_i ''application_text'', lit_i ''system'']),
     WordB, star (Cls (\<lambda>c. c \<noteq> CHR ''>'')), lit ''>'']"

definition untrusted :: "string \<Rightarrow> string \<Rightarrow> nat \<Rightarrow> string" where
  "untrusted dots s n = truncate dots (replace_all OUR_TAGS ''[removed]'' s) n"

definition oneLine :: "string \<Rightarrow> string \<Rightarrow> nat \<Rightarrow> string" where
  "oneLine dots s n = untrusted dots (js_trim (replace_all (plus1 (Cls is_line_end)) '' '' s)) n"

definition or_else :: "string \<Rightarrow> string \<Rightarrow> string" where
  "or_else s d = (if s = [] then d else s)"

definition escaped_evidence :: "(jsnum \<Rightarrow> string) \<Rightarrow> json option \<Rightarrow> string" where
  "escaped_evidence other e =
     replace_all (chr (CHR ''<'')) (bslash # ''u003c'')
       (stringify other (case e of None \<Rightarrow> JObj [] | Some JNull \<Rightarrow> JObj [] | Some j \<Rightarrow> j))"

definition fitUserContent :: "(jsnum \<Rightarrow> string) \<Rightarrow> string \<Rightarrow> fit_input \<Rightarrow> string" where
  "fitUserContent other dots i =
     (let language = or_else (oneLine dots (fi_primaryLanguage i) (fc_language FIT_CAPS)) ''unknown'';
          criteria = untrusted dots (js_trim (fi_acceptanceCriteria i)) (fc_acceptanceCriteria FIT_CAPS) in
      join newline
       [''<issue>'',
        ''difficulty_tier: '' @ oneLine dots (fi_difficultyTier i) 20,
        ''primary_language: '' @ language,
        ''title: '' @ oneLine dots (fi_title i) (fc_title FIT_CAPS),
        ''<issue_body>'',
        or_else (untrusted dots (js_trim (fi_body i)) (fc_body FIT_CAPS)) ''(empty)'',
        ''</issue_body>'',
        ''<acceptance_criteria>'',
        or_else criteria ''(not stated separately; see the issue body)'',
        ''</acceptance_criteria>'',
        ''</issue>'',
        [],
        ''<contributor_evidence>'',
        escaped_evidence other (fi_evidence i),
        ''</contributor_evidence>'',
        [],
        ''<application_text>'',
        untrusted dots (fi_applicationText i) (fc_applicationText FIT_CAPS),
        ''</application_text>''])"

section \<open>The acceptance criteria\<close>

definition bold :: re where
  "bold = Alt (lit ''**'') (lit ''__'')"

definition hashes :: re where
  "hashes = Rep 1 (Some 6) (lit ''#'')"

definition CRITERIA_LABEL :: re where
  "CRITERIA_LABEL = seqs [Bol False, spaces, opt (Seq hashes spaces), opt bold, spaces,
     alts [seqs [lit_i ''acceptance'', plus1 (Cls is_space), lit_i ''criteria''],
           seqs [lit_i ''definition'', plus1 (Cls is_space), lit_i ''of'', plus1 (Cls is_space), lit_i ''done'']],
     spaces,
     alts [seqs [bold, spaces, opt (lit '':'')], seqs [lit '':'', spaces, opt bold], Eol False],
     spaces, Grp 1 (star (Cls (\<lambda>c. \<not> is_line_end c))), Eol False]"

definition NEXT_SECTION :: re where
  "NEXT_SECTION = seqs [Bol False, spaces,
     Grp 1 (Alt (seqs [hashes, plus1 (Cls is_space), Cls (\<lambda>c. \<not> is_space c)])
                (seqs [Grp 2 bold, plus1 (Cls (\<lambda>c. c \<noteq> CHR ''*'' \<and> c \<noteq> CHR ''_'')), Grp 3 bold, spaces, opt (lit '':''), spaces, Eol False]))]"

fun unix_lines :: "string \<Rightarrow> string" where
  "unix_lines [] = []"
| "unix_lines [c] = (if code c = 13 then newline else [c])"
| "unix_lines (c # d # cs) =
     (if code c \<noteq> 13 then c # unix_lines (d # cs)
      else if code d = 10 then newline @ unix_lines cs
      else newline @ unix_lines (d # cs))"

definition acceptanceCriteriaFrom :: "string \<Rightarrow> string" where
  "acceptanceCriteriaFrom body =
     (case dropWhile (\<lambda>l. \<not> re_test CRITERIA_LABEL l) (split_at (CHR 0x0A) (unix_lines body)) of
        [] \<Rightarrow> []
      | start # following \<Rightarrow>
          (let inline = (case re_exec CRITERIA_LABEL start of None \<Rightarrow> [] | Some m \<Rightarrow> (case group 1 m of None \<Rightarrow> [] | Some t \<Rightarrow> js_trim t));
               out = (if inline = [] then [] else [inline]) @ takeWhile (\<lambda>l. \<not> re_test NEXT_SECTION l) following in
           js_trim (join newline out)))"

section \<open>Out of the answer\<close>

definition fallback_assessment :: fit_assessment where
  "fallback_assessment = \<lparr>fa_fit = Plausible, fa_difficulty_match = Matched, fa_evidence = [],
     fa_relevant_languages_present = False, fa_read_the_issue = False, fa_concerns = []\<rparr>"

definition FENCE_OPEN :: re where
  "FENCE_OPEN = seqs [Bol False, lit ''```'', opt (lit_i ''json''), spaces]"

definition FENCE_CLOSE :: re where
  "FENCE_CLOSE = seqs [spaces, lit ''```'', Eol False]"

definition fit_of :: "json option \<Rightarrow> fit option" where
  "fit_of v = (case v of Some (JStr s) \<Rightarrow> map_of [(''strong'', Strong), (''plausible'', Plausible), (''weak'', Weak)] s | _ \<Rightarrow> None)"

definition match_of :: "json option \<Rightarrow> difficulty_match option" where
  "match_of v = (case v of Some (JStr s) \<Rightarrow> map_of [(''below'', Below), (''matched'', Matched), (''above'', Above)] s | _ \<Rightarrow> None)"

text \<open>The assessment and whether the answer was malformed.\<close>

definition parseFit :: "string \<Rightarrow> string \<Rightarrow> fit_assessment \<times> bool" where
  "parseFit dots text =
     (case json_parse (replace_first FENCE_CLOSE [] (replace_first FENCE_OPEN [] (js_trim text))) of
        None \<Rightarrow> (fallback_assessment, True)
      | Some raw \<Rightarrow>
          (let get = opt_prop (Some raw) in
           case (fit_of (get ''fit''), match_of (get ''difficulty_match'')) of
             (Some f, Some d) \<Rightarrow>
               (\<lparr>fa_fit = f, fa_difficulty_match = d,
                 fa_evidence = (case get ''evidence'' of Some (JStr s) \<Rightarrow> truncate dots s 500 | _ \<Rightarrow> []),
                 fa_relevant_languages_present = (get ''relevant_languages_present'' = Some (JBool True)),
                 fa_read_the_issue = (get ''read_the_issue'' = Some (JBool True)),
                 fa_concerns = (case get ''concerns'' of
                     Some (JArr cs) \<Rightarrow> filter (\<lambda>s. s \<in> set FIT_CONCERNS) (concat (map (\<lambda>c. case c of JStr s \<Rightarrow> [s] | _ \<Rightarrow> []) cs))
                   | _ \<Rightarrow> [])\<rparr>, False)
           | _ \<Rightarrow> (fallback_assessment, True)))"

section \<open>What holds of them\<close>

lemma length_truncate: "length (truncate dots s n) \<le> n + length dots"
  by (simp add: truncate_def)

text \<open>No tag can be made of the evidence: it has no angle bracket to open one.\<close>

lemma evidence_has_no_tag: "CHR ''<'' \<notin> set (escaped_evidence other e)"
  by (auto simp: escaped_evidence_def chr_def replace_all_class bslash_def split: if_splits)

text \<open>
  C40. Whatever the model answers, the assessment is on the schema: its concerns are of the three known
  ones, its evidence is cut at 500 characters, and anything else it says that is off the schema makes
  the answer plausible and matched, with nothing held against the applicant.
\<close>

theorem fit_answer_is_on_schema:
  "set (fa_concerns (fst (parseFit dots text))) \<subseteq> {''instruction_injection_attempt'', ''evidence_contradicts_claims'', ''no_public_code''}
   \<and> length (fa_evidence (fst (parseFit dots text))) \<le> 500 + length dots
   \<and> (snd (parseFit dots text) \<longrightarrow> fa_fit (fst (parseFit dots text)) = Plausible
       \<and> fa_difficulty_match (fst (parseFit dots text)) = Matched \<and> fa_concerns (fst (parseFit dots text)) = [])"
  using length_truncate [of dots _ 500]
  by (auto simp: parseFit_def fallback_assessment_def FIT_CONCERNS_def Let_def split: option.splits json.splits)

theorem fit_answer_is_on_schema_witness:
  "fa_concerns (fst (parseFit [] ''{\"fit\": \"weak\"}'')) = []"
proof -
  have bad: "snd (parseFit [] ''{\"fit\": \"weak\"}'')" by code_simp
  with fit_answer_is_on_schema [of "[]" "''{\"fit\": \"weak\"}''"] show ?thesis by blast
qed

text \<open>
  A tag that is never closed is left in place, and the angle bracket of the block's own closing tag,
  which follows on the next line, completes it.
\<close>

lemma unclosed_tag_passes: "untrusted dots ''</application_text'' 2000 = ''</application_text''"
  by (simp add: untrusted_def) code_simp

end
