(* ===== verification/GrainhackConfig.thy ===== *)
theory GrainhackConfig
  imports GrainhackSigner JsText
begin

text \<open>
  services/signer/src/grainhack: reading GRAINHACK_CAPS (caps.ts) and the signer's own environment
  (config.ts). The environment is a map; what is malformed stops the process, as a thrown error.
\<close>

type_synonym environment = "string \<rightharpoonup> string"

datatype gh_config_error = Not_json_value string | Not_an_entry_object | Unknown_cap string string | Cap_not_decimal string string
  | Required string | Network_unknown string | Mainnet_not_allowed | Foreign_keys "string list" | Bad_mint string
  | Bad_results_pubkey | Approvers_not_addresses

text \<open>\<open>env.K?.trim()\<close> when it is not empty.\<close>

definition set_var :: "environment \<Rightarrow> string \<Rightarrow> string option" where
  "set_var env k = (case env k of None \<Rightarrow> None | Some v \<Rightarrow> if js_trim v = [] then None else Some (js_trim v))"

section \<open>caps.ts\<close>

definition CAP_VALUE :: re where
  "CAP_VALUE = seqs [Bol False, Cls (\<lambda>c. is_digit c \<and> c \<noteq> CHR ''0''), star digitc, Eol False]"

definition put_cap :: "string \<Rightarrow> bigint \<Rightarrow> gh_lower_caps \<Rightarrow> gh_lower_caps" where
  "put_cap k v c =
     (if k = ''perPayoutMaxMinor'' then c\<lparr>lc_perPayoutMaxMinor := Some v\<rparr>
      else if k = ''perEventMaxMinor'' then c\<lparr>lc_perEventMaxMinor := Some v\<rparr>
      else c\<lparr>lc_dailyMaxMinor := Some v\<rparr>)"

fun parse_caps_of :: "string \<Rightarrow> gh_lower_caps \<Rightarrow> (string \<times> json) list \<Rightarrow> gh_config_error + gh_lower_caps" where
  "parse_caps_of currency one [] = Inr one"
| "parse_caps_of currency one ((k, v) # kvs) =
     (if k \<notin> {''perPayoutMaxMinor'', ''perEventMaxMinor'', ''dailyMaxMinor''} then Inl (Unknown_cap currency k)
      else case v of
        JStr s \<Rightarrow> if re_test CAP_VALUE s then parse_caps_of currency (put_cap k (int (digits_val s)) one) kvs
                  else Inl (Cap_not_decimal currency k)
      | _ \<Rightarrow> Inl (Cap_not_decimal currency k))"

fun parse_currencies :: "(string \<rightharpoonup> gh_lower_caps) \<Rightarrow> (string \<times> json) list \<Rightarrow> gh_config_error + (string \<rightharpoonup> gh_lower_caps)" where
  "parse_currencies out [] = Inr out"
| "parse_currencies out ((currency, c) # others) =
     (case js_entries c of
        None \<Rightarrow> Inl Not_an_entry_object
      | Some kvs \<Rightarrow>
          (case parse_caps_of currency no_caps kvs of
             Inl e \<Rightarrow> Inl e
           | Inr one \<Rightarrow> parse_currencies (out(currency \<mapsto> one)) others))"

definition parseGrainhackCaps :: "string option \<Rightarrow> gh_config_error + (string \<rightharpoonup> gh_lower_caps)" where
  "parseGrainhackCaps text =
     (case text of
        None \<Rightarrow> Inr Map.empty
      | Some t \<Rightarrow>
          if js_trim t = [] then Inr Map.empty
          else case json_parse t of
            None \<Rightarrow> Inl (Not_json_value ''GRAINHACK_CAPS'')
          | Some raw \<Rightarrow> (case js_entries raw of None \<Rightarrow> Inl Not_an_entry_object | Some es \<Rightarrow> parse_currencies Map.empty es))"

section \<open>config.ts\<close>

definition GRAINHACK_NETWORKS :: "string list" where
  "GRAINHACK_NETWORKS = [''solana-devnet'', ''solana-mainnet'', ''localnet'']"

definition FOREIGN_KEY_VARS :: "string list" where
  "FOREIGN_KEY_VARS = [''PAYOUT_KEYPAIR_JSON'', ''PAYOUT_KEYPAIR_PATH'', ''SIGNER_KEYPAIR_JSON'', ''SIGNER_KEYPAIR_PATH'',
     ''ESCROW_ATTESTOR_KEYPAIR_JSON'', ''ESCROW_ATTESTOR_KEYPAIR_PATH'']"

definition grainhackNetwork :: "environment \<Rightarrow> gh_config_error + string" where
  "grainhackNetwork env =
     (case set_var env ''GRAINHACK_PAYOUT_NETWORK'' of
        None \<Rightarrow> Inl (Required ''GRAINHACK_PAYOUT_NETWORK'')
      | Some network \<Rightarrow>
          if network \<notin> set GRAINHACK_NETWORKS then Inl (Network_unknown network)
          else if network = ''solana-mainnet'' \<and> env ''GRAINHACK_ALLOW_MAINNET'' \<noteq> Some ''yes'' then Inl Mainnet_not_allowed
          else Inr network)"

definition need :: "environment \<Rightarrow> string \<Rightarrow> gh_config_error + string" where
  "need env k = (case set_var env k of None \<Rightarrow> Inl (Required k) | Some v \<Rightarrow> Inr v)"

text \<open>A mint entry must name an address and a whole number of decimals.\<close>

definition mint_entry :: "platform \<Rightarrow> json \<Rightarrow> gh_mint option" where
  "mint_entry P m =
     (case (opt_prop (Some m) ''mint'', opt_prop (Some m) ''decimals'') of
        (Some (JStr a), Some (JNum d)) \<Rightarrow> if isSolanaAddress P a \<and> is_integer d then Some \<lparr>gm_mint = a, gm_decimals = \<lfloor>d\<rfloor>\<rparr> else None
      | _ \<Rightarrow> None)"

fun mint_entries :: "platform \<Rightarrow> (string \<times> json) list \<Rightarrow> gh_config_error + (string \<times> gh_mint) list" where
  "mint_entries P [] = Inr []"
| "mint_entries P ((c, m) # others) =
     (case mint_entry P m of
        None \<Rightarrow> Inl (Bad_mint c)
      | Some g \<Rightarrow> (case mint_entries P others of Inl e \<Rightarrow> Inl e | Inr gs \<Rightarrow> Inr ((c, g) # gs)))"

record gh_signer_setup =
  su_config :: gh_config
  su_journalPath :: string
  su_rpcUrl :: string

definition grainhackSignerConfig :: "platform \<Rightarrow> environment \<Rightarrow> gh_config_error + gh_signer_setup" where
  "grainhackSignerConfig P env =
     (let foreign = filter (\<lambda>k. case env k of None \<Rightarrow> False | Some v \<Rightarrow> v \<noteq> []) FOREIGN_KEY_VARS in
      if foreign \<noteq> [] then Inl (Foreign_keys foreign)
      else case grainhackNetwork env of Inl e \<Rightarrow> Inl e | Inr network \<Rightarrow>
      (case need env ''GRAINHACK_PAYOUT_MINTS'' of Inl e \<Rightarrow> Inl e | Inr mintsText \<Rightarrow>
      (case json_parse mintsText of None \<Rightarrow> Inl (Not_json_value ''GRAINHACK_PAYOUT_MINTS'') | Some mintsJson \<Rightarrow>
      (case js_entries mintsJson of None \<Rightarrow> Inl Not_an_entry_object | Some es \<Rightarrow>
      (case mint_entries P es of Inl e \<Rightarrow> Inl e | Inr mints \<Rightarrow>
      (case need env ''GRAINHACK_RESULTS_PUBKEY'' of Inl e \<Rightarrow> Inl e | Inr resultsPubkey \<Rightarrow>
      if \<not> isResultsPubkey P (Some resultsPubkey) then Inl Bad_results_pubkey
      else case need env ''APPROVER_PUBKEYS'' of Inl e \<Rightarrow> Inl e | Inr approversText \<Rightarrow>
      (let approvers = filter (\<lambda>s. s \<noteq> []) (map js_trim (split_at (CHR '','') approversText)) in
      if \<not> list_all (isSolanaAddress P) approvers then Inl Approvers_not_addresses
      else case parseGrainhackCaps (env ''GRAINHACK_CAPS'') of Inl e \<Rightarrow> Inl e | Inr lower \<Rightarrow>
      (case need env ''GRAINHACK_PAYOUT_RPC_URL'' of Inl e \<Rightarrow> Inl e | Inr rpcUrl \<Rightarrow>
         Inr \<lparr>su_config = \<lparr>gf_network = network, gf_mints = map_of mints, gf_lower = lower, gf_approvers = approvers, gf_resultsPubkey = resultsPubkey\<rparr>,
              su_journalPath = (case set_var env ''GRAINHACK_JOURNAL_PATH'' of Some p \<Rightarrow> p | None \<Rightarrow> ''data/grainhack-journal.sqlite''),
              su_rpcUrl = rpcUrl\<rparr>))))))))"

text \<open>A process that starts sees no other process's key, and pays on mainnet only when told to.\<close>

lemma started_signer_is_separate:
  assumes "grainhackSignerConfig P env = Inr s"
  shows "(\<forall>k \<in> set FOREIGN_KEY_VARS. env k \<in> {None, Some []})
    \<and> gf_network (su_config s) \<in> set GRAINHACK_NETWORKS
    \<and> (gf_network (su_config s) = ''solana-mainnet'' \<longrightarrow> env ''GRAINHACK_ALLOW_MAINNET'' = Some ''yes'')
    \<and> (\<forall>a \<in> set (gf_approvers (su_config s)). isSolanaAddress P a)"
proof -
  have f: "filter (\<lambda>k. case env k of None \<Rightarrow> False | Some v \<Rightarrow> v \<noteq> []) FOREIGN_KEY_VARS = []"
    using assms by (auto simp: grainhackSignerConfig_def Let_def split: if_splits)
  obtain network where n: "grainhackNetwork env = Inr network"
    using assms f by (auto simp: grainhackSignerConfig_def split: sum.splits)
  have "gf_network (su_config s) = network \<and> (\<forall>a \<in> set (gf_approvers (su_config s)). isSolanaAddress P a)"
    using assms f n
    by (auto simp: grainhackSignerConfig_def Let_def list_all_iff split: sum.splits option.splits if_splits)
  moreover have "network \<in> set GRAINHACK_NETWORKS \<and> (network = ''solana-mainnet'' \<longrightarrow> env ''GRAINHACK_ALLOW_MAINNET'' = Some ''yes'')"
    using n by (auto simp: grainhackNetwork_def split: option.splits if_splits)
  moreover have "env k \<in> {None, Some []}" if "k \<in> set FOREIGN_KEY_VARS" for k
    using f that by (cases "env k") (auto simp: filter_empty_conv)
  ultimately show ?thesis by blast
qed

end
