(* ===== verification/SignerHttp.thy ===== *)
theory SignerHttp
  imports SignerSafety X402Client JsText
begin

text \<open>
  The HTTP seam between the agent and its inference signer: services/signer/src/server.ts and
  client.ts. The client releases the agent's reservation on a refusal, so what counts as one is a
  matter of money: it must only be said of a request that handed nothing to the network.
\<close>

section \<open>server.ts\<close>

definition MAX_BODY :: nat where
  "MAX_BODY = 16 * 1024"

record signer_http_request =
  sh_method :: string
  sh_url :: string
  sh_authorization :: "string option"
  sh_body :: string

datatype server_error = Token_too_short

definition createSignerServer :: "string \<Rightarrow> server_error + unit" where
  "createSignerServer token = (if length token < 24 then Inl Token_too_short else Inr ())"

text \<open>What a request asks for, with its body read as JSON; a body too large or no JSON is an error.\<close>

datatype signer_route = Unauthorized | Get_wallet | Get_spend | Post_pay json | Post_proof json | Not_found_route | Bad_body

definition readJson :: "string \<Rightarrow> json option" where
  "readJson body = (if length body > MAX_BODY then None else json_parse body)"

definition signer_route_of :: "string \<Rightarrow> signer_http_request \<Rightarrow> signer_route" where
  "signer_route_of token req =
     (if (case sh_authorization req of None \<Rightarrow> [] | Some a \<Rightarrow> a) \<noteq> ''Bearer '' @ token then Unauthorized
      else if sh_method req = ''GET'' \<and> sh_url req = ''/v1/wallet'' then Get_wallet
      else if sh_method req = ''GET'' \<and> sh_url req = ''/v1/spend'' then Get_spend
      else if sh_method req = ''POST'' \<and> sh_url req = ''/v1/inference/pay''
        then (case readJson (sh_body req) of None \<Rightarrow> Bad_body | Some j \<Rightarrow> Post_pay j)
      else if sh_method req = ''POST'' \<and> sh_url req = ''/v1/inference/balance-proof''
        then (case readJson (sh_body req) of None \<Rightarrow> Bad_body | Some j \<Rightarrow> Post_proof j)
      else Not_found_route)"

text \<open>The reply to a payment request: its status and body. How an error reads is a parameter.\<close>

definition pay_reply :: "(pay_error \<Rightarrow> string) \<Rightarrow> pay_result \<Rightarrow> int \<times> json" where
  "pay_reply text r =
     (case r of
        PayOk w s a fl f \<Rightarrow> (200, JObj [(''ok'', JBool True), (''payer_wallet'', JStr w), (''signature'', JStr s),
          (''amount_micro'', JNum a), (''fee_lamports'', JNum fl), (''fee_micro'', JNum f)])
      | PayRefused st e \<Rightarrow> (st, JObj [(''error'', JStr (text e))]))"

section \<open>client.ts\<close>

definition pay_body :: "(jsnum \<Rightarrow> string) \<Rightarrow> usdc_rail \<Rightarrow> string" where
  "pay_body other rail = stringify other (JObj ([(''quote_id'', JStr (ur_quote_id rail)), (''network'', JStr (ur_network rail)),
     (''asset'', JStr (ur_asset rail)), (''pay_to'', JStr (ur_pay_to rail)), (''amount_microunits'', JNum (ur_amount rail))]
     @ (case ur_expires_at rail of None \<Rightarrow> [] | Some e \<Rightarrow> [(''expires_at'', e)])))"

text \<open>
  \<open>payQuote\<close> of the client, on the reply: no reply is an unknown outcome, a 4xx a refusal and a 5xx
  unknown again. A 2xx is read as the signer writes it; \<open>None\<close> for a body that is not the signer's.
\<close>

definition client_outcome :: "(jsnum \<Rightarrow> string) \<Rightarrow> string + int \<times> json option \<Rightarrow> pay_outcome option" where
  "client_outcome other reply =
     (case reply of
        Inl e \<Rightarrow> Some (Pay_unknown (''signer unreachable: '' @ e))
      | Inr (status, body) \<Rightarrow>
          if 200 \<le> status \<and> status \<le> 299
          then (case (opt_prop body ''payer_wallet'', opt_prop body ''signature'', opt_prop body ''amount_micro'', opt_prop body ''fee_micro'') of
             (Some (JStr w), Some (JStr s), Some (JNum a), Some (JNum f)) \<Rightarrow> Some (Paid_by w s a f)
           | _ \<Rightarrow> None)
          else (let e = (case opt_prop body ''error'' of Some (JStr t) \<Rightarrow> t | Some JNull \<Rightarrow> show_int status
                  | Some j \<Rightarrow> json_String other j | None \<Rightarrow> show_int status) in
            Some (if status \<ge> 500 then Pay_unknown e else Pay_refused e)))"

section \<open>One payment through both\<close>

text \<open>
  The signer's handling of one request alone on its journal: what is answered, whether the transaction
  was handed to the network, and the journal.
\<close>

definition payQuote_alone :: "platform \<Rightarrow> signer_config \<Rightarrow> string \<Rightarrow> time_ms \<Rightarrow> pay_quote_request \<Rightarrow> string + string
    \<Rightarrow> string + string \<times> jsnum \<Rightarrow> journal \<Rightarrow> pay_result \<times> bool \<times> journal" where
  "payQuote_alone P cfg wallet now req prepared outcome j =
     (case payQuote_start P cfg wallet now req j of
        (Inl r, j1) \<Rightarrow> (r, False, j1)
      | (Inr i, j1) \<Rightarrow>
          (case payQuote_prepared now i prepared j1 of
             (Inl r, j2) \<Rightarrow> (r, False, j2)
           | (Inr sig, j2) \<Rightarrow>
               (let amount = (case pq_amount_microunits req of Some a \<Rightarrow> a | None \<Rightarrow> 0);
                    (r, j3) = payQuote_broadcast cfg wallet now i sig amount outcome j2 in
                (r, True, j3))))"

lemma refusal_codes:
  "payQuote_start P cfg w now req j = (Inl (PayRefused st e), j') \<Longrightarrow> 400 \<le> st \<and> st \<le> 409"
  "payQuote_prepared now i a j = (Inl (PayRefused st e), j') \<Longrightarrow> 400 \<le> st \<and> st \<le> 422"
  by (auto simp: payQuote_start_def payQuote_prepared_def check_request_def Let_def
      split: sum.splits prod.splits option.splits if_splits reserve_result.splits)



text \<open>No request without the token reaches the signer.\<close>

lemma token_required:
  "signer_route_of token req \<noteq> Unauthorized \<Longrightarrow> sh_authorization req = Some (''Bearer '' @ token)"
  by (auto simp: signer_route_of_def split: option.splits if_splits)

end
