(* ===== verification/AgentDb.thy ===== *)
theory AgentDb
  imports Effects Gate Draw Approval AgentConfig Link
begin

text \<open>
  The agent's database (db/migrations 0002, 0004-0019) as far as its services use it, the
  rows that record what the agent sent out, and the GitHub API of apps/agent/src/github.ts as the
  answers it gives during one operation.

  Tables are lists in the order of insertion, which is also the order of rows where a query leaves
  the order open. A partial unique index is a check before the insertion that throws when a live
  row has the key. No operation modelled here deletes a row that another refers to, so foreign keys
  hold by themselves. An audit row is its actor, action and subject; the JSON detail is left out.
\<close>

section \<open>Tables\<close>

datatype bounty_status = Funding | Proposed | Posted | In_review | Payable | Bounty_paid | Cancelled | Bounty_expired

fun status_text :: "bounty_status \<Rightarrow> string" where
  "status_text Funding = ''funding''"
| "status_text Proposed = ''proposed''"
| "status_text Posted = ''posted''"
| "status_text In_review = ''in_review''"
| "status_text Payable = ''payable''"
| "status_text Bounty_paid = ''paid''"
| "status_text Cancelled = ''cancelled''"
| "status_text Bounty_expired = ''expired''"

datatype payout_state = Gate_refused | Awaiting_approval | Approved | Submitted | Confirmed | Payout_failed

datatype submission_state = Sub_open | Sub_closed | Sub_merged

datatype assignment_status = Active | Pr_submitted | Completed | Released_stale | Released_voluntary | Released_pr_rejected

record repo_row =
  ro_id :: nat
  ro_owner :: string
  ro_name :: string
  ro_installation_id :: int
  ro_enabled :: bool
  ro_bounties_enabled :: bool
  ro_registered_project :: bool

record repo_audit_row =
  ra_repo_id :: nat
  ra_full_name :: string
  ra_bounties_enabled :: bool
  ra_registered_project :: bool
  ra_changed_by :: string
  ra_changed_at :: time_ms

record contributor_row =
  co_github_user_id :: int
  co_login :: string
  co_account_created_at :: "time_ms option"
  co_is_bot :: bool

record wallet_row =
  wk_github_user_id :: int
  wk_address :: string
  wk_message :: string
  wk_signature :: string
  wk_source :: string
  wk_verified_at :: time_ms
  wk_revoked_at :: "time_ms option"

record bounty_row =
  bo_id :: string
  bo_repo_id :: nat
  bo_issue_number :: int
  bo_issue_title :: string
  bo_amount_minor :: bigint
  bo_currency :: string
  bo_mint :: string
  bo_network :: string
  bo_status :: bounty_status
  bo_price_call_id :: "string option"
  bo_pricing :: "pricing option"
  bo_comment_id :: "int option"
  bo_created_by :: string
  bo_is_test :: bool
  bo_waived_eligibility_rules :: "string list"
  bo_reserved_for_newcomers :: bool
  bo_funded_by :: "string option"
  bo_funded_by_github_user_id :: "int option"
  bo_applications_open_at :: "time_ms option"
  bo_applications_close_at :: "time_ms option"
  bo_window_extensions :: int
  bo_exclude_login_next_draw :: "string option"
  bo_awaiting_redraw :: bool
  bo_auto_draw_ran_at :: "time_ms option"

record submission_row =
  sb_id :: string
  sb_bounty_id :: string
  sb_pr_number :: int
  sb_author_github_user_id :: int
  sb_author_login :: string
  sb_head_sha :: string
  sb_state :: submission_state
  sb_merged_by_login :: "string option"
  sb_merged_at :: "string option"
  sb_updated_at :: time_ms

record review_row =
  rr_submission_id :: string
  rr_head_sha :: string
  rr_verdict :: verdict
  rr_summary :: string
  rr_call_ids :: "string list"
  rr_github_review_id :: int

record agent_payout =
  ap_id :: string
  ap_bounty_id :: string
  ap_submission_id :: string
  ap_recipient :: string
  ap_recipient_github_user_id :: int
  ap_amount_minor :: bigint
  ap_currency :: string
  ap_mint :: string
  ap_network :: string
  ap_gate_result :: gate_result
  ap_status :: payout_state
  ap_approval :: "entries envelope option"
  ap_tx_signature :: "string option"
  ap_error :: "string option"
  ap_created_at :: time_ms

record assignment_row =
  an_id :: string
  an_bounty_id :: string
  an_draw_id :: "string option"
  an_github_user_id :: int
  an_github_login :: string
  an_status :: assignment_status
  an_assigned_at :: time_ms
  an_stale_at :: time_ms
  an_qualifying_pr_number :: "int option"
  an_released_at :: "time_ms option"
  an_release_reason :: "string option"
  an_released_by :: "string option"
  an_counts_as_abandon :: bool
  an_unassigned_on_chain_directly :: bool

text \<open>bounty_config, bounty_applications, bounty_draws and bounty_deadline_changes of the draw.\<close>

record config_row =
  cf_key :: string
  cf_value :: string
  cf_updated_at :: time_ms
  cf_updated_by :: string

datatype application_status = App_applied | App_rejected_gate | App_won | App_lost | App_withdrawn

record application_row =
  al_id :: string
  al_bounty_id :: string
  al_github_user_id :: int
  al_github_login :: string
  al_status :: application_status
  al_gate_failure_reason :: "string option"
  al_fit :: "fit_band option"
  al_difficulty_match :: "difficulty_match option"
  al_fit_evidence :: "string option"
  al_fit_concerns :: "string list"
  al_fit_call_id :: "string option"
  al_application_text :: "string option"
  al_created_at :: time_ms

record draw_row =
  dw_id :: string
  dw_bounty_id :: string
  dw_seed :: int
  dw_pool :: "candidate list"
  dw_winner :: "(int \<times> string) option"
  dw_first_come_fallback :: bool
  dw_no_winner_reason :: "no_winner option"
  dw_is_simulation :: bool
  dw_config_snapshot :: draw_config
  dw_triggered_by :: string
  dw_created_at :: time_ms

record deadline_change =
  dc_assignment_id :: string
  dc_previous_at :: time_ms
  dc_new_at :: time_ms
  dc_reason :: string
  dc_changed_by :: string

text \<open>bounty_escrows, bounty_escrow_events, bounty_unassign_proposals and funder_conduct_notes of funded bounties.\<close>

datatype assignment_mode = Mode_draw | Mode_self_assign

record escrow_row =
  ew_id :: string
  ew_bounty_id :: string
  ew_escrow_pubkey :: string
  ew_vault_pubkey :: string
  ew_funder_wallet :: string
  ew_contributor_wallet :: "string option"
  ew_mint :: string
  ew_currency :: string
  ew_network :: string
  ew_amount_minor :: bigint
  ew_fee_bps :: int
  ew_fee_minimum_minor :: bigint
  ew_fee_amount_minor :: bigint
  ew_assignment_mode :: assignment_mode
  ew_state :: string
  ew_deadline_at :: time_ms
  ew_fund_tx :: "string option"
  ew_assign_tx :: "string option"
  ew_release_tx :: "string option"
  ew_created_by :: string
  ew_last_error :: "string option"

record escrow_event_row =
  ee_escrow_id :: string
  ee_kind :: string
  ee_tx :: "string option"
  ee_reason :: "string option"
  ee_created_at :: time_ms

datatype party = Funder_side | Contributor_side

datatype proposal_status = Prop_pending | Prop_accepted | Prop_accepted_by_silence | Prop_refused | Prop_withdrawn

record proposal_row =
  up_id :: string
  up_bounty_id :: string
  up_assignment_id :: string
  up_proposed_by :: party
  up_proposer_login :: string
  up_reason :: string
  up_respond_by :: time_ms
  up_status :: proposal_status
  up_responder_login :: "string option"
  up_response :: "string option"
  up_responded_at :: "time_ms option"
  up_carried_out_at :: "time_ms option"
  up_arbitration :: "(string \<times> string \<times> time_ms) option"

record conduct_note =
  cn_funder_login :: string
  cn_bounty_id :: string
  cn_note :: string
  cn_recorded_by :: string

text \<open>contributor_snapshots and bounty_issue_snapshots of the fit assessment, account_erasures.\<close>

record contributor_snapshot =
  cs_github_user_id :: int
  cs_login :: string
  cs_evidence :: json
  cs_built_at :: time_ms

record issue_snapshot =
  ik_bounty_id :: string
  ik_body :: string
  ik_acceptance_criteria :: string
  ik_primary_language :: string
  ik_built_at :: time_ms

record erasure_row =
  ar_github_user_id :: int
  ar_logins :: "string list"
  ar_removed :: "(string \<times> nat) list"
  ar_retained_in_flight :: "string list"
  ar_erased_at :: time_ms

text \<open>The tables of GrainHack payouts on the agent (0018).\<close>

datatype hack_status = Held_kyc | Awaiting_wallet | Hack_awaiting_approval | Hack_submitted | Hack_paid | Hack_unknown | Hack_failed | Hack_removed

record hack_statement =
  hs_statement_id :: string
  hs_supersedes :: "string option"
  hs_superseded_by :: "string option"
  hs_hackathon_id :: string
  hs_hackathon_name :: string
  hs_pool :: string
  hs_computation_id :: string
  hs_currency :: string
  hs_network :: string
  hs_pool_minor :: bigint
  hs_statement_json :: string
  hs_signature :: string
  hs_statement_sha256 :: string
  hs_issued_at :: string
  hs_imported_by :: string
  hs_redacted_at :: "time_ms option"

record hack_payout =
  hp_id :: string
  hp_hackathon_id :: string
  hp_pool :: string
  hp_github_user_id :: int
  hp_login :: string
  hp_statement_id :: string
  hp_amount_minor :: bigint
  hp_currency :: string
  hp_mint :: string
  hp_network :: string
  hp_recipient :: "string option"
  hp_status :: hack_status
  hp_approval :: "entries envelope option"
  hp_approved_by :: "string option"
  hp_approved_at :: "time_ms option"
  hp_tx_signature :: "string option"
  hp_paid_at :: "time_ms option"
  hp_last_error :: "string option"
  hp_updated_at :: time_ms

datatype hack_entry = Pool_funded | Payout_made

record hack_ledger_row =
  hl_kind :: hack_entry
  hl_hackathon_id :: string
  hl_hackathon_name :: "string option"
  hl_pool :: string
  hl_network :: string
  hl_currency :: string
  hl_decimals :: jsnum
  hl_amount_minor :: bigint
  hl_tx_signature :: string
  hl_login :: "string option"
  hl_github_user_id :: "int option"
  hl_payout_id :: "string option"
  hl_is_history :: bool
  hl_note :: "string option"
  hl_recorded_by :: string
  hl_at :: time_ms

record hack_report =
  hq_is_payment :: bool
  hq_github_user_id :: int
  hq_payload :: entries
  hq_dedupe_key :: string
  hq_delivered_at :: "time_ms option"
  hq_attempts :: nat
  hq_last_error :: "string option"

record hack_tables =
  ht_statements :: "hack_statement list"
  ht_payouts :: "hack_payout list"
  ht_ledger :: "hack_ledger_row list"
  ht_reports :: "hack_report list"
  ht_asked :: "(string \<times> entries envelope \<times> string) list"

record audit_row =
  au_actor :: string
  au_action :: string
  au_subject :: "string option"

text \<open>bounty_events, the outbox of events.ts.\<close>

datatype event_kind = Application_received | Draw_won | Draw_lost | Assignment_expiring | Review_posted | Bounty_unassigned
  | Deadline_changed | Paid_event | Funded_assigned | Unassign_proposed | Unassign_refused

record bounty_event =
  ev_kind :: event_kind
  ev_githubUserId :: int
  ev_dedupeKey :: string
  ev_payload :: entries

text \<open>What the sender keeps of an event, by its key: the columns delivered_at, attempts and last_error.\<close>

record delivery =
  dy_key :: string
  dy_delivered_at :: "time_ms option"
  dy_attempts :: nat
  dy_last_error :: "string option"

text \<open>What the agent says on GitHub; the wording around these values is left out.\<close>

datatype github_post =
    Link_not_accepted string link_refusal
  | Wallet_of_another string
  | Wallet_now_linked string string
  | Bounty_announced string bigint string
  | Advisory_review verdict string
  | Payout_ready string gate_result
  | Payout_refused_by_gate gate_result
  | Paid_notice int string string string string
  | Funded_announced bigint string string assignment_mode string

datatype attest_request = Attest_assign string string | Attest_unassign string

record agent_db =
  db_repos :: "repo_row list"
  db_repo_audit :: "repo_audit_row list"
  db_contributors :: "contributor_row list"
  db_wallet_links :: "wallet_row list"
  db_link_nonces :: "(string \<times> int) list"
  db_bounties :: "bounty_row list"
  db_submissions :: "submission_row list"
  db_reviews :: "review_row list"
  db_payouts :: "agent_payout list"
  db_assignments :: "assignment_row list"
  db_escrows :: "escrow_row list"
  db_escrow_events :: "escrow_event_row list"
  db_config :: "config_row list"
  db_applications :: "application_row list"
  db_draws :: "draw_row list"
  db_deadline_changes :: "deadline_change list"
  db_proposals :: "proposal_row list"
  db_conduct_notes :: "conduct_note list"
  db_snapshots :: "contributor_snapshot list"
  db_issue_snapshots :: "issue_snapshot list"
  db_erasures :: "erasure_row list"
  db_hack :: hack_tables
  db_audit :: "audit_row list"
  db_events :: "bounty_event list"
  db_deliveries :: "delivery list"
  db_posts :: "(string \<times> int \<times> github_post) list"
  db_asked :: "(string \<times> bool \<times> entries envelope) list"
  db_attested :: "attest_request list"

text \<open>
  \<open>db_posts\<close>, \<open>db_asked\<close>, \<open>db_attested\<close> and \<open>ht_asked\<close> are not tables: they keep what was sent to
  GitHub, which requests were made to the payout signer - for which payout, whether on the escrow
  route, with which approval -, which assignments and unassignments the attestor was asked to sign, and
  which approvals, with which statement, went to the grainhack-signer.
\<close>

definition empty_agent_db :: agent_db where
  "empty_agent_db = \<lparr>db_repos = [], db_repo_audit = [], db_contributors = [], db_wallet_links = [], db_link_nonces = [],
     db_bounties = [], db_submissions = [], db_reviews = [], db_payouts = [], db_assignments = [], db_escrows = [],
     db_escrow_events = [], db_config = [], db_applications = [], db_draws = [], db_deadline_changes = [], db_proposals = [],
     db_conduct_notes = [], db_snapshots = [], db_issue_snapshots = [], db_erasures = [],
     db_hack = \<lparr>ht_statements = [], ht_payouts = [], ht_ledger = [], ht_reports = [], ht_asked = []\<rparr>, db_audit = [], db_events = [], db_deliveries = [], db_posts = [], db_asked = [], db_attested = []\<rparr>"

section \<open>Errors\<close>

datatype db_error = Unique_violation string | Check_violation string | Not_null_violation string

datatype agent_error =
    Db_error db_error
  | Gh_error string
  | Inference_error string
  | Prompt_error prompt_error
  | Repo_must_be_owner_name
  | Repo_not_known string
  | Repo_not_enabled string
  | Repo_refused repo_refusal
  | No_mint_for string
  | No_such_bounty string
  | Already_open_bounty int
  | Issue_is int string
  | No_such_payout
  | Payout_not_awaiting payout_state
  | Terms_do_not_match
  | Approval_rejected approval_refusal
  | Approved_concurrently
  | No_escrow_route
  | Payout_signer_said string
  | Chain_error string
  | Bad_public_key string
  | Account_unreadable
  | Field_out_of_range
  | Not_an_integer jsnum
  | Amount_not_positive
  | No_funded_row string
  | Refreeze_unnamed
  | No_such_hack_payout
  | Not_refreezable hack_status
  | Actor_required
  | Not_event1 string
  | Statement_immutable
  | Retention_counts string nat nat

type_synonym 'a agent_eff = "(agent_db, agent_error, 'a) eff"

section \<open>GitHub\<close>

record gh_user =
  gu_id :: int
  gu_login :: string
  gu_type :: string
  gu_createdAt :: time_ms

record gh_issue =
  gi_number :: int
  gi_title :: string
  gi_body :: string
  gi_state :: string

record pull_info =
  pl_number :: int
  pl_state :: string
  pl_merged :: bool
  pl_mergedByLogin :: "string option"
  pl_mergedAt :: "string option"
  pl_authorId :: int
  pl_authorLogin :: string
  pl_authorType :: string
  pl_headSha :: string
  pl_title :: string
  pl_body :: string

text \<open>Each call answers or throws; \<open>gh_comment\<close> and \<open>gh_review\<close> answer with the id of what they posted.\<close>

record github =
  gh_installationIdFor :: "string \<Rightarrow> string + int"
  gh_getIssue :: "string \<Rightarrow> int \<Rightarrow> string + gh_issue"
  gh_getPull :: "string \<Rightarrow> int \<Rightarrow> string + pull_info"
  gh_closingIssues :: "string \<Rightarrow> int \<Rightarrow> string + int list"
  gh_getPullDiff :: "string \<Rightarrow> int \<Rightarrow> string + string"
  gh_ciState :: "string \<Rightarrow> string \<Rightarrow> string + string"
  gh_getUser :: "string \<Rightarrow> string \<Rightarrow> string + gh_user"
  gh_permission :: "string \<Rightarrow> string \<Rightarrow> string + repo_permission"
  gh_comment :: "string \<Rightarrow> int \<Rightarrow> string + int"
  gh_review :: "string \<Rightarrow> int \<Rightarrow> string \<Rightarrow> string + int"

definition ask_github :: "string + 'a \<Rightarrow> 'a agent_eff" where
  "ask_github r = lift_sum (case r of Inl e \<Rightarrow> Inl (Gh_error e) | Inr a \<Rightarrow> Inr a)"

definition answer_or :: "'a \<Rightarrow> string + 'a \<Rightarrow> 'a" where
  "answer_or d r = (case r of Inl _ \<Rightarrow> d | Inr a \<Rightarrow> a)"

text \<open>A comment or review that GitHub takes is recorded; one it does not take throws.\<close>

definition post_on :: "string + int \<Rightarrow> string \<Rightarrow> int \<Rightarrow> github_post \<Rightarrow> int agent_eff" where
  "post_on taken repo n p =
     then_do (ask_github taken) (\<lambda>i. then_do (modify (\<lambda>s. s\<lparr>db_posts := db_posts s @ [(repo, n, p)]\<rparr>)) (\<lambda>_. return_ok i))"

text \<open>An inference call through the client of packages/x402: the id of its receipt and the response.\<close>

record inference_answer =
  ia_call_id :: string
  ia_response :: json

text \<open>The text of the answer; a content that is no string makes the parser throw.\<close>

definition answer_text :: "(jsnum \<Rightarrow> string) \<Rightarrow> json \<Rightarrow> prompt_error + string" where
  "answer_text other resp =
     (case assistantText other resp of Inl e \<Rightarrow> Inl e | Inr (JStr t) \<Rightarrow> Inr t | Inr _ \<Rightarrow> Inl Threw_on_null)"

definition ask_inference :: "string + inference_answer \<Rightarrow> inference_answer agent_eff" where
  "ask_inference r = lift_sum (case r of Inl e \<Rightarrow> Inl (Inference_error e) | Inr a \<Rightarrow> Inr a)"

definition parsed :: "prompt_error + 'a \<Rightarrow> 'a agent_eff" where
  "parsed r = lift_sum (case r of Inl e \<Rightarrow> Inl (Prompt_error e) | Inr a \<Rightarrow> Inr a)"

section \<open>Statements shared by the services\<close>

text \<open>The rules of the composed computations where the state is not written out.\<close>

lemma wp_fun [wp_simps]:
  "wp (return_ok a) Q E = Q a" "wp (throw e) Q E = E e" "wp (then_do m f) Q E = wp m (\<lambda>a. wp (f a) Q E) E"
  by (rule ext, simp add: wp_simps)+

definition ensure :: "('s \<Rightarrow> bool) \<Rightarrow> 'e \<Rightarrow> ('s, 'e, unit) eff" where
  "ensure p e s = ((if p s then Inr () else Inl e), s)"

lemma wp_ensure [wp_simps]: "wp (ensure p e) Q E s = (if p s then Q () s else E e s)"
  by (simp add: wp_def ensure_def)

lemma wp_ask_inference [wp_simps]:
  "wp (ask_inference r) Q E s = (case r of Inl e \<Rightarrow> E (Inference_error e) s | Inr a \<Rightarrow> Q a s)"
  by (simp add: ask_inference_def wp_simps split: sum.split)

lemma wp_parsed [wp_simps]: "wp (parsed r) Q E s = (case r of Inl e \<Rightarrow> E (Prompt_error e) s | Inr a \<Rightarrow> Q a s)"
  by (simp add: parsed_def wp_simps split: sum.split)

lemma wp_ask_github [wp_simps]: "wp (ask_github r) Q E s = (case r of Inl e \<Rightarrow> E (Gh_error e) s | Inr a \<Rightarrow> Q a s)"
  by (simp add: ask_github_def wp_simps split: sum.split)

text \<open>INSERT INTO audit_log.\<close>

definition audit :: "string \<Rightarrow> string \<Rightarrow> string option \<Rightarrow> unit agent_eff" where
  "audit actor action subject =
     modify (\<lambda>s. s\<lparr>db_audit := db_audit s @ [\<lparr>au_actor = actor, au_action = action, au_subject = subject\<rparr>]\<rparr>)"

text \<open>The unique index on the deduplication key makes an event that is there already no second one.\<close>

definition enqueueEvent :: "bounty_event \<Rightarrow> bool agent_eff" where
  "enqueueEvent e s =
     (if \<exists>x \<in> set (db_events s). ev_dedupeKey x = ev_dedupeKey e then (Inr False, s)
      else (Inr True, s\<lparr>db_events := db_events s @ [e]\<rparr>))"

definition dedupe_reviewPosted :: "string \<Rightarrow> int \<Rightarrow> string" where
  "dedupe_reviewPosted bountyId prNumber = ''review_posted:'' @ bountyId @ '':'' @ show_int prNumber"

definition dedupe_paid :: "string \<Rightarrow> string" where
  "dedupe_paid payoutId = ''paid:'' @ payoutId"

text \<open>\<open>fullName.split('/')\<close>: the first two parts, the second missing when there is no slash.\<close>

definition owner_name :: "string \<Rightarrow> string \<times> string option" where
  "owner_name fullName = (case split_at (CHR ''/'') fullName of
     owner # name # _ \<Rightarrow> (owner, Some name) | [owner] \<Rightarrow> (owner, None) | [] \<Rightarrow> ([], None))"

definition repo_full :: "repo_row \<Rightarrow> string" where
  "repo_full r = ro_owner r @ ''/'' @ ro_name r"

definition live_link :: "wallet_row \<Rightarrow> bool" where
  "live_link w = (wk_revoked_at w = None)"

definition live_payout :: "agent_payout \<Rightarrow> bool" where
  "live_payout p = (ap_status p \<noteq> Gate_refused)"

definition open_bounty :: "bounty_row \<Rightarrow> bool" where
  "open_bounty b = (bo_status b \<notin> {Bounty_paid, Cancelled, Bounty_expired})"

definition holds :: "assignment_row \<Rightarrow> bool" where
  "holds a = (an_status a \<in> {Active, Pr_submitted})"

text \<open>The row with the greatest key, the first of them when there are several: ORDER BY ... DESC LIMIT 1.\<close>

definition latest :: "('a \<Rightarrow> int) \<Rightarrow> 'a list \<Rightarrow> 'a option" where
  "latest key xs = (case xs of [] \<Rightarrow> None | y # ys \<Rightarrow> Some (foldl (\<lambda>a b. if key b > key a then b else a) y ys))"

text \<open>A loop that gathers what its steps return.\<close>

fun gather :: "('a \<Rightarrow> ('s, 'e, 'b list) eff) \<Rightarrow> 'a list \<Rightarrow> ('s, 'e, 'b list) eff" where
  "gather f [] = return_ok []"
| "gather f (x # xs) = then_do (f x) (\<lambda>ys. then_do (gather f xs) (\<lambda>zs. return_ok (ys @ zs)))"

lemma wp_gather:
  assumes "\<And>x t. x \<in> set xs \<Longrightarrow> I t \<Longrightarrow> wp (f x) (\<lambda>_. I) (\<lambda>_. I) t" "I s"
  shows "wp (gather f xs) (\<lambda>_. I) (\<lambda>_. I) s"
  using assms
proof (induction xs arbitrary: s)
  case (Cons x xs)
  have "wp (f x) (\<lambda>_. wp (gather f xs) (\<lambda>_. I) (\<lambda>_. I)) (\<lambda>_. I) s"
    using Cons.prems(1) [of x s] Cons.prems(2) Cons.IH Cons.prems(1) by (auto intro: wp_mono)
  then show ?case by (simp add: wp_simps)
qed (simp add: wp_simps)

text \<open>UPDATE bounties SET ... WHERE id = $1.\<close>

definition update_bounty :: "string \<Rightarrow> (bounty_row \<Rightarrow> bounty_row) \<Rightarrow> unit agent_eff" where
  "update_bounty i f = modify (\<lambda>s. s\<lparr>db_bounties := update_where (\<lambda>b. bo_id b = i) f (db_bounties s)\<rparr>)"

text \<open>The insertions that an index or a check can stop.\<close>

definition insert_bounty :: "bounty_row \<Rightarrow> unit agent_eff" where
  "insert_bounty b =
     then_do (ensure (\<lambda>s. bo_id b \<notin> bo_id ` set (db_bounties s)) (Db_error (Unique_violation ''bounties_pkey''))) (\<lambda>_.
     then_do (ensure (\<lambda>s. open_bounty b \<longrightarrow> \<not> (\<exists>x \<in> set (db_bounties s). open_bounty x \<and> bo_repo_id x = bo_repo_id b
         \<and> bo_issue_number x = bo_issue_number b)) (Db_error (Unique_violation ''bounties_one_open_per_issue''))) (\<lambda>_.
     then_do (ensure (\<lambda>_. 0 < bo_amount_minor b) (Db_error (Check_violation ''bounties_amount_minor_check''))) (\<lambda>_.
     modify (\<lambda>s. s\<lparr>db_bounties := db_bounties s @ [b]\<rparr>))))"

definition insert_wallet_link :: "wallet_row \<Rightarrow> unit agent_eff" where
  "insert_wallet_link w =
     then_do (ensure (\<lambda>s. \<not> (\<exists>x \<in> set (db_wallet_links s). live_link x \<and> wk_github_user_id x = wk_github_user_id w))
       (Db_error (Unique_violation ''wallet_links_one_per_account''))) (\<lambda>_.
     then_do (ensure (\<lambda>s. \<not> (\<exists>x \<in> set (db_wallet_links s). live_link x \<and> wk_address x = wk_address w))
       (Db_error (Unique_violation ''wallet_links_one_account_per_wallet''))) (\<lambda>_.
     modify (\<lambda>s. s\<lparr>db_wallet_links := db_wallet_links s @ [w]\<rparr>)))"

definition insert_payout :: "agent_payout \<Rightarrow> unit agent_eff" where
  "insert_payout p =
     then_do (ensure (\<lambda>s. ap_id p \<notin> ap_id ` set (db_payouts s)) (Db_error (Unique_violation ''payouts_pkey''))) (\<lambda>_.
     then_do (ensure (\<lambda>s. live_payout p \<longrightarrow> \<not> (\<exists>x \<in> set (db_payouts s). live_payout x \<and> ap_bounty_id x = ap_bounty_id p))
       (Db_error (Unique_violation ''payouts_one_live_per_bounty''))) (\<lambda>_.
     then_do (ensure (\<lambda>_. 0 < ap_amount_minor p) (Db_error (Check_violation ''payouts_amount_minor_check''))) (\<lambda>_.
     modify (\<lambda>s. s\<lparr>db_payouts := db_payouts s @ [p]\<rparr>))))"

text \<open>
  BEGIN ... COMMIT where a branch rolls back and returns: inside, \<open>Inr v\<close> is such a value on the
  error side and \<open>Inl e\<close> an error that is thrown on.
\<close>

definition in_transaction :: "('s, 'e + 'a, 'a) eff \<Rightarrow> ('s, 'e, 'a) eff" where
  "in_transaction m s = (case m s of (Inl (Inl e), t) \<Rightarrow> (Inl e, s) | (Inl (Inr v), t) \<Rightarrow> (Inr v, s) | (Inr a, t) \<Rightarrow> (Inr a, t))"

definition inside :: "('s, 'e, 'a) eff \<Rightarrow> ('s, 'e + 'b, 'a) eff" where
  "inside m = on_error m (\<lambda>e. throw (Inl e))"

definition roll_back :: "'b \<Rightarrow> ('s, 'e + 'b, 'a) eff" where
  "roll_back v = throw (Inr v)"

lemma wp_in_transaction [wp_simps]:
  "wp (in_transaction m) Q E s = wp m Q (\<lambda>x _. case x of Inl e \<Rightarrow> E e s | Inr v \<Rightarrow> Q v s) s"
  by (simp add: wp_def in_transaction_def split: prod.split sum.split)

lemma wp_inside [wp_simps]: "wp (inside m) Q E s = wp m Q (\<lambda>e. E (Inl e)) s"
  by (simp add: inside_def wp_simps)

lemma wp_roll_back [wp_simps]: "wp (roll_back v) Q E s = E (Inr v) s"
  by (simp add: roll_back_def wp_simps)

end
