(* ===== verification/FitService.thy ===== *)
theory FitService
  imports AgentDb Fit
begin

text \<open>
  apps/agent/src/fit-service.ts: the evidence and the issue of an application, cached for a week; the
  assessment bought for it; and its result on the application's row. \<open>dots\<close> is the ellipsis of fit.ts and
  \<open>other\<close> prints numbers that are no integers, as in \<open>Fit\<close>. The answers of GitHub and of the inference
  client are arguments; the client is asked with the prompt as its argument.
\<close>

definition SNAPSHOT_TTL_MS :: time_ms where
  "SNAPSHOT_TTL_MS = 7 * 24 * 60 * 60 * 1000"

record issue_context =
  ix_body :: string
  ix_acceptanceCriteria :: string
  ix_primaryLanguage :: string

record priced_answer = inference_answer +
  ia_paid_micro :: "jsnum option"
  ia_fee_micro :: "jsnum option"

record fit_outcome =
  fo_assessment :: fit_assessment
  fo_call_id :: "string option"
  fo_cost_micro :: jsnum
  fo_skipped :: "string option"
  fo_malformed :: bool

definition PLAUSIBLE :: fit_assessment where
  "PLAUSIBLE = \<lparr>fa_fit = Fit.Plausible, fa_difficulty_match = Fit.Matched, fa_evidence = [],
     fa_relevant_languages_present = False, fa_read_the_issue = False, fa_concerns = []\<rparr>"

section \<open>What the assessment reads\<close>

definition unread_evidence :: json where
  "unread_evidence = JObj [(''account_age_days'', JNum 0), (''public_repo_count'', JNum 0), (''languages'', JArr []),
     (''recent_repos'', JArr []), (''sample_diffs'', JArr []), (''note'', JStr ''GitHub could not be read'')]"

definition fresh :: "time_ms \<Rightarrow> time_ms \<Rightarrow> bool" where
  "fresh now built_at \<longleftrightarrow> now - built_at < SNAPSHOT_TTL_MS"

definition upsert_snapshot :: "contributor_snapshot \<Rightarrow> unit agent_eff" where
  "upsert_snapshot c =
     modify (\<lambda>s. s\<lparr>db_snapshots :=
       (if \<exists>x \<in> set (db_snapshots s). cs_github_user_id x = cs_github_user_id c
        then update_where (\<lambda>x. cs_github_user_id x = cs_github_user_id c) (\<lambda>_. c) (db_snapshots s)
        else db_snapshots s @ [c])\<rparr>)"

definition evidenceFor :: "time_ms \<Rightarrow> string + json \<Rightarrow> int \<Rightarrow> string \<Rightarrow> json agent_eff" where
  "evidenceFor now crawled u login =
     then_do (read_state (\<lambda>s. find (\<lambda>c. cs_github_user_id c = u) (db_snapshots s))) (\<lambda>cached.
     case Option.bind cached (\<lambda>c. if fresh now (cs_built_at c) then Some (cs_evidence c) else None) of
       Some e \<Rightarrow> return_ok e
     | None \<Rightarrow>
         (let evidence = (case crawled of Inr e \<Rightarrow> e | Inl _ \<Rightarrow> unread_evidence) in
          then_do (upsert_snapshot \<lparr>cs_github_user_id = u, cs_login = login, cs_evidence = evidence, cs_built_at = now\<rparr>) (\<lambda>_.
          return_ok evidence)))"

definition upsert_issue_snapshot :: "issue_snapshot \<Rightarrow> unit agent_eff" where
  "upsert_issue_snapshot c =
     modify (\<lambda>s. s\<lparr>db_issue_snapshots :=
       (if \<exists>x \<in> set (db_issue_snapshots s). ik_bounty_id x = ik_bounty_id c
        then update_where (\<lambda>x. ik_bounty_id x = ik_bounty_id c) (\<lambda>_. c) (db_issue_snapshots s)
        else db_issue_snapshots s @ [c])\<rparr>)"

definition cached_issue :: "time_ms \<Rightarrow> string \<Rightarrow> agent_db \<Rightarrow> issue_context option" where
  "cached_issue now bountyId s =
     Option.bind (find (\<lambda>c. ik_bounty_id c = bountyId) (db_issue_snapshots s)) (\<lambda>c.
       if fresh now (ik_built_at c)
       then Some \<lparr>ix_body = ik_body c, ix_acceptanceCriteria = ik_acceptance_criteria c, ix_primaryLanguage = ik_primary_language c\<rparr>
       else None)"

text \<open>A part that cannot be read is empty, and the snapshot is not kept then.\<close>

definition issueContext :: "time_ms \<Rightarrow> string + gh_issue \<Rightarrow> string + string option \<Rightarrow> string \<Rightarrow> issue_context agent_eff" where
  "issueContext now issue language bountyId =
     then_do (read_state (cached_issue now bountyId)) (\<lambda>cached.
     case cached of
       Some c \<Rightarrow> return_ok c
     | None \<Rightarrow>
         (let body = (case issue of Inr i \<Rightarrow> gi_body i | Inl _ \<Rightarrow> []);
              lang = (case language of Inr (Some l) \<Rightarrow> l | _ \<Rightarrow> []);
              ctx = \<lparr>ix_body = body, ix_acceptanceCriteria = acceptanceCriteriaFrom body, ix_primaryLanguage = lang\<rparr> in
          if isl issue \<or> isl language then return_ok ctx
          else then_do (upsert_issue_snapshot \<lparr>ik_bounty_id = bountyId, ik_body = body, ik_acceptance_criteria = ix_acceptanceCriteria ctx,
              ik_primary_language = lang, ik_built_at = now\<rparr>) (\<lambda>_. return_ok ctx)))"

section \<open>The assessment\<close>

text \<open>The assistant's text, whatever shape it came in.\<close>

definition text_part :: "(jsnum \<Rightarrow> string) \<Rightarrow> json \<Rightarrow> string" where
  "text_part other p =
     (case p of JStr s \<Rightarrow> s
      | _ \<Rightarrow> (case opt_prop (Some p) ''text'' of None \<Rightarrow> [] | Some JNull \<Rightarrow> [] | Some t \<Rightarrow> json_String other t))"

definition assistantTextOf :: "(jsnum \<Rightarrow> string) \<Rightarrow> json \<Rightarrow> string" where
  "assistantTextOf other response =
     (case opt_prop (opt_prop (json_index0 (opt_prop (Some response) ''choices'')) ''message'') ''content'' of
        Some (JStr s) \<Rightarrow> s
      | Some (JArr parts) \<Rightarrow> concat (map (text_part other) parts)
      | _ \<Rightarrow> [])"

fun band_of :: "Fit.fit \<Rightarrow> fit_band" where
  "band_of Fit.Strong = Draw.Strong"
| "band_of Fit.Plausible = Draw.Plausible"
| "band_of Fit.Weak = Draw.Weak"

fun difficulty_of :: "Fit.difficulty_match \<Rightarrow> Draw.difficulty_match" where
  "difficulty_of Fit.Below = Draw.Below"
| "difficulty_of Fit.Matched = Draw.Matched"
| "difficulty_of Fit.Above = Draw.Above"

definition write_fit :: "string \<Rightarrow> fit_assessment \<Rightarrow> string option \<Rightarrow> unit agent_eff" where
  "write_fit applicationId a callId =
     modify (\<lambda>s. s\<lparr>db_applications := update_where (\<lambda>x. al_id x = applicationId)
       (\<lambda>x. x\<lparr>al_fit := Some (band_of (fa_fit a)), al_difficulty_match := Some (difficulty_of (fa_difficulty_match a)),
         al_fit_evidence := Some (fa_evidence a), al_fit_concerns := fa_concerns a, al_fit_call_id := callId\<rparr>) (db_applications s)\<rparr>)"

record fit_job =
  fj_applicationId :: string
  fj_bountyId :: string
  fj_githubUserId :: int
  fj_githubLogin :: string
  fj_title :: string
  fj_difficultyTier :: string
  fj_applicationText :: string

text \<open>What the assessment asks outside: the issue, the language, the evidence, and the inference.\<close>

record fit_answers =
  fx_issue :: "string + gh_issue"
  fx_language :: "string + string option"
  fx_evidence :: "string + json"
  fx_inference :: "string \<Rightarrow> string + priced_answer"

definition assess_prompt :: "(jsnum \<Rightarrow> string) \<Rightarrow> string \<Rightarrow> fit_job \<Rightarrow> issue_context \<Rightarrow> json \<Rightarrow> string" where
  "assess_prompt other dots i ctx evidence =
     fitUserContent other dots \<lparr>fi_title = fj_title i, fi_body = ix_body ctx, fi_acceptanceCriteria = ix_acceptanceCriteria ctx,
       fi_difficultyTier = fj_difficultyTier i, fi_primaryLanguage = ix_primaryLanguage ctx, fi_evidence = Some evidence,
       fi_applicationText = fj_applicationText i\<rparr>"

definition assess :: "(jsnum \<Rightarrow> string) \<Rightarrow> string \<Rightarrow> time_ms \<Rightarrow> fit_answers \<Rightarrow> bool \<Rightarrow> fit_job \<Rightarrow> fit_outcome agent_eff" where
  "assess other dots now x enabled i =
     (if \<not> enabled
      then then_do (write_fit (fj_applicationId i) PLAUSIBLE None) (\<lambda>_.
        return_ok \<lparr>fo_assessment = PLAUSIBLE, fo_call_id = None, fo_cost_micro = 0, fo_skipped = Some ''fit_assessment_off'', fo_malformed = False\<rparr>)
      else then_do (issueContext now (fx_issue x) (fx_language x) (fj_bountyId i)) (\<lambda>ctx.
        then_do (evidenceFor now (fx_evidence x) (fj_githubUserId i) (fj_githubLogin i)) (\<lambda>evidence.
        case fx_inference x (assess_prompt other dots i ctx evidence) of
          Inl e \<Rightarrow> then_do (write_fit (fj_applicationId i) PLAUSIBLE None) (\<lambda>_.
            return_ok \<lparr>fo_assessment = PLAUSIBLE, fo_call_id = None, fo_cost_micro = 0, fo_skipped = Some (take 200 e), fo_malformed = False\<rparr>)
        | Inr a \<Rightarrow>
            (let (assessment, malformed) = parseFit dots (assistantTextOf other (ia_response a)) in
             then_do (write_fit (fj_applicationId i) assessment (Some (ia_call_id a))) (\<lambda>_.
             return_ok \<lparr>fo_assessment = assessment, fo_call_id = Some (ia_call_id a),
               fo_cost_micro = (case ia_paid_micro a of Some n \<Rightarrow> n | None \<Rightarrow> 0) + (case ia_fee_micro a of Some n \<Rightarrow> n | None \<Rightarrow> 0),
               fo_skipped = None, fo_malformed = malformed\<rparr>)))))"

definition fitEnabled :: "(string \<rightharpoonup> string) \<Rightarrow> bool" where
  "fitEnabled cfg = boolOf (cfg ''ai_fit_assessment_enabled'') False"

text \<open>Whatever the outside answers, the assessment never throws and writes some fit on its application only.\<close>

lemma wp_upserts [wp_simps]:
  "wp (upsert_snapshot c) Q E s = Q () (snd (upsert_snapshot c s))"
  "wp (upsert_issue_snapshot k) Q E s = Q () (snd (upsert_issue_snapshot k s))"
  by (simp_all add: upsert_snapshot_def upsert_issue_snapshot_def wp_def modify_def)

definition assessed_only :: "string \<Rightarrow> agent_db \<Rightarrow> agent_db \<Rightarrow> bool" where
  "assessed_only i s t \<longleftrightarrow> (\<exists>ss ks (a :: fit_assessment) c. t = s\<lparr>db_snapshots := ss, db_issue_snapshots := ks,
     db_applications := update_where (\<lambda>x. al_id x = i)
       (\<lambda>x. x\<lparr>al_fit := Some (band_of (fa_fit a)), al_difficulty_match := Some (difficulty_of (fa_difficulty_match a)),
         al_fit_evidence := Some (fa_evidence a), al_fit_concerns := fa_concerns a, al_fit_call_id := c\<rparr>) (db_applications s)\<rparr>)"

lemma wp_issueContext:
  assumes "\<And>c ks. Q c (s\<lparr>db_issue_snapshots := ks\<rparr>)"
  shows "wp (issueContext now x l b) Q E s"
proof -
  have "Q c s" for c using assms [of c "db_issue_snapshots s"] by simp
  with assms show ?thesis
    by (simp add: issueContext_def wp_simps Let_def upsert_issue_snapshot_def modify_def split: option.split)
qed

lemma wp_evidenceFor:
  assumes "\<And>e ss. Q e (s\<lparr>db_snapshots := ss\<rparr>)"
  shows "wp (evidenceFor now x u l) Q E s"
proof -
  have "Q e s" for e using assms [of e "db_snapshots s"] by simp
  with assms show ?thesis
    by (simp add: evidenceFor_def wp_simps Let_def upsert_snapshot_def modify_def split: option.split)
qed

lemma assess_ok:
  assumes "\<And>out t. assessed_only (fj_applicationId i) s t \<Longrightarrow> Q out t"
  shows "wp (assess other dots now x enabled i) Q E s"
proof -
  have wrote: "wp (write_fit (fj_applicationId i) a c) (\<lambda>_. Q out) E (s\<lparr>db_issue_snapshots := ks, db_snapshots := ss\<rparr>)" for a c out ks ss
    unfolding write_fit_def wp_modify
    by (rule assms, unfold assessed_only_def, rule exI [of _ ss], rule exI [of _ ks], rule exI [of _ a], rule exI [of _ c]) simp
  have wrote0: "wp (write_fit (fj_applicationId i) a c) (\<lambda>_. Q out) E s" for a c out
    using wrote [where ks = "db_issue_snapshots s" and ss = "db_snapshots s"] by simp
  show ?thesis
  proof (cases enabled)
    case False
    then show ?thesis by (simp add: assess_def wp_simps wrote0)
  next
    case True
    show ?thesis using True
      by (auto simp: assess_def wp_simps Let_def intro!: wp_issueContext wp_evidenceFor wrote split: sum.split prod.split)
  qed
qed

end
