(* ===== verification/Reopen.thy ===== *)
theory Reopen
  imports AgentDb
begin

text \<open>
  apps/agent/src/draw-service.ts, \<open>reopenAfterUnmergedClose\<close>: a bounty in review with no pull request
  left on it goes back to posted, in one transaction with its record.
\<close>

datatype reopen_why = Reopen_no_such_bounty | Not_in_review | Pr_open | Pr_merged | No_closed_pr

datatype reopen_outcome =
    Reopened string int string "string option" bool bool
  | Not_reopened string reopen_why

definition set_assignment_status :: "(assignment_row \<Rightarrow> bool) \<Rightarrow> assignment_status \<Rightarrow> unit agent_eff" where
  "set_assignment_status which st =
     modify (\<lambda>s. s\<lparr>db_assignments := update_where which (\<lambda>a. a\<lparr>an_status := st\<rparr>) (db_assignments s)\<rparr>)"

definition holder_of :: "string \<Rightarrow> agent_db \<Rightarrow> assignment_row option" where
  "holder_of bountyId s = find (\<lambda>a. an_bounty_id a = bountyId \<and> holds a) (db_assignments s)"

definition submissions_of :: "string \<Rightarrow> agent_db \<Rightarrow> submission_row list" where
  "submissions_of bountyId s = filter (\<lambda>x. sb_bounty_id x = bountyId) (db_submissions s)"

definition bounty_at :: "string \<Rightarrow> agent_db \<Rightarrow> bounty_row option" where
  "bounty_at bountyId s = find (\<lambda>b. bo_id b = bountyId) (db_bounties s)"

definition reopenAfterUnmergedClose :: "string \<Rightarrow> string \<Rightarrow> bool \<Rightarrow> reopen_outcome agent_eff" where
  "reopenAfterUnmergedClose bountyId actor hold =
     (let no = (\<lambda>why. roll_back (Not_reopened bountyId why)) in
      in_transaction
       (then_do (read_state (bounty_at bountyId)) (\<lambda>row.
        case row of
          None \<Rightarrow> no Reopen_no_such_bounty
        | Some b \<Rightarrow>
            if bo_status b \<noteq> In_review then no Not_in_review
            else then_do (read_state (submissions_of bountyId)) (\<lambda>subs.
              if \<exists>x \<in> set subs. sb_state x = Sub_open then no Pr_open
              else if \<exists>x \<in> set subs. sb_state x = Sub_merged then no Pr_merged
              else case latest sb_updated_at (filter (\<lambda>x. sb_state x = Sub_closed) subs) of
                None \<Rightarrow> no No_closed_pr
              | Some last_closed \<Rightarrow>
                  then_do (read_state (\<lambda>s. \<exists>a \<in> set (db_assignments s). an_bounty_id a = bountyId \<and> an_status a = Pr_submitted)) (\<lambda>reset.
                  then_do (inside (set_assignment_status (\<lambda>a. an_bounty_id a = bountyId \<and> an_status a = Pr_submitted) Active)) (\<lambda>_.
                  then_do (read_state (holder_of bountyId)) (\<lambda>holder.
                  then_do (inside (update_bounty bountyId (\<lambda>b. b\<lparr>bo_status := Posted, bo_awaiting_redraw := bo_awaiting_redraw b \<or> hold\<rparr>))) (\<lambda>_.
                  then_do (inside (audit actor ''bounty.reopened'' (Some bountyId))) (\<lambda>_.
                  return_ok (Reopened bountyId (sb_pr_number last_closed) (sb_author_login last_closed)
                    (map_option an_github_login holder) reset hold))))))))))"

text \<open>It touches the bounty, its assignment and the record only.\<close>

lemma reopen_keeps:
  "wp (reopenAfterUnmergedClose i actor hold) (\<lambda>_ t. db_payouts t = db_payouts s \<and> db_asked t = db_asked s)
     (\<lambda>_ t. db_payouts t = db_payouts s \<and> db_asked t = db_asked s) s"
  by (simp add: reopenAfterUnmergedClose_def Let_def wp_simps set_assignment_status_def update_bounty_def audit_def split: option.split)

lemma find_updated_row: "(\<And>r. P (f r) = P r) \<Longrightarrow> find P (update_where P f rs) = map_option f (find P rs)"
  by (induction rs) auto

text \<open>Once it is posted, a second call changes nothing.\<close>

lemma reopen_twice:
  assumes "reopenAfterUnmergedClose i actor hold s = (Inr (Reopened i' n c h r d), t)"
  shows "reopenAfterUnmergedClose i actor' hold' t = (Inr (Not_reopened i Not_in_review), t)"
proof -
  have "wp (reopenAfterUnmergedClose i actor hold)
     (\<lambda>out t. case out of Reopened _ _ _ _ _ _ \<Rightarrow> \<exists>b. bounty_at i t = Some b \<and> bo_status b = Posted | _ \<Rightarrow> True) (\<lambda>_ _. True) s"
    by (auto simp: reopenAfterUnmergedClose_def Let_def wp_simps set_assignment_status_def update_bounty_def audit_def bounty_at_def
        find_updated_row split: option.split)
  from wp_resultD(1) [OF this assms] show ?thesis
    by (auto simp: reopenAfterUnmergedClose_def Let_def in_transaction_def then_do_def read_state_def roll_back_def throw_def)
qed

end
