(* ===== verification/Frames.thy ===== *)
theory Frames
  imports FitService Reopen
begin

text \<open>
  What an operation keeps, whether it returns or throws. \<open>keeps I m\<close> holds when \<open>m\<close> started in a state with
  \<open>I\<close> ends in one, and \<open>leaves view m\<close> when the state looks the same through \<open>view\<close> afterwards; the rules
  of both follow the text of \<open>m\<close>, and each statement of the services leaves every view that its own
  table is not part of.
\<close>

section \<open>Invariants kept\<close>

definition keeps :: "('s \<Rightarrow> bool) \<Rightarrow> ('s, 'e, 'a) eff \<Rightarrow> bool" where
  "keeps I m \<longleftrightarrow> (\<forall>s. I s \<longrightarrow> I (snd (m s)))"

named_theorems keeps_intros

lemma keeps_result: "keeps I m \<Longrightarrow> I s \<Longrightarrow> m s = (r, t) \<Longrightarrow> I t"
  unfolding keeps_def by (metis snd_conv)

lemma keeps_basic [keeps_intros]:
  "keeps I (return_ok a)" "keeps I (throw e)" "keeps I (read_state g)" "keeps I (lift_sum r)" "keeps I (ensure p e')" "keeps I (roll_back v)"
  by (simp_all add: keeps_def return_ok_def throw_def read_state_def lift_sum_def ensure_def roll_back_def)

lemma keeps_modify [keeps_intros]: "(\<And>s. I s \<Longrightarrow> I (f s)) \<Longrightarrow> keeps I (modify f)"
  by (simp add: keeps_def modify_def)

lemma keeps_then [keeps_intros]:
  assumes "keeps I m" "\<And>a. keeps I (f a)"
  shows "keeps I (then_do m f)"
proof -
  have "I (snd (f a t))" if "m s = (Inr a, t)" "I s" for a s t
    using assms(2) [of a] keeps_result [OF assms(1) that(2,1)] by (simp add: keeps_def)
  moreover have "I t" if "m s = (r, t)" "I s" for r s t by (rule keeps_result [OF assms(1) that(2,1)])
  ultimately show ?thesis by (simp add: keeps_def then_do_def split: prod.split sum.split)
qed

lemma keeps_on_error [keeps_intros]:
  assumes "keeps I m" "\<And>e. keeps I (h e)"
  shows "keeps I (on_error m h)"
proof -
  have "I (snd (h e t))" if "m s = (Inl e, t)" "I s" for e s t
    using assms(2) [of e] keeps_result [OF assms(1) that(2,1)] by (simp add: keeps_def)
  moreover have "I t" if "m s = (r, t)" "I s" for r s t by (rule keeps_result [OF assms(1) that(2,1)])
  ultimately show ?thesis by (simp add: keeps_def on_error_def split: prod.split sum.split)
qed

lemma keeps_inside [keeps_intros]: "keeps I m \<Longrightarrow> keeps I (inside m)"
  unfolding inside_def by (intro keeps_intros)

lemma keeps_transaction [keeps_intros]:
  assumes "keeps I m"
  shows "keeps I (in_transaction m)"
proof -
  have "I t" if "m s = (r, t)" "I s" for r s t by (rule keeps_result [OF assms that(2,1)])
  then show ?thesis by (simp add: keeps_def in_transaction_def split: prod.split sum.split)
qed

lemma keeps_cases [keeps_intros]:
  "(b \<Longrightarrow> keeps I m) \<Longrightarrow> (\<not> b \<Longrightarrow> keeps I n) \<Longrightarrow> keeps I (if b then m else n)"
  "keeps I no \<Longrightarrow> (\<And>x. keeps I (so x)) \<Longrightarrow> keeps I (case mb of None \<Rightarrow> no | Some x \<Rightarrow> so x)"
  "(\<And>x y. keeps I (g x y)) \<Longrightarrow> keeps I (case pair of (x, y) \<Rightarrow> g x y)"
  "(\<And>x. keeps I (l x)) \<Longrightarrow> (\<And>y. keeps I (r y)) \<Longrightarrow> keeps I (case z of Inl x \<Rightarrow> l x | Inr y \<Rightarrow> r y)"
  "keeps I e \<Longrightarrow> (\<And>x xs. keeps I (c x xs)) \<Longrightarrow> keeps I (case xs' of [] \<Rightarrow> e | x # xs \<Rightarrow> c x xs)"
  by (auto split: option.split prod.split sum.split list.split)

lemma keeps_for_each [keeps_intros]: "(\<And>x. keeps I (f x)) \<Longrightarrow> keeps I (for_each f xs)"
  by (induction xs) (auto intro: keeps_intros)

lemma keeps_gather [keeps_intros]: "(\<And>x. keeps I (f x)) \<Longrightarrow> keeps I (gather f xs)"
  by (induction xs) (auto intro: keeps_intros)

section \<open>Views left alone\<close>

definition leaves :: "('s \<Rightarrow> 'v) \<Rightarrow> ('s, 'e, 'a) eff \<Rightarrow> bool" where
  "leaves view m \<longleftrightarrow> (\<forall>v. keeps (\<lambda>s. view s = v) m)"

named_theorems leaves_intros

lemma leavesI: "(\<And>v. keeps (\<lambda>s. view s = v) m) \<Longrightarrow> leaves view m"
  by (simp add: leaves_def)

lemma leavesD: "leaves view m \<Longrightarrow> keeps (\<lambda>s. view s = v) m"
  by (simp add: leaves_def)

lemma leaves_eq: "leaves view m \<longleftrightarrow> (\<forall>s. view (snd (m s)) = view s)"
  by (auto simp: leaves_def keeps_def)

lemma leaves_result: "leaves view m \<Longrightarrow> m s = (r, t) \<Longrightarrow> view t = view s"
  unfolding leaves_eq by (metis snd_conv)

lemma leaves_keeps: "leaves view m \<Longrightarrow> (\<And>s t. view t = view s \<Longrightarrow> I s \<Longrightarrow> I t) \<Longrightarrow> keeps I m"
  unfolding leaves_eq keeps_def by blast

lemma wp_thenI: "wp m (\<lambda>a. wp (f a) Q E) E s \<Longrightarrow> wp (then_do m f) Q E s"
  by (simp add: wp_then)

lemma wp_leaves:
  assumes "leaves view m" "\<And>a t. view t = view s \<Longrightarrow> Q a t" "\<And>e t. view t = view s \<Longrightarrow> E e t"
  shows "wp m Q E s"
  using assms leaves_result [OF assms(1)] by (auto simp: wp_result)

lemma leaves_modify [leaves_intros]: "(\<And>s. view (f s) = view s) \<Longrightarrow> leaves view (modify f)"
  by (simp add: leaves_eq modify_def)

lemma leaves_rules [leaves_intros]:
  "leaves view (return_ok a)" "leaves view (throw e)" "leaves view (read_state g)" "leaves view (lift_sum r)"
  "leaves view (ensure p e')" "leaves view (roll_back v)"
  "leaves view m \<Longrightarrow> (\<And>a. leaves view (f a)) \<Longrightarrow> leaves view (then_do m f)"
  "leaves view n \<Longrightarrow> (\<And>e. leaves view (h e)) \<Longrightarrow> leaves view (on_error n h)"
  "leaves view i \<Longrightarrow> leaves view (inside i)"
  "leaves view u \<Longrightarrow> leaves view (in_transaction u)"
  by (auto intro!: leavesI keeps_intros dest: leavesD)

lemma leaves_cases [leaves_intros]:
  "(b \<Longrightarrow> leaves view m) \<Longrightarrow> (\<not> b \<Longrightarrow> leaves view n) \<Longrightarrow> leaves view (if b then m else n)"
  "leaves view no \<Longrightarrow> (\<And>x. leaves view (so x)) \<Longrightarrow> leaves view (case mb of None \<Rightarrow> no | Some x \<Rightarrow> so x)"
  "(\<And>x y. leaves view (g x y)) \<Longrightarrow> leaves view (case pair of (x, y) \<Rightarrow> g x y)"
  "(\<And>x. leaves view (l x)) \<Longrightarrow> (\<And>y. leaves view (r y)) \<Longrightarrow> leaves view (case z of Inl x \<Rightarrow> l x | Inr y \<Rightarrow> r y)"
  "leaves view e \<Longrightarrow> (\<And>x xs. leaves view (c x xs)) \<Longrightarrow> leaves view (case xs' of [] \<Rightarrow> e | x # xs \<Rightarrow> c x xs)"
  "(\<And>x. leaves view (f x)) \<Longrightarrow> leaves view (for_each f ys)"
  "(\<And>x. leaves view (k x)) \<Longrightarrow> leaves view (gather k ys)"
  by (auto intro!: leavesI keeps_intros dest: leavesD)

section \<open>The statements\<close>

lemma leaves_external [leaves_intros]:
  "leaves view (ask_github r)" "leaves view (ask_inference r')" "leaves view (parsed r'')"
  by (simp_all add: ask_github_def ask_inference_def parsed_def leaves_intros)

lemma leaves_audit [leaves_intros]: "(\<And>s x. view (s\<lparr>db_audit := x\<rparr>) = view s) \<Longrightarrow> leaves view (audit actor action subject)"
  unfolding audit_def by (rule leaves_intros)

lemma leaves_enqueue [leaves_intros]: "(\<And>s x. view (s\<lparr>db_events := x\<rparr>) = view s) \<Longrightarrow> leaves view (enqueueEvent e)"
  by (simp add: leaves_eq enqueueEvent_def)

lemma leaves_post [leaves_intros]: "(\<And>s x. view (s\<lparr>db_posts := x\<rparr>) = view s) \<Longrightarrow> leaves view (post_on taken r n m)"
  unfolding post_on_def by (auto intro!: leaves_intros)

lemma leaves_update_bounty [leaves_intros]: "(\<And>s x. view (s\<lparr>db_bounties := x\<rparr>) = view s) \<Longrightarrow> leaves view (update_bounty i f)"
  unfolding update_bounty_def by (rule leaves_intros)

lemma leaves_fit [leaves_intros]:
  assumes "\<And>s x. view (s\<lparr>db_applications := x\<rparr>) = view s" "\<And>s x. view (s\<lparr>db_snapshots := x\<rparr>) = view s"
    and "\<And>s x. view (s\<lparr>db_issue_snapshots := x\<rparr>) = view s"
  shows "leaves view (assess other dots now x enabled i)"
proof -
  have "leaves view (write_fit a b c)" for a b c unfolding write_fit_def using assms(1) by (intro leaves_intros)
  moreover have "leaves view (evidenceFor now e u l)" for e u l
    unfolding evidenceFor_def upsert_snapshot_def Let_def using assms(2) by (auto intro!: leaves_intros)
  moreover have "leaves view (issueContext now i l b)" for i l b
    unfolding issueContext_def upsert_issue_snapshot_def Let_def using assms(3) by (auto intro!: leaves_intros)
  ultimately show ?thesis unfolding assess_def Let_def by (auto intro!: leaves_intros split: prod.split)
qed

end
