(* ===== verification/BountyService.thy ===== *)
theory BountyService
  imports Reopen JsDate
begin

text \<open>
  apps/agent/src/service.ts, from the repository switches to the merged pull request: \<open>repo\<close>,
  \<open>addRepo\<close>, \<open>setRepoBounties\<close>, \<open>repoBountyStates\<close>, \<open>proposeBounty\<close>, \<open>seedBounty\<close>,
  \<open>onPullRequestActivity\<close>, \<open>onPullRequestClosed\<close> and what they call. GitHub, the inference client,
  the clocks and the fresh UUIDs are arguments. Funded bounties are those with a funder.
\<close>

record agent_cfg =
  ac_network :: string
  ac_mints :: "string \<rightharpoonup> agent_mint"
  ac_defaultCurrency :: string
  ac_gate :: gate_policy
  ac_priceMinUsd :: jsnum
  ac_priceMaxUsd :: jsnum
  ac_trustedApprovers :: "string list"

section \<open>Repositories\<close>

definition repo :: "string \<Rightarrow> agent_db \<Rightarrow> repo_row option" where
  "repo fullName s =
     (case owner_name fullName of
        (owner, Some name) \<Rightarrow> find (\<lambda>r. to_lower (ro_owner r) = to_lower owner \<and> to_lower (ro_name r) = to_lower name) (db_repos s)
      | _ \<Rightarrow> None)"

definition upsert_repo :: "string \<Rightarrow> string \<Rightarrow> int \<Rightarrow> bool \<Rightarrow> unit agent_eff" where
  "upsert_repo owner name inst enabled =
     modify (\<lambda>s. s\<lparr>db_repos :=
       (if \<exists>r \<in> set (db_repos s). ro_owner r = owner \<and> ro_name r = name
        then update_where (\<lambda>r. ro_owner r = owner \<and> ro_name r = name) (\<lambda>r. r\<lparr>ro_installation_id := inst, ro_enabled := enabled\<rparr>) (db_repos s)
        else db_repos s @ [\<lparr>ro_id = length (db_repos s), ro_owner = owner, ro_name = name, ro_installation_id = inst, ro_enabled = enabled,
          ro_bounties_enabled = False, ro_registered_project = False\<rparr>])\<rparr>)"

definition addRepo :: "github \<Rightarrow> string \<Rightarrow> bool \<Rightarrow> unit agent_eff" where
  "addRepo gh fullName enabled =
     (case owner_name fullName of
        (w # ws, Some (n # ns)) \<Rightarrow>
          then_do (ask_github (gh_installationIdFor gh fullName)) (\<lambda>inst.
          then_do (upsert_repo (w # ws) (n # ns) inst enabled) (\<lambda>_.
          audit ''maintainer'' ''repo.upsert'' (Some fullName)))
      | _ \<Rightarrow> throw Repo_must_be_owner_name)"

datatype set_bounties_outcome = Bounties_set string bool bool | Repo_not_allowlisted_here string

definition switch_bounties :: "time_ms \<Rightarrow> repo_row \<Rightarrow> bool \<Rightarrow> bool \<Rightarrow> string \<Rightarrow> set_bounties_outcome agent_eff" where
  "switch_bounties db_now r enabled registered changedBy =
     then_do (modify (\<lambda>s. s\<lparr>db_repos := update_where (\<lambda>x. ro_id x = ro_id r)
       (\<lambda>x. x\<lparr>ro_bounties_enabled := enabled, ro_registered_project := registered\<rparr>) (db_repos s)\<rparr>)) (\<lambda>_.
     then_do (modify (\<lambda>s. s\<lparr>db_repo_audit := db_repo_audit s @ [\<lparr>ra_repo_id = ro_id r, ra_full_name = repo_full r,
       ra_bounties_enabled = enabled, ra_registered_project = registered, ra_changed_by = changedBy, ra_changed_at = db_now\<rparr>]\<rparr>)) (\<lambda>_.
     return_ok (Bounties_set (repo_full r) enabled registered)))"

definition setRepoBounties :: "github \<Rightarrow> time_ms \<Rightarrow> string \<Rightarrow> bool \<Rightarrow> bool \<Rightarrow> string \<Rightarrow> set_bounties_outcome agent_eff" where
  "setRepoBounties gh db_now fullName enabled registered changedBy =
     then_do (read_state (repo fullName)) (\<lambda>r0.
     then_do (if r0 = None \<and> enabled then then_do (addRepo gh fullName True) (\<lambda>_. read_state (repo fullName)) else return_ok r0) (\<lambda>r1.
     case r1 of
       None \<Rightarrow> if enabled then return_ok (Repo_not_allowlisted_here fullName) else return_ok (Bounties_set fullName False registered)
     | Some r \<Rightarrow> switch_bounties db_now r enabled registered changedBy))"

definition bounty_state_of :: "string \<Rightarrow> repo_row \<Rightarrow> repo_bounty_state" where
  "bounty_state_of fullName r = \<lparr>rb_fullName = fullName, rb_enabled = ro_enabled r,
     rb_bountiesEnabled = ro_bounties_enabled r, rb_registeredProject = ro_registered_project r\<rparr>"

record repo_state_view =
  rs_fullName :: string
  rs_allowlisted :: bool
  rs_bountiesEnabled :: bool
  rs_registeredProject :: bool
  rs_testCarveOut :: bool
  rs_mayHaveBounties :: bool
  rs_whyNot :: "repo_refusal option"
  rs_lastChanged :: "(string \<times> string) option"

text \<open>The rows in the order of their full names, which is that of owner and name; the order is left out.\<close>

definition repoBountyStates :: "agent_db \<Rightarrow> repo_state_view list" where
  "repoBountyStates s =
     map (\<lambda>r. let verdict = repoMayHaveBounties (bounty_state_of (repo_full r) r);
                  last = latest ra_changed_at (filter (\<lambda>a. ra_full_name a = repo_full r) (db_repo_audit s)) in
       \<lparr>rs_fullName = repo_full r, rs_allowlisted = ro_enabled r, rs_bountiesEnabled = ro_bounties_enabled r,
        rs_registeredProject = ro_registered_project r, rs_testCarveOut = isTestCarveOut (repo_full r),
        rs_mayHaveBounties = (verdict = None), rs_whyNot = verdict,
        rs_lastChanged = map_option (\<lambda>a. (ra_changed_by a, toISOString (ra_changed_at a))) last\<rparr>) (db_repos s)"

definition repoForBounty :: "string \<Rightarrow> repo_row agent_eff" where
  "repoForBounty fullName =
     then_do (read_state (repo fullName)) (\<lambda>row.
     case row of
       None \<Rightarrow> throw (Repo_not_known fullName)
     | Some r \<Rightarrow> (case repoMayHaveBounties (bounty_state_of fullName r) of Some why \<Rightarrow> throw (Repo_refused why) | None \<Rightarrow> return_ok r))"

section \<open>Bounties\<close>

definition mint_for :: "agent_cfg \<Rightarrow> string \<Rightarrow> agent_mint agent_eff" where
  "mint_for cfg currency = (case ac_mints cfg currency of None \<Rightarrow> throw (No_mint_for currency) | Some m \<Rightarrow> return_ok m)"

definition new_bounty :: "agent_cfg \<Rightarrow> string \<Rightarrow> repo_row \<Rightarrow> int \<Rightarrow> string \<Rightarrow> bigint \<Rightarrow> string \<Rightarrow> agent_mint \<Rightarrow> bounty_status \<Rightarrow> string \<Rightarrow> bounty_row" where
  "new_bounty cfg bountyId r issueNumber title amount currency mint st createdBy =
     \<lparr>bo_id = bountyId, bo_repo_id = ro_id r, bo_issue_number = issueNumber, bo_issue_title = take 300 title, bo_amount_minor = amount,
      bo_currency = currency, bo_mint = am_mint mint, bo_network = ac_network cfg, bo_status = st, bo_price_call_id = None,
      bo_pricing = None, bo_comment_id = None, bo_created_by = createdBy, bo_is_test = False, bo_waived_eligibility_rules = [],
      bo_reserved_for_newcomers = False, bo_funded_by = None, bo_funded_by_github_user_id = None, bo_applications_open_at = None, bo_applications_close_at = None,
      bo_window_extensions = 0, bo_exclude_login_next_draw = None, bo_awaiting_redraw = False, bo_auto_draw_ran_at = None\<rparr>"

definition open_on :: "repo_row \<Rightarrow> int \<Rightarrow> agent_db \<Rightarrow> bool" where
  "open_on r issueNumber s \<longleftrightarrow>
     (\<exists>b \<in> set (db_bounties s). bo_repo_id b = ro_id r \<and> bo_issue_number b = issueNumber \<and> open_bounty b)"

definition proposeBounty :: "(jsnum \<Rightarrow> string) \<Rightarrow> agent_cfg \<Rightarrow> github \<Rightarrow> string + inference_answer \<Rightarrow> string \<Rightarrow> string \<Rightarrow> int
    \<Rightarrow> string \<Rightarrow> string option \<Rightarrow> (string \<times> bigint \<times> pricing) agent_eff" where
  "proposeBounty other cfg gh inference bountyId fullName issueNumber createdBy currencyArg =
     (let currency = (case currencyArg of Some c \<Rightarrow> c | None \<Rightarrow> ac_defaultCurrency cfg) in
     then_do (read_state (repo fullName)) (\<lambda>row.
     case row of
       None \<Rightarrow> throw (Repo_not_enabled fullName)
     | Some r \<Rightarrow>
         if \<not> ro_enabled r then throw (Repo_not_enabled fullName)
         else then_do (mint_for cfg currency) (\<lambda>mint.
         then_do (ensure (\<lambda>s. \<not> open_on r issueNumber s) (Already_open_bounty issueNumber)) (\<lambda>_.
         then_do (ask_github (gh_getIssue gh fullName issueNumber)) (\<lambda>issue.
         if gi_state issue \<noteq> ''open'' then throw (Issue_is issueNumber (gi_state issue))
         else then_do (ask_inference inference) (\<lambda>a.
         then_do (parsed (answer_text other (ia_response a))) (\<lambda>text.
         then_do (parsed (parsePricing other text)) (\<lambda>pricing.
         then_do (parsed (clampPriceMinor (pc_suggested_usd pricing) (ac_priceMinUsd cfg) (ac_priceMaxUsd cfg) (nat \<lfloor>am_decimals mint\<rfloor>))) (\<lambda>amount.
         then_do (insert_bounty ((new_bounty cfg bountyId r issueNumber (gi_title issue) amount currency mint Proposed createdBy)
           \<lparr>bo_price_call_id := Some (ia_call_id a), bo_pricing := Some pricing\<rparr>)) (\<lambda>_.
         then_do (post_on (gh_comment gh fullName issueNumber) fullName issueNumber (Bounty_announced bountyId amount currency)) (\<lambda>c.
         then_do (update_bounty bountyId (\<lambda>b. b\<lparr>bo_status := Posted, bo_comment_id := Some c\<rparr>)) (\<lambda>_.
         then_do (audit createdBy ''bounty.posted'' (Some bountyId)) (\<lambda>_.
         return_ok (bountyId, amount, pricing))))))))))))))"

record seed_input =
  si_repo :: string
  si_issueNumber :: int
  si_amountMinor :: bigint
  si_currency :: "string option"
  si_createdBy :: string
  si_isTest :: bool
  si_waivedRules :: "string list"
  si_title :: string
  si_reservedForNewcomers :: bool

text \<open>A title that was not given, or is empty, is read from the issue.\<close>

definition seed_title :: "github \<Rightarrow> seed_input \<Rightarrow> string" where
  "seed_title gh i =
     (if si_title i \<noteq> [] then si_title i
      else case gh_getIssue gh (si_repo i) (si_issueNumber i) of Inr issue \<Rightarrow> gi_title issue | Inl _ \<Rightarrow> ''Issue #'' @ show_int (si_issueNumber i))"

definition seedBounty :: "agent_cfg \<Rightarrow> github \<Rightarrow> string \<Rightarrow> seed_input \<Rightarrow> (string \<times> string) agent_eff" where
  "seedBounty cfg gh bountyId i =
     then_do (repoForBounty (si_repo i)) (\<lambda>r.
     let currency = (case si_currency i of Some c \<Rightarrow> c | None \<Rightarrow> ac_defaultCurrency cfg) in
     then_do (mint_for cfg currency) (\<lambda>mint.
     then_do (insert_bounty ((new_bounty cfg bountyId r (si_issueNumber i) (seed_title gh i) (si_amountMinor i) currency mint Posted (si_createdBy i))
       \<lparr>bo_is_test := si_isTest i, bo_waived_eligibility_rules := si_waivedRules i, bo_reserved_for_newcomers := si_reservedForNewcomers i\<rparr>)) (\<lambda>_.
     return_ok (bountyId, seed_title gh i))))"

section \<open>Pull requests\<close>

text \<open>The repository and the open bounties on issues the pull request closes.\<close>

definition bountiesClosedBy :: "github \<Rightarrow> string \<Rightarrow> int \<Rightarrow> (repo_row option \<times> bounty_row list) agent_eff" where
  "bountiesClosedBy gh fullName prNumber =
     then_do (read_state (repo fullName)) (\<lambda>row.
     case row of
       None \<Rightarrow> return_ok (None, [])
     | Some r \<Rightarrow>
         if \<not> ro_enabled r then return_ok (None, [])
         else then_do (ask_github (gh_closingIssues gh fullName prNumber)) (\<lambda>closes.
         then_do (read_state (\<lambda>s. filter (\<lambda>b. bo_repo_id b = ro_id r \<and> bo_issue_number b \<in> set closes
           \<and> bo_status b \<in> {Posted, In_review, Payable}) (db_bounties s))) (\<lambda>bs.
         return_ok (Some r, bs))))"

definition upsertSubmission :: "string \<Rightarrow> time_ms \<Rightarrow> string \<Rightarrow> pull_info \<Rightarrow> submission_state \<Rightarrow> string agent_eff" where
  "upsertSubmission newId db_now bountyId pr st s =
     (case find (\<lambda>x. sb_bounty_id x = bountyId \<and> sb_pr_number x = pl_number pr) (db_submissions s) of
        Some old \<Rightarrow> (Inr (sb_id old), s\<lparr>db_submissions := update_where (\<lambda>x. sb_bounty_id x = bountyId \<and> sb_pr_number x = pl_number pr)
          (\<lambda>x. x\<lparr>sb_head_sha := pl_headSha pr, sb_state := st, sb_merged_by_login := pl_mergedByLogin pr, sb_merged_at := pl_mergedAt pr,
            sb_updated_at := db_now\<rparr>) (db_submissions s)\<rparr>)
      | None \<Rightarrow>
          if newId \<in> sb_id ` set (db_submissions s) then (Inl (Db_error (Unique_violation ''submissions_pkey'')), s)
          else (Inr newId, s\<lparr>db_submissions := db_submissions s @ [\<lparr>sb_id = newId, sb_bounty_id = bountyId, sb_pr_number = pl_number pr,
            sb_author_github_user_id = pl_authorId pr, sb_author_login = pl_authorLogin pr, sb_head_sha = pl_headSha pr, sb_state = st,
            sb_merged_by_login = pl_mergedByLogin pr, sb_merged_at = pl_mergedAt pr, sb_updated_at = db_now\<rparr>]\<rparr>))"

definition funded :: "bounty_row \<Rightarrow> bool" where
  "funded b = (case bo_funded_by b of Some (_ # _) \<Rightarrow> True | _ \<Rightarrow> False)"

text \<open>INSERT INTO reviews ... ON CONFLICT DO NOTHING.\<close>

definition insert_review :: "review_row \<Rightarrow> unit agent_eff" where
  "insert_review r = modify (\<lambda>s.
     if \<exists>x \<in> set (db_reviews s). rr_submission_id x = rr_submission_id r \<and> rr_head_sha x = rr_head_sha r then s
     else s\<lparr>db_reviews := db_reviews s @ [r]\<rparr>)"

definition review_event :: "string \<Rightarrow> string \<Rightarrow> int \<Rightarrow> verdict \<Rightarrow> int \<Rightarrow> bounty_event" where
  "review_event bountyId fullName prNumber v author =
     \<lparr>ev_kind = Review_posted, ev_githubUserId = author, ev_dedupeKey = dedupe_reviewPosted bountyId prNumber,
      ev_payload = [(''bountyId'', JStr bountyId), (''repo'', JStr fullName), (''pr_number'', JNum (of_int prNumber)),
        (''verdict'', JStr (case v of Looks_complete \<Rightarrow> ''looks_complete'' | Needs_changes \<Rightarrow> ''needs_changes'' | Unclear \<Rightarrow> ''unclear''))]\<rparr>"

definition reviewSubmission :: "(jsnum \<Rightarrow> string) \<Rightarrow> github \<Rightarrow> string + inference_answer \<Rightarrow> string \<Rightarrow> bounty_row \<Rightarrow> string \<Rightarrow> pull_info \<Rightarrow> unit agent_eff" where
  "reviewSubmission other gh inference fullName b submissionId pr =
     then_do (ask_github (gh_getIssue gh fullName (bo_issue_number b))) (\<lambda>_.
     then_do (ask_github (gh_getPullDiff gh fullName (pl_number pr))) (\<lambda>_.
     then_do (ask_github (gh_ciState gh fullName (pl_headSha pr))) (\<lambda>ci.
     then_do (ask_inference inference) (\<lambda>a.
     then_do (parsed (answer_text other (ia_response a))) (\<lambda>text.
     then_do (parsed (parseReview other text)) (\<lambda>review.
     then_do (post_on (gh_review gh fullName (pl_number pr) (pl_headSha pr)) fullName (pl_number pr) (Advisory_review (rw_verdict review) ci)) (\<lambda>i.
     then_do (insert_review \<lparr>rr_submission_id = submissionId, rr_head_sha = pl_headSha pr, rr_verdict = rw_verdict review,
       rr_summary = rw_summary review, rr_call_ids = [ia_call_id a], rr_github_review_id = i\<rparr>) (\<lambda>_.
     then_do (audit ''agent'' ''review.posted'' (Some submissionId)) (\<lambda>_.
     then_do (read_state (\<lambda>s. find (\<lambda>x. sb_id x = submissionId) (db_submissions s))) (\<lambda>author.
     case author of
       None \<Rightarrow> return_ok ()
     | Some x \<Rightarrow> then_do (enqueueEvent (review_event (bo_id b) fullName (pl_number pr) (rw_verdict review) (sb_author_github_user_id x)))
         (\<lambda>_. return_ok ())))))))))))"

text \<open>One bounty of a pull request that was opened or pushed to; its inference answer is its own.\<close>

definition pr_activity_on :: "(jsnum \<Rightarrow> string) \<Rightarrow> github \<Rightarrow> (string \<Rightarrow> string + inference_answer) \<Rightarrow> (string \<Rightarrow> string) \<Rightarrow> time_ms \<Rightarrow> string
    \<Rightarrow> pull_info \<Rightarrow> bounty_row \<Rightarrow> unit agent_eff" where
  "pr_activity_on other gh inference newId db_now fullName pr b =
     then_do (upsertSubmission (newId (bo_id b)) db_now (bo_id b) pr Sub_open) (\<lambda>submissionId.
     then_do (if bo_status b = Posted
       then modify (\<lambda>s. s\<lparr>db_bounties := update_where (\<lambda>x. bo_id x = bo_id b \<and> bo_status x = Posted) (\<lambda>x. x\<lparr>bo_status := In_review\<rparr>) (db_bounties s)\<rparr>)
       else return_ok ()) (\<lambda>_.
     then_do (read_state (\<lambda>s. \<exists>a \<in> set (db_assignments s). an_bounty_id a = bo_id b \<and> an_github_user_id a = pl_authorId pr \<and> an_status a = Active)) (\<lambda>recorded.
     then_do (modify (\<lambda>s. s\<lparr>db_assignments := update_where (\<lambda>a. an_bounty_id a = bo_id b \<and> an_github_user_id a = pl_authorId pr \<and> an_status a = Active)
       (\<lambda>a. a\<lparr>an_status := Pr_submitted, an_qualifying_pr_number := Some (pl_number pr)\<rparr>) (db_assignments s)\<rparr>)) (\<lambda>_.
     then_do (if recorded then audit ''agent'' ''assignment.pr_recorded'' (Some (bo_id b)) else return_ok ()) (\<lambda>_.
     then_do (read_state (\<lambda>s. \<exists>r \<in> set (db_reviews s). rr_submission_id r = submissionId \<and> rr_head_sha r = pl_headSha pr)) (\<lambda>reviewed.
     if reviewed \<or> funded b then return_ok ()
     else reviewSubmission other gh (inference (bo_id b)) fullName b submissionId pr))))))"

definition onPullRequestActivity :: "(jsnum \<Rightarrow> string) \<Rightarrow> github \<Rightarrow> (string \<Rightarrow> string + inference_answer) \<Rightarrow> (string \<Rightarrow> string) \<Rightarrow> time_ms \<Rightarrow> string
    \<Rightarrow> int \<Rightarrow> unit agent_eff" where
  "onPullRequestActivity other gh inference newId db_now fullName prNumber =
     then_do (ask_github (gh_getPull gh fullName prNumber)) (\<lambda>pr.
     if pl_state pr \<noteq> ''open'' then return_ok ()
     else then_do (bountiesClosedBy gh fullName prNumber) (\<lambda>(_, bounties).
       for_each (pr_activity_on other gh inference newId db_now fullName pr) bounties))"

section \<open>The merge and the gate\<close>

definition paid_today :: "string \<Rightarrow> string \<Rightarrow> time_ms \<Rightarrow> agent_db \<Rightarrow> bigint" where
  "paid_today currency network db_now s =
     sum_list (map ap_amount_minor (filter (\<lambda>p. ap_currency p = currency \<and> ap_network p = network
       \<and> ap_status p \<notin> {Gate_refused, Payout_failed} \<and> db_now - db_now mod ms_per_day \<le> ap_created_at p) (db_payouts s)))"

definition escrow_of :: "bounty_row \<Rightarrow> agent_db \<Rightarrow> gate_funded option" where
  "escrow_of b s =
     (if \<not> funded b then None
      else case find (\<lambda>e. ew_bounty_id e = bo_id b) (db_escrows s) of
        Some e \<Rightarrow> Some \<lparr>gf_escrowState = ew_state e, gf_contributorWallet = ew_contributor_wallet e\<rparr>
      | None \<Rightarrow> Some \<lparr>gf_escrowState = ''missing'', gf_contributorWallet = None\<rparr>)"

definition non_empty :: "string option \<Rightarrow> string option" where
  "non_empty t = (case t of Some (c # cs) \<Rightarrow> Some (c # cs) | _ \<Rightarrow> None)"

definition runGate_facts :: "github \<Rightarrow> string \<Rightarrow> repo_row \<Rightarrow> bounty_row \<Rightarrow> pull_info \<Rightarrow> int list \<Rightarrow> time_ms \<Rightarrow> agent_db \<Rightarrow> gate_facts" where
  "runGate_facts gh fullName r b pr closes db_now s =
     (let escrow = escrow_of b s;
          merger = non_empty (pl_mergedByLogin pr);
          assignment = latest an_assigned_at (filter (\<lambda>a. an_bounty_id a = bo_id b \<and> an_status a \<in> {Active, Pr_submitted, Completed}) (db_assignments s)) in
      \<lparr>gf_repo = \<lparr>gr_fullName = fullName, gr_allowlisted = True, gr_enabled = ro_enabled r, gr_bountiesEnabled = ro_bounties_enabled r,
         gr_registeredProject = ro_registered_project r\<rparr>,
       gf_bounty = \<lparr>gb_id = bo_id b, gb_status = status_text (bo_status b), gb_issueNumber = bo_issue_number b,
         gb_amountMinor = bo_amount_minor b, gb_currency = bo_currency b, gb_network = bo_network b\<rparr>,
       gf_pr = \<lparr>gp_number = pl_number pr, gp_merged = pl_merged pr, gp_mergedByLogin = pl_mergedByLogin pr,
         gp_mergedByPermission = (case merger of None \<Rightarrow> None | Some m \<Rightarrow> (case gh_permission gh fullName m of Inr p \<Rightarrow> Some p | Inl _ \<Rightarrow> None)),
         gp_authorId = pl_authorId pr, gp_authorLogin = pl_authorLogin pr, gp_authorType = pl_authorType pr, gp_closesIssues = closes\<rparr>,
       gf_author = (case gh_getUser gh fullName (pl_authorLogin pr) of
           Inr u \<Rightarrow> if gu_id u = pl_authorId pr then Some (gu_createdAt u) else None | Inl _ \<Rightarrow> None),
       gf_wallet = (case escrow of
           Some e \<Rightarrow> non_empty (gf_contributorWallet e)
         | None \<Rightarrow> map_option wk_address (find (\<lambda>w. wk_github_user_id w = pl_authorId pr \<and> live_link w) (db_wallet_links s))),
       gf_assignment = map_option (\<lambda>a. \<lparr>ga_githubUserId = an_github_user_id a, ga_githubLogin = an_github_login a\<rparr>) assignment,
       gf_bountyAlreadyHasPayout = (\<exists>p \<in> set (db_payouts s). ap_bounty_id p = bo_id b \<and> live_payout p),
       gf_paidTodayMinor = paid_today (bo_currency b) (bo_network b) db_now s,
       gf_funded = escrow\<rparr>)"

definition runGate :: "agent_cfg \<Rightarrow> github \<Rightarrow> time_ms \<Rightarrow> time_ms \<Rightarrow> string \<Rightarrow> repo_row \<Rightarrow> bounty_row \<Rightarrow> pull_info \<Rightarrow> (gate_facts \<times> gate_result) agent_eff" where
  "runGate cfg gh now db_now fullName r b pr =
     then_do (ask_github (gh_closingIssues gh fullName (pl_number pr))) (\<lambda>closes.
     then_do (read_state (runGate_facts gh fullName r b pr closes db_now)) (\<lambda>facts.
     return_ok (facts, evaluateGate facts (ac_gate cfg) now)))"

definition new_payout :: "string \<Rightarrow> string \<Rightarrow> time_ms \<Rightarrow> bounty_row \<Rightarrow> pull_info \<Rightarrow> gate_facts \<Rightarrow> gate_result \<Rightarrow> agent_payout" where
  "new_payout payoutId submissionId db_now b pr facts result =
     \<lparr>ap_id = payoutId, ap_bounty_id = bo_id b, ap_submission_id = submissionId,
      ap_recipient = (case non_empty (gf_wallet facts) of Some w \<Rightarrow> w | None \<Rightarrow> ''-''), ap_recipient_github_user_id = pl_authorId pr,
      ap_amount_minor = bo_amount_minor b, ap_currency = bo_currency b, ap_mint = bo_mint b, ap_network = bo_network b,
      ap_gate_result = result, ap_status = (if res_pass result then Awaiting_approval else Gate_refused),
      ap_approval = None, ap_tx_signature = None, ap_error = None, ap_created_at = db_now\<rparr>"

text \<open>What follows from the gate's result: the bounty's status, the record and the comment.\<close>

definition gate_said :: "github \<Rightarrow> string \<Rightarrow> pull_info \<Rightarrow> bounty_row \<Rightarrow> string \<Rightarrow> gate_result \<Rightarrow> (string \<times> string \<times> gate_result) list agent_eff" where
  "gate_said gh fullName pr b payoutId result =
     then_do (if res_pass result then update_bounty (bo_id b) (\<lambda>x. x\<lparr>bo_status := Payable\<rparr>) else return_ok ()) (\<lambda>_.
     then_do (audit ''agent'' (if res_pass result then ''payout.awaiting_approval'' else ''payout.refused'') (Some payoutId)) (\<lambda>_.
     then_do (post_on (gh_comment gh fullName (pl_number pr)) fullName (pl_number pr)
       (if res_pass result then Payout_ready payoutId result else Payout_refused_by_gate result)) (\<lambda>_.
     return_ok [(bo_id b, payoutId, result)])))"

text \<open>One bounty of a merged pull request: the gate, the payout row, and what is said about it.\<close>

definition pr_merged_on :: "agent_cfg \<Rightarrow> github \<Rightarrow> (string \<Rightarrow> string) \<Rightarrow> time_ms \<Rightarrow> time_ms \<Rightarrow> string \<Rightarrow> repo_row \<Rightarrow> pull_info \<Rightarrow> string \<Rightarrow> bounty_row
    \<Rightarrow> (string \<times> string \<times> gate_result) list agent_eff" where
  "pr_merged_on cfg gh newPayoutId now db_now fullName r pr submissionId b =
     then_do (runGate cfg gh now db_now fullName r b pr) (\<lambda>(facts, result).
     then_do (insert_payout (new_payout (newPayoutId (bo_id b)) submissionId db_now b pr facts result)) (\<lambda>_.
     gate_said gh fullName pr b (newPayoutId (bo_id b)) result))"

definition pr_closed_on :: "agent_cfg \<Rightarrow> github \<Rightarrow> (string \<Rightarrow> string) \<Rightarrow> (string \<Rightarrow> string) \<Rightarrow> time_ms \<Rightarrow> time_ms \<Rightarrow> string \<Rightarrow> repo_row \<Rightarrow> pull_info
    \<Rightarrow> bounty_row \<Rightarrow> (string \<times> string \<times> gate_result) list agent_eff" where
  "pr_closed_on cfg gh newId newPayoutId now db_now fullName r pr b =
     then_do (upsertSubmission (newId (bo_id b)) db_now (bo_id b) pr (if pl_merged pr then Sub_merged else Sub_closed)) (\<lambda>submissionId.
     if \<not> pl_merged pr
     then then_do (set_assignment_status (\<lambda>a. an_bounty_id a = bo_id b \<and> an_status a = Pr_submitted
         \<and> an_qualifying_pr_number a = Some (pl_number pr)) Active) (\<lambda>_.
       then_do (reopenAfterUnmergedClose (bo_id b) ''agent'' False) (\<lambda>_. return_ok []))
     else pr_merged_on cfg gh newPayoutId now db_now fullName r pr submissionId b)"

definition onPullRequestClosed :: "agent_cfg \<Rightarrow> github \<Rightarrow> (string \<Rightarrow> string) \<Rightarrow> (string \<Rightarrow> string) \<Rightarrow> time_ms \<Rightarrow> time_ms \<Rightarrow> string \<Rightarrow> int
    \<Rightarrow> (string \<times> string \<times> gate_result) list agent_eff" where
  "onPullRequestClosed cfg gh newId newPayoutId now db_now fullName prNumber =
     then_do (ask_github (gh_getPull gh fullName prNumber)) (\<lambda>pr.
     then_do (bountiesClosedBy gh fullName prNumber) (\<lambda>(r, bounties).
     case r of None \<Rightarrow> return_ok [] | Some r \<Rightarrow> gather (pr_closed_on cfg gh newId newPayoutId now db_now fullName r pr) bounties))"

end
