(* ===== verification/WalletLink.thy ===== *)
theory WalletLink
  imports AgentDb Session
begin

text \<open>
  apps/agent/src/service.ts, the linking of a wallet to a GitHub account: by a signed comment
  (\<open>onIssueComment\<close>) and from a signed-in session (\<open>linkWalletFromSession\<close>, \<open>readLinkFromSession\<close>).
  \<open>now\<close> is the service's clock and \<open>db_now\<close> the database's.
\<close>

section \<open>By a comment\<close>

record issue_comment =
  ic_issue_number :: int
  ic_body :: string
  ic_html_url :: string
  ic_user_login :: string
  ic_user_type :: string
  ic_performed_via_github_app :: bool

text \<open>INSERT INTO contributors ... ON CONFLICT DO UPDATE, of a user GitHub described.\<close>

definition upsert_contributor :: "gh_user \<Rightarrow> unit agent_eff" where
  "upsert_contributor u =
     modify (\<lambda>s. s\<lparr>db_contributors :=
       (if \<exists>c \<in> set (db_contributors s). co_github_user_id c = gu_id u
        then update_where (\<lambda>c. co_github_user_id c = gu_id u)
          (\<lambda>c. c\<lparr>co_login := gu_login u, co_account_created_at := Some (gu_createdAt u), co_is_bot := gu_type u \<noteq> ''User''\<rparr>) (db_contributors s)
        else db_contributors s @ [\<lparr>co_github_user_id = gu_id u, co_login = gu_login u,
          co_account_created_at = Some (gu_createdAt u), co_is_bot = gu_type u \<noteq> ''User''\<rparr>])\<rparr>)"

text \<open>UPDATE wallet_links SET revoked_at = now() WHERE github_user_id = $1 AND revoked_at IS NULL.\<close>

definition revoke_links :: "int \<Rightarrow> time_ms \<Rightarrow> unit agent_eff" where
  "revoke_links u db_now =
     modify (\<lambda>s. s\<lparr>db_wallet_links := update_where (\<lambda>w. wk_github_user_id w = u \<and> live_link w)
       (\<lambda>w. w\<lparr>wk_revoked_at := Some db_now\<rparr>) (db_wallet_links s)\<rparr>)"

definition wallet_of_another :: "string \<Rightarrow> int \<Rightarrow> agent_db \<Rightarrow> bool" where
  "wallet_of_another wallet u s \<longleftrightarrow>
     (\<exists>w \<in> set (db_wallet_links s). wk_address w = wallet \<and> live_link w \<and> wk_github_user_id w \<noteq> u)"

text \<open>The transaction: whether the link was stored.\<close>

definition store_comment_link :: "time_ms \<Rightarrow> int \<Rightarrow> wallet_link_claim \<Rightarrow> string \<Rightarrow> bool agent_eff" where
  "store_comment_link db_now u c source =
     in_transaction
       (then_do (read_state (wallet_of_another (wl_wallet c) u)) (\<lambda>taken.
        if taken then roll_back False
        else then_do (inside (revoke_links u db_now)) (\<lambda>_.
          then_do (inside (insert_wallet_link \<lparr>wk_github_user_id = u, wk_address = wl_wallet c, wk_message = wl_message c,
            wk_signature = wl_signature c, wk_source = source, wk_verified_at = db_now, wk_revoked_at = None\<rparr>)) (\<lambda>_.
          return_ok True))))"

definition onIssueComment :: "platform \<Rightarrow> github \<Rightarrow> time_ms \<Rightarrow> time_ms \<Rightarrow> string \<Rightarrow> issue_comment \<Rightarrow> unit agent_eff" where
  "onIssueComment P gh now db_now fullName p =
     (let n = ic_issue_number p; login = ic_user_login p;
          say = (\<lambda>m. then_do (post_on (gh_comment gh fullName n) fullName n m) (\<lambda>_. return_ok ())) in
      if ic_user_type p \<noteq> ''User'' \<or> ic_performed_via_github_app p then return_ok ()
      else case parseAndVerifyLinkComment P (ic_body p) login now of
        None \<Rightarrow> return_ok ()
      | Some (Inl reason) \<Rightarrow> say (Link_not_accepted login reason)
      | Some (Inr c) \<Rightarrow>
          then_do (ask_github (gh_getUser gh fullName login)) (\<lambda>user.
          then_do (upsert_contributor user) (\<lambda>_.
          then_do (store_comment_link db_now (gu_id user) c (ic_html_url p)) (\<lambda>linked.
          if \<not> linked then say (Wallet_of_another login)
          else then_do (audit login ''wallet.linked'' (Some (show_int (gu_id user)))) (\<lambda>_.
            say (Wallet_now_linked login (wl_wallet c)))))))"

section \<open>From a session\<close>

datatype session_link_outcome =
    Session_linked (linked_wallet: string) (linked_login: string) (linked_user: int) (linked_replaced: "string option") (linked_unchanged: bool)
  | Session_refused session_refusal
  | Nonce_used
  | Wallet_linked_to_another_account
  | Wallet_linked_moments_ago
  | Session_links_off

text \<open>The key that turns session links on: it must be set and not empty.\<close>

definition link_key :: "string option \<Rightarrow> string option" where
  "link_key k = (case k of Some (c # cs) \<Rightarrow> Some (c # cs) | _ \<Rightarrow> None)"

definition insert_nonce :: "string \<Rightarrow> int \<Rightarrow> bool agent_eff" where
  "insert_nonce nonce u s =
     (if nonce \<in> fst ` set (db_link_nonces s) then (Inr False, s)
      else (Inr True, s\<lparr>db_link_nonces := db_link_nonces s @ [(nonce, u)]\<rparr>))"

definition upsert_contributor_login :: "int \<Rightarrow> string \<Rightarrow> unit agent_eff" where
  "upsert_contributor_login u login =
     modify (\<lambda>s. s\<lparr>db_contributors :=
       (if \<exists>c \<in> set (db_contributors s). co_github_user_id c = u
        then update_where (\<lambda>c. co_github_user_id c = u) (\<lambda>c. c\<lparr>co_login := login\<rparr>) (db_contributors s)
        else db_contributors s @ [\<lparr>co_github_user_id = u, co_login = login, co_account_created_at = None, co_is_bot = False\<rparr>])\<rparr>)"

definition live_wallet :: "int \<Rightarrow> agent_db \<Rightarrow> wallet_row option" where
  "live_wallet u s = find (\<lambda>w. wk_github_user_id w = u \<and> live_link w) (db_wallet_links s)"

definition text_of :: "string option \<Rightarrow> string" where
  "text_of t = (case t of Some s \<Rightarrow> s | None \<Rightarrow> [])"

definition store_session_link :: "time_ms \<Rightarrow> link_fields \<Rightarrow> string \<Rightarrow> string \<Rightarrow> session_link_outcome agent_eff" where
  "store_session_link db_now f message signature =
     (let u = \<lfloor>lf_githubUserId f\<rfloor>; wallet = lf_wallet f in
      in_transaction
       (then_do (inside (insert_nonce (lf_nonce f) u)) (\<lambda>spent.
        if \<not> spent then roll_back Nonce_used
        else then_do (inside (upsert_contributor_login u (lf_login f))) (\<lambda>_.
        then_do (read_state (wallet_of_another wallet u)) (\<lambda>taken.
        if taken then roll_back Wallet_linked_to_another_account
        else then_do (read_state (live_wallet u)) (\<lambda>current.
        if map_option wk_address current = Some wallet then return_ok (Session_linked wallet (lf_login f) u None True)
        else then_do (inside (revoke_links u db_now)) (\<lambda>_.
          then_do (inside (insert_wallet_link \<lparr>wk_github_user_id = u, wk_address = wallet, wk_message = message,
            wk_signature = signature, wk_source = ''grainlify-session:'' @ lf_nonce f, wk_verified_at = db_now, wk_revoked_at = None\<rparr>)) (\<lambda>_.
          return_ok (Session_linked wallet (lf_login f) u (map_option wk_address current) False)))))))))"

text \<open>A unique index that stops the insertion is answered as a wallet linked moments ago.\<close>

definition linkWalletFromSession :: "platform \<Rightarrow> string option \<Rightarrow> time_ms \<Rightarrow> time_ms \<Rightarrow> signed_message \<Rightarrow> string option
    \<Rightarrow> session_link_outcome agent_eff" where
  "linkWalletFromSession P key now db_now input walletSignature =
     (case link_key key of
        None \<Rightarrow> return_ok Session_links_off
      | Some k \<Rightarrow>
          (case verifySessionLink P input walletSignature k now of
             Inl e \<Rightarrow> return_ok (Session_refused e)
           | Inr f \<Rightarrow>
               then_do (on_error (store_session_link db_now f (text_of (sm_message input)) (text_of walletSignature))
                  (\<lambda>e. case e of Db_error (Unique_violation _) \<Rightarrow> return_ok Wallet_linked_moments_ago | _ \<Rightarrow> throw e)) (\<lambda>out.
               case out of
                 Session_linked w l u r False \<Rightarrow>
                   then_do (audit (lf_login f) ''wallet.linked'' (Some (show_int u))) (\<lambda>_. return_ok out)
               | _ \<Rightarrow> return_ok out)))"

datatype session_read_outcome =
    Linked_wallet int string "string option" "string option"
  | Read_refused session_refusal
  | Reads_off

text \<open>The account, its login, the wallet linked to it and since when.\<close>

definition readLinkFromSession :: "platform \<Rightarrow> string option \<Rightarrow> time_ms \<Rightarrow> signed_message \<Rightarrow> session_read_outcome agent_eff" where
  "readLinkFromSession P key now input =
     (case link_key key of
        None \<Rightarrow> return_ok Reads_off
      | Some k \<Rightarrow>
          (case verifySessionRead P input k now of
             Inl e \<Rightarrow> return_ok (Read_refused e)
           | Inr f \<Rightarrow>
               then_do (read_state (live_wallet \<lfloor>rf_githubUserId f\<rfloor>)) (\<lambda>row.
               return_ok (Linked_wallet \<lfloor>rf_githubUserId f\<rfloor> (rf_login f) (map_option wk_address row)
                 (map_option (\<lambda>w. toISOString (wk_verified_at w)) row)))))"

section \<open>One wallet per account, one account per wallet\<close>

definition links_ok :: "agent_db \<Rightarrow> bool" where
  "links_ok s \<longleftrightarrow> distinct (map wk_github_user_id (filter live_link (db_wallet_links s)))
     \<and> distinct (map wk_address (filter live_link (db_wallet_links s)))"

lemma live_after_revoke:
  "filter live_link (update_where (\<lambda>w. wk_github_user_id w = u \<and> live_link w) (\<lambda>w. w\<lparr>wk_revoked_at := Some d\<rparr>) ws)
     = filter (\<lambda>w. live_link w \<and> wk_github_user_id w \<noteq> u) ws"
  by (induction ws) (auto simp: live_link_def)

lemma others_after_revoke:
  "filter (\<lambda>w. wk_github_user_id w \<noteq> u) (update_where (\<lambda>w. wk_github_user_id w = u \<and> live_link w) (\<lambda>w. w\<lparr>wk_revoked_at := Some d\<rparr>) ws)
     = filter (\<lambda>w. wk_github_user_id w \<noteq> u) ws"
  by (induction ws) auto

lemma distinct_map_filter_weaken: "distinct (map f (filter P xs)) \<Longrightarrow> distinct (map f (filter (\<lambda>x. P x \<and> Q x) xs))"
  by (induction xs) (auto split: if_splits)

text \<open>The live links after a link of \<open>u\<close> was replaced by one to \<open>a\<close>.\<close>

definition relinked :: "int \<Rightarrow> string \<Rightarrow> agent_db \<Rightarrow> agent_db \<Rightarrow> bool" where
  "relinked u a s t \<longleftrightarrow> links_ok t
     \<and> map wk_address (filter (\<lambda>w. live_link w \<and> wk_github_user_id w = u) (db_wallet_links t)) = [a]
     \<and> filter (\<lambda>w. wk_github_user_id w \<noteq> u) (db_wallet_links t) = filter (\<lambda>w. wk_github_user_id w \<noteq> u) (db_wallet_links s)"

lemma replaced_link:
  assumes "links_ok s" "\<not> wallet_of_another (wk_address w) u s" "wk_github_user_id w = u" "live_link w"
    and "db_wallet_links t = update_where (\<lambda>w. wk_github_user_id w = u \<and> live_link w) (\<lambda>w. w\<lparr>wk_revoked_at := Some d\<rparr>) (db_wallet_links s) @ [w]"
  shows "relinked u (wk_address w) s t"
proof -
  have live: "filter live_link (db_wallet_links t) = filter (\<lambda>w. live_link w \<and> wk_github_user_id w \<noteq> u) (db_wallet_links s) @ [w]"
    using assms(4,5) by (simp add: live_after_revoke)
  have "filter (\<lambda>w. live_link w \<and> wk_github_user_id w = u) (db_wallet_links t)
      = filter (\<lambda>w. wk_github_user_id w = u) (filter live_link (db_wallet_links t))"
    by (simp add: filter_filter conj_commute)
  then have mine: "filter (\<lambda>w. live_link w \<and> wk_github_user_id w = u) (db_wallet_links t) = [w]"
    using assms(3) by (simp add: live filter_filter)
  have "links_ok t"
    using assms(1-3) by (auto simp: links_ok_def live wallet_of_another_def distinct_map_filter_weaken)
  with mine show ?thesis using assms(3,5) by (simp add: relinked_def others_after_revoke)
qed

lemma kept_link:
  assumes "links_ok s" "live_wallet u s = Some w" "db_wallet_links t = db_wallet_links s"
  shows "relinked u (wk_address w) s t"
proof -
  have w: "w \<in> set (db_wallet_links s)" "wk_github_user_id w = u" "live_link w"
    using assms(2) by (auto simp: live_wallet_def dest: find_SomeD)
  have d: "distinct (map wk_github_user_id (filter live_link (db_wallet_links s)))" using assms(1) by (simp add: links_ok_def)
  have "filter (\<lambda>w. live_link w \<and> wk_github_user_id w = u) ws = [w]"
    if "distinct (map wk_github_user_id (filter live_link ws))" "w \<in> set ws" for ws
    using that w(2,3)
  proof (induction ws)
    case (Cons x xs)
    have none: "filter (\<lambda>w. live_link w \<and> wk_github_user_id w = u) xs = []" if "live_link x" "wk_github_user_id x = u"
      using Cons.prems that by (auto simp: filter_empty_conv) (metis (mono_tags, lifting) image_eqI mem_Collect_eq)
    show ?case using Cons none by (cases "x = w") (auto simp: image_iff split: if_splits)
  qed simp
  from this [OF d w(1)] show ?thesis using assms(1,3) by (simp add: relinked_def links_ok_def)
qed

lemma same_links:
  assumes "db_wallet_links t = db_wallet_links s"
  shows "wallet_of_another a u t = wallet_of_another a u s" "live_wallet u t = live_wallet u s" "links_ok t = links_ok s"
    "relinked u a t r = relinked u a s r"
  using assms by (simp_all add: wallet_of_another_def live_wallet_def links_ok_def relinked_def)

lemma wp_insert_nonce [wp_simps]:
  "wp (insert_nonce n u) Q E s =
     (if n \<in> fst ` set (db_link_nonces s) then Q False s else Q True (s\<lparr>db_link_nonces := db_link_nonces s @ [(n, u)]\<rparr>))"
  by (simp add: wp_def insert_nonce_def)

lemma wp_store_session_link:
  assumes "links_ok s"
  shows "wp (store_session_link db_now f m sig)
      (\<lambda>out t. (out \<noteq> Nonce_used \<longrightarrow> lf_nonce f \<notin> fst ` set (db_link_nonces s)) \<and>
        (case out of
           Session_linked w l u r unch \<Rightarrow> w = lf_wallet f \<and> u = \<lfloor>lf_githubUserId f\<rfloor> \<and> relinked u w s t
             \<and> db_link_nonces t = db_link_nonces s @ [(lf_nonce f, u)]
         | _ \<Rightarrow> t = s))
      (\<lambda>e t. t = s) s"
proof -
  have new: "relinked u (lf_wallet f) s t"
    if "\<not> wallet_of_another (lf_wallet f) u s"
      "db_wallet_links t = update_where (\<lambda>w. wk_github_user_id w = u \<and> live_link w) (\<lambda>w. w\<lparr>wk_revoked_at := Some db_now\<rparr>) (db_wallet_links s)
        @ [\<lparr>wk_github_user_id = u, wk_address = lf_wallet f, wk_message = m,
            wk_signature = sig, wk_source = src, wk_verified_at = db_now, wk_revoked_at = None\<rparr>]" for u t src
    using replaced_link [OF assms, of "\<lparr>wk_github_user_id = u, wk_address = lf_wallet f, wk_message = m,
            wk_signature = sig, wk_source = src, wk_verified_at = db_now, wk_revoked_at = None\<rparr>" u t db_now] that
    by (simp add: live_link_def)
  have kept: "relinked u (lf_wallet f) s t"
    if "live_wallet u s = Some w" "wk_address w = lf_wallet f" "db_wallet_links t = db_wallet_links s" for u w t
    using kept_link [OF assms that(1,3)] that(2) by simp
  have same: "wallet_of_another a u (s\<lparr>db_link_nonces := x, db_contributors := y\<rparr>) = wallet_of_another a u s"
    "live_wallet u (s\<lparr>db_link_nonces := x, db_contributors := y\<rparr>) = live_wallet u s" for a u x y
    by (rule same_links, simp)+
  show ?thesis
    by (simp add: store_session_link_def Let_def wp_simps upsert_contributor_login_def revoke_links_def
        insert_wallet_link_def same)
      (auto intro: new kept simp: live_link_def)
qed

lemma wp_store_comment_link:
  assumes "links_ok s"
  shows "wp (store_comment_link db_now u c src) (\<lambda>linked t. if linked then relinked u (wl_wallet c) s t else t = s) (\<lambda>e t. t = s) s"
proof -
  have new: "relinked u (wl_wallet c) s t"
    if "\<not> wallet_of_another (wl_wallet c) u s"
      "db_wallet_links t = update_where (\<lambda>w. wk_github_user_id w = u \<and> live_link w) (\<lambda>w. w\<lparr>wk_revoked_at := Some db_now\<rparr>) (db_wallet_links s)
        @ [\<lparr>wk_github_user_id = u, wk_address = wl_wallet c, wk_message = wl_message c,
            wk_signature = wl_signature c, wk_source = src, wk_verified_at = db_now, wk_revoked_at = None\<rparr>]" for t
    using replaced_link [OF assms, of "\<lparr>wk_github_user_id = u, wk_address = wl_wallet c, wk_message = wl_message c,
            wk_signature = wl_signature c, wk_source = src, wk_verified_at = db_now, wk_revoked_at = None\<rparr>" u t db_now] that
    by (simp add: live_link_def)
  show ?thesis
    by (simp add: store_comment_link_def wp_simps revoke_links_def insert_wallet_link_def) (auto intro: new simp: live_link_def)
qed

text \<open>
  C34. A session link replaces the account's wallet by the one both signatures name: afterwards that is
  its only live wallet, no other account has it, and no other account's links changed. Its nonce is
  spent: the same request again, at any time and in any state that still has the spent nonces, changes
  nothing. A request that is not linked - refused, replayed, or for another account's wallet - changes
  nothing either, not even its nonce.
\<close>

theorem session_link_takes_effect_once:
  assumes "links_ok s" "linkWalletFromSession P key now db_now i sig s = (r, t)"
  shows "case r of
      Inr (Session_linked w l u replaced unchanged) \<Rightarrow>
        relinked u w s t
        \<and> (\<exists>k f. key = Some k \<and> verifySessionLink P i sig k now = Inr f \<and> lf_wallet f = w \<and> \<lfloor>lf_githubUserId f\<rfloor> = u
             \<and> lf_nonce f \<notin> fst ` set (db_link_nonces s))
        \<and> (\<forall>later d x. fst ` set (db_link_nonces t) \<subseteq> fst ` set (db_link_nonces x) \<longrightarrow>
             snd (linkWalletFromSession P key later d i sig x) = x)
    | _ \<Rightarrow> t = s"
proof (cases "link_key key")
  case None
  with assms(2) show ?thesis by (auto simp: linkWalletFromSession_def return_ok_def)
next
  case (Some k)
  then have key: "key = Some k" by (auto simp: link_key_def split: option.splits list.splits)
  show ?thesis
  proof (cases "verifySessionLink P i sig k now")
    case (Inl e)
    with Some assms(2) show ?thesis by (auto simp: linkWalletFromSession_def return_ok_def)
  next
    case (Inr f)
    have again: "snd (linkWalletFromSession P key later d i sig x) = x" if "lf_nonce f \<in> fst ` set (db_link_nonces x)" for later d x
    proof (cases "verifySessionLink P i sig k later")
      case (Inl e)
      with Some show ?thesis by (simp add: linkWalletFromSession_def return_ok_def)
    next
      case (Inr g)
      then have "g = f" using \<open>verifySessionLink P i sig k now = Inr f\<close> by (auto simp: verifySessionLink_ok)
      then have "store_session_link d g m w x = (Inr Nonce_used, x)" for m w
        using that by (simp add: store_session_link_def Let_def in_transaction_def then_do_def inside_def on_error_def
            insert_nonce_def roll_back_def throw_def)
      then show ?thesis using Some Inr
        by (simp add: linkWalletFromSession_def then_do_def on_error_def return_ok_def)
    qed
    obtain r1 s1 where store: "store_session_link db_now f (text_of (sm_message i)) (text_of sig) s = (r1, s1)" by fastforce
    note spec = wp_resultD [OF wp_store_session_link [OF assms(1)]]
    have "linkWalletFromSession P key now db_now i sig s =
        then_do (on_error (\<lambda>_. (r1, s1))
                  (\<lambda>e. case e of Db_error (Unique_violation _) \<Rightarrow> return_ok Wallet_linked_moments_ago | _ \<Rightarrow> throw e)) (\<lambda>out.
               case out of
                 Session_linked w l u r False \<Rightarrow>
                   then_do (audit (lf_login f) ''wallet.linked'' (Some (show_int u))) (\<lambda>_. return_ok out)
               | _ \<Rightarrow> return_ok out) s"
      using Some Inr by (simp add: linkWalletFromSession_def then_do_def on_error_def store)
    note run = this [symmetric, unfolded assms(2)]
    show ?thesis
    proof (cases r1)
      case (Inl e)
      then have "s1 = s" using spec(2) store by blast
      with run Inl show ?thesis
        by (auto simp: then_do_def on_error_def return_ok_def throw_def split: agent_error.splits db_error.splits)
    next
      case r1: (Inr out)
      note got = spec(1) [OF store [unfolded r1]]
      show ?thesis
      proof (cases out)
        case (Session_linked w l u rep unch)
        have "r = Inr out \<and> db_link_nonces t = db_link_nonces s1 \<and> db_wallet_links t = db_wallet_links s1"
          using run r1 Session_linked
          by (cases unch) (auto simp: then_do_def on_error_def return_ok_def audit_def modify_def)
        with got Session_linked key Inr again show ?thesis
          by (auto simp: relinked_def links_ok_def)
      qed (use run r1 got in \<open>auto simp: then_do_def on_error_def return_ok_def\<close>)
    qed
  qed
qed

definition demo_session_link :: "time_ms \<Rightarrow> session_link_outcome agent_eff" where
  "demo_session_link d = linkWalletFromSession toy (Some (replicate 32 (CHR ''k''))) demo_time d
     (demo_countersigned SESSION_LINK_DOMAIN demo_link) (Some (toy_sign [] demo_link))"

lemma demo_session_linked:
  "\<exists>w u t. demo_session_link 0 empty_agent_db = (Inr (Session_linked w ''al'' u None False), t)"
proof -
  have "verifySessionLink toy (demo_countersigned SESSION_LINK_DOMAIN demo_link) (Some (toy_sign [] demo_link))
     (replicate 32 (CHR ''k'')) demo_time = Inr (the (parseSessionLinkMessage toy demo_link))"
    using toy_countersigned [of SESSION_LINK_DOMAIN demo_link]
    by (simp add: verifySessionLink_ok demo_countersigned_def demo_link_parses)
  moreover have "link_key (Some (replicate 32 (CHR ''k''))) = Some (replicate 32 (CHR ''k''))"
    by (simp add: link_key_def split: list.split)
  moreover have "\<exists>t. store_session_link d f m sig empty_agent_db
      = (Inr (Session_linked (lf_wallet f) (lf_login f) \<lfloor>lf_githubUserId f\<rfloor> None False), t)" for d f m sig
    by (simp add: store_session_link_def Let_def in_transaction_def then_do_def
        inside_def on_error_def insert_nonce_def empty_agent_db_def upsert_contributor_login_def modify_def read_state_def
        wallet_of_another_def live_wallet_def revoke_links_def insert_wallet_link_def ensure_def return_ok_def)
  from this [of 0 "the (parseSessionLinkMessage toy demo_link)" "text_of (sm_message (demo_countersigned SESSION_LINK_DOMAIN demo_link))"
      "text_of (Some (toy_sign [] demo_link))"]
  obtain t where "store_session_link 0 (the (parseSessionLinkMessage toy demo_link))
      (text_of (sm_message (demo_countersigned SESSION_LINK_DOMAIN demo_link))) (text_of (Some (toy_sign [] demo_link))) empty_agent_db
      = (Inr (Session_linked (lf_wallet (the (parseSessionLinkMessage toy demo_link))) ''al'' 42 None False), t)"
    by (auto simp: demo_link_parses)
  ultimately show ?thesis
    by (simp add: demo_session_link_def linkWalletFromSession_def then_do_def on_error_def return_ok_def audit_def modify_def)
qed

theorem session_link_takes_effect_once_witness:
  "snd (demo_session_link 7 (snd (demo_session_link 0 empty_agent_db))) = snd (demo_session_link 0 empty_agent_db)"
proof -
  obtain w u t where run: "demo_session_link 0 empty_agent_db = (Inr (Session_linked w ''al'' u None False), t)"
    using demo_session_linked by blast
  have "links_ok empty_agent_db" by (simp add: links_ok_def empty_agent_db_def)
  from session_link_takes_effect_once [OF this run [unfolded demo_session_link_def]] show ?thesis
    by (simp add: run) (simp add: demo_session_link_def)
qed

text \<open>The comment flow keeps the links one to one too, and links the account GitHub names.\<close>

lemma comment_links_ok: "links_ok s \<Longrightarrow> links_ok (snd (onIssueComment P gh now db_now repo p s))"
proof -
  have other: "links_ok (s\<lparr>db_contributors := c\<rparr>) = links_ok s" "links_ok (s\<lparr>db_posts := q\<rparr>) = links_ok s"
    "links_ok (s\<lparr>db_audit := a\<rparr>) = links_ok s" for s c q a
    by (simp_all add: links_ok_def)
  assume ok: "links_ok s"
  have "wp (store_comment_link db_now u c src) (\<lambda>_. links_ok) (\<lambda>_. links_ok) x" if "links_ok x" for u c src x
    by (rule wp_mono [OF wp_store_comment_link [OF that]]) (auto simp: relinked_def that split: if_splits)
  note store = wp_mono [OF this]
  have "wp (onIssueComment P gh now db_now repo p) (\<lambda>_. links_ok) (\<lambda>_. links_ok) s"
    using ok by (auto simp: onIssueComment_def Let_def wp_simps post_on_def audit_def upsert_contributor_def other
        intro!: store split: option.splits sum.splits)
  then show ?thesis by (simp add: wp_state)
qed

end
