(* ===== verification/ApprovePayout.thy ===== *)
theory ApprovePayout
  imports BountyService WalletLink
begin

text \<open>
  apps/agent/src/service.ts, \<open>payoutTerms\<close> and \<open>approvePayout\<close>, and payout-client.ts, through which the
  payout signer is asked. \<open>approvePayout\<close> waits for the signer's answer in the middle: it is modelled in
  two halves, and other operations may run between them.
\<close>

section \<open>The signer's answer (payout-client.ts)\<close>

text \<open>\<open>Inl (status, error)\<close> is not ok; \<open>Inr signature\<close> is.\<close>

type_synonym signer_answer = "(int \<times> string) + string"

text \<open>
  The reply of the HTTP request: what the request threw, or its status and body, which is missing when
  it is not JSON. A body of null makes the access throw, and a signature counts when it is a string and
  not empty.
\<close>

definition payout_client_post :: "(jsnum \<Rightarrow> string) \<Rightarrow> string + int \<times> json option \<Rightarrow> signer_answer" where
  "payout_client_post other reply =
     (case reply of
        Inl e \<Rightarrow> Inl (502, ''payout signer unreachable: '' @ e)
      | Inr (status, Some JNull) \<Rightarrow> Inl (502, ''payout signer unreachable: TypeError: Cannot read properties of null (reading ''
          @ (if 200 \<le> status \<and> status \<le> 299 then [CHR 0x27] @ ''signature'' @ [CHR 0x27, CHR '')'']
             else [CHR 0x27] @ ''error'' @ [CHR 0x27, CHR '')'']))
      | Inr (status, body) \<Rightarrow>
          (case opt_prop body ''signature'' of
             Some (JStr (c # cs)) \<Rightarrow> if 200 \<le> status \<and> status \<le> 299 then Inr (c # cs)
               else Inl (status, (case opt_prop body ''error'' of Some JNull \<Rightarrow> show_int status | Some e \<Rightarrow> json_String other e | None \<Rightarrow> show_int status))
           | _ \<Rightarrow> Inl (status, (case opt_prop body ''error'' of Some JNull \<Rightarrow> show_int status | Some e \<Rightarrow> json_String other e | None \<Rightarrow> show_int status))))"

section \<open>What is to be approved\<close>

record payout_view =
  pv_terms :: payout_terms
  pv_status :: payout_state
  pv_gate :: gate_result

text \<open>The joined row: nothing when the bounty, the submission or the repository is missing.\<close>

definition escrow_key :: "bounty_row \<Rightarrow> agent_db \<Rightarrow> string option" where
  "escrow_key b s =
     (if bo_funded_by b = None then None
      else non_empty (map_option ew_escrow_pubkey (find (\<lambda>e. ew_bounty_id e = bo_id b) (db_escrows s))))"

definition terms_of :: "agent_payout \<Rightarrow> bounty_row \<Rightarrow> submission_row \<Rightarrow> repo_row \<Rightarrow> string option \<Rightarrow> payout_terms" where
  "terms_of p b x r escrow =
     \<lparr>pt_payout_id = ap_id p, pt_bounty_id = ap_bounty_id p, pt_repo = repo_full r, pt_issue_number = bo_issue_number b,
      pt_pr_number = sb_pr_number x, pt_author_login = sb_author_login x, pt_recipient = ap_recipient p,
      pt_amount_minor = show_int (ap_amount_minor p), pt_currency = ap_currency p, pt_mint = ap_mint p, pt_network = ap_network p,
      pt_escrow = escrow\<rparr>"

definition payout_at :: "string \<Rightarrow> agent_db \<Rightarrow> agent_payout option" where
  "payout_at payoutId s = find (\<lambda>p. ap_id p = payoutId) (db_payouts s)"

definition payoutTerms :: "string \<Rightarrow> agent_db \<Rightarrow> payout_view option" where
  "payoutTerms payoutId s =
     (case payout_at payoutId s of
        None \<Rightarrow> None
      | Some p \<Rightarrow>
          (case (bounty_at (ap_bounty_id p) s, find (\<lambda>x. sb_id x = ap_submission_id p) (db_submissions s)) of
             (Some b, Some x) \<Rightarrow>
               (case find (\<lambda>r. ro_id r = bo_repo_id b) (db_repos s) of
                  None \<Rightarrow> None
                | Some r \<Rightarrow> Some \<lparr>pv_terms = terms_of p b x r (escrow_key b s), pv_status = ap_status p, pv_gate = ap_gate_result p\<rparr>)
           | _ \<Rightarrow> None))"

text \<open>The comparison of two sets of terms: their entries, sorted, as text.\<close>

definition canon :: "platform \<Rightarrow> entries \<Rightarrow> string" where
  "canon P es = stringify (other_number P) (JArr (map (\<lambda>(k, v). JArr [JStr k, v]) (sort_entries es)))"

section \<open>Up to the signer\<close>

text \<open>UPDATE payouts SET status = 'approved' ... WHERE status = 'awaiting_approval': whether it took.\<close>

definition claim_payout :: "string \<Rightarrow> entries envelope \<Rightarrow> bool agent_eff" where
  "claim_payout payoutId approval =
     then_do (read_state (\<lambda>s. \<exists>p \<in> set (db_payouts s). ap_id p = payoutId \<and> ap_status p = Awaiting_approval)) (\<lambda>claimed.
     then_do (modify (\<lambda>s. s\<lparr>db_payouts := update_where (\<lambda>p. ap_id p = payoutId \<and> ap_status p = Awaiting_approval)
       (\<lambda>p. p\<lparr>ap_status := Approved, ap_approval := Some approval\<rparr>) (db_payouts s)\<rparr>)) (\<lambda>_.
     return_ok claimed))"

definition approve_check :: "platform \<Rightarrow> agent_cfg \<Rightarrow> time_ms \<Rightarrow> entries envelope \<Rightarrow> payout_view option \<Rightarrow> agent_error + payout_view" where
  "approve_check P cfg now approval view =
     (case view of
        None \<Rightarrow> Inl No_such_payout
      | Some v \<Rightarrow>
          if pv_status v \<noteq> Awaiting_approval then Inl (Payout_not_awaiting (pv_status v))
          else if canon P (en_terms approval) \<noteq> canon P (terms_entries (pv_terms v)) then Inl Terms_do_not_match
          else case verifyApproval P approval (ac_trustedApprovers cfg) now of
            Some e \<Rightarrow> Inl (Approval_rejected e)
          | None \<Rightarrow> Inr v)"

text \<open>The claim, and the request: \<open>has_route\<close> is whether this client can release escrows.\<close>

definition approve_claim :: "bool \<Rightarrow> string \<Rightarrow> entries envelope \<Rightarrow> payout_view \<Rightarrow> payout_view agent_eff" where
  "approve_claim has_route payoutId approval v =
     then_do (claim_payout payoutId approval) (\<lambda>claimed.
     if \<not> claimed then throw Approved_concurrently
     else then_do (audit (en_approver approval) ''payout.approved'' (Some payoutId)) (\<lambda>_.
       let fromEscrow = (pt_escrow (pv_terms v) \<noteq> None) in
       if fromEscrow \<and> \<not> has_route then throw No_escrow_route
       else then_do (modify (\<lambda>s. s\<lparr>db_asked := db_asked s @ [(payoutId, fromEscrow, approval)]\<rparr>)) (\<lambda>_. return_ok v)))"

definition approve_start :: "platform \<Rightarrow> agent_cfg \<Rightarrow> bool \<Rightarrow> time_ms \<Rightarrow> string \<Rightarrow> entries envelope \<Rightarrow> payout_view agent_eff" where
  "approve_start P cfg has_route now payoutId approval =
     then_do (read_state (payoutTerms payoutId)) (\<lambda>view.
     then_do (lift_sum (approve_check P cfg now approval view)) (approve_claim has_route payoutId approval))"

section \<open>After the signer's answer\<close>

definition currencyLabel :: "string \<Rightarrow> string \<Rightarrow> string" where
  "currencyLabel currency network = (if network = ''solana-mainnet'' then currency else ''test '' @ currency)"

definition set_payout :: "string \<Rightarrow> (agent_payout \<Rightarrow> agent_payout) \<Rightarrow> unit agent_eff" where
  "set_payout payoutId f = modify (\<lambda>s. s\<lparr>db_payouts := update_where (\<lambda>p. ap_id p = payoutId) f (db_payouts s)\<rparr>)"

definition unknown_outcome :: "int \<Rightarrow> bool" where
  "unknown_outcome status \<longleftrightarrow> status \<ge> 500 \<and> status \<noteq> 503"

definition paid_event :: "string \<Rightarrow> payout_terms \<Rightarrow> string \<Rightarrow> int \<Rightarrow> bounty_event" where
  "paid_event payoutId t sig author =
     \<lparr>ev_kind = Paid_event, ev_githubUserId = author, ev_dedupeKey = dedupe_paid payoutId,
      ev_payload = [(''bountyId'', JStr (pt_bounty_id t)), (''repo'', JStr (pt_repo t)), (''issue_number'', JNum (of_int (pt_issue_number t))),
        (''amount_minor'', JStr (pt_amount_minor t)), (''currency'', JStr (currencyLabel (pt_currency t) (pt_network t))),
        (''txUrl'', JStr (explorerTx (pt_network t) sig)), (''recipient'', JStr (pt_recipient t))]\<rparr>"

text \<open>UPDATE bounty_escrows ... RETURNING id, and the event when there was one.\<close>

definition escrow_released :: "time_ms \<Rightarrow> string \<Rightarrow> string \<Rightarrow> unit agent_eff" where
  "escrow_released db_now bountyId sig =
     modify (\<lambda>s. s\<lparr>db_escrows := update_where (\<lambda>e. ew_bounty_id e = bountyId)
         (\<lambda>e. e\<lparr>ew_state := ''released'', ew_release_tx := Some sig\<rparr>) (db_escrows s),
       db_escrow_events := db_escrow_events s @
         (case find (\<lambda>e. ew_bounty_id e = bountyId) (db_escrows s) of
            None \<Rightarrow> [] | Some e \<Rightarrow> [\<lparr>ee_escrow_id = ew_id e, ee_kind = ''released'', ee_tx = Some sig, ee_reason = None, ee_created_at = db_now\<rparr>])\<rparr>)"

definition payout_confirmed :: "github \<Rightarrow> time_ms \<Rightarrow> string \<Rightarrow> payout_terms \<Rightarrow> string \<Rightarrow> string agent_eff" where
  "payout_confirmed gh db_now payoutId t sig =
     then_do (ensure (\<lambda>s. \<not> (\<exists>p \<in> set (db_payouts s). ap_id p \<noteq> payoutId \<and> ap_tx_signature p = Some sig))
       (Db_error (Unique_violation ''payouts_tx_signature_key''))) (\<lambda>_.
     then_do (set_payout payoutId (\<lambda>p. p\<lparr>ap_status := Confirmed, ap_tx_signature := Some sig\<rparr>)) (\<lambda>_.
     then_do (update_bounty (pt_bounty_id t) (\<lambda>b. b\<lparr>bo_status := Bounty_paid\<rparr>)) (\<lambda>_.
     then_do (if pt_escrow t \<noteq> None then escrow_released db_now (pt_bounty_id t) sig else return_ok ()) (\<lambda>_.
     then_do (audit ''payout-signer'' ''payout.confirmed'' (Some payoutId)) (\<lambda>_.
     then_do (read_state (\<lambda>s. Option.bind (payout_at payoutId s) (\<lambda>p. find (\<lambda>x. sb_id x = ap_submission_id p) (db_submissions s)))) (\<lambda>paidTo.
     then_do (case paidTo of None \<Rightarrow> return_ok False | Some x \<Rightarrow> enqueueEvent (paid_event payoutId t sig (sb_author_github_user_id x))) (\<lambda>_.
     then_do (post_on (gh_comment gh (pt_repo t) (pt_pr_number t)) (pt_repo t) (pt_pr_number t)
       (Paid_notice (pt_issue_number t) (pt_amount_minor t) (currencyLabel (pt_currency t) (pt_network t)) (pt_recipient t) sig)) (\<lambda>_.
     return_ok sig))))))))"

definition approve_answered :: "github \<Rightarrow> time_ms \<Rightarrow> string \<Rightarrow> payout_view \<Rightarrow> signer_answer \<Rightarrow> string agent_eff" where
  "approve_answered gh db_now payoutId v res =
     (case res of
        Inl (status, err) \<Rightarrow>
          then_do (set_payout payoutId (\<lambda>p. p\<lparr>ap_status := (if unknown_outcome status then Submitted else Payout_failed), ap_error := Some err\<rparr>)) (\<lambda>_.
          then_do (audit ''payout-signer'' (if unknown_outcome status then ''payout.unknown'' else ''payout.refused_by_signer'') (Some payoutId)) (\<lambda>_.
          throw (Payout_signer_said err)))
      | Inr sig \<Rightarrow> payout_confirmed gh db_now payoutId (pv_terms v) sig)"

text \<open>The whole operation, when nothing else runs while the signer works.\<close>

definition approvePayout :: "platform \<Rightarrow> agent_cfg \<Rightarrow> bool \<Rightarrow> github \<Rightarrow> (bool \<Rightarrow> entries envelope \<Rightarrow> signer_answer) \<Rightarrow> time_ms \<Rightarrow> time_ms \<Rightarrow> string
    \<Rightarrow> entries envelope \<Rightarrow> string agent_eff" where
  "approvePayout P cfg has_route gh signer now db_now payoutId approval =
     then_do (approve_start P cfg has_route now payoutId approval) (\<lambda>v.
     approve_answered gh db_now payoutId v (signer (pt_escrow (pv_terms v) \<noteq> None) approval))"

end
