(* ===== verification/ServiceFrames.thy ===== *)
theory ServiceFrames
  imports Frames ApprovePayout
begin

text \<open>
  What the operations of the bounty service leave alone: each of them every view of the database that
  the tables it writes are not part of.
\<close>

lemma leaves_reopen_statement [leaves_intros]:
  "(\<And>s x. view (s\<lparr>db_assignments := x\<rparr>) = view s) \<Longrightarrow> leaves view (set_assignment_status which st)"
  unfolding set_assignment_status_def by (rule leaves_intros)

lemma leaves_link_statements [leaves_intros]:
  "(\<And>s x. view (s\<lparr>db_wallet_links := x\<rparr>) = view s) \<Longrightarrow> leaves view (insert_wallet_link w)"
  "(\<And>s x. view (s\<lparr>db_wallet_links := x\<rparr>) = view s) \<Longrightarrow> leaves view (revoke_links u d)"
  "(\<And>s x. view (s\<lparr>db_contributors := x\<rparr>) = view s) \<Longrightarrow> leaves view (upsert_contributor gu)"
  "(\<And>s x. view (s\<lparr>db_contributors := x\<rparr>) = view s) \<Longrightarrow> leaves view (upsert_contributor_login u l)"
  "(\<And>s x. view (s\<lparr>db_link_nonces := x\<rparr>) = view s) \<Longrightarrow> leaves view (insert_nonce n u)"
  by (auto simp: insert_wallet_link_def revoke_links_def upsert_contributor_def upsert_contributor_login_def intro!: leaves_intros)
    (simp add: leaves_eq insert_nonce_def)

lemma leaves_service_statements [leaves_intros]:
  "(\<And>s x. view (s\<lparr>db_repos := x\<rparr>) = view s) \<Longrightarrow> leaves view (upsert_repo ow na inst en)"
  "(\<And>s x. view (s\<lparr>db_bounties := x\<rparr>) = view s) \<Longrightarrow> leaves view (insert_bounty b)"
  "(\<And>s x. view (s\<lparr>db_reviews := x\<rparr>) = view s) \<Longrightarrow> leaves view (insert_review rr)"
  "leaves view (mint_for cfg c)" "leaves view (repoForBounty full)" "leaves view (bountiesClosedBy gh full k)"
  "leaves view (runGate cfg gh now d full row b' pr)"
  by (auto simp: upsert_repo_def insert_bounty_def insert_review_def mint_for_def repoForBounty_def bountiesClosedBy_def runGate_def
      intro!: leaves_intros)

lemma leaves_upsertSubmission [leaves_intros]:
  "(\<And>s x. view (s\<lparr>db_submissions := x\<rparr>) = view s) \<Longrightarrow> leaves view (upsertSubmission newId d i pr st)"
  by (simp add: leaves_eq upsertSubmission_def split: option.split)

lemma leaves_insert_payout [leaves_intros]:
  "(\<And>s x. view (s\<lparr>db_payouts := x\<rparr>) = view s) \<Longrightarrow> leaves view (insert_payout p)"
  unfolding insert_payout_def by (auto intro!: leaves_intros)

lemma leaves_gate_said [leaves_intros]:
  assumes "\<And>s x. view (s\<lparr>db_bounties := x\<rparr>) = view s" "\<And>s x. view (s\<lparr>db_audit := x\<rparr>) = view s" "\<And>s x. view (s\<lparr>db_posts := x\<rparr>) = view s"
  shows "leaves view (gate_said gh full pr b i result)"
  using assms by (auto simp: gate_said_def intro!: leaves_intros)

text \<open>The operations that write neither payouts, requests nor assignments.\<close>

lemma services_leave:
  assumes "\<And>s x. view (s\<lparr>db_repos := x\<rparr>) = view s" "\<And>s x. view (s\<lparr>db_repo_audit := x\<rparr>) = view s"
    and "\<And>s x. view (s\<lparr>db_contributors := x\<rparr>) = view s" "\<And>s x. view (s\<lparr>db_wallet_links := x\<rparr>) = view s"
    and "\<And>s x. view (s\<lparr>db_link_nonces := x\<rparr>) = view s" "\<And>s x. view (s\<lparr>db_bounties := x\<rparr>) = view s"
    and "\<And>s x. view (s\<lparr>db_audit := x\<rparr>) = view s" "\<And>s x. view (s\<lparr>db_posts := x\<rparr>) = view s"
  shows "leaves view (addRepo gh full en)" "leaves view (setRepoBounties gh d full en reg who)"
    and "leaves view (proposeBounty other cfg gh ifr i full n who c)" "leaves view (seedBounty cfg gh i si)"
    and "leaves view (onIssueComment P gh now d full p)" "leaves view (linkWalletFromSession P key now d msg sig)"
    and "leaves view (readLinkFromSession P key now msg)"
proof -
  show add: "leaves view (addRepo gh full en)" for gh full en
    using assms(1,7) by (auto simp: addRepo_def intro!: leaves_intros split: prod.split list.split option.split)
  show "leaves view (setRepoBounties gh d full en reg who)"
    using assms(1,2) by (auto simp: setRepoBounties_def switch_bounties_def intro!: leaves_intros add)
  show "leaves view (proposeBounty other cfg gh ifr i full n who c)"
    using assms(6,7,8) by (auto simp: proposeBounty_def Let_def intro!: leaves_intros)
  show "leaves view (seedBounty cfg gh i si)"
    using assms(6) by (auto simp: seedBounty_def Let_def intro!: leaves_intros)
  show "leaves view (onIssueComment P gh now d full p)"
    using assms(3,4,7,8) by (auto simp: onIssueComment_def Let_def store_comment_link_def intro!: leaves_intros)
  have "leaves view (store_session_link d f m sg)" for d f m sg
    using assms(3,4,5) by (auto simp: store_session_link_def Let_def intro!: leaves_intros)
  then show "leaves view (linkWalletFromSession P key now d msg sig)"
    using assms(7) by (auto simp: linkWalletFromSession_def intro!: leaves_intros split: session_link_outcome.split agent_error.split db_error.split bool.split)
  show "leaves view (readLinkFromSession P key now msg)"
    by (auto simp: readLinkFromSession_def intro!: leaves_intros)
qed

text \<open>Reopening and pull requests, which write assignments too.\<close>

lemma leaves_reopen [leaves_intros]:
  assumes "\<And>s x. view (s\<lparr>db_bounties := x\<rparr>) = view s" "\<And>s x. view (s\<lparr>db_audit := x\<rparr>) = view s" "\<And>s x. view (s\<lparr>db_assignments := x\<rparr>) = view s"
  shows "leaves view (reopenAfterUnmergedClose i actor hold)"
  using assms by (auto simp: reopenAfterUnmergedClose_def Let_def intro!: leaves_intros)

lemma leaves_review [leaves_intros]:
  assumes "\<And>s x. view (s\<lparr>db_reviews := x\<rparr>) = view s" "\<And>s x. view (s\<lparr>db_audit := x\<rparr>) = view s" "\<And>s x. view (s\<lparr>db_posts := x\<rparr>) = view s"
    and "\<And>s x. view (s\<lparr>db_events := x\<rparr>) = view s"
  shows "leaves view (reviewSubmission other gh ifr full b sub pr)"
  using assms by (auto simp: reviewSubmission_def intro!: leaves_intros)

lemma leaves_activity:
  assumes "\<And>s x. view (s\<lparr>db_submissions := x\<rparr>) = view s" "\<And>s x. view (s\<lparr>db_bounties := x\<rparr>) = view s"
    and "\<And>s x. view (s\<lparr>db_assignments := x\<rparr>) = view s" "\<And>s x. view (s\<lparr>db_reviews := x\<rparr>) = view s"
    and "\<And>s x. view (s\<lparr>db_audit := x\<rparr>) = view s" "\<And>s x. view (s\<lparr>db_posts := x\<rparr>) = view s" "\<And>s x. view (s\<lparr>db_events := x\<rparr>) = view s"
  shows "leaves view (onPullRequestActivity other gh infs ids d full n)"
  using assms by (auto simp: onPullRequestActivity_def pr_activity_on_def intro!: leaves_intros)

lemma leaves_escrow_released [leaves_intros]:
  "(\<And>s x y. view (s\<lparr>db_escrows := x, db_escrow_events := y\<rparr>) = view s) \<Longrightarrow> leaves view (escrow_released d b g)"
  unfolding escrow_released_def by (rule leaves_intros)

text \<open>An approval, both halves of it.\<close>

lemma leaves_approval:
  assumes "\<And>s x. view (s\<lparr>db_payouts := x\<rparr>) = view s" "\<And>s x. view (s\<lparr>db_asked := x\<rparr>) = view s"
    and "\<And>s x. view (s\<lparr>db_bounties := x\<rparr>) = view s" "\<And>s x. view (s\<lparr>db_audit := x\<rparr>) = view s"
    and "\<And>s x. view (s\<lparr>db_posts := x\<rparr>) = view s" "\<And>s x. view (s\<lparr>db_events := x\<rparr>) = view s"
    and "\<And>s x y. view (s\<lparr>db_escrows := x, db_escrow_events := y\<rparr>) = view s"
  shows "leaves view (approve_start P cfg hr now i a)" "leaves view (approve_answered gh d i v res)"
proof -
  have claim: "leaves view (claim_payout i a)" using assms(1) by (auto simp: claim_payout_def intro!: leaves_intros)
  show "leaves view (approve_start P cfg hr now i a)"
    using assms(2,4) by (auto simp: approve_start_def approve_claim_def Let_def intro!: leaves_intros claim)
  have "leaves view (set_payout i f)" for f using assms(1) by (auto simp: set_payout_def intro!: leaves_intros)
  then show "leaves view (approve_answered gh d i v res)"
    using assms(3-7) by (auto simp: approve_answered_def payout_confirmed_def intro!: leaves_intros)
qed

end
