(* ===== verification/AgentSafety.thy ===== *)
theory AgentSafety
  imports ServiceFrames PayOnce
begin

text \<open>
  What the bounty service promises of the money it asks for. Everything that runs against the database
  is a step: the reading of a payout by an approver's request, its claim, the signer's answer, a merged
  pull request, and anything else, which leaves payouts and requests alone - as the other operations of
  the service are shown to.
\<close>

section \<open>The steps\<close>

text \<open>
  \<open>vs\<close> are the payouts as requests have read them, however long ago, and \<open>ws\<close> the requests the signer
  has not answered yet.
\<close>

inductive agent_reach :: "platform \<Rightarrow> agent_cfg \<Rightarrow> bool \<Rightarrow> (string \<times> payout_view) list \<Rightarrow> (string \<times> payout_view) list \<Rightarrow> agent_db \<Rightarrow> bool"
  for P cfg has_route where
  started: "agent_reach P cfg has_route [] [] empty_agent_db"
| elsewhere: "agent_reach P cfg has_route vs ws s \<Longrightarrow> db_payouts t = db_payouts s \<Longrightarrow> db_asked t = db_asked s
    \<Longrightarrow> agent_reach P cfg has_route vs ws t"
| pull_closed: "agent_reach P cfg has_route vs ws s
    \<Longrightarrow> agent_reach P cfg has_route vs ws (snd (onPullRequestClosed cfg gh newId newPayoutId now db_now fullName n s))"
| viewed: "agent_reach P cfg has_route vs ws s \<Longrightarrow> payoutTerms i s = Some v \<Longrightarrow> agent_reach P cfg has_route ((i, v) # vs) ws s"
| claimed: "agent_reach P cfg has_route vs ws s \<Longrightarrow> (i, v) \<in> set vs \<Longrightarrow> approve_check P cfg now a (Some v) = Inr v
    \<Longrightarrow> approve_claim has_route i a v s = (r, t)
    \<Longrightarrow> agent_reach P cfg has_route vs (case r of Inr u \<Rightarrow> (i, u) # ws | Inl _ \<Rightarrow> ws) t"
| answered: "agent_reach P cfg has_route vs ws s \<Longrightarrow> (i, v) \<in> set ws
    \<Longrightarrow> agent_reach P cfg has_route vs (removeAll (i, v) ws) (snd (approve_answered gh d i v res s))"

section \<open>The invariant\<close>

text \<open>What never changes of a payout row, and how terms repeat it.\<close>

definition fixed :: "agent_payout \<Rightarrow> string \<times> string \<times> string \<times> string \<times> bigint \<times> string \<times> string \<times> string \<times> gate_result" where
  "fixed p = (ap_id p, ap_bounty_id p, ap_submission_id p, ap_recipient p, ap_amount_minor p, ap_currency p, ap_mint p, ap_network p, ap_gate_result p)"

definition says_row :: "payout_terms \<Rightarrow> agent_payout \<Rightarrow> bool" where
  "says_row t p \<longleftrightarrow> pt_payout_id t = ap_id p \<and> pt_bounty_id t = ap_bounty_id p \<and> pt_recipient t = ap_recipient p
     \<and> pt_amount_minor t = show_int (ap_amount_minor p) \<and> pt_currency t = ap_currency p \<and> pt_mint t = ap_mint p \<and> pt_network t = ap_network p"

definition says_one_of :: "(string \<times> payout_view) list \<Rightarrow> agent_db \<Rightarrow> bool" where
  "says_one_of vs s \<longleftrightarrow> (\<forall>(i, v) \<in> set vs. \<exists>p \<in> set (db_payouts s). ap_id p = i \<and> says_row (pv_terms v) p)"

text \<open>A request that was made: its row is past the claim, holds the approval, and the approval was verified on terms that say the row.\<close>

definition request_ok :: "platform \<Rightarrow> agent_cfg \<Rightarrow> agent_db \<Rightarrow> string \<times> bool \<times> entries envelope \<Rightarrow> bool" where
  "request_ok P cfg s q \<longleftrightarrow> (case q of (i, held, a) \<Rightarrow>
     \<exists>p \<in> set (db_payouts s). ap_id p = i \<and> ap_approval p = Some a \<and> ap_status p \<notin> {Gate_refused, Awaiting_approval}
       \<and> (\<exists>v now. approve_check P cfg now a (Some v) = Inr v \<and> says_row (pv_terms v) p \<and> (held \<longleftrightarrow> pt_escrow (pv_terms v) \<noteq> None)))"

definition payouts_ok :: "agent_db \<Rightarrow> bool" where
  "payouts_ok s \<longleftrightarrow> distinct (map ap_id (db_payouts s)) \<and> distinct (map ap_bounty_id (filter live_payout (db_payouts s)))
     \<and> (\<forall>p \<in> set (db_payouts s). 0 < ap_amount_minor p \<and> (live_payout p \<longleftrightarrow> res_pass (ap_gate_result p)))"

definition agent_ok :: "platform \<Rightarrow> agent_cfg \<Rightarrow> (string \<times> payout_view) list \<Rightarrow> (string \<times> payout_view) list \<Rightarrow> agent_db \<Rightarrow> bool" where
  "agent_ok P cfg vs ws s \<longleftrightarrow> payouts_ok s \<and> distinct (map fst (db_asked s)) \<and> (\<forall>q \<in> set (db_asked s). request_ok P cfg s q)
     \<and> says_one_of vs s \<and> says_one_of ws s
     \<and> (\<forall>w \<in> set ws. fst w \<in> fst ` set (db_asked s))
     \<and> (\<forall>p \<in> set (db_payouts s). ap_status p \<in> {Submitted, Confirmed, Payout_failed} \<longrightarrow> ap_id p \<in> fst ` set (db_asked s))"

section \<open>Changing one row\<close>

lemma fixed_says: "fixed p = fixed q \<Longrightarrow> says_row t p = says_row t q"
  by (simp add: fixed_def says_row_def)

lemma same_says:
  assumes "map fixed (db_payouts t) = map fixed (db_payouts s)" "says_one_of vs s"
  shows "says_one_of vs t"
proof -
  have "\<exists>q \<in> set (db_payouts t). ap_id q = i \<and> says_row u q" if p: "p \<in> set (db_payouts s)" "ap_id p = i" "says_row u p" for p i u
  proof -
    have "fixed p \<in> fixed ` set (db_payouts t)" using p(1) assms(1) by (metis image_eqI list.set_map)
    then obtain q where q: "q \<in> set (db_payouts t)" "fixed p = fixed q" by blast
    then show ?thesis using p fixed_says [OF q(2)] by (auto simp: fixed_def)
  qed
  then show ?thesis using assms(2) by (fastforce simp: says_one_of_def)
qed

text \<open>A row that stays on its side of the gate: its fields, and whether it counts, stay.\<close>

definition keeps_row :: "(agent_payout \<Rightarrow> bool) \<Rightarrow> (agent_payout \<Rightarrow> agent_payout) \<Rightarrow> bool" where
  "keeps_row which f \<longleftrightarrow> (\<forall>p. which p \<longrightarrow> fixed (f p) = fixed p \<and> live_payout (f p) = live_payout p)"

lemma keeps_maps:
  assumes "keeps_row which f"
  shows "map fixed (update_where which f ps) = map fixed ps"
    and "map ap_id (update_where which f ps) = map ap_id ps"
    and "map ap_bounty_id (filter live_payout (update_where which f ps)) = map ap_bounty_id (filter live_payout ps)"
  using assms by (induction ps) (auto simp: keeps_row_def fixed_def)

lemma keeps_payouts_ok:
  assumes "keeps_row which f" "payouts_ok s" "db_payouts t = update_where which f (db_payouts s)"
  shows "payouts_ok t"
proof -
  have "0 < ap_amount_minor q \<and> (live_payout q \<longleftrightarrow> res_pass (ap_gate_result q))" if q: "q \<in> set (db_payouts t)" for q
  proof -
    obtain p where p: "p \<in> set (db_payouts s)" "q = (if which p then f p else p)"
      using q assms(3) by (auto elim: in_update_whereE)
    then have "fixed q = fixed p \<and> live_payout q = live_payout p" using assms(1) by (auto simp: keeps_row_def)
    then show ?thesis using assms(2) p(1) by (auto simp: payouts_ok_def fixed_def)
  qed
  then show ?thesis using assms by (simp add: payouts_ok_def keeps_maps)
qed

lemma one_row:
  assumes "payouts_ok s" "p \<in> set (db_payouts s)" "q \<in> set (db_payouts s)" "ap_id p = ap_id q"
  shows "p = q"
  using assms by (auto simp: payouts_ok_def distinct_map inj_on_def)

text \<open>A row moved on after the claim keeps every request, and its own request among them.\<close>

lemma kept_requests:
  assumes "keeps_row which f" "\<And>p. which p \<Longrightarrow> ap_status p \<notin> {Gate_refused, Awaiting_approval}
      \<Longrightarrow> ap_approval (f p) = ap_approval p \<and> ap_status (f p) \<notin> {Gate_refused, Awaiting_approval}"
    and "db_payouts t = update_where which f (db_payouts s)" "request_ok P cfg s q"
  shows "request_ok P cfg t q"
proof -
  obtain i held a where q: "q = (i, held, a)" by (cases q)
  obtain p v now where p: "p \<in> set (db_payouts s)" "ap_id p = i" "ap_approval p = Some a" "ap_status p \<notin> {Gate_refused, Awaiting_approval}"
      "approve_check P cfg now a (Some v) = Inr v" "says_row (pv_terms v) p" "held \<longleftrightarrow> pt_escrow (pv_terms v) \<noteq> None"
    using assms(4) by (auto simp: request_ok_def q)
  let ?p = "if which p then f p else p"
  have "?p \<in> set (db_payouts t)" using p(1) assms(3) by (auto simp: update_where_def)
  moreover have fx: "fixed ?p = fixed p" using assms(1) by (simp add: keeps_row_def)
  then have "says_row (pv_terms v) ?p \<and> ap_id ?p = i" using p(2,6) fixed_says [OF fx] by (simp add: fixed_def)
  moreover have "ap_approval ?p = Some a \<and> ap_status ?p \<notin> {Gate_refused, Awaiting_approval}"
    using p(3,4) assms(2) [of p] by (cases "which p") simp_all
  ultimately show ?thesis unfolding request_ok_def q prod.case using p(5,7) by blast
qed

section \<open>Operations that leave payouts and requests alone\<close>

abbreviation quiet :: "'a agent_eff \<Rightarrow> bool" where
  "quiet \<equiv> leaves (\<lambda>s. (db_payouts s, db_asked s))"

lemma wp_quiet:
  assumes "quiet m" "\<And>a t. db_payouts t = db_payouts s \<Longrightarrow> db_asked t = db_asked s \<Longrightarrow> Q a t"
    and "\<And>e t. db_payouts t = db_payouts s \<Longrightarrow> db_asked t = db_asked s \<Longrightarrow> E e t"
  shows "wp m Q E s"
  by (rule wp_leaves [OF assms(1)]) (auto intro: assms(2,3))

text \<open>So every operation of the service but the closing of a pull request and an approval is a step elsewhere.\<close>

lemma quiet_operations:
  "quiet (addRepo gh full en)" "quiet (setRepoBounties gh d full en reg who)" "quiet (proposeBounty other cfg gh ifr i full n who' c)"
  "quiet (seedBounty cfg gh i si)" "quiet (onIssueComment P gh now d full p)" "quiet (linkWalletFromSession P key now d msg sig)"
  "quiet (readLinkFromSession P key now msg)" "quiet (onPullRequestActivity other gh infs ids d full n)"
  by (rule services_leave leaves_activity; simp)+

section \<open>Every step keeps the invariant\<close>

lemma agent_ok_same:
  assumes "agent_ok P cfg vs ws s" "db_payouts t = db_payouts s" "db_asked t = db_asked s"
  shows "agent_ok P cfg vs ws t"
  using assms by (simp add: agent_ok_def payouts_ok_def request_ok_def says_one_of_def)

lemma added_row:
  assumes "agent_ok P cfg vs ws s" "ap_id p \<notin> ap_id ` set (db_payouts s)" "0 < ap_amount_minor p"
    and "live_payout p \<longrightarrow> \<not> (\<exists>x \<in> set (db_payouts s). live_payout x \<and> ap_bounty_id x = ap_bounty_id p)"
    and "live_payout p \<longleftrightarrow> res_pass (ap_gate_result p)" "ap_status p \<in> {Awaiting_approval, Gate_refused}"
    and "db_payouts t = db_payouts s @ [p]" "db_asked t = db_asked s"
  shows "agent_ok P cfg vs ws t"
proof -
  have "payouts_ok t" using assms(1-5,7) by (auto simp: agent_ok_def payouts_ok_def)
  moreover have "request_ok P cfg t q" if "request_ok P cfg s q" for q
    using that assms(7) by (fastforce simp: request_ok_def)
  moreover have "says_one_of us t" if "says_one_of us s" for us
    using that assms(7) by (fastforce simp: says_one_of_def)
  ultimately show ?thesis using assms(1,6-8) by (auto simp: agent_ok_def)
qed

lemma wp_insert_payout:
  assumes "agent_ok P cfg vs ws s" "live_payout p \<longleftrightarrow> res_pass (ap_gate_result p)" "ap_status p \<in> {Awaiting_approval, Gate_refused}"
    and "\<And>t. agent_ok P cfg vs ws t \<Longrightarrow> Q () t" "\<And>e. E e s"
  shows "wp (insert_payout p) Q E s"
proof -
  let ?t = "s\<lparr>db_payouts := db_payouts s @ [p]\<rparr>"
  have "agent_ok P cfg vs ws ?t" if "ap_id p \<notin> ap_id ` set (db_payouts s)" "0 < ap_amount_minor p"
      "live_payout p \<longrightarrow> \<not> (\<exists>x \<in> set (db_payouts s). live_payout x \<and> ap_bounty_id x = ap_bounty_id p)"
    by (rule added_row [OF assms(1) that assms(2,3)]) simp_all
  then show ?thesis using assms(4,5) by (simp add: insert_payout_def wp_simps)
qed

lemma wp_quiet_ok:
  assumes "quiet m" "agent_ok P cfg vs ws s" "\<And>a t. agent_ok P cfg vs ws t \<Longrightarrow> Q a t" "\<And>e t. agent_ok P cfg vs ws t \<Longrightarrow> E e t"
  shows "wp m Q E s"
  using assms by (blast intro: wp_quiet agent_ok_same)

lemma wp_pr_merged_on:
  assumes "agent_ok P cfg vs ws s"
  shows "wp (pr_merged_on cfg gh newPayoutId now d full row pr sub b) (\<lambda>_. agent_ok P cfg vs ws) (\<lambda>_. agent_ok P cfg vs ws) s"
  unfolding pr_merged_on_def
proof (rule wp_thenI, rule wp_quiet_ok [OF _ assms], goal_cases)
  case 1
  show ?case by (rule leaves_intros)
next
  case (2 fr u)
  obtain facts result where fr: "fr = (facts, result)" by (cases fr)
  show ?case
    unfolding fr prod.case
  proof (rule wp_thenI, rule wp_insert_payout [OF 2], goal_cases)
    case (3 t)
    show ?case by (rule wp_quiet_ok [OF leaves_gate_said 3]) simp_all
  qed (auto simp: new_payout_def live_payout_def 2)
qed

lemma wp_pr_closed_on:
  assumes "agent_ok P cfg vs ws s"
  shows "wp (pr_closed_on cfg gh newId newPayoutId now d full row pr b) (\<lambda>_. agent_ok P cfg vs ws) (\<lambda>_. agent_ok P cfg vs ws) s"
  unfolding pr_closed_on_def
proof (rule wp_thenI, rule wp_quiet_ok [OF _ assms], goal_cases)
  case 1
  show ?case by (rule leaves_intros; simp)
next
  case (2 sub u)
  show ?case
  proof (cases "pl_merged pr")
    case True
    then show ?thesis using wp_pr_merged_on [OF 2] by simp
  next
    case False
    show ?thesis unfolding if_P [OF False]
      by (rule wp_quiet_ok [OF _ 2]) (auto intro!: leaves_intros)
  qed
qed

lemma pull_closed_ok:
  assumes "agent_ok P cfg vs ws s"
  shows "agent_ok P cfg vs ws (snd (onPullRequestClosed cfg gh newId newPayoutId now d full n s))"
proof -
  have "wp (onPullRequestClosed cfg gh newId newPayoutId now d full n) (\<lambda>_. agent_ok P cfg vs ws) (\<lambda>_. agent_ok P cfg vs ws) s"
    unfolding onPullRequestClosed_def
  proof (rule wp_thenI, rule wp_quiet_ok [OF _ assms], goal_cases)
    case 1
    show ?case by (rule leaves_intros; simp)
  next
    case (2 pr t)
    show ?case
    proof (rule wp_thenI, rule wp_quiet_ok [OF _ 2], goal_cases)
      case 1
      show ?case by (rule leaves_intros; simp)
    next
      case (2 rb u)
      then show ?case
        by (cases rb) (auto simp: wp_simps split: option.split intro!: wp_gather wp_pr_closed_on)
    qed
  qed
  then show ?thesis by (simp add: wp_state)
qed

lemma keeps_agent_ok:
  assumes "agent_ok P cfg vs ws s" "keeps_row which f"
    and "\<And>p. which p \<Longrightarrow> ap_status p \<notin> {Gate_refused, Awaiting_approval}
      \<Longrightarrow> ap_approval (f p) = ap_approval p \<and> ap_status (f p) \<notin> {Gate_refused, Awaiting_approval}"
    and "db_payouts t = update_where which f (db_payouts s)" "db_asked t = db_asked s"
    and "\<And>p. which p \<Longrightarrow> ap_status (f p) = Approved \<or> ap_id p \<in> fst ` set (db_asked s)"
  shows "agent_ok P cfg vs ws t"
proof -
  have "payouts_ok t" using assms(1) keeps_payouts_ok [OF assms(2) _ assms(4)] by (simp add: agent_ok_def)
  moreover have "\<forall>q \<in> set (db_asked t). request_ok P cfg t q"
    using assms(1) kept_requests [OF assms(2,3,4)] unfolding agent_ok_def assms(5) by blast
  moreover have "says_one_of us t" if "says_one_of us s" for us
    using same_says [OF _ that] assms(4) keeps_maps(1) [OF assms(2)] by metis
  moreover have "ap_id q \<in> fst ` set (db_asked s)" if q: "q \<in> set (db_payouts t)" "ap_status q \<in> {Submitted, Confirmed, Payout_failed}" for q
  proof -
    obtain p where p: "p \<in> set (db_payouts s)" "q = (if which p then f p else p)"
      using q(1) unfolding assms(4) by (elim in_update_whereE) blast
    show ?thesis
    proof (cases "which p")
      case True
      then have "ap_id q = ap_id p" using assms(2) p(2) by (simp add: keeps_row_def fixed_def)
      then show ?thesis using True assms(6) [OF True] p(2) q(2) by auto
    qed (use assms(1) p q(2) in \<open>auto simp: agent_ok_def\<close>)
  qed
  ultimately show ?thesis using assms(1,5) unfolding agent_ok_def by simp
qed

lemma claim_ok:
  assumes ok: "agent_ok P cfg vs ws s" and v: "(i, v) \<in> set vs" "approve_check P cfg now a (Some v) = Inr v"
    and run: "approve_claim has_route i a v s = (r, t)"
  shows "agent_ok P cfg vs (case r of Inr u \<Rightarrow> (i, u) # ws | Inl _ \<Rightarrow> ws) t"
proof -
  let ?which = "\<lambda>p. ap_id p = i \<and> ap_status p = Awaiting_approval" and ?f = "\<lambda>p. p\<lparr>ap_status := Approved, ap_approval := Some a\<rparr>"
  let ?held = "pt_escrow (pv_terms v) \<noteq> None"
  let ?t = "s\<lparr>db_payouts := update_where ?which ?f (db_payouts s)\<rparr>"
  have ok1: "agent_ok P cfg vs ws ?t"
    by (rule keeps_agent_ok [OF ok, of ?which ?f]) (auto simp: keeps_row_def fixed_def live_payout_def)
  show ?thesis
  proof (cases "\<exists>p \<in> set (db_payouts s). ?which p")
    case False
    then have "r = Inl Approved_concurrently \<and> t = ?t"
      using run by (auto simp: approve_claim_def claim_payout_def then_do_def read_state_def modify_def return_ok_def throw_def)
    then show ?thesis using ok1 by simp
  next
    case True
    then obtain p where p: "p \<in> set (db_payouts s)" "ap_id p = i" "ap_status p = Awaiting_approval" by blast
    have t: "db_payouts t = db_payouts ?t"
      using True run by (auto simp: approve_claim_def claim_payout_def then_do_def read_state_def modify_def return_ok_def throw_def audit_def Let_def split: if_splits)
    show ?thesis
    proof (cases "?held \<and> \<not> has_route")
      case True
      then have "r = Inl No_escrow_route \<and> db_asked t = db_asked s"
        using \<open>\<exists>p \<in> set (db_payouts s). ?which p\<close> run
        by (auto simp: approve_claim_def claim_payout_def then_do_def read_state_def modify_def return_ok_def throw_def audit_def Let_def)
      then show ?thesis using agent_ok_same [OF ok1 t] by simp
    next
      case False
      then have r: "r = Inr v" "db_asked t = db_asked s @ [(i, ?held, a)]"
        using \<open>\<exists>p \<in> set (db_payouts s). ?which p\<close> run
        by (auto simp: approve_claim_def claim_payout_def then_do_def read_state_def modify_def return_ok_def throw_def audit_def Let_def split: if_splits)
      have pok: "payouts_ok s" using ok by (simp add: agent_ok_def)
      have new: "i \<notin> fst ` set (db_asked s)"
      proof
        assume "i \<in> fst ` set (db_asked s)"
        then obtain e b where "request_ok P cfg s (i, e, b)" using ok by (fastforce simp: agent_ok_def)
        then obtain q where "q \<in> set (db_payouts s)" "ap_id q = i" "ap_status q \<noteq> Awaiting_approval" by (auto simp: request_ok_def)
        then show False using one_row [OF pok p(1)] p by auto
      qed
      obtain q where "q \<in> set (db_payouts s)" "ap_id q = i" "says_row (pv_terms v) q"
        using ok v(1) by (fastforce simp: agent_ok_def says_one_of_def)
      then have says: "says_row (pv_terms v) p" using one_row [OF pok p(1)] p(2) by auto
      have row: "?f p \<in> set (db_payouts t)" using p t by (auto simp: update_where_def)
      have "says_row (pv_terms v) (?f p)" using says by (simp add: says_row_def)
      then have "request_ok P cfg t (i, ?held, a)"
        unfolding request_ok_def prod.case
        by (intro bexI [OF _ row] conjI exI [of _ v] exI [of _ now]) (use p(2) v(2) in simp_all)
      moreover have "request_ok P cfg t q" if "q \<in> set (db_asked s)" for q
        using ok1 that t unfolding agent_ok_def request_ok_def by simp
      moreover have "says_one_of ((i, v) # ws) t"
      proof -
        have "says_one_of ws t" using ok1 t unfolding agent_ok_def says_one_of_def by simp
        moreover have "\<exists>q \<in> set (db_payouts t). ap_id q = i \<and> says_row (pv_terms v) q"
          by (rule bexI [OF _ row]) (use \<open>says_row (pv_terms v) (?f p)\<close> p(2) in simp)
        ultimately show ?thesis by (simp add: says_one_of_def)
      qed
      moreover have "payouts_ok t" "says_one_of vs t" using ok1 t unfolding agent_ok_def says_one_of_def payouts_ok_def by simp_all
      moreover have "distinct (map fst (db_asked t))" using ok new r(2) by (simp add: agent_ok_def)
      moreover have "\<forall>w \<in> set ((i, v) # ws). fst w \<in> fst ` set (db_asked t)" using ok r(2) by (auto simp: agent_ok_def)
      moreover have "\<forall>p \<in> set (db_payouts t). ap_status p \<in> {Submitted, Confirmed, Payout_failed} \<longrightarrow> ap_id p \<in> fst ` set (db_asked t)"
        using ok1 t r(2) unfolding agent_ok_def by auto
      ultimately show ?thesis using r unfolding agent_ok_def by simp
    qed
  qed
qed

lemma update_where_cong: "(\<And>r. r \<in> set rs \<Longrightarrow> P r = Q r) \<Longrightarrow> update_where P f rs = update_where Q f rs"
  by (induction rs) auto

text \<open>The row of a request can be moved on to any later status.\<close>

lemma wp_set_payout:
  assumes ok: "agent_ok P cfg vs ws s" and i: "(i, v) \<in> set ws"
    and f: "\<And>p. fixed (f p) = fixed p \<and> ap_approval (f p) = ap_approval p \<and> ap_status (f p) \<notin> {Gate_refused, Awaiting_approval}"
    and Q: "\<And>t. agent_ok P cfg vs ws t \<Longrightarrow> Q () t"
  shows "wp (set_payout i f) Q E s"
proof -
  let ?which = "\<lambda>p. ap_id p = i" and ?late = "\<lambda>p. ap_id p = i \<and> ap_status p \<notin> {Gate_refused, Awaiting_approval} \<and> ap_id p \<in> fst ` set (db_asked s)"
  have asked: "i \<in> fst ` set (db_asked s)" using ok i by (force simp: agent_ok_def)
  then obtain h a where "request_ok P cfg s (i, h, a)" using ok by (fastforce simp: agent_ok_def)
  then obtain q where q: "q \<in> set (db_payouts s)" "ap_id q = i" "ap_status q \<notin> {Gate_refused, Awaiting_approval}"
    by (auto simp: request_ok_def)
  have "update_where ?which f (db_payouts s) = update_where ?late f (db_payouts s)"
  proof (rule update_where_cong)
    fix r assume r: "r \<in> set (db_payouts s)"
    have "r = q" if "ap_id r = i" using one_row [OF _ r q(1)] ok q(2) that by (simp add: agent_ok_def)
    then show "?which r = ?late r" using q asked by auto
  qed
  moreover have "agent_ok P cfg vs ws (s\<lparr>db_payouts := update_where ?late f (db_payouts s)\<rparr>)"
    by (rule keeps_agent_ok [OF ok, of ?late f]) (use f in \<open>auto simp: keeps_row_def live_payout_def\<close>)
  ultimately show ?thesis by (simp add: set_payout_def wp_simps Q)
qed

lemma fewer_waiting: "agent_ok P cfg vs ws s \<Longrightarrow> set us \<subseteq> set ws \<Longrightarrow> agent_ok P cfg vs us s"
  by (auto simp: agent_ok_def says_one_of_def)

lemma answered_keeps:
  assumes ok: "agent_ok P cfg vs ws s" and i: "(i, v) \<in> set ws"
  shows "wp (approve_answered gh d i v res) (\<lambda>_. agent_ok P cfg vs ws) (\<lambda>_. agent_ok P cfg vs ws) s"
proof (cases res)
  case (Inl e)
  then obtain st err where res: "res = Inl (st, err)" by (cases e) auto
  show ?thesis
    unfolding approve_answered_def res sum.case prod.case
  proof (rule wp_thenI, rule wp_set_payout [OF ok i], goal_cases)
    case (2 t)
    show ?case by (rule wp_quiet_ok [OF _ 2]) (auto intro!: leaves_intros)
  qed (simp add: fixed_def)
next
  case (Inr sig)
  show ?thesis
    unfolding approve_answered_def Inr sum.case payout_confirmed_def
  proof (rule wp_thenI, rule wp_quiet_ok [OF _ ok], goal_cases)
    case 1
    show ?case by (rule leaves_intros; simp)
  next
    case (2 u t)
    show ?case
    proof (rule wp_thenI, rule wp_set_payout [OF 2 i], goal_cases)
      case (2 u')
      show ?case by (rule wp_quiet_ok [OF _ 2]) (auto intro!: leaves_intros)
    qed (simp add: fixed_def)
  qed
qed

lemma agent_reach_ok: "agent_reach P cfg has_route vs ws s \<Longrightarrow> agent_ok P cfg vs ws s"
proof (induction rule: agent_reach.induct)
  case started
  show ?case by (simp add: agent_ok_def payouts_ok_def says_one_of_def empty_agent_db_def)
next
  case (elsewhere vs ws s t)
  then show ?case by (blast intro: agent_ok_same)
next
  case pull_closed
  then show ?case by (blast intro: pull_closed_ok)
next
  case (viewed vs ws s i v)
  obtain p where p: "payout_at i s = Some p" using viewed.hyps(2) by (auto simp: payoutTerms_def split: option.splits)
  then have "says_row (pv_terms v) p" using viewed.hyps(2)
    by (auto simp: payoutTerms_def says_row_def terms_of_def split: option.splits)
  moreover have "p \<in> set (db_payouts s) \<and> ap_id p = i" using p by (auto simp: payout_at_def dest: find_SomeD)
  ultimately show ?case using viewed.IH by (auto simp: agent_ok_def says_one_of_def)
next
  case claimed
  then show ?case by (blast intro: claim_ok)
next
  case (answered vs ws s i v gh d res)
  have "agent_ok P cfg vs ws (snd (approve_answered gh d i v res s))"
    using answered_keeps [OF answered.IH answered.hyps(2)] by (simp add: wp_state)
  then show ?case by (rule fewer_waiting) auto
qed

section \<open>What it promises\<close>

text \<open>
  C5. However requests interleave, the payout signer is asked at most once for a payout and at most once
  for a bounty; and each time with an approval that a trusted approver's signature covers, on terms that
  repeat the payout's row, for a payout that passed the gate.
\<close>

theorem signer_is_asked_once_per_bounty:
  assumes "agent_reach P cfg has_route vs ws s"
  shows "distinct (map fst (db_asked s))
    \<and> distinct (map (\<lambda>q. map_option ap_bounty_id (payout_at (fst q) s)) (db_asked s))
    \<and> (\<forall>(i, held, a) \<in> set (db_asked s). \<exists>p (v :: payout_view) now. payout_at i s = Some p \<and> res_pass (ap_gate_result p) \<and> 0 < ap_amount_minor p
          \<and> ap_approval p = Some a \<and> verifyApproval P a (ac_trustedApprovers cfg) now = None
          \<and> canon P (en_terms a) = canon P (terms_entries (pv_terms v)) \<and> says_row (pv_terms v) p)"
proof -
  note ok = agent_reach_ok [OF assms]
  have pok: "payouts_ok s" and asked: "distinct (map fst (db_asked s))" using ok by (simp_all add: agent_ok_def)
  have row: "\<exists>p. p \<in> set (db_payouts s) \<and> ap_id p = fst q \<and> payout_at (fst q) s = Some p \<and> live_payout p" if q: "q \<in> set (db_asked s)" for q
  proof -
    obtain i h a where "q = (i, h, a)" by (cases q)
    moreover then have "request_ok P cfg s (i, h, a)" using ok q by (auto simp: agent_ok_def)
    ultimately obtain p where p: "p \<in> set (db_payouts s)" "ap_id p = fst q" "ap_status p \<noteq> Gate_refused" by (auto simp: request_ok_def)
    then have "payout_at (fst q) s = Some p" using find_key_eq [of ap_id "db_payouts s" p] pok by (simp add: payout_at_def payouts_ok_def)
    with p show ?thesis by (auto simp: live_payout_def)
  qed
  have "fst q = fst q'" if qq: "q \<in> set (db_asked s)" "q' \<in> set (db_asked s)"
      "map_option ap_bounty_id (payout_at (fst q) s) = map_option ap_bounty_id (payout_at (fst q') s)" for q q'
  proof -
    obtain p p' where p: "p \<in> set (db_payouts s)" "ap_id p = fst q" "live_payout p" "p' \<in> set (db_payouts s)" "ap_id p' = fst q'" "live_payout p'"
        "ap_bounty_id p = ap_bounty_id p'" using row [OF qq(1)] row [OF qq(2)] qq(3) by auto
    have "inj_on ap_bounty_id (set (filter live_payout (db_payouts s)))" using pok by (simp add: payouts_ok_def distinct_map)
    then have "p = p'" using p by (auto dest: inj_onD)
    then show ?thesis using p by simp
  qed
  then have "distinct (map (\<lambda>q. map_option ap_bounty_id (payout_at (fst q) s)) (db_asked s))"
    by (rule distinct_map_other_key [OF _ asked])
  moreover have "\<exists>p (v :: payout_view) now. payout_at i s = Some p \<and> res_pass (ap_gate_result p) \<and> 0 < ap_amount_minor p
      \<and> ap_approval p = Some a \<and> verifyApproval P a (ac_trustedApprovers cfg) now = None
      \<and> canon P (en_terms a) = canon P (terms_entries (pv_terms v)) \<and> says_row (pv_terms v) p" if q: "(i, held, a) \<in> set (db_asked s)" for i held a
  proof -
    obtain p where p: "p \<in> set (db_payouts s)" "ap_id p = i" "payout_at i s = Some p" "live_payout p" using row [OF q] by auto
    obtain p' v now where p': "p' \<in> set (db_payouts s)" "ap_id p' = i" "ap_approval p' = Some a"
        "approve_check P cfg now a (Some v) = Inr v" "says_row (pv_terms v) p'"
      using ok q by (fastforce simp: agent_ok_def request_ok_def)
    have "p' = p" using one_row [OF pok p'(1) p(1)] p(2) p'(2) by simp
    moreover have "res_pass (ap_gate_result p) \<and> 0 < ap_amount_minor p" using pok p(1,4) by (simp add: payouts_ok_def)
    moreover have "verifyApproval P a (ac_trustedApprovers cfg) now = None \<and> canon P (en_terms a) = canon P (terms_entries (pv_terms v))"
      using p'(4) by (auto simp: approve_check_def split: if_splits option.splits)
    ultimately have "payout_at i s = Some p \<and> res_pass (ap_gate_result p) \<and> 0 < ap_amount_minor p
      \<and> ap_approval p = Some a \<and> verifyApproval P a (ac_trustedApprovers cfg) now = None
      \<and> canon P (en_terms a) = canon P (terms_entries (pv_terms v)) \<and> says_row (pv_terms v) p" using p(3) p'(3,5) by simp
    then show ?thesis by blast
  qed
  ultimately show ?thesis using asked by blast
qed

section \<open>One bounty, from the merge to the request\<close>

definition demo_gh :: github where
  "demo_gh = \<lparr>gh_installationIdFor = (\<lambda>_. Inr 1), gh_getIssue = (\<lambda>_ n. Inr \<lparr>gi_number = n, gi_title = ''t'', gi_body = [], gi_state = ''open''\<rparr>),
     gh_getPull = (\<lambda>_ n. Inr \<lparr>pl_number = n, pl_state = ''closed'', pl_merged = True, pl_mergedByLogin = Some ''ma'', pl_mergedAt = None,
       pl_authorId = 42, pl_authorLogin = ''al'', pl_authorType = ''User'', pl_headSha = ''h'', pl_title = ''t'', pl_body = []\<rparr>),
     gh_closingIssues = (\<lambda>_ _. Inr [7]), gh_getPullDiff = (\<lambda>_ _. Inr []), gh_ciState = (\<lambda>_ _. Inr ''success''),
     gh_getUser = (\<lambda>_ l. Inr \<lparr>gu_id = 42, gu_login = l, gu_type = ''User'', gu_createdAt = 0\<rparr>), gh_permission = (\<lambda>_ _. Inr Write),
     gh_comment = (\<lambda>_ _. Inr 1), gh_review = (\<lambda>_ _ _. Inr 1)\<rparr>"

definition demo_agent_cfg :: agent_cfg where
  "demo_agent_cfg = \<lparr>ac_network = ''solana-devnet'', ac_mints = [''USDC'' \<mapsto> \<lparr>am_mint = ''m'', am_decimals = 6\<rparr>], ac_defaultCurrency = ''USDC'',
     ac_gate = demo_policy\<lparr>po_allowedNetworks := [''solana-devnet'']\<rparr>, ac_priceMinUsd = 5, ac_priceMaxUsd = 50,
     ac_trustedApprovers = [publicKeyOf toy demo_secret]\<rparr>"

definition demo_repo :: repo_row where
  "demo_repo = \<lparr>ro_id = 0, ro_owner = ''o'', ro_name = ''r'', ro_installation_id = 1, ro_enabled = True, ro_bounties_enabled = True,
     ro_registered_project = True\<rparr>"

definition demo_bounty :: bounty_row where
  "demo_bounty = (new_bounty demo_agent_cfg ''b'' demo_repo 7 ''t'' 5 ''USDC'' \<lparr>am_mint = ''m'', am_decimals = 6\<rparr> In_review ''me'')"

definition demo_agent_db :: agent_db where
  "demo_agent_db = empty_agent_db\<lparr>db_repos := [demo_repo], db_bounties := [demo_bounty],
     db_wallet_links := [\<lparr>wk_github_user_id = 42, wk_address = ''w'', wk_message = [], wk_signature = [], wk_source = [], wk_verified_at = 0, wk_revoked_at = None\<rparr>],
     db_assignments := [\<lparr>an_id = ''a'', an_bounty_id = ''b'', an_draw_id = None, an_github_user_id = 42, an_github_login = ''al'', an_status = Pr_submitted,
       an_assigned_at = 0, an_stale_at = 0, an_qualifying_pr_number = Some 8, an_released_at = None, an_release_reason = None, an_released_by = None,
       an_counts_as_abandon = False, an_unassigned_on_chain_directly = False\<rparr>]\<rparr>"

definition demo_closed :: agent_db where
  "demo_closed = snd (onPullRequestClosed demo_agent_cfg demo_gh (\<lambda>_. ''s'') (\<lambda>_. ''p'') (30 * 86400000) 0 ''o/r'' 8 demo_agent_db)"

lemma demo_closed_view:
  "map_option pv_terms (payoutTerms ''p'' demo_closed) = Some demo_terms"
  "map_option pv_status (payoutTerms ''p'' demo_closed) = Some Awaiting_approval"
  "db_asked demo_closed = []"
  "map (\<lambda>p. (ap_id p, ap_status p)) (db_payouts demo_closed) = [(''p'', Awaiting_approval)]"
  by code_simp+

definition demo_signed_approval :: "entries envelope" where
  "demo_signed_approval = signApproval toy (terms_entries demo_terms) demo_secret (publicKeyOf toy demo_secret) 0"

text \<open>A merged pull request, its approval, and the request: a state the steps reach.\<close>

lemma demo_asked:
  "\<exists>v t. agent_reach toy demo_agent_cfg True [(''p'', v)] [(''p'', v)] t \<and> pv_terms v = demo_terms
     \<and> approve_start toy demo_agent_cfg True 5 ''p'' demo_signed_approval demo_closed = (Inr v, t)
     \<and> db_asked t = [(''p'', False, demo_signed_approval)]"
proof -
  obtain v where v: "payoutTerms ''p'' demo_closed = Some v" "pv_terms v = demo_terms" "pv_status v = Awaiting_approval"
    using demo_closed_view(1,2) by auto
  have check: "approve_check toy demo_agent_cfg 5 demo_signed_approval (Some v) = Inr v"
    using demo_approval v(2,3)
    by (simp add: approve_check_def demo_signed_approval_def demo_agent_cfg_def) (simp add: signApproval_def signEnvelope_def Let_def)
  have "agent_reach toy demo_agent_cfg True [] [] demo_agent_db"
    by (rule elsewhere [OF started]) (simp_all add: demo_agent_db_def)
  then have "agent_reach toy demo_agent_cfg True [] [] demo_closed"
    unfolding demo_closed_def by (rule pull_closed)
  then have viewed: "agent_reach toy demo_agent_cfg True [(''p'', v)] [] demo_closed" using v(1) by (rule viewed)
  have "(''p'', Awaiting_approval) \<in> (\<lambda>p. (ap_id p, ap_status p)) ` set (db_payouts demo_closed)"
    using demo_closed_view(4) by (metis list.set_intros(1) list.set_map)
  then have "\<exists>p \<in> set (db_payouts demo_closed). ap_id p = ''p'' \<and> ap_status p = Awaiting_approval" by force
  then obtain t where t: "approve_claim True ''p'' demo_signed_approval v demo_closed = (Inr v, t)"
      "db_asked t = [(''p'', False, demo_signed_approval)]"
    using v(2) demo_closed_view(3)
    by (simp add: approve_claim_def claim_payout_def then_do_def read_state_def modify_def return_ok_def audit_def Let_def demo_terms_def)
  have "agent_reach toy demo_agent_cfg True [(''p'', v)] [(''p'', v)] t"
    using claimed [OF viewed _ check t(1)] by simp
  moreover have "approve_start toy demo_agent_cfg True 5 ''p'' demo_signed_approval demo_closed = (Inr v, t)"
    using check t(1) v(1) by (simp add: approve_start_def then_do_def read_state_def lift_sum_def)
  ultimately show ?thesis using t(2) v(2) by blast
qed

theorem signer_is_asked_once_per_bounty_witness:
  "\<exists>t. db_asked t = [(''p'', False, demo_signed_approval)]
     \<and> (\<exists>p now. payout_at ''p'' t = Some p \<and> verifyApproval toy demo_signed_approval [publicKeyOf toy demo_secret] now = None)"
proof -
  obtain v t where t: "agent_reach toy demo_agent_cfg True [(''p'', v)] [(''p'', v)] t" "db_asked t = [(''p'', False, demo_signed_approval)]"
    using demo_asked by blast
  from signer_is_asked_once_per_bounty [OF t(1)] show ?thesis using t(2) by (auto simp: demo_agent_cfg_def)
qed

section \<open>What the merge decides\<close>

lemma latest_in: "latest key xs = Some a \<Longrightarrow> a \<in> set xs"
proof -
  have "foldl (\<lambda>a b. if key b > key a then b else a) y ys \<in> insert y (set ys)" for y ys
  proof (induction ys arbitrary: y)
    case (Cons z zs)
    from Cons [of "if key z > key y then z else y"] show ?case by (auto split: if_splits)
  qed simp
  then show "latest key xs = Some a \<Longrightarrow> a \<in> set xs" by (cases xs) (auto simp: latest_def)
qed

lemma merged_rows:
  "wp (pr_merged_on cfg gh newPayoutId now d full row pr sub b)
     (\<lambda>_ t. \<exists>closes. db_payouts t = db_payouts s @ [new_payout (newPayoutId (bo_id b)) sub d b pr (runGate_facts gh full row b pr closes d s)
         (evaluateGate (runGate_facts gh full row b pr closes d s) (ac_gate cfg) now)])
     (\<lambda>_ t. db_payouts t = db_payouts s \<or> (\<exists>closes. db_payouts t = db_payouts s
       @ [new_payout (newPayoutId (bo_id b)) sub d b pr (runGate_facts gh full row b pr closes d s)
         (evaluateGate (runGate_facts gh full row b pr closes d s) (ac_gate cfg) now)])) s"
proof -
  have insert: "wp (insert_payout q) Q E s" if "\<And>e. E e s" "Q () (s\<lparr>db_payouts := db_payouts s @ [q]\<rparr>)" for q Q E
    using that by (simp add: insert_payout_def wp_simps)
  have gate: "wp (runGate cfg gh now d full row b pr) Q E s = (case gh_closingIssues gh full (pl_number pr) of Inl e \<Rightarrow> E (Gh_error e) s
      | Inr closes \<Rightarrow> Q (runGate_facts gh full row b pr closes d s, evaluateGate (runGate_facts gh full row b pr closes d s) (ac_gate cfg) now) s)" for Q E
    by (simp add: runGate_def wp_simps split: sum.split)
  show ?thesis
    unfolding pr_merged_on_def wp_then [of "runGate _ _ _ _ _ _ _ _"] gate
    by (auto split: sum.split intro!: wp_thenI insert wp_quiet [OF leaves_gate_said])
qed

lemma passed_gate:
  assumes "res_pass (evaluateGate f p now)"
  shows "\<exists>m perm. gp_mergedByLogin (gf_pr f) = Some m \<and> to_lower m \<noteq> to_lower (gp_authorLogin (gf_pr f))
            \<and> gp_mergedByPermission (gf_pr f) = Some perm \<and> perm \<in> {Admin, Maintain, Write}"
    and "gp_merged (gf_pr f)" "\<exists>a. gf_assignment f = Some a \<and> ga_githubUserId a = gp_authorId (gf_pr f)"
    and "gf_wallet f \<noteq> None" "\<not> gf_bountyAlreadyHasPayout f"
    and "\<exists>c. po_caps p (gb_currency (gf_bounty f)) = Some c \<and> gb_amountMinor (gf_bounty f) \<le> gc_perBountyMaxMinor c
          \<and> gf_paidTodayMinor f + gb_amountMinor (gf_bounty f) \<le> gc_dailyMaxMinor c"
    and "\<And>e. gf_funded f = Some e \<Longrightarrow> gf_escrowState e = ''assigned'' \<and> gf_contributorWallet e \<noteq> None"
  using assms by (auto simp: gate_unfold split: option.splits)

text \<open>
  C4. A payout comes to await approval only for a pull request that GitHub says was merged by somebody
  other than its author who may write to the repository, whose author holds the bounty; it is for the
  bounty's amount, to the wallet the author has linked - or, on a funded bounty, to the contributor its
  assigned escrow names - within both caps of its currency, and no other payout of the bounty counts.
\<close>

theorem payout_waits_only_after_the_gate:
  assumes "pr_merged_on cfg gh newPayoutId now d full row pr sub b s = (r, t)"
    and "p \<in> set (db_payouts t)" "p \<notin> set (db_payouts s)" "live_payout p"
    and "\<forall>w \<in> set (db_wallet_links s). wk_address w \<noteq> []"
  shows "ap_status p = Awaiting_approval \<and> ap_bounty_id p = bo_id b \<and> ap_amount_minor p = bo_amount_minor b \<and> pl_merged pr
    \<and> (\<exists>m perm. pl_mergedByLogin pr = Some m \<and> to_lower m \<noteq> to_lower (pl_authorLogin pr) \<and> gh_permission gh full m = Inr perm
          \<and> perm \<in> {Admin, Maintain, Write})
    \<and> (\<exists>a \<in> set (db_assignments s). an_bounty_id a = bo_id b \<and> an_github_user_id a = pl_authorId pr
          \<and> an_status a \<in> {Active, Pr_submitted, Completed})
    \<and> (if funded b then \<exists>e \<in> set (db_escrows s). ew_bounty_id e = bo_id b \<and> ew_state e = ''assigned'' \<and> ew_contributor_wallet e = Some (ap_recipient p)
       else \<exists>w \<in> set (db_wallet_links s). live_link w \<and> wk_github_user_id w = pl_authorId pr \<and> wk_address w = ap_recipient p)
    \<and> (\<exists>c. po_caps (ac_gate cfg) (bo_currency b) = Some c \<and> bo_amount_minor b \<le> gc_perBountyMaxMinor c
          \<and> paid_today (bo_currency b) (bo_network b) d s + bo_amount_minor b \<le> gc_dailyMaxMinor c)
    \<and> \<not> (\<exists>x \<in> set (db_payouts s). ap_bounty_id x = bo_id b \<and> live_payout x)"
proof -
  let ?new = "\<lambda>closes. new_payout (newPayoutId (bo_id b)) sub d b pr (runGate_facts gh full row b pr closes d s)
       (evaluateGate (runGate_facts gh full row b pr closes d s) (ac_gate cfg) now)"
  have "db_payouts t = db_payouts s \<or> (\<exists>closes. db_payouts t = db_payouts s @ [?new closes])"
  proof (cases r)
    case (Inl e)
    from wp_resultD(2) [OF merged_rows assms(1) [unfolded Inl]] show ?thesis .
  next
    case (Inr x)
    from wp_resultD(1) [OF merged_rows assms(1) [unfolded Inr]] show ?thesis by blast
  qed
  then obtain closes where p: "p = ?new closes" using assms(2,3) by auto
  let ?f = "runGate_facts gh full row b pr closes d s"
  have pass: "res_pass (evaluateGate ?f (ac_gate cfg) now)"
    using assms(4) p by (auto simp: new_payout_def live_payout_def split: if_splits)
  note g = passed_gate [OF pass]
  have facts: "gf_pr ?f = \<lparr>gp_number = pl_number pr, gp_merged = pl_merged pr, gp_mergedByLogin = pl_mergedByLogin pr,
      gp_mergedByPermission = (case non_empty (pl_mergedByLogin pr) of None \<Rightarrow> None
        | Some m \<Rightarrow> (case gh_permission gh full m of Inr p \<Rightarrow> Some p | Inl _ \<Rightarrow> None)),
      gp_authorId = pl_authorId pr, gp_authorLogin = pl_authorLogin pr, gp_authorType = pl_authorType pr, gp_closesIssues = closes\<rparr>"
    "gb_currency (gf_bounty ?f) = bo_currency b" "gb_amountMinor (gf_bounty ?f) = bo_amount_minor b"
    "gf_paidTodayMinor ?f = paid_today (bo_currency b) (bo_network b) d s"
    "gf_bountyAlreadyHasPayout ?f = (\<exists>x \<in> set (db_payouts s). ap_bounty_id x = bo_id b \<and> live_payout x)"
    "gf_funded ?f = escrow_of b s"
    "gf_wallet ?f = (case escrow_of b s of Some e \<Rightarrow> non_empty (gf_contributorWallet e)
         | None \<Rightarrow> map_option wk_address (find (\<lambda>w. wk_github_user_id w = pl_authorId pr \<and> live_link w) (db_wallet_links s)))"
    by (simp_all add: runGate_facts_def Let_def)
  have holder: "\<exists>a \<in> set (db_assignments s). an_bounty_id a = bo_id b \<and> an_github_user_id a = pl_authorId pr \<and> an_status a \<in> {Active, Pr_submitted, Completed}"
    using g(3) by (auto simp: runGate_facts_def Let_def dest!: latest_in)
  have escrow: "\<exists>e \<in> set (db_escrows s). ew_bounty_id e = bo_id b \<and> ew_state e = ''assigned'' \<and> ew_contributor_wallet e = Some (ap_recipient p)"
    if "funded b"
  proof -
    let ?found = "find (\<lambda>e. ew_bounty_id e = bo_id b) (db_escrows s)"
    obtain e where e: "?found = Some e"
    proof (cases ?found)
      case None
      have "escrow_of b s = Some \<lparr>gf_escrowState = ''missing'', gf_contributorWallet = None\<rparr>"
        using \<open>funded b\<close> None by (simp add: escrow_of_def)
      then show thesis using g(7) unfolding facts by fastforce
    next
      case (Some e)
      then show thesis by (rule that)
    qed
    have esc: "escrow_of b s = Some \<lparr>gf_escrowState = ew_state e, gf_contributorWallet = ew_contributor_wallet e\<rparr>"
      using \<open>funded b\<close> e by (simp add: escrow_of_def)
    have state: "ew_state e = ''assigned''" using g(7) unfolding facts esc by simp
    have "non_empty (ew_contributor_wallet e) \<noteq> None" using g(4) unfolding facts esc by simp
    then have "ew_contributor_wallet e = Some (ap_recipient p)"
      unfolding p by (auto simp: new_payout_def facts esc non_empty_def split: option.splits list.splits)
    then show ?thesis using state find_SomeD [OF e] by blast
  qed
  have wallet: "\<exists>w \<in> set (db_wallet_links s). live_link w \<and> wk_github_user_id w = pl_authorId pr \<and> wk_address w = ap_recipient p"
    if "\<not> funded b"
  proof -
    have no: "escrow_of b s = None" using \<open>\<not> funded b\<close> by (simp add: escrow_of_def)
    obtain w where w: "find (\<lambda>w. wk_github_user_id w = pl_authorId pr \<and> live_link w) (db_wallet_links s) = Some w"
      using g(4) unfolding facts no option.case by blast
    then have "wk_address w \<noteq> []" using assms(5) by (auto dest: find_SomeD)
    then have "ap_recipient p = wk_address w" unfolding p
      by (cases "wk_address w") (simp_all add: new_payout_def facts no w non_empty_def)
    then show ?thesis using find_SomeD [OF w] by auto
  qed
  have merger: "\<exists>m perm. pl_mergedByLogin pr = Some m \<and> to_lower m \<noteq> to_lower (pl_authorLogin pr) \<and> gh_permission gh full m = Inr perm
      \<and> perm \<in> {Admin, Maintain, Write}"
    using g(1) unfolding facts by (auto simp: non_empty_def split: option.splits list.splits sum.splits)
  have row: "ap_status p = Awaiting_approval" "ap_bounty_id p = bo_id b" "ap_amount_minor p = bo_amount_minor b"
    using p pass by (simp_all add: new_payout_def)
  show ?thesis
    using row g(2,5,6) merger holder escrow wallet unfolding facts by simp
qed

definition demo_pull :: pull_info where
  "demo_pull = \<lparr>pl_number = 8, pl_state = ''closed'', pl_merged = True, pl_mergedByLogin = Some ''ma'', pl_mergedAt = None,
     pl_authorId = 42, pl_authorLogin = ''al'', pl_authorType = ''User'', pl_headSha = ''h'', pl_title = ''t'', pl_body = []\<rparr>"

definition demo_merged :: agent_db where
  "demo_merged = snd (pr_merged_on demo_agent_cfg demo_gh (\<lambda>_. ''p'') (30 * 86400000) 0 ''o/r'' demo_repo demo_pull ''s'' demo_bounty demo_agent_db)"

lemma demo_merged_rows: "map (\<lambda>p. (ap_id p, live_payout p)) (db_payouts demo_merged) = [(''p'', True)]"
  by code_simp

theorem payout_waits_only_after_the_gate_witness:
  "\<exists>p \<in> set (db_payouts demo_merged). ap_status p = Awaiting_approval \<and> ap_amount_minor p = 5 \<and> ap_recipient p = ''w''"
proof -
  obtain p where p: "p \<in> set (db_payouts demo_merged)" "live_payout p"
    using demo_merged_rows by (cases "db_payouts demo_merged") auto
  have "ap_status p = Awaiting_approval \<and> ap_amount_minor p = bo_amount_minor demo_bounty
    \<and> (if funded demo_bounty then True else \<exists>w \<in> set (db_wallet_links demo_agent_db). wk_address w = ap_recipient p)"
    using payout_waits_only_after_the_gate [OF surjective_pairing p(1) [unfolded demo_merged_def]] p(2)
    by (auto simp: demo_agent_db_def empty_agent_db_def split: if_splits)
  then have "ap_status p = Awaiting_approval \<and> ap_amount_minor p = 5 \<and> ap_recipient p = ''w''"
    by (auto simp: demo_bounty_def new_bounty_def funded_def demo_agent_db_def split: if_splits)
  then show ?thesis using p(1) by blast
qed

end
