(* ===== verification/Applications.thy ===== *)
theory Applications
  imports Frames BountyService WalletLink
begin

text \<open>
  apps/agent/src/draw-service.ts, up to the draw: the settings (\<open>config\<close>, \<open>settings\<close>, \<open>setSetting\<close>,
  \<open>resetSetting\<close>), \<open>openApplications\<close>, \<open>apply\<close> and the list \<open>applicationsFor\<close> of a bounty. The order of
  DRAW_SETTINGS is that of the page.
\<close>

section \<open>Settings\<close>

definition overrides :: "agent_db \<Rightarrow> string \<rightharpoonup> string" where
  "overrides s key = map_option cf_value (find (\<lambda>r. cf_key r = key) (db_config s))"

definition config :: "agent_db \<Rightarrow> string \<rightharpoonup> string" where
  "config s = withDefaults (overrides s)"

record setting_view =
  sv_setting :: setting
  sv_value :: string
  sv_overridden :: bool
  sv_updatedAt :: "string option"
  sv_updatedBy :: "string option"

definition settings :: "agent_db \<Rightarrow> setting_view list" where
  "settings s = map (\<lambda>d. let row = find (\<lambda>r. cf_key r = st_key d) (db_config s) in
     \<lparr>sv_setting = d, sv_value = (case row of Some r \<Rightarrow> cf_value r | None \<Rightarrow> st_default d), sv_overridden = (row \<noteq> None),
      sv_updatedAt = map_option (\<lambda>r. toISOString (cf_updated_at r)) row, sv_updatedBy = map_option cf_updated_by row\<rparr>) DRAW_SETTINGS"

text \<open>The refusal, when there is one.\<close>

definition setSetting :: "time_ms \<Rightarrow> string \<Rightarrow> string \<Rightarrow> string \<Rightarrow> setting_error option agent_eff" where
  "setSetting db_now key value by_whom =
     (case validate key value of
        Some bad \<Rightarrow> return_ok (Some bad)
      | None \<Rightarrow>
          then_do (modify (\<lambda>s. s\<lparr>db_config :=
            (if key \<in> cf_key ` set (db_config s)
             then update_where (\<lambda>r. cf_key r = key) (\<lambda>r. r\<lparr>cf_value := value, cf_updated_at := db_now, cf_updated_by := by_whom\<rparr>) (db_config s)
             else db_config s @ [\<lparr>cf_key = key, cf_value = value, cf_updated_at = db_now, cf_updated_by = by_whom\<rparr>])\<rparr>))
          (\<lambda>_. return_ok None))"

definition resetSetting :: "string \<Rightarrow> setting_error option agent_eff" where
  "resetSetting key =
     (if key \<notin> st_key ` set DRAW_SETTINGS then return_ok (Some (Unknown_setting key))
      else then_do (modify (\<lambda>s. s\<lparr>db_config := filter (\<lambda>r. cf_key r \<noteq> key) (db_config s)\<rparr>)) (\<lambda>_. return_ok None))"

section \<open>The window\<close>

text \<open>An interval of so many hours.\<close>

definition hours_ms :: "jsnum \<Rightarrow> time_ms" where
  "hours_ms h = \<lfloor>h * 3600000\<rfloor>"

definition ms_per_hour :: time_ms where
  "ms_per_hour = 3600000"

definition coalesce :: "'a option \<Rightarrow> 'a \<Rightarrow> 'a" where
  "coalesce x y = (case x of Some v \<Rightarrow> v | None \<Rightarrow> y)"

definition openApplications :: "time_ms \<Rightarrow> string \<Rightarrow> (time_ms \<times> time_ms) agent_eff" where
  "openApplications now bountyId =
     then_do (read_state (\<lambda>s. intOf (config s ''application_window_hours'') 6)) (\<lambda>hours.
     then_do (update_bounty bountyId (\<lambda>b. b\<lparr>bo_applications_open_at := Some (coalesce (bo_applications_open_at b) now),
       bo_applications_close_at := Some (coalesce (bo_applications_close_at b) (now + hours_ms hours))\<rparr>)) (\<lambda>_.
     then_do (read_state (bounty_at bountyId)) (\<lambda>row.
     case row of None \<Rightarrow> throw (No_such_bounty bountyId)
     | Some b \<Rightarrow> return_ok (coalesce (bo_applications_open_at b) now, coalesce (bo_applications_close_at b) (now + hours_ms hours)))))"

section \<open>Applying\<close>

datatype apply_refusal =
    Holding_another_bounty jsnum
  | No_linked_wallet
  | Account_age_unknown
  | Account_too_new jsnum int
  | Org_member repo_permission string

fun refusal_name :: "apply_refusal \<Rightarrow> string" where
  "refusal_name (Holding_another_bounty n) = ''holding_another_bounty''"
| "refusal_name No_linked_wallet = ''no_linked_wallet''"
| "refusal_name Account_age_unknown = ''account_age_unknown''"
| "refusal_name (Account_too_new n d) = ''account_too_new''"
| "refusal_name (Org_member p r) = ''org_member''"

datatype apply_outcome =
    Applied string "string option"
  | Apply_no_such_bounty
  | Not_open bounty_status
  | Applications_closed
  | Own_bounty
  | Held_at_the_moment
  | Already_applied
  | Refused apply_refusal

record apply_input =
  ai_bountyId :: string
  ai_githubUserId :: int
  ai_githubLogin :: string
  ai_applicationText :: "string option"

definition repo_of :: "bounty_row \<Rightarrow> agent_db \<Rightarrow> repo_row option" where
  "repo_of b s = find (\<lambda>r. ro_id r = bo_repo_id b) (db_repos s)"

definition bounty_and_repo :: "string \<Rightarrow> agent_db \<Rightarrow> (bounty_row \<times> repo_row) option" where
  "bounty_and_repo bountyId s = Option.bind (bounty_at bountyId s) (\<lambda>b. map_option (Pair b) (repo_of b s))"

definition application_of :: "string \<Rightarrow> int \<Rightarrow> agent_db \<Rightarrow> application_row option" where
  "application_of bountyId u s = find (\<lambda>x. al_bounty_id x = bountyId \<and> al_github_user_id x = u) (db_applications s)"

text \<open>What stands before the person is looked at; nothing of it is stored.\<close>

definition apply_closed :: "time_ms \<Rightarrow> apply_input \<Rightarrow> agent_db \<Rightarrow> apply_outcome option" where
  "apply_closed now i s =
     (case bounty_and_repo (ai_bountyId i) s of
        None \<Rightarrow> Some Apply_no_such_bounty
      | Some (b, r) \<Rightarrow>
          if bo_status b \<noteq> Posted then Some (Not_open (bo_status b))
          else if (case bo_applications_close_at b of None \<Rightarrow> True | Some c \<Rightarrow> c \<le> now) then Some Applications_closed
          else if funded b \<and> to_lower (text_of (bo_funded_by b)) = to_lower (ai_githubLogin i) then Some Own_bounty
          else if funded b \<and> holder_of (ai_bountyId i) s \<noteq> None then Some Held_at_the_moment
          else case application_of (ai_bountyId i) (ai_githubUserId i) s of
            Some x \<Rightarrow> if al_status x \<noteq> App_rejected_gate then Some Already_applied else None
          | None \<Rightarrow> None)"

definition INSIDER :: "repo_permission set" where
  "INSIDER = {Admin, Maintain, Write}"

definition live_holdings :: "int \<Rightarrow> agent_db \<Rightarrow> int" where
  "live_holdings u s = int (length (filter (\<lambda>a. an_github_user_id a = u \<and> holds a) (db_assignments s)))"

text \<open>The hard gates, in their order; the two that ask GitHub come last.\<close>

definition age_refusal :: "github \<Rightarrow> time_ms \<Rightarrow> string \<Rightarrow> string \<Rightarrow> jsnum \<Rightarrow> apply_refusal option" where
  "age_refusal gh now full login minAge =
     (if minAge > 0
      then case gh_getUser gh full login of
        Inl _ \<Rightarrow> Some Account_age_unknown
      | Inr u \<Rightarrow>
          (let ageDays = of_int (now - gu_createdAt u) / 86400000 in
           if ageDays < minAge then Some (Account_too_new minAge \<lfloor>ageDays\<rfloor>) else None)
      else None)"

definition insider_refusal :: "github \<Rightarrow> string \<Rightarrow> string \<Rightarrow> apply_refusal option" where
  "insider_refusal gh full login =
     (let perm = (case gh_permission gh full login of Inr p \<Rightarrow> p | Inl _ \<Rightarrow> NoPermission) in
      if perm \<in> INSIDER then Some (Org_member perm full) else None)"

definition apply_gates :: "github \<Rightarrow> time_ms \<Rightarrow> apply_input \<Rightarrow> bounty_row \<Rightarrow> string \<Rightarrow> agent_db \<Rightarrow> apply_refusal option" where
  "apply_gates gh now i b full s =
     (let cfg = config s; maxActive = intOf (cfg ''max_active_assignments_per_person'') 1 in
      if of_int (live_holdings (ai_githubUserId i) s) \<ge> maxActive then Some (Holding_another_bounty maxActive)
      else if boolOf (cfg ''require_linked_wallet_to_apply'') True \<and> live_wallet (ai_githubUserId i) s = None then Some No_linked_wallet
      else case age_refusal gh now full (ai_githubLogin i) (intOf (cfg ''min_account_age_days'') 30) of
        Some e \<Rightarrow> Some e
      | None \<Rightarrow>
          if boolOf (cfg ''block_org_members'') True \<and> \<not> (''block_org_members'' \<in> set (bo_waived_eligibility_rules b) \<and> isWaivable ''block_org_members'')
          then insider_refusal gh full (ai_githubLogin i) else None)"

text \<open>INSERT INTO bounty_applications ... ON CONFLICT (bounty_id, github_user_id) DO UPDATE: the row's id.\<close>

definition upsert_application :: "string \<Rightarrow> time_ms \<Rightarrow> apply_input \<Rightarrow> application_status \<Rightarrow> string option \<Rightarrow> (application_row \<Rightarrow> application_row)
    \<Rightarrow> string agent_eff" where
  "upsert_application newId db_now i st reason onConflict =
     then_do (read_state (application_of (ai_bountyId i) (ai_githubUserId i))) (\<lambda>old.
     case old of
       Some x \<Rightarrow> then_do (modify (\<lambda>s. s\<lparr>db_applications := update_where
           (\<lambda>x. al_bounty_id x = ai_bountyId i \<and> al_github_user_id x = ai_githubUserId i) onConflict (db_applications s)\<rparr>)) (\<lambda>_. return_ok (al_id x))
     | None \<Rightarrow>
         then_do (ensure (\<lambda>s. newId \<notin> al_id ` set (db_applications s)) (Db_error (Unique_violation ''bounty_applications_pkey''))) (\<lambda>_.
         then_do (modify (\<lambda>s. s\<lparr>db_applications := db_applications s @ [onConflict
           \<lparr>al_id = newId, al_bounty_id = ai_bountyId i, al_github_user_id = ai_githubUserId i, al_github_login = ai_githubLogin i,
            al_status = st, al_gate_failure_reason = reason, al_fit = None, al_difficulty_match = None, al_fit_evidence = None,
            al_fit_concerns = [], al_fit_call_id = None, al_application_text = None, al_created_at = db_now\<rparr>]\<rparr>)) (\<lambda>_. return_ok newId)))"

definition refuse_application :: "string \<Rightarrow> time_ms \<Rightarrow> apply_input \<Rightarrow> apply_refusal \<Rightarrow> apply_outcome agent_eff" where
  "refuse_application newId db_now i e =
     then_do (upsert_application newId db_now i App_rejected_gate (Some (refusal_name e))
       (\<lambda>x. x\<lparr>al_status := App_rejected_gate, al_gate_failure_reason := Some (refusal_name e)\<rparr>)) (\<lambda>_.
     return_ok (Refused e))"

definition application_text :: "apply_input \<Rightarrow> string" where
  "application_text i = take 2000 (js_trim (text_of (ai_applicationText i)))"

definition accept_application :: "string \<Rightarrow> time_ms \<Rightarrow> apply_input \<Rightarrow> string agent_eff" where
  "accept_application newId db_now i =
     upsert_application newId db_now i App_applied None
       (\<lambda>x. x\<lparr>al_status := App_applied, al_gate_failure_reason := None,
         al_application_text := (if application_text i = [] then None else Some (application_text i))\<rparr>)"

text \<open>The fit service of the draw service, when there is one, with what its questions are answered.\<close>

record fit_service =
  fs_other :: "jsnum \<Rightarrow> string"
  fs_dots :: string
  fs_answers :: fit_answers

definition assess_application :: "fit_service option \<Rightarrow> time_ms \<Rightarrow> apply_input \<Rightarrow> bounty_row \<Rightarrow> string \<Rightarrow> unit agent_eff" where
  "assess_application fit now i b applicationId =
     (case fit of
        None \<Rightarrow> return_ok ()
      | Some f \<Rightarrow>
          then_do (read_state config) (\<lambda>cfg.
          on_error (then_do (assess (fs_other f) (fs_dots f) now (fs_answers f) (fitEnabled cfg)
            \<lparr>fj_applicationId = applicationId, fj_bountyId = ai_bountyId i, fj_githubUserId = ai_githubUserId i,
             fj_githubLogin = ai_githubLogin i, fj_title = bo_issue_title b,
             fj_difficultyTier = coalesce (cfg ''fit_difficulty_tier'') ''standard'', fj_applicationText = application_text i\<rparr>) (\<lambda>_. return_ok ()))
           (\<lambda>_. return_ok ())))"

definition dedupe_applicationReceived :: "string \<Rightarrow> int \<Rightarrow> string" where
  "dedupe_applicationReceived bountyId u = ''application_received:'' @ bountyId @ '':'' @ show_int u"

definition received_event :: "apply_input \<Rightarrow> string \<Rightarrow> time_ms \<Rightarrow> bounty_event" where
  "received_event i full closesAt =
     \<lparr>ev_kind = Application_received, ev_githubUserId = ai_githubUserId i,
      ev_dedupeKey = dedupe_applicationReceived (ai_bountyId i) (ai_githubUserId i),
      ev_payload = [(''bountyId'', JStr (ai_bountyId i)), (''repo'', JStr full), (''closesAt'', JStr (toISOString closesAt))]\<rparr>"

definition apply_for :: "github \<Rightarrow> fit_service option \<Rightarrow> time_ms \<Rightarrow> time_ms \<Rightarrow> string \<Rightarrow> apply_input \<Rightarrow> apply_outcome agent_eff" where
  "apply_for gh fit now db_now newId i =
     then_do (read_state (apply_closed now i)) (\<lambda>early.
     then_do (read_state (bounty_and_repo (ai_bountyId i))) (\<lambda>row.
     case (early, row) of
       (None, Some (b, r)) \<Rightarrow>
         then_do (read_state (apply_gates gh now i b (repo_full r))) (\<lambda>gate.
         case gate of
           Some e \<Rightarrow> refuse_application newId db_now i e
         | None \<Rightarrow>
             then_do (accept_application newId db_now i) (\<lambda>applicationId.
             then_do (assess_application fit now i b applicationId) (\<lambda>_.
             then_do (enqueueEvent (received_event i (repo_full r) (coalesce (bo_applications_close_at b) now))) (\<lambda>_.
             return_ok (Applied applicationId (map_option toISOString (bo_applications_close_at b)))))))
     | (Some e, _) \<Rightarrow> return_ok e
     | (None, None) \<Rightarrow> return_ok Apply_no_such_bounty))"

section \<open>Who applied\<close>

record application_view =
  av_application :: application_row
  av_fitCostMicro :: "jsnum option"
  av_appliedAt :: string

record applications_view =
  as_total :: int
  as_eligible :: int
  as_refused :: int
  as_assessed :: int
  as_totalMicro :: jsnum
  as_perApplicationMicro :: "int option"
  as_applications :: "application_view list"

text \<open>\<open>cost_of\<close> is what the receipt of an inference call says it cost; a row without a receipt has none.\<close>

definition application_view_of :: "(string \<Rightarrow> jsnum option) \<Rightarrow> application_row \<Rightarrow> application_view" where
  "application_view_of cost_of x =
     \<lparr>av_application = x, av_fitCostMicro = Some (coalesce (Option.bind (al_fit_call_id x) cost_of) 0), av_appliedAt = toISOString (al_created_at x)\<rparr>"

definition count_of :: "('a \<Rightarrow> bool) \<Rightarrow> 'a list \<Rightarrow> int" where
  "count_of P xs = int (length (filter P xs))"

definition applications_of :: "string \<Rightarrow> agent_db \<Rightarrow> application_row list" where
  "applications_of bountyId s = filter (\<lambda>x. al_bounty_id x = bountyId) (db_applications s)"

definition applicationsFor :: "(string \<Rightarrow> jsnum option) \<Rightarrow> string \<Rightarrow> agent_db \<Rightarrow> applications_view" where
  "applicationsFor cost_of bountyId s =
     (let rows = map (application_view_of cost_of) (applications_of bountyId s);
          assessed = filter (\<lambda>v. av_fitCostMicro v \<noteq> None) rows;
          total_micro = sum_list (map (\<lambda>v. coalesce (av_fitCostMicro v) 0) assessed) in
      \<lparr>as_total = int (length rows),
       as_eligible = count_of (\<lambda>v. al_status (av_application v) \<in> {App_applied, App_won, App_lost}) rows,
       as_refused = count_of (\<lambda>v. al_status (av_application v) = App_rejected_gate) rows,
       as_assessed = int (length assessed), as_totalMicro = total_micro,
       as_perApplicationMicro = (if assessed = [] then None else Some \<lfloor>total_micro / of_nat (length assessed) + 1 / 2\<rfloor>),
       as_applications = rows\<rparr>)"

definition applicationsForUser :: "int \<Rightarrow> agent_db \<Rightarrow> (string \<rightharpoonup> application_row)" where
  "applicationsForUser u s = map_of (rev (map (\<lambda>x. (al_bounty_id x, x)) (filter (\<lambda>x. al_github_user_id x = u) (db_applications s))))"

end
