(* ===== verification/DrawService.thy ===== *)
theory DrawService
  imports Applications
begin

text \<open>
  apps/agent/src/draw-service.ts, the draw and what ends or moves an assignment: \<open>historyFor\<close>,
  \<open>runDrawFor\<close>, \<open>drawsFor\<close>, \<open>unassignByDecision\<close>, \<open>closeByDecision\<close>, \<open>tellRoundClosed\<close>,
  \<open>reopenAfterClosedPullRequest\<close>, \<open>setAssignmentDeadline\<close>. The seed a draw takes from the operating
  system and the fresh UUIDs are arguments. The share of a candidate in the stored pool is read off the
  tickets, and is no field of its own.
\<close>

section \<open>The draw\<close>

definition history_of :: "int \<Rightarrow> agent_db \<Rightarrow> int \<times> int \<times> int" where
  "history_of u s =
     (let mine = filter (\<lambda>a. an_github_user_id a = u) (db_assignments s) in
      (count_of (\<lambda>a. an_status a = Completed) mine, int (length mine),
       count_of (\<lambda>a. an_status a = Released_stale \<and> an_counts_as_abandon a) mine))"

record draw_opts =
  do_triggeredBy :: string
  do_simulate :: bool
  do_staleHours :: "jsnum option"
  do_staleAt :: "time_ms option"
  do_requireWallet :: bool

datatype draw_refusal = Draw_no_such_bounty | Already_assigned | No_newcomers

record draw_outcome =
  dx_drawId :: string
  dx_bountyId :: string
  dx_seed :: int
  dx_simulation :: bool
  dx_triggeredBy :: string
  dx_pool :: "candidate list"
  dx_winner :: "candidate option"
  dx_firstComeFallback :: bool
  dx_noWinnerReason :: "no_winner option"
  dx_reservedForNewcomers :: bool
  dx_reservationFellBack :: bool
  dx_assignmentId :: "string option"
  dx_staleAt :: "string option"

definition share :: "candidate list \<Rightarrow> candidate \<Rightarrow> xnum" where
  "share pool c = (case (foldl xadd (Fin 0) (map ca_tickets pool), ca_tickets c) of
     (Fin t, Fin n) \<Rightarrow> if t > 0 then Fin (n / t) else Fin 0 | (Fin t, n) \<Rightarrow> if t > 0 then n else Fin 0
   | (PInf, Fin n) \<Rightarrow> Fin 0 | (PInf, _) \<Rightarrow> NaN | _ \<Rightarrow> Fin 0)"

text \<open>The applicants a draw may take: waiting, not the one kept out of the next draw, with a wallet where one is needed.\<close>

definition waiting :: "application_row \<Rightarrow> bool" where
  "waiting x \<longleftrightarrow> al_status x \<in> {App_applied, App_lost}"

definition may_be_drawn :: "string option \<Rightarrow> bool \<Rightarrow> agent_db \<Rightarrow> application_row \<Rightarrow> bool" where
  "may_be_drawn excluded requireWallet s x \<longleftrightarrow> waiting x
     \<and> (case excluded of None \<Rightarrow> True | Some l \<Rightarrow> to_lower (al_github_login x) \<noteq> to_lower l)
     \<and> (\<not> requireWallet \<or> live_wallet (al_github_user_id x) s \<noteq> None)"

definition draw_applicants :: "bounty_row \<Rightarrow> bool \<Rightarrow> agent_db \<Rightarrow> application_row list" where
  "draw_applicants b requireWallet s = filter (may_be_drawn (bo_exclude_login_next_draw b) requireWallet s) (applications_of (bo_id b) s)"

definition newcomer :: "agent_db \<Rightarrow> application_row \<Rightarrow> bool" where
  "newcomer s x \<longleftrightarrow> fst (history_of (al_github_user_id x) s) = 0"

text \<open>The rows that enter, and whether the reservation fell back to everybody.\<close>

definition reserve_for_newcomers :: "bounty_row \<Rightarrow> agent_db \<Rightarrow> application_row list \<Rightarrow> (application_row list \<times> bool) option" where
  "reserve_for_newcomers b s rows =
     (if \<not> bo_reserved_for_newcomers b then Some (rows, False)
      else if filter (newcomer s) rows \<noteq> [] then Some (filter (newcomer s) rows, False)
      else if boolOf (config s ''reservation_fallback_to_open_pool'') True then Some (rows, True)
      else None)"

definition applicant_of :: "agent_db \<Rightarrow> application_row \<Rightarrow> draw_applicant" where
  "applicant_of s x =
     (let (completions, prior, abandons) = history_of (al_github_user_id x) s in
      \<lparr>da_githubUserId = al_github_user_id x, da_githubLogin = al_github_login x, da_fit = al_fit x,
       da_difficultyMatch = al_difficulty_match x, da_completions = completions, da_priorAssignments = prior, da_abandons = abandons\<rparr>)"

definition winner_of :: "draw_result \<Rightarrow> (int \<times> string) option" where
  "winner_of r = map_option (\<lambda>c. (ca_githubUserId c, ca_githubLogin c)) (dr_winner r)"

definition insert_draw :: "draw_row \<Rightarrow> unit agent_eff" where
  "insert_draw d =
     then_do (ensure (\<lambda>s. dw_id d \<notin> dw_id ` set (db_draws s)) (Db_error (Unique_violation ''bounty_draws_pkey''))) (\<lambda>_.
     modify (\<lambda>s. s\<lparr>db_draws := db_draws s @ [d]\<rparr>))"

definition insert_assignment :: "assignment_row \<Rightarrow> unit agent_eff" where
  "insert_assignment a =
     then_do (ensure (\<lambda>s. an_id a \<notin> an_id ` set (db_assignments s)) (Db_error (Unique_violation ''bounty_assignments_pkey''))) (\<lambda>_.
     then_do (ensure (\<lambda>s. \<not> (holds a \<and> (\<exists>x \<in> set (db_assignments s). holds x \<and> an_bounty_id x = an_bounty_id a)))
       (Db_error (Unique_violation ''bounty_assignments_one_active''))) (\<lambda>_.
     modify (\<lambda>s. s\<lparr>db_assignments := db_assignments s @ [a]\<rparr>)))"

definition new_assignment :: "string \<Rightarrow> string \<Rightarrow> string option \<Rightarrow> int \<Rightarrow> string \<Rightarrow> time_ms \<Rightarrow> time_ms \<Rightarrow> assignment_row" where
  "new_assignment i bountyId draw u login now stale =
     \<lparr>an_id = i, an_bounty_id = bountyId, an_draw_id = draw, an_github_user_id = u, an_github_login = login, an_status = Active,
      an_assigned_at = now, an_stale_at = stale, an_qualifying_pr_number = None, an_released_at = None, an_release_reason = None,
      an_released_by = None, an_counts_as_abandon = False, an_unassigned_on_chain_directly = False\<rparr>"

text \<open>The application of the winner is won and every other waiting one lost.\<close>

definition mark_drawn :: "string \<Rightarrow> int \<Rightarrow> unit agent_eff" where
  "mark_drawn bountyId u =
     modify (\<lambda>s. s\<lparr>db_applications := update_where (\<lambda>x. al_bounty_id x = bountyId \<and> waiting x)
       (\<lambda>x. x\<lparr>al_status := (if al_github_user_id x = u then App_won else App_lost)\<rparr>) (db_applications s)\<rparr>)"

definition dedupe_drawWon :: "string \<Rightarrow> string \<Rightarrow> string" where
  "dedupe_drawWon bountyId drawId = ''draw_won:'' @ bountyId @ '':'' @ drawId"

definition dedupe_drawLost :: "string \<Rightarrow> string \<Rightarrow> int \<Rightarrow> string" where
  "dedupe_drawLost bountyId drawId u = ''draw_lost:'' @ bountyId @ '':'' @ drawId @ '':'' @ show_int u"

definition about_bounty :: "string \<Rightarrow> agent_db \<Rightarrow> entries" where
  "about_bounty bountyId s = (case bounty_and_repo bountyId s of
     None \<Rightarrow> []
   | Some (b, r) \<Rightarrow> [(''repo'', JStr (repo_full r)), (''issue_number'', JNum (of_int (bo_issue_number b))),
       (''amount_minor'', JStr (show_int (bo_amount_minor b))), (''currency'', JStr (bo_currency b))])"

definition won_event :: "string \<Rightarrow> string \<Rightarrow> string \<Rightarrow> time_ms \<Rightarrow> entries \<Rightarrow> int \<Rightarrow> bounty_event" where
  "won_event bountyId drawId assignmentId stale about u =
     \<lparr>ev_kind = Draw_won, ev_githubUserId = u, ev_dedupeKey = dedupe_drawWon bountyId drawId,
      ev_payload = about @ [(''bountyId'', JStr bountyId), (''assignmentId'', JStr assignmentId), (''staleAt'', JStr (toISOString stale)), (''drawId'', JStr drawId)]\<rparr>"

definition lost_event :: "string \<Rightarrow> string \<Rightarrow> entries \<Rightarrow> int \<Rightarrow> bounty_event" where
  "lost_event bountyId drawId about u =
     \<lparr>ev_kind = Draw_lost, ev_githubUserId = u, ev_dedupeKey = dedupe_drawLost bountyId drawId u,
      ev_payload = about @ [(''bountyId'', JStr bountyId), (''drawId'', JStr drawId)]\<rparr>"

text \<open>What follows a draw that assigns: the assignment, the bounty's flags, the applications and the messages.\<close>

definition assign_winner :: "time_ms \<Rightarrow> bounty_row \<Rightarrow> string \<Rightarrow> string \<Rightarrow> time_ms \<Rightarrow> candidate list \<Rightarrow> candidate \<Rightarrow> unit agent_eff" where
  "assign_winner now b drawId assignmentId stale pool w =
     (let i = bo_id b; u = ca_githubUserId w in
      then_do (insert_assignment (new_assignment assignmentId i (Some drawId) u (ca_githubLogin w) now stale)) (\<lambda>_.
      then_do (if bo_exclude_login_next_draw b \<notin> {None, Some []} then update_bounty i (\<lambda>x. x\<lparr>bo_exclude_login_next_draw := None\<rparr>) else return_ok ()) (\<lambda>_.
      then_do (update_bounty i (\<lambda>x. x\<lparr>bo_awaiting_redraw := False\<rparr>)) (\<lambda>_.
      then_do (mark_drawn i u) (\<lambda>_.
      then_do (read_state (about_bounty i)) (\<lambda>about.
      then_do (enqueueEvent (won_event i drawId assignmentId stale about u)) (\<lambda>_.
      for_each (\<lambda>c. then_do (enqueueEvent (lost_event i drawId about (ca_githubUserId c))) (\<lambda>_. return_ok ()))
        (filter (\<lambda>c. ca_githubUserId c \<noteq> u) pool))))))))"

definition draw_row_of :: "string \<Rightarrow> string \<Rightarrow> draw_result \<Rightarrow> bool \<Rightarrow> draw_config \<Rightarrow> string \<Rightarrow> time_ms \<Rightarrow> draw_row" where
  "draw_row_of drawId bountyId result simulate cfg triggeredBy db_now =
     \<lparr>dw_id = drawId, dw_bounty_id = bountyId, dw_seed = dr_seed result, dw_pool = dr_pool result,
      dw_winner = (if simulate then None else winner_of result), dw_first_come_fallback = dr_firstComeFallback result,
      dw_no_winner_reason = dr_noWinnerReason result, dw_is_simulation = simulate, dw_config_snapshot = cfg,
      dw_triggered_by = triggeredBy, dw_created_at = db_now\<rparr>"

text \<open>The clock of the service, that of the database, and what a draw makes fresh: its seed and its ids.\<close>

record draw_fresh =
  fr_now :: time_ms
  fr_db_now :: time_ms
  fr_seed :: int
  fr_drawId :: string
  fr_assignmentId :: string

definition stale_time :: "draw_opts \<Rightarrow> draw_config \<Rightarrow> time_ms \<Rightarrow> time_ms" where
  "stale_time opts cfg now =
     coalesce (do_staleAt opts) (now + hours_ms (coalesce (do_staleHours opts) (intOf (cfg ''assignment_stale_hours'') 72)))"

definition drawn :: "draw_fresh \<Rightarrow> draw_opts \<Rightarrow> draw_config \<Rightarrow> bounty_row \<Rightarrow> bool \<Rightarrow> draw_result \<Rightarrow> draw_outcome agent_eff" where
  "drawn fr opts cfg b fellBack result =
     (let stale = stale_time opts cfg (fr_now fr); assigns = (\<not> do_simulate opts \<and> dr_winner result \<noteq> None) in
      then_do (insert_draw (draw_row_of (fr_drawId fr) (bo_id b) result (do_simulate opts) cfg (do_triggeredBy opts) (fr_db_now fr))) (\<lambda>_.
      then_do (if assigns then assign_winner (fr_now fr) b (fr_drawId fr) (fr_assignmentId fr) stale (dr_pool result) (the (dr_winner result))
        else return_ok ()) (\<lambda>_.
      return_ok \<lparr>dx_drawId = fr_drawId fr, dx_bountyId = bo_id b, dx_seed = fr_seed fr, dx_simulation = do_simulate opts,
        dx_triggeredBy = do_triggeredBy opts, dx_pool = dr_pool result, dx_winner = (if do_simulate opts then None else dr_winner result),
        dx_firstComeFallback = dr_firstComeFallback result, dx_noWinnerReason = dr_noWinnerReason result,
        dx_reservedForNewcomers = bo_reserved_for_newcomers b, dx_reservationFellBack = fellBack,
        dx_assignmentId = (if assigns then Some (fr_assignmentId fr) else None), dx_staleAt = (if assigns then Some (toISOString stale) else None)\<rparr>)))"

definition runDrawFor :: "draw_fresh \<Rightarrow> string \<Rightarrow> draw_opts \<Rightarrow> (draw_refusal + draw_outcome) agent_eff" where
  "runDrawFor fr bountyId opts =
     then_do (read_state config) (\<lambda>cfg.
     then_do (read_state (bounty_at bountyId)) (\<lambda>row.
     case row of
       None \<Rightarrow> return_ok (Inl Draw_no_such_bounty)
     | Some b \<Rightarrow>
         then_do (read_state (holder_of bountyId)) (\<lambda>live.
         if \<not> do_simulate opts \<and> live \<noteq> None then return_ok (Inl Already_assigned)
         else then_do (read_state (draw_applicants b (do_requireWallet opts))) (\<lambda>all.
         then_do (read_state (\<lambda>s. map_option (\<lambda>(rows, fell). (map (applicant_of s) rows, fell)) (reserve_for_newcomers b s all))) (\<lambda>entered.
         case entered of
           None \<Rightarrow> return_ok (Inl No_newcomers)
         | Some (applicants, fellBack) \<Rightarrow>
             then_do (drawn fr opts cfg b fellBack (runDraw applicants cfg (fr_seed fr))) (\<lambda>out. return_ok (Inr out)))))))"

text \<open>The draws of a bounty, the newest first.\<close>

definition drawsFor :: "string \<Rightarrow> agent_db \<Rightarrow> draw_row list" where
  "drawsFor bountyId s = rev (filter (\<lambda>d. dw_bounty_id d = bountyId) (db_draws s))"

section \<open>Ending and moving an assignment by decision\<close>

datatype decision_refusal = Reason_required | No_active_assignment | Decision_pr_open | Not_found | Decision_not_open bounty_status
  | Still_assigned | Bad_deadline | Deadline_in_past

definition dedupe_unassigned :: "string \<Rightarrow> string" where
  "dedupe_unassigned assignmentId = ''unassigned:'' @ assignmentId"

definition dedupe_roundClosed :: "string \<Rightarrow> string" where
  "dedupe_roundClosed assignmentId = ''round_closed:'' @ assignmentId"

definition dedupe_deadlineChanged :: "string \<Rightarrow> string \<Rightarrow> string" where
  "dedupe_deadlineChanged assignmentId newAt = ''deadline_changed:'' @ assignmentId @ '':'' @ newAt"

definition release_by_decision :: "string \<Rightarrow> time_ms \<Rightarrow> string \<Rightarrow> string \<Rightarrow> unit agent_eff" where
  "release_by_decision assignmentId db_now reason actor =
     modify (\<lambda>s. s\<lparr>db_assignments := update_where (\<lambda>a. an_id a = assignmentId)
       (\<lambda>a. a\<lparr>an_status := Released_voluntary, an_released_at := Some db_now, an_release_reason := Some reason, an_released_by := Some actor,
         an_counts_as_abandon := False\<rparr>) (db_assignments s)\<rparr>)"

text \<open>Back in the pool, by login, as it was won.\<close>

definition back_in_pool :: "string \<Rightarrow> string \<Rightarrow> unit agent_eff" where
  "back_in_pool bountyId login =
     modify (\<lambda>s. s\<lparr>db_applications := update_where (\<lambda>x. al_bounty_id x = bountyId \<and> al_github_login x = login \<and> al_status x = App_won)
       (\<lambda>x. x\<lparr>al_status := App_lost\<rparr>) (db_applications s)\<rparr>)"

definition unassigned_event :: "string \<Rightarrow> entries \<Rightarrow> assignment_row \<Rightarrow> string \<Rightarrow> string \<Rightarrow> bool \<Rightarrow> bounty_event" where
  "unassigned_event key about a reason actor round_closed =
     \<lparr>ev_kind = Bounty_unassigned, ev_githubUserId = an_github_user_id a, ev_dedupeKey = key,
      ev_payload = [(''bountyId'', JStr (an_bounty_id a))] @ about @ [(''reason'', JStr reason), (''actor'', JStr actor)]
        @ (if round_closed then [(''closed'', JBool True)] else [])\<rparr>"

text \<open>The holder, when the bounty and its repository are there too.\<close>

definition held_with_bounty :: "string \<Rightarrow> agent_db \<Rightarrow> assignment_row option" where
  "held_with_bounty bountyId s = (if bounty_and_repo bountyId s = None then None else holder_of bountyId s)"

definition unassignByDecision :: "time_ms \<Rightarrow> string \<Rightarrow> string \<Rightarrow> string \<Rightarrow> (decision_refusal + assignment_row) agent_eff" where
  "unassignByDecision db_now bountyId actor reason0 =
     (let reason = js_trim reason0 in
      if reason = [] then return_ok (Inl Reason_required)
      else then_do (read_state (held_with_bounty bountyId)) (\<lambda>held.
      case held of
        None \<Rightarrow> return_ok (Inl No_active_assignment)
      | Some a \<Rightarrow>
          if an_status a = Pr_submitted then return_ok (Inl Decision_pr_open)
          else then_do (release_by_decision (an_id a) db_now reason actor) (\<lambda>_.
          then_do (back_in_pool bountyId (an_github_login a)) (\<lambda>_.
          then_do (update_bounty bountyId (\<lambda>b. b\<lparr>bo_exclude_login_next_draw := Some (an_github_login a), bo_awaiting_redraw := True\<rparr>)) (\<lambda>_.
          then_do (audit actor ''assignment.unassigned'' (Some bountyId)) (\<lambda>_.
          then_do (read_state (about_bounty bountyId)) (\<lambda>about.
          then_do (enqueueEvent (unassigned_event (dedupe_unassigned (an_id a)) about a reason actor False)) (\<lambda>_.
          return_ok (Inr a)))))))))"

text \<open>Closing: one transaction, and the message after it. The result is the holder released and whether they were told.\<close>

definition close_in_transaction :: "time_ms \<Rightarrow> string \<Rightarrow> string \<Rightarrow> string \<Rightarrow> (decision_refusal + assignment_row option) agent_eff" where
  "close_in_transaction db_now bountyId actor reason =
     in_transaction
       (then_do (read_state (bounty_and_repo bountyId)) (\<lambda>row.
        case row of
          None \<Rightarrow> roll_back (Inl Not_found)
        | Some (b, r) \<Rightarrow>
            if bo_status b \<noteq> Posted then roll_back (Inl (Decision_not_open (bo_status b)))
            else then_do (read_state (holder_of bountyId)) (\<lambda>held.
              if map_option an_status held = Some Pr_submitted then roll_back (Inl Decision_pr_open)
              else then_do (inside (update_bounty bountyId (\<lambda>b. b\<lparr>bo_status := Cancelled\<rparr>))) (\<lambda>_.
                then_do (case held of None \<Rightarrow> return_ok ()
                  | Some a \<Rightarrow> then_do (inside (release_by_decision (an_id a) db_now reason actor)) (\<lambda>_.
                      inside (back_in_pool bountyId (an_github_login a)))) (\<lambda>_.
                then_do (inside (audit actor ''bounty.closed'' (Some bountyId))) (\<lambda>_.
                return_ok (Inr held)))))))"

definition closeByDecision :: "time_ms \<Rightarrow> string \<Rightarrow> string \<Rightarrow> string \<Rightarrow> (decision_refusal + assignment_row option \<times> bool) agent_eff" where
  "closeByDecision db_now bountyId actor reason0 =
     (let reason = js_trim reason0 in
      if reason = [] then return_ok (Inl Reason_required)
      else then_do (close_in_transaction db_now bountyId actor reason) (\<lambda>res.
      case res of
        Inl e \<Rightarrow> return_ok (Inl e)
      | Inr None \<Rightarrow> return_ok (Inr (None, False))
      | Inr (Some a) \<Rightarrow>
          then_do (read_state (about_bounty bountyId)) (\<lambda>about.
          then_do (enqueueEvent (unassigned_event (dedupe_unassigned (an_id a)) about a reason actor True)) (\<lambda>notified.
          return_ok (Inr (Some a, notified))))))"

definition tellRoundClosed :: "string \<Rightarrow> string \<Rightarrow> string \<Rightarrow> (decision_refusal + string \<times> bool) agent_eff" where
  "tellRoundClosed assignmentId actor reason0 =
     (let reason = js_trim reason0 in
      if reason = [] then return_ok (Inl Reason_required)
      else then_do (read_state (\<lambda>s. Option.bind (find (\<lambda>a. an_id a = assignmentId) (db_assignments s))
          (\<lambda>a. map_option (\<lambda>_. a) (bounty_and_repo (an_bounty_id a) s)))) (\<lambda>row.
      case row of
        None \<Rightarrow> return_ok (Inl Not_found)
      | Some a \<Rightarrow>
          if holds a then return_ok (Inl Still_assigned)
          else then_do (read_state (about_bounty (an_bounty_id a))) (\<lambda>about.
          then_do (enqueueEvent (unassigned_event (dedupe_roundClosed assignmentId) about a reason actor True)) (\<lambda>queued.
          then_do (audit actor ''assignment.round_closed_notice'' (Some (an_bounty_id a))) (\<lambda>_.
          return_ok (Inr (an_github_login a, queued)))))))"

text \<open>The repair of a bounty left in review: GitHub is asked about every pull request recorded as open.\<close>

datatype repair_outcome = Repaired reopen_outcome | Repair_merged int "int list" | Repair_open int "int list"

fun refresh_submissions :: "github \<Rightarrow> string \<Rightarrow> time_ms \<Rightarrow> string \<Rightarrow> int list \<Rightarrow> int list \<Rightarrow> repair_outcome option agent_eff" where
  "refresh_submissions gh full db_now bountyId [] refreshed = return_ok None"
| "refresh_submissions gh full db_now bountyId (n # ns) refreshed =
     then_do (ask_github (gh_getPull gh full n)) (\<lambda>pr.
     if pl_merged pr then return_ok (Some (Repair_merged n refreshed))
     else if pl_state pr = ''open'' then return_ok (Some (Repair_open n refreshed))
     else then_do (modify (\<lambda>s. s\<lparr>db_submissions := update_where (\<lambda>x. sb_bounty_id x = bountyId \<and> sb_pr_number x = n \<and> sb_state x = Sub_open)
         (\<lambda>x. x\<lparr>sb_state := Sub_closed, sb_head_sha := pl_headSha pr, sb_updated_at := db_now\<rparr>) (db_submissions s)\<rparr>)) (\<lambda>_.
       refresh_submissions gh full db_now bountyId ns (refreshed @ [n])))"

definition open_submissions :: "string \<Rightarrow> agent_db \<Rightarrow> int list" where
  "open_submissions bountyId s = sort (map sb_pr_number (filter (\<lambda>x. sb_state x = Sub_open) (submissions_of bountyId s)))"

definition reopenAfterClosedPullRequest :: "github \<Rightarrow> time_ms \<Rightarrow> string \<Rightarrow> string \<Rightarrow> bool \<Rightarrow> repair_outcome agent_eff" where
  "reopenAfterClosedPullRequest gh db_now bountyId actor hold =
     then_do (read_state (bounty_and_repo bountyId)) (\<lambda>row.
     case row of
       None \<Rightarrow> return_ok (Repaired (Not_reopened bountyId Reopen_no_such_bounty))
     | Some (b, r) \<Rightarrow>
         if bo_status b \<noteq> In_review then return_ok (Repaired (Not_reopened bountyId Not_in_review))
         else then_do (read_state (open_submissions bountyId)) (\<lambda>ns.
         then_do (refresh_submissions gh (repo_full r) db_now bountyId ns []) (\<lambda>stop.
         case stop of
           Some e \<Rightarrow> return_ok e
         | None \<Rightarrow> then_do (reopenAfterUnmergedClose bountyId actor hold) (\<lambda>res. return_ok (Repaired res)))))"

text \<open>The deadline of a live assignment: a date that is none is \<open>None\<close>. The result is the old and the new.\<close>

definition deadline_event :: "string \<Rightarrow> entries \<Rightarrow> assignment_row \<Rightarrow> time_ms \<Rightarrow> string \<Rightarrow> string \<Rightarrow> bounty_event" where
  "deadline_event bountyId about a newAt reason actor =
     \<lparr>ev_kind = Deadline_changed, ev_githubUserId = an_github_user_id a, ev_dedupeKey = dedupe_deadlineChanged (an_id a) (toISOString newAt),
      ev_payload = [(''bountyId'', JStr bountyId)] @ about
        @ [(''previousAt'', JStr (toISOString (an_stale_at a))), (''staleAt'', JStr (toISOString newAt)), (''reason'', JStr reason), (''actor'', JStr actor)]\<rparr>"

definition setAssignmentDeadline :: "time_ms \<Rightarrow> string \<Rightarrow> time_ms option \<Rightarrow> string \<Rightarrow> string \<Rightarrow> (decision_refusal + string \<times> time_ms \<times> time_ms) agent_eff" where
  "setAssignmentDeadline now bountyId newAt0 actor reason0 =
     (let reason = js_trim reason0 in
      if reason = [] then return_ok (Inl Reason_required)
      else case newAt0 of
        None \<Rightarrow> return_ok (Inl Bad_deadline)
      | Some newAt \<Rightarrow>
          if newAt \<le> now then return_ok (Inl Deadline_in_past)
          else then_do (read_state (held_with_bounty bountyId)) (\<lambda>held.
          case held of
            None \<Rightarrow> return_ok (Inl No_active_assignment)
          | Some a \<Rightarrow>
              then_do (modify (\<lambda>s. s\<lparr>db_assignments := update_where (\<lambda>x. an_id x = an_id a) (\<lambda>x. x\<lparr>an_stale_at := newAt\<rparr>) (db_assignments s)\<rparr>)) (\<lambda>_.
              then_do (modify (\<lambda>s. s\<lparr>db_deadline_changes := db_deadline_changes s @ [\<lparr>dc_assignment_id = an_id a, dc_previous_at = an_stale_at a,
                dc_new_at = newAt, dc_reason = reason, dc_changed_by = actor\<rparr>]\<rparr>)) (\<lambda>_.
              then_do (audit actor ''assignment.deadline_changed'' (Some bountyId)) (\<lambda>_.
              then_do (read_state (about_bounty bountyId)) (\<lambda>about.
              then_do (enqueueEvent (deadline_event bountyId about a newAt reason actor)) (\<lambda>_.
              return_ok (Inr (an_id a, an_stale_at a, newAt)))))))))"

end
