(* ===== verification/DrawSweep.thy ===== *)
theory DrawSweep
  imports DrawService
begin

text \<open>
  apps/agent/src/draw-service.ts, the clock's part and the maintainers' view:
  \<open>recordSubmittedPullRequests\<close>, \<open>releaseStaleAssignments\<close>, \<open>closeDueWindows\<close>, \<open>canManageBounty\<close>,
  \<open>bountiesForMaintainer\<close>, \<open>maintainerView\<close>, \<open>poolVisibilityForMaintainer\<close>. What a draw of the sweep makes
  fresh - seed, draw id, assignment id - is an argument for each bounty.
\<close>

section \<open>The sweep over assignments\<close>

definition submitted_pr :: "agent_db \<Rightarrow> assignment_row \<Rightarrow> int option" where
  "submitted_pr s a = map_option sb_pr_number (find (\<lambda>x. sb_bounty_id x = an_bounty_id a
     \<and> sb_author_github_user_id x = an_github_user_id a \<and> sb_state x = Sub_open) (db_submissions s))"

definition answered_rows :: "agent_db \<Rightarrow> assignment_row list" where
  "answered_rows s = filter (\<lambda>a. an_status a = Active \<and> submitted_pr s a \<noteq> None) (db_assignments s)"

definition recordSubmittedPullRequests :: "(string \<times> string \<times> int option) list agent_eff" where
  "recordSubmittedPullRequests =
     then_do (read_state (\<lambda>s. map (\<lambda>a. (an_bounty_id a, an_github_login a, submitted_pr s a)) (answered_rows s))) (\<lambda>found.
     then_do (modify (\<lambda>s. s\<lparr>db_assignments := update_where (\<lambda>a. an_status a = Active \<and> submitted_pr s a \<noteq> None)
       (\<lambda>a. a\<lparr>an_status := Pr_submitted, an_qualifying_pr_number := submitted_pr s a\<rparr>) (db_assignments s)\<rparr>)) (\<lambda>_.
     then_do (for_each (\<lambda>(i, _). audit ''agent'' ''assignment.pr_recorded'' (Some i)) found) (\<lambda>_.
     return_ok found)))"

definition dedupe_assignmentExpiring :: "string \<Rightarrow> string" where
  "dedupe_assignmentExpiring assignmentId = ''assignment_expiring:'' @ assignmentId"

definition funded_bounty :: "string \<Rightarrow> agent_db \<Rightarrow> bool" where
  "funded_bounty i s \<longleftrightarrow> (\<exists>b \<in> set (db_bounties s). bo_id b = i \<and> bo_funded_by b \<noteq> None)"

definition submitted_ever :: "agent_db \<Rightarrow> assignment_row \<Rightarrow> bool" where
  "submitted_ever s a \<longleftrightarrow> (\<exists>x \<in> set (db_submissions s). sb_bounty_id x = an_bounty_id a \<and> sb_author_github_user_id x = an_github_user_id a)"

definition expiring :: "time_ms \<Rightarrow> time_ms \<Rightarrow> agent_db \<Rightarrow> assignment_row \<Rightarrow> bool" where
  "expiring now within_ms s a \<longleftrightarrow> an_status a = Active \<and> bounty_and_repo (an_bounty_id a) s \<noteq> None \<and> \<not> funded_bounty (an_bounty_id a) s
     \<and> an_stale_at a > now \<and> an_stale_at a \<le> now + within_ms \<and> submitted_pr s a = None"

definition expiring_event :: "time_ms \<Rightarrow> entries \<Rightarrow> assignment_row \<Rightarrow> bounty_event" where
  "expiring_event now about a =
     \<lparr>ev_kind = Assignment_expiring, ev_githubUserId = an_github_user_id a, ev_dedupeKey = dedupe_assignmentExpiring (an_id a),
      ev_payload = [(''bountyId'', JStr (an_bounty_id a))] @ about @ [(''staleAt'', JStr (toISOString (an_stale_at a))),
        (''hoursLeft'', JNum (of_int (max 1 \<lfloor>of_int (an_stale_at a - now) / (3600000 :: rat) + 1 / 2\<rfloor>)))]\<rparr>"

definition warn_expiring :: "time_ms \<Rightarrow> assignment_row \<Rightarrow> string list agent_eff" where
  "warn_expiring now a =
     then_do (read_state (about_bounty (an_bounty_id a))) (\<lambda>about.
     then_do (enqueueEvent (expiring_event now about a)) (\<lambda>is_new.
     return_ok (if is_new then [an_bounty_id a] else [])))"

text \<open>What goes stale, and how it is released.\<close>

definition gone_stale :: "time_ms \<Rightarrow> agent_db \<Rightarrow> assignment_row \<Rightarrow> bool" where
  "gone_stale now s a \<longleftrightarrow> an_status a = Active \<and> an_stale_at a \<le> now \<and> \<not> funded_bounty (an_bounty_id a) s \<and> submitted_pr s a = None"

definition released_stale :: "time_ms \<Rightarrow> agent_db \<Rightarrow> assignment_row \<Rightarrow> assignment_row" where
  "released_stale now s a =
     a\<lparr>an_status := Released_stale, an_released_at := Some now,
       an_release_reason := Some (if submitted_ever s a then ''deadline passed after their pull request was closed unmerged''
         else ''no pull request before the deadline''),
       an_counts_as_abandon := \<not> submitted_ever s a\<rparr>"

definition release_stale :: "time_ms \<Rightarrow> (string \<times> string) list agent_eff" where
  "release_stale now =
     then_do (read_state (\<lambda>s. map (\<lambda>a. (an_bounty_id a, an_github_login a)) (filter (gone_stale now s) (db_assignments s)))) (\<lambda>gone.
     then_do (modify (\<lambda>s. s\<lparr>db_assignments := update_where (gone_stale now s) (released_stale now s) (db_assignments s)\<rparr>)) (\<lambda>_.
     then_do (for_each (\<lambda>(i, login). back_in_pool i login) gone) (\<lambda>_.
     return_ok gone)))"

definition releaseStaleAssignments :: "time_ms \<Rightarrow> ((string \<times> string) list \<times> string list) agent_eff" where
  "releaseStaleAssignments now =
     then_do recordSubmittedPullRequests (\<lambda>_.
     then_do (read_state (\<lambda>s. hours_ms (intOf (config s ''assignment_expiry_warning_hours'') 24))) (\<lambda>ahead.
     then_do (read_state (\<lambda>s. filter (expiring now ahead s) (db_assignments s))) (\<lambda>soon.
     then_do (gather (warn_expiring now) soon) (\<lambda>warned.
     then_do (release_stale now) (\<lambda>gone.
     return_ok (gone, warned))))))"

section \<open>The sweep over windows\<close>

datatype window_outcome = Window_drawn string | Window_extended string | Window_skipped string

definition due :: "time_ms \<Rightarrow> agent_db \<Rightarrow> bounty_row \<Rightarrow> bool" where
  "due now s b \<longleftrightarrow> bo_status b = Posted \<and> \<not> bo_awaiting_redraw b \<and> bo_funded_by b = None
     \<and> (case bo_applications_close_at b of None \<Rightarrow> False | Some c \<Rightarrow> c \<le> now) \<and> holder_of (bo_id b) s = None"

definition automatic :: draw_opts where
  "automatic = \<lparr>do_triggeredBy = ''automatic'', do_simulate = False, do_staleHours = None, do_staleAt = None, do_requireWallet = False\<rparr>"

definition extend_window :: "time_ms \<Rightarrow> draw_config \<Rightarrow> bounty_row \<Rightarrow> window_outcome list agent_eff" where
  "extend_window now cfg b =
     (let maxExt = intOf (cfg ''max_window_extensions'') 3; extHours = intOf (cfg ''empty_window_extension_hours'') 6 in
      if of_int (bo_window_extensions b) \<ge> maxExt \<or> extHours \<le> 0 then return_ok [Window_skipped (bo_id b)]
      else then_do (update_bounty (bo_id b) (\<lambda>x. x\<lparr>bo_applications_close_at := Some (now + hours_ms extHours),
          bo_window_extensions := bo_window_extensions x + 1\<rparr>)) (\<lambda>_. return_ok [Window_extended (bo_id b)]))"

definition close_window :: "time_ms \<Rightarrow> time_ms \<Rightarrow> draw_config \<Rightarrow> (string \<Rightarrow> int \<times> string \<times> string) \<Rightarrow> bounty_row \<Rightarrow> window_outcome list agent_eff" where
  "close_window now db_now cfg ids b =
     then_do (read_state (\<lambda>s. filter waiting (applications_of (bo_id b) s))) (\<lambda>pool.
     if pool = [] then extend_window now cfg b
     else let (seed, drawId, assignmentId) = ids (bo_id b) in
       then_do (runDrawFor \<lparr>fr_now = now, fr_db_now = db_now, fr_seed = seed, fr_drawId = drawId, fr_assignmentId = assignmentId\<rparr> (bo_id b) automatic) (\<lambda>r.
       case r of
         Inl _ \<Rightarrow> return_ok [Window_skipped (bo_id b)]
       | Inr _ \<Rightarrow> then_do (update_bounty (bo_id b) (\<lambda>x. x\<lparr>bo_auto_draw_ran_at := Some db_now\<rparr>)) (\<lambda>_. return_ok [Window_drawn (bo_id b)])))"

definition closeDueWindows :: "time_ms \<Rightarrow> time_ms \<Rightarrow> (string \<Rightarrow> int \<times> string \<times> string) \<Rightarrow> (window_outcome list \<times> string list) agent_eff" where
  "closeDueWindows now db_now ids =
     then_do (read_state config) (\<lambda>cfg.
     then_do (releaseStaleAssignments now) (\<lambda>(gone, _).
     if \<not> boolOf (cfg ''auto_draw_enabled'') True then return_ok ([], map fst gone)
     else then_do (read_state (\<lambda>s. filter (due now s) (db_bounties s))) (\<lambda>rows.
       then_do (gather (close_window now db_now cfg ids) rows) (\<lambda>outs.
       return_ok (outs, map fst gone)))))"

section \<open>What a maintainer may do and see\<close>

definition may_maintain :: "github \<Rightarrow> string \<Rightarrow> string \<Rightarrow> bool" where
  "may_maintain gh full login \<longleftrightarrow> (case gh_permission gh full login of Inr p \<Rightarrow> p \<in> INSIDER | Inl _ \<Rightarrow> False)"

definition funded_by_login :: "bounty_row \<Rightarrow> string \<Rightarrow> bool" where
  "funded_by_login b login \<longleftrightarrow> to_lower (text_of (bo_funded_by b)) = to_lower login"

datatype manage_refusal = Manage_no_such_bounty | Not_your_bounty

definition canManageBounty :: "github \<Rightarrow> string \<Rightarrow> string \<Rightarrow> agent_db \<Rightarrow> manage_refusal + string" where
  "canManageBounty gh bountyId login s =
     (case bounty_and_repo bountyId s of
        None \<Rightarrow> Inl Manage_no_such_bounty
      | Some (b, r) \<Rightarrow>
          if (funded b \<and> funded_by_login b login) \<or> may_maintain gh (repo_full r) login then Inr (repo_full r) else Inl Not_your_bounty)"

record maintainer_bounty =
  mb_bountyId :: string
  mb_repo :: string
  mb_issueNumber :: int
  mb_issueTitle :: string
  mb_status :: bounty_status
  mb_funded :: bool
  mb_youFunded :: bool

text \<open>The newest two hundred of them.\<close>

definition bountiesForMaintainer :: "github \<Rightarrow> string \<Rightarrow> agent_db \<Rightarrow> maintainer_bounty list" where
  "bountiesForMaintainer gh login s =
     (let listed = filter (\<lambda>b. bo_status b \<in> {Posted, In_review, Payable, Bounty_paid}
            \<or> bo_status b = Funding \<and> bo_funded_by b \<noteq> None \<and> funded_by_login b login) (db_bounties s);
          rows = take 200 (concat (map (\<lambda>b. case repo_of b s of None \<Rightarrow> [] | Some r \<Rightarrow> [(b, repo_full r)]) (rev listed))) in
      map (\<lambda>(b, full). \<lparr>mb_bountyId = bo_id b, mb_repo = full, mb_issueNumber = bo_issue_number b, mb_issueTitle = bo_issue_title b,
          mb_status = bo_status b, mb_funded = (bo_funded_by b \<noteq> None), mb_youFunded = funded_by_login b login\<rparr>)
        (filter (\<lambda>(b, full). (\<exists>(_, f) \<in> set rows. to_lower f = to_lower full \<and> may_maintain gh f login) \<or> funded_by_login b login) rows))"

definition poolVisibilityForMaintainer :: "int \<Rightarrow> string \<Rightarrow> bucket option \<times> int option" where
  "poolVisibilityForMaintainer pool_size visibility =
     (if visibility = ''hidden'' then (None, None) else (Some (applicantBucket pool_size), None))"

record maintainer_view =
  mv_bounty :: bounty_row
  mv_repo :: string
  mv_assignment :: "assignment_row option"
  mv_windowOpen :: bool
  mv_applicantBucket :: "bucket option"
  mv_applicantCount :: "int option"
  mv_applications :: "application_row list option"
  mv_draw :: "draw_row option"

definition maintainerView :: "time_ms \<Rightarrow> string \<Rightarrow> agent_db \<Rightarrow> maintainer_view option" where
  "maintainerView now bountyId s =
     (case bounty_and_repo bountyId s of
        None \<Rightarrow> None
      | Some (b, r) \<Rightarrow>
          (let windowOpen = (case bo_applications_close_at b of None \<Rightarrow> False | Some c \<Rightarrow> c > now);
               rows = applications_of bountyId s;
               pool_size = count_of (\<lambda>x. al_status x \<in> {App_applied, App_won, App_lost}) rows;
               base = \<lparr>mv_bounty = b, mv_repo = repo_full r, mv_assignment = holder_of bountyId s, mv_windowOpen = windowOpen,
                 mv_applicantBucket = None, mv_applicantCount = Some pool_size, mv_applications = Some rows,
                 mv_draw = find (\<lambda>d. \<not> dw_is_simulation d) (drawsFor bountyId s)\<rparr> in
           Some (if windowOpen
             then let (bucket, count) = poolVisibilityForMaintainer pool_size (coalesce (config s ''applicant_count_visibility'') ''bucketed'') in
               base\<lparr>mv_applicantBucket := bucket, mv_applicantCount := count, mv_applications := None, mv_draw := None\<rparr>
             else base)))"

section \<open>The maintainer's action (server.ts)\<close>

text \<open>A draw that a maintainer asks for: they may manage the bounty, and it is not a funded one.\<close>

datatype maintainer_refusal = May_not manage_refusal | Funded_bounty | Bad_stale_hours | Draw_refused draw_refusal

definition maintainer_run_draw :: "github \<Rightarrow> draw_fresh \<Rightarrow> string \<Rightarrow> string \<Rightarrow> bool \<Rightarrow> jsnum option \<Rightarrow> (maintainer_refusal + draw_outcome) agent_eff" where
  "maintainer_run_draw gh fr bountyId login simulate staleHours =
     then_do (read_state (canManageBounty gh bountyId login)) (\<lambda>may.
     case may of
       Inl e \<Rightarrow> return_ok (Inl (May_not e))
     | Inr _ \<Rightarrow>
         then_do (read_state (funded_bounty bountyId)) (\<lambda>is_funded.
         if is_funded then return_ok (Inl Funded_bounty)
         else if (case staleHours of None \<Rightarrow> False | Some h \<Rightarrow> h \<le> 0) then return_ok (Inl Bad_stale_hours)
         else then_do (runDrawFor fr bountyId \<lparr>do_triggeredBy = login, do_simulate = simulate, do_staleHours = staleHours, do_staleAt = None, do_requireWallet = False\<rparr>) (\<lambda>r.
           return_ok (case r of Inl e \<Rightarrow> Inl (Draw_refused e) | Inr out \<Rightarrow> Inr out))))"

end
