(* ===== verification/DrawSafety.thy ===== *)
theory DrawSafety
  imports DrawSweep ServiceFrames
begin

text \<open>
  What the draw service promises: who may enter a draw, what a draw decides and records, that a bounty whose
  window is due is given to somebody, and who the sweep releases.
\<close>

section \<open>Frames of the draw's statements\<close>

lemma leaves_draw_statements [leaves_intros]:
  "(\<And>s x. view (s\<lparr>db_applications := x\<rparr>) = view s) \<Longrightarrow> leaves view (upsert_application ni d i st why f)"
  "(\<And>s x. view (s\<lparr>db_draws := x\<rparr>) = view s) \<Longrightarrow> leaves view (insert_draw dr)"
  "(\<And>s x. view (s\<lparr>db_assignments := x\<rparr>) = view s) \<Longrightarrow> leaves view (insert_assignment a)"
  "(\<And>s x. view (s\<lparr>db_applications := x\<rparr>) = view s) \<Longrightarrow> leaves view (mark_drawn b u)"
  "(\<And>s x. view (s\<lparr>db_assignments := x\<rparr>) = view s) \<Longrightarrow> leaves view (release_by_decision k d say who)"
  "(\<And>s x. view (s\<lparr>db_applications := x\<rparr>) = view s) \<Longrightarrow> leaves view (back_in_pool b l)"
  by (auto simp: upsert_application_def insert_draw_def insert_assignment_def mark_drawn_def release_by_decision_def back_in_pool_def
      intro!: leaves_intros)

section \<open>What a draw decides\<close>

text \<open>A stored draw, drawn again from its seed and its pool.\<close>

definition replayed :: "draw_row \<Rightarrow> candidate option" where
  "replayed d = (if dw_pool d = [] then None
     else Some (dw_pool d ! nat (max 0 (pickWeighted (snd (rng_next (seededRng (dw_seed d)))) (map ca_tickets (dw_pool d))))))"

lemma runDraw_parts: "dr_pool (runDraw as cfg seed) = map (candidate_of cfg) as" "dr_seed (runDraw as cfg seed) = seed"
  by (simp_all add: runDraw_def Let_def)

lemma runDraw_replays: "replayed (draw_row_of k i (runDraw as cfg seed) sim cfg' who d) = dr_winner (runDraw as cfg seed)"
  by (simp add: replayed_def draw_row_of_def runDraw_parts) (simp add: runDraw_def Let_def max_def)

lemma runDraw_winner_in_pool:
  assumes "dr_winner (runDraw as cfg seed) = Some w"
  shows "w \<in> set (dr_pool (runDraw as cfg seed))"
proof -
  define p where "p = pickWeighted (snd (rng_next (seededRng seed))) (map ca_tickets (map (candidate_of cfg) as))"
  have "as \<noteq> []" using assms by (auto simp: runDraw_def Let_def)
  then have "nat p < length as"
    using pickWeighted_bound [of "map ca_tickets (map (candidate_of cfg) as)"] unfolding p_def by (metis length_greater_0_conv length_map list.map_disc_iff nat_less_iff nat_int zless_nat_eq_int_zless nat_0_iff linear)
  then show ?thesis using assms \<open>as \<noteq> []\<close> by (auto simp: runDraw_def Let_def p_def split: if_splits)
qed

lemma runDraw_someone: "as \<noteq> [] \<Longrightarrow> dr_winner (runDraw as cfg seed) \<noteq> None"
  by (simp add: runDraw_def Let_def)

lemma find_append: "find P (xs @ ys) = (case find P xs of None \<Rightarrow> find P ys | Some x \<Rightarrow> Some x)"
  by (induction xs) auto

lemma holder_of_new:
  assumes "holder_of i s = None" "db_assignments t = db_assignments s @ [a]" "an_bounty_id a = i" "holds a"
  shows "holder_of i t = Some a"
  using assms by (simp add: holder_of_def find_append)

lemma wp_insert_assignment:
  assumes "\<And>e. E e s" "an_id a \<notin> an_id ` set (db_assignments s) \<Longrightarrow> \<not> (holds a \<and> (\<exists>x \<in> set (db_assignments s). holds x \<and> an_bounty_id x = an_bounty_id a))
      \<Longrightarrow> Q () (s\<lparr>db_assignments := db_assignments s @ [a]\<rparr>)"
  shows "wp (insert_assignment a) Q E s"
  using assms by (auto simp: insert_assignment_def wp_simps)

lemma wp_assign_winner:
  assumes "\<And>t. db_draws t = db_draws s
      \<Longrightarrow> db_assignments t = db_assignments s @ [new_assignment k (bo_id b) (Some d) (ca_githubUserId w) (ca_githubLogin w) now stale] \<Longrightarrow> Q () t"
    and "\<And>e t. E e t"
  shows "wp (assign_winner now b d k stale pool w) Q E s"
  unfolding assign_winner_def Let_def
proof (rule wp_thenI, rule wp_insert_assignment, goal_cases)
  case 2
  show ?case
    by (rule wp_leaves [where view = "\<lambda>s. (db_draws s, db_assignments s)"]) (auto intro!: leaves_intros assms)
qed (rule assms(2))

lemma runDrawFor_drew:
  assumes "runDrawFor fr i opts s = (Inr (Inr out), t)"
  obtains b rows fell where "bounty_at i s = Some b" "do_simulate opts \<or> holder_of i s = None"
    "reserve_for_newcomers b s (draw_applicants b (do_requireWallet opts) s) = Some (rows, fell)"
    "drawn fr opts (config s) b fell (runDraw (map (applicant_of s) rows) (config s) (fr_seed fr)) s = (Inr out, t)"
  using assms
  by (auto simp: runDrawFor_def then_do_def read_state_def return_ok_def split: option.splits if_splits prod.splits sum.splits)

lemma reserved_rows: "reserve_for_newcomers b s all = Some (rows, fell) \<Longrightarrow> set rows \<subseteq> set all"
  by (auto simp: reserve_for_newcomers_def split: if_splits)

lemma bounty_at_id: "bounty_at i s = Some b \<Longrightarrow> bo_id b = i"
  by (auto simp: bounty_at_def dest: find_SomeD)

text \<open>
  C9. A draw that is no simulation takes only applicants who wait, are not the one kept out of it and, where one
  is needed, have a wallet, with the tickets of their own history; it is stored with its seed, its pool and
  the settings in force, from which the same winner is drawn again; and the bounty, which nobody held, is
  then held by that winner and nobody else, or by nobody when nobody could be drawn.
\<close>

theorem draw_is_replayable_and_assigns_its_winner:
  assumes "runDrawFor fr i opts s = (Inr (Inr out), t)" "\<not> do_simulate opts"
  shows "\<exists>b d. bounty_at i s = Some b \<and> holder_of i s = None
    \<and> db_draws t = db_draws s @ [d] \<and> dw_bounty_id d = i \<and> dw_seed d = fr_seed fr \<and> dw_config_snapshot d = config s
    \<and> replayed d = dx_winner out \<and> dw_winner d = map_option (\<lambda>c. (ca_githubUserId c, ca_githubLogin c)) (dx_winner out)
    \<and> (\<forall>c \<in> set (dw_pool d). \<exists>x \<in> set (db_applications s). al_bounty_id x = i
          \<and> may_be_drawn (bo_exclude_login_next_draw b) (do_requireWallet opts) s x \<and> c = candidate_of (config s) (applicant_of s x))
    \<and> (case dx_winner out of
         None \<Rightarrow> dw_pool d = [] \<and> db_assignments t = db_assignments s
       | Some w \<Rightarrow> w \<in> set (dw_pool d) \<and> (\<exists>a. db_assignments t = db_assignments s @ [a] \<and> holder_of i t = Some a \<and> an_status a = Active
           \<and> an_github_user_id a = ca_githubUserId w \<and> an_draw_id a = Some (dw_id d)))"
    (is "?P out t")
proof -
  have run: "wp (drawn fr opts cfg b fell (runDraw as cfg (fr_seed fr))) (\<lambda>out t. db_draws t = db_draws s @ [draw_row_of (fr_drawId fr) (bo_id b) (runDraw as cfg (fr_seed fr)) False cfg (do_triggeredBy opts) (fr_db_now fr)]
      \<and> dx_winner out = dr_winner (runDraw as cfg (fr_seed fr))
      \<and> db_assignments t = (case dr_winner (runDraw as cfg (fr_seed fr)) of None \<Rightarrow> db_assignments s
          | Some w \<Rightarrow> db_assignments s @ [new_assignment (fr_assignmentId fr) (bo_id b) (Some (fr_drawId fr)) (ca_githubUserId w) (ca_githubLogin w) (fr_now fr)
             (stale_time opts cfg (fr_now fr))])) (\<lambda>_ _. True) s" for as cfg b fell
    unfolding drawn_def Let_def insert_draw_def using assms(2)
    by (auto simp: wp_simps split: option.split intro!: wp_assign_winner)
  from assms(1) obtain b rows fell where b: "bounty_at i s = Some b" "do_simulate opts \<or> holder_of i s = None"
    "reserve_for_newcomers b s (draw_applicants b (do_requireWallet opts) s) = Some (rows, fell)"
    and ran: "drawn fr opts (config s) b fell (runDraw (map (applicant_of s) rows) (config s) (fr_seed fr)) s = (Inr out, t)"
    by (rule runDrawFor_drew)
  let ?as = "map (applicant_of s) rows"
  let ?d = "draw_row_of (fr_drawId fr) i (runDraw ?as (config s) (fr_seed fr)) False (config s) (do_triggeredBy opts) (fr_db_now fr)"
  have id: "bo_id b = i" by (rule bounty_at_id [OF b(1)])
  have held: "holder_of i s = None" using b(2) assms(2) by simp
  note out = wp_resultD(1) [OF run ran, unfolded id]
  have pool: "\<exists>x \<in> set (db_applications s). al_bounty_id x = i \<and> may_be_drawn (bo_exclude_login_next_draw b) (do_requireWallet opts) s x
      \<and> c = candidate_of (config s) (applicant_of s x)" if "c \<in> set (dw_pool ?d)" for c
    using that reserved_rows [OF b(3)] id
    by (auto simp: draw_row_of_def runDraw_parts draw_applicants_def applications_of_def)
  have assigned: "case dx_winner out of None \<Rightarrow> dw_pool ?d = [] \<and> db_assignments t = db_assignments s
      | Some w \<Rightarrow> w \<in> set (dw_pool ?d) \<and> (\<exists>a. db_assignments t = db_assignments s @ [a] \<and> holder_of i t = Some a \<and> an_status a = Active
          \<and> an_github_user_id a = ca_githubUserId w \<and> an_draw_id a = Some (dw_id ?d))"
  proof (cases "dx_winner out")
    case None
    then have "?as = []" using out runDraw_someone [of ?as "config s" "fr_seed fr"] by (cases "?as = []") auto
    then show ?thesis using None out by (simp add: draw_row_of_def runDraw_parts)
  next
    case (Some w)
    then have w: "dr_winner (runDraw ?as (config s) (fr_seed fr)) = Some w" using out by simp
    define a where "a = new_assignment (fr_assignmentId fr) i (Some (fr_drawId fr)) (ca_githubUserId w) (ca_githubLogin w) (fr_now fr) (stale_time opts (config s) (fr_now fr))"
    have "db_assignments t = db_assignments s @ [a]" using out w by (simp add: a_def)
    moreover have "holder_of i t = Some a"
      by (rule holder_of_new [OF held calculation]) (simp_all add: a_def new_assignment_def holds_def)
    ultimately show ?thesis using Some runDraw_winner_in_pool [OF w] by (auto simp: draw_row_of_def a_def new_assignment_def)
  qed
  have "replayed ?d = dx_winner out" using out by (simp only: runDraw_replays)
  moreover have "dw_winner ?d = map_option (\<lambda>c. (ca_githubUserId c, ca_githubLogin c)) (dx_winner out)" "dw_bounty_id ?d = i" "dw_seed ?d = fr_seed fr"
    "dw_config_snapshot ?d = config s" "db_draws t = db_draws s @ [?d]"
    using out by (simp_all add: draw_row_of_def winner_of_def runDraw_parts)
  ultimately have "dw_winner ?d = map_option (\<lambda>c. (ca_githubUserId c, ca_githubLogin c)) (dx_winner out)" "dw_bounty_id ?d = i" "dw_seed ?d = fr_seed fr"
    "dw_config_snapshot ?d = config s" "replayed ?d = dx_winner out" "db_draws t = db_draws s @ [?d]" by blast+
  with b(1) held pool assigned show ?thesis by blast
qed

section \<open>A draw with an applicant ends with a holder\<close>

lemma returned: "wp m Q (\<lambda>_ _. False) s \<Longrightarrow> \<exists>a t. m s = (Inr a, t) \<and> Q a t"
  by (auto simp: wp_def split: prod.splits sum.splits)

lemma enqueue_returns: "wp (enqueueEvent e) Q E s \<longleftrightarrow> (if \<exists>x \<in> set (db_events s). ev_dedupeKey x = ev_dedupeKey e then Q False s
    else Q True (s\<lparr>db_events := db_events s @ [e]\<rparr>))"
  by (simp add: wp_def enqueueEvent_def)

lemma losers_told:
  assumes "\<And>t. db_assignments t = db_assignments s \<Longrightarrow> db_draws t = db_draws s \<Longrightarrow> Q () t"
  shows "wp (for_each (\<lambda>c. then_do (enqueueEvent (f c)) (\<lambda>_. return_ok ())) cs) Q (\<lambda>_ _. False) s"
  using assms by (induction cs arbitrary: s) (auto simp: wp_simps enqueue_returns)

lemma holder_none: "holder_of i s = None \<longleftrightarrow> (\<forall>a \<in> set (db_assignments s). \<not> (an_bounty_id a = i \<and> holds a))"
  by (auto simp: holder_of_def find_None_iff)

lemma assign_winner_returns:
  assumes "holder_of (bo_id b) s = None" "k \<notin> an_id ` set (db_assignments s)"
  shows "wp (assign_winner now b d k stale pool w) (\<lambda>_ t. db_draws t = db_draws s
      \<and> db_assignments t = db_assignments s @ [new_assignment k (bo_id b) (Some d) (ca_githubUserId w) (ca_githubLogin w) now stale]) (\<lambda>_ _. False) s"
proof -
  let ?a = "new_assignment k (bo_id b) (Some d) (ca_githubUserId w) (ca_githubLogin w) now stale"
  have "\<not> (\<exists>x \<in> set (db_assignments s). holds x \<and> an_bounty_id x = an_bounty_id ?a)" "an_id ?a = k"
    using assms(1) by (auto simp: holder_none new_assignment_def)
  then show ?thesis
    using assms(2)
    by (auto simp: assign_winner_def Let_def insert_assignment_def wp_simps update_bounty_def mark_drawn_def enqueue_returns intro!: losers_told)
qed

lemma runDrawFor_returns:
  assumes "bounty_at i s = Some b" "holder_of i s = None" "\<not> do_simulate opts"
    and "reserve_for_newcomers b s (draw_applicants b (do_requireWallet opts) s) = Some (rows, fell)" "rows \<noteq> []"
    and "fr_drawId fr \<notin> dw_id ` set (db_draws s)" "fr_assignmentId fr \<notin> an_id ` set (db_assignments s)"
  shows "\<exists>out t a. runDrawFor fr i opts s = (Inr (Inr out), t) \<and> holder_of i t = Some a \<and> an_status a = Active
    \<and> (\<exists>x \<in> set rows. an_github_user_id a = al_github_user_id x) \<and> db_draws t \<noteq> db_draws s"
proof -
  let ?r = "runDraw (map (applicant_of s) rows) (config s) (fr_seed fr)"
  obtain w where w: "dr_winner ?r = Some w"
    using runDraw_someone [of "map (applicant_of s) rows" "config s" "fr_seed fr"] assms(5) by auto
  have id: "bo_id b = i" by (rule bounty_at_id [OF assms(1)])
  define a where "a = new_assignment (fr_assignmentId fr) i (Some (fr_drawId fr)) (ca_githubUserId w) (ca_githubLogin w) (fr_now fr) (stale_time opts (config s) (fr_now fr))"
  have "w \<in> set (map (candidate_of (config s)) (map (applicant_of s) rows))"
    using runDraw_winner_in_pool [OF w] by (simp add: runDraw_parts)
  then obtain x where "x \<in> set rows" "w = candidate_of (config s) (applicant_of s x)" by auto
  then have u: "\<exists>x \<in> set rows. an_github_user_id a = al_github_user_id x"
    by (auto simp: a_def new_assignment_def candidate_of_def applicant_of_def Let_def split: prod.split)
  have start: "wp (assign_winner (fr_now fr) b (fr_drawId fr) (fr_assignmentId fr) (stale_time opts (config s) (fr_now fr)) (dr_pool ?r) w)
      (\<lambda>_ t. db_draws t = db_draws s @ [dr] \<and> db_assignments t = db_assignments s @ [a]) (\<lambda>_ _. False) (s\<lparr>db_draws := db_draws s @ [dr]\<rparr>)" for dr
    using assign_winner_returns [of b "s\<lparr>db_draws := db_draws s @ [dr]\<rparr>" "fr_assignmentId fr"] assms(2,7) id
    by (simp add: a_def holder_of_def)
  have "wp (runDrawFor fr i opts) (\<lambda>r t. (\<exists>out. r = Inr out) \<and> db_draws t \<noteq> db_draws s \<and> db_assignments t = db_assignments s @ [a]) (\<lambda>_ _. False) s"
    using assms(1-4,6) w
    by (auto simp: runDrawFor_def drawn_def Let_def insert_draw_def wp_simps draw_row_of_def intro!: wp_mono [OF start])
  from returned [OF this] obtain out t where t: "runDrawFor fr i opts s = (Inr (Inr out), t)" "db_draws t \<noteq> db_draws s"
    "db_assignments t = db_assignments s @ [a]" by blast
  have "holder_of i t = Some a" by (rule holder_of_new [OF assms(2) t(3)]) (simp_all add: a_def new_assignment_def holds_def)
  moreover have "an_status a = Active" by (simp add: a_def new_assignment_def)
  ultimately show ?thesis using t u by blast
qed

text \<open>
  C13. A bounty whose window is due is given to somebody: when one of those who wait may be drawn and the
  reservation for newcomers leaves somebody, closing the window draws it, and it is then held, by one of them.
\<close>

theorem due_window_finds_a_holder:
  assumes "due now s b" "bounty_at (bo_id b) s = Some b"
    and "reserve_for_newcomers b s (draw_applicants b False s) = Some (rows, fell)" "rows \<noteq> []"
    and "ids (bo_id b) = (seed, drawId, assignmentId)" "drawId \<notin> dw_id ` set (db_draws s)" "assignmentId \<notin> an_id ` set (db_assignments s)"
  shows "\<exists>t a. close_window now db_now cfg ids b s = (Inr [Window_drawn (bo_id b)], t) \<and> holder_of (bo_id b) t = Some a
    \<and> an_status a = Active \<and> (\<exists>x \<in> set rows. an_github_user_id a = al_github_user_id x)"
proof -
  have free: "holder_of (bo_id b) s = None" using assms(1) by (simp add: due_def)
  have "set rows \<subseteq> set (filter waiting (applications_of (bo_id b) s))"
    using reserved_rows [OF assms(3)] by (auto simp: draw_applicants_def may_be_drawn_def)
  then have pool: "filter waiting (applications_of (bo_id b) s) \<noteq> []" using assms(4) by fastforce
  let ?fr = "\<lparr>fr_now = now, fr_db_now = db_now, fr_seed = seed, fr_drawId = drawId, fr_assignmentId = assignmentId\<rparr>"
  from runDrawFor_returns [of "bo_id b" s b automatic rows fell ?fr] assms(2-7) free
  obtain out t a where r: "runDrawFor ?fr (bo_id b) automatic s = (Inr (Inr out), t)" "holder_of (bo_id b) t = Some a"
    "an_status a = Active" "\<exists>x \<in> set rows. an_github_user_id a = al_github_user_id x"
    by (auto simp: automatic_def)
  let ?t = "snd (update_bounty (bo_id b) (\<lambda>x. x\<lparr>bo_auto_draw_ran_at := Some db_now\<rparr>) t)"
  have "close_window now db_now cfg ids b s = (Inr [Window_drawn (bo_id b)], ?t)" "holder_of (bo_id b) ?t = holder_of (bo_id b) t"
    using r(1) pool assms(5) by (simp_all add: close_window_def then_do_def read_state_def return_ok_def update_bounty_def modify_def holder_of_def)
  with r show ?thesis by auto
qed

section \<open>Witnesses\<close>

definition demo_open_bounty :: bounty_row where
  "demo_open_bounty = \<lparr>bo_id = ''b'', bo_repo_id = 0, bo_issue_number = 7, bo_issue_title = ''t'', bo_amount_minor = 5, bo_currency = ''USDC'',
     bo_mint = ''m'', bo_network = ''solana-devnet'', bo_status = Posted, bo_price_call_id = None, bo_pricing = None, bo_comment_id = None,
     bo_created_by = ''me'', bo_is_test = False, bo_waived_eligibility_rules = [], bo_reserved_for_newcomers = False, bo_funded_by = None,
     bo_funded_by_github_user_id = None, bo_applications_open_at = None, bo_applications_close_at = Some 5, bo_window_extensions = 0,
     bo_exclude_login_next_draw = None, bo_awaiting_redraw = False, bo_auto_draw_ran_at = None\<rparr>"

definition demo_application :: "string \<Rightarrow> int \<Rightarrow> string \<Rightarrow> application_row" where
  "demo_application i u login = \<lparr>al_id = i, al_bounty_id = ''b'', al_github_user_id = u, al_github_login = login, al_status = App_applied,
     al_gate_failure_reason = None, al_fit = None, al_difficulty_match = None, al_fit_evidence = None, al_fit_concerns = [], al_fit_call_id = None,
     al_application_text = None, al_created_at = 0\<rparr>"

definition demo_waiting_db :: agent_db where
  "demo_waiting_db = empty_agent_db\<lparr>
     db_repos := [\<lparr>ro_id = 0, ro_owner = ''o'', ro_name = ''r'', ro_installation_id = 1, ro_enabled = True, ro_bounties_enabled = True,
       ro_registered_project = True\<rparr>],
     db_bounties := [demo_open_bounty], db_applications := [demo_application ''x'' 1 ''ann'', demo_application ''y'' 2 ''bob'']\<rparr>"

definition demo_fresh :: draw_fresh where
  "demo_fresh = \<lparr>fr_now = 10, fr_db_now = 10, fr_seed = 1, fr_drawId = ''d'', fr_assignmentId = ''a''\<rparr>"

lemma demo_waiting:
  "bounty_at ''b'' demo_waiting_db = Some demo_open_bounty" "holder_of ''b'' demo_waiting_db = None" "due 10 demo_waiting_db demo_open_bounty"
  "reserve_for_newcomers demo_open_bounty demo_waiting_db (draw_applicants demo_open_bounty False demo_waiting_db)
     = Some ([demo_application ''x'' 1 ''ann'', demo_application ''y'' 2 ''bob''], False)"
  "db_draws demo_waiting_db = []" "db_assignments demo_waiting_db = []" "bo_id demo_open_bounty = ''b''"
  by code_simp+

lemma demo_drawn:
  "\<exists>out t a. runDrawFor demo_fresh ''b'' automatic demo_waiting_db = (Inr (Inr out), t) \<and> holder_of ''b'' t = Some a \<and> an_status a = Active"
proof -
  have "\<not> do_simulate automatic" "do_requireWallet automatic = False" by (simp_all add: automatic_def)
  then show ?thesis
    using runDrawFor_returns [OF demo_waiting(1,2), of automatic _ False demo_fresh] demo_waiting(4-6) by (auto simp: demo_fresh_def)
qed

theorem draw_is_replayable_and_assigns_its_winner_witness:
  "\<exists>out t d. runDrawFor demo_fresh ''b'' automatic demo_waiting_db = (Inr (Inr out), t) \<and> db_draws t = [d]
     \<and> replayed d = dx_winner out \<and> dx_winner out \<noteq> None"
proof -
  obtain out t a where r: "runDrawFor demo_fresh ''b'' automatic demo_waiting_db = (Inr (Inr out), t)" "holder_of ''b'' t = Some a"
    using demo_drawn by blast
  have "\<not> do_simulate automatic" by (simp add: automatic_def)
  from draw_is_replayable_and_assigns_its_winner [OF r(1) this] obtain d where d: "db_draws t = [d]" "replayed d = dx_winner out"
    "dx_winner out = None \<Longrightarrow> db_assignments t = []"
    by (auto simp: demo_waiting split: option.splits)
  then have "dx_winner out \<noteq> None" using r(2) by (cases "dx_winner out") (auto simp: holder_of_def)
  with r(1) d show ?thesis by blast
qed

theorem due_window_finds_a_holder_witness:
  "\<exists>t a. close_window 10 10 Map.empty (\<lambda>_. (1, ''d'', ''a'')) demo_open_bounty demo_waiting_db = (Inr [Window_drawn ''b''], t)
     \<and> holder_of ''b'' t = Some a"
  using due_window_finds_a_holder [of 10 demo_waiting_db demo_open_bounty _ False "\<lambda>_. (1, ''d'', ''a'')" 1 "''d''" "''a''" 10 Map.empty]
  by (auto simp: demo_waiting)

end
