(* ===== verification/EscrowService.thy ===== *)
theory EscrowService
  imports Applications EscrowIx
begin

text \<open>
  apps/agent/src/escrow-service.ts: \<open>quote\<close> and the operations of \<open>EscrowService\<close>. What the chain
  answers - an account's bytes, the latest blockhash -, the token-account derivation of the SPL library and
  what base58 decodes to are arguments; a transaction is the instruction it carries, who pays for it and its
  blockhash. The JSON detail of an event keeps the reason only.
\<close>

section \<open>The quote\<close>

record quote_terms =
  qt_amountMinor :: bigint
  qt_feeBps :: int
  qt_feeMinimumMinor :: bigint
  qt_feeAmountMinor :: bigint
  qt_totalMinor :: bigint
  qt_effectiveRate :: jsnum
  qt_flooredByMinimum :: bool

text \<open>BigInt division truncates; what is divided here is not negative.\<close>

definition fee_of :: "bigint \<Rightarrow> int \<Rightarrow> bigint" where
  "fee_of amountMinor feeBps = (amountMinor * feeBps + 9999) div 10000"

definition escrow_quote :: "bigint \<Rightarrow> int \<Rightarrow> bigint \<Rightarrow> quote_terms agent_eff" where
  "escrow_quote amountMinor feeBps feeMinimumMinor =
     (if amountMinor \<le> 0 then throw Amount_not_positive
      else let pct = fee_of amountMinor feeBps; fee = (if pct > feeMinimumMinor then pct else feeMinimumMinor) in
        return_ok \<lparr>qt_amountMinor = amountMinor, qt_feeBps = feeBps, qt_feeMinimumMinor = feeMinimumMinor, qt_feeAmountMinor = fee,
          qt_totalMinor = amountMinor + fee, qt_effectiveRate = of_int fee / of_int amountMinor, qt_flooredByMinimum = (fee > pct)\<rparr>)"

section \<open>What the service is given\<close>

record escrow_deps =
  ed_env :: escrow_env
  ed_attestor :: bytes
  ed_feeDestination :: bytes
  ed_network :: string
  ed_mints :: "string \<rightharpoonup> agent_mint"
  ed_testers :: "string list"

text \<open>What the chain and its libraries answer during one operation.\<close>

record chain =
  ch_account :: "bytes \<Rightarrow> string + bytes option"
  ch_blockhash :: "string + string"
  ch_token_account :: "bytes \<Rightarrow> bytes \<Rightarrow> string + bytes"   \<comment> \<open>mint, owner\<close>

definition ask_chain :: "string + 'a \<Rightarrow> 'a agent_eff" where
  "ask_chain r = lift_sum (case r of Inl e \<Rightarrow> Inl (Chain_error e) | Inr a \<Rightarrow> Inr a)"

definition public_key :: "platform \<Rightarrow> string \<Rightarrow> bytes agent_eff" where
  "public_key P s = (case b58_decode P s of
     Some b \<Rightarrow> if length b = 32 then return_ok b else throw (Bad_public_key s)
   | None \<Rightarrow> throw (Bad_public_key s))"

definition escrow_enabled :: "agent_db \<Rightarrow> bool" where
  "escrow_enabled s = boolOf (overrides s ''funded_bounties_enabled'') False"

definition enabledFor :: "escrow_deps \<Rightarrow> string \<Rightarrow> agent_db \<Rightarrow> bool" where
  "enabledFor E login s \<longleftrightarrow> escrow_enabled s \<or> (\<exists>t \<in> set (ed_testers E). to_lower t = to_lower login)"

definition readChain :: "platform \<Rightarrow> chain \<Rightarrow> string \<Rightarrow> escrow_account option agent_eff" where
  "readChain P ch escrowPubkey =
     then_do (public_key P escrowPubkey) (\<lambda>k.
     then_do (ask_chain (ch_account ch k)) (\<lambda>info.
     case info of
       None \<Rightarrow> return_ok None
     | Some d \<Rightarrow> (case decodeEscrow d of None \<Rightarrow> throw Account_unreadable | Some e \<Rightarrow> return_ok (Some e))))"

section \<open>Transactions for the funder to sign\<close>

record unsigned_tx =
  ux_instruction :: instruction
  ux_feePayer :: bytes
  ux_blockhash :: string

definition unsigned_for :: "chain \<Rightarrow> instruction \<Rightarrow> bytes \<Rightarrow> unsigned_tx agent_eff" where
  "unsigned_for ch ix payer =
     then_do (ask_chain (ch_blockhash ch)) (\<lambda>h. return_ok \<lparr>ux_instruction = ix, ux_feePayer = payer, ux_blockhash = h\<rparr>)"

definition funderAssignTransaction :: "platform \<Rightarrow> escrow_deps \<Rightarrow> chain \<Rightarrow> string \<Rightarrow> string \<Rightarrow> string \<Rightarrow> unsigned_tx agent_eff" where
  "funderAssignTransaction P E ch escrowPubkey funderWallet contributorWallet =
     then_do (public_key P funderWallet) (\<lambda>funder.
     then_do (public_key P escrowPubkey) (\<lambda>escrow.
     then_do (public_key P contributorWallet) (\<lambda>contributor.
     unsigned_for ch (ixAssign (ed_env E) funder escrow contributor) funder)))"

definition funderUnassignTransaction :: "platform \<Rightarrow> escrow_deps \<Rightarrow> chain \<Rightarrow> string \<Rightarrow> string \<Rightarrow> unsigned_tx agent_eff" where
  "funderUnassignTransaction P E ch escrowPubkey funderWallet =
     then_do (public_key P funderWallet) (\<lambda>funder.
     then_do (public_key P escrowPubkey) (\<lambda>escrow.
     unsigned_for ch (ixUnassign (ed_env E) funder escrow) funder))"

datatype reclaim_kind = Reclaim_cancel | Reclaim_refund

definition funderReclaimTransaction :: "platform \<Rightarrow> escrow_deps \<Rightarrow> chain \<Rightarrow> string \<Rightarrow> reclaim_kind \<Rightarrow> unsigned_tx agent_eff" where
  "funderReclaimTransaction P E ch escrowPubkey what_kind =
     then_do (readChain P ch escrowPubkey) (\<lambda>acc.
     case acc of
       None \<Rightarrow> throw (Chain_error ''the escrow is not on-chain'')
     | Some e \<Rightarrow>
         then_do (public_key P escrowPubkey) (\<lambda>escrow.
         then_do (ask_chain (ch_token_account ch (es_mint e) (es_funder e))) (\<lambda>funderToken.
         let args = \<lparr>rf_funder = es_funder e, rf_escrow = escrow, rf_vault = fst (vaultPda (ed_env E) escrow), rf_funderToken = funderToken,
               rf_mint = es_mint e\<rparr> in
         unsigned_for ch (case what_kind of Reclaim_cancel \<Rightarrow> ixCancel (ed_env E) args | Reclaim_refund \<Rightarrow> ixRefund (ed_env E) args) (es_funder e))))"

section \<open>The mirror of the chain\<close>

definition escrow_row_of :: "string \<Rightarrow> agent_db \<Rightarrow> escrow_row option" where
  "escrow_row_of bountyId s = find (\<lambda>e. ew_bounty_id e = bountyId) (db_escrows s)"

definition escrow_event :: "time_ms \<Rightarrow> string \<Rightarrow> string \<Rightarrow> string option \<Rightarrow> string option \<Rightarrow> unit agent_eff" where
  "escrow_event db_now escrowId what_kind tx reason =
     modify (\<lambda>s. s\<lparr>db_escrow_events := db_escrow_events s
       @ [\<lparr>ee_escrow_id = escrowId, ee_kind = what_kind, ee_tx = tx, ee_reason = reason, ee_created_at = db_now\<rparr>]\<rparr>)"

text \<open>UPDATE bounty_escrows ... WHERE bounty_id = $1 RETURNING id, and the event when there was one.\<close>

definition record_escrow :: "time_ms \<Rightarrow> string \<Rightarrow> (escrow_row \<Rightarrow> escrow_row) \<Rightarrow> string \<Rightarrow> string option \<Rightarrow> unit agent_eff" where
  "record_escrow db_now bountyId f what_kind tx =
     then_do (read_state (escrow_row_of bountyId)) (\<lambda>row.
     then_do (modify (\<lambda>s. s\<lparr>db_escrows := update_where (\<lambda>e. ew_bounty_id e = bountyId) f (db_escrows s)\<rparr>)) (\<lambda>_.
     case row of None \<Rightarrow> return_ok () | Some e \<Rightarrow> escrow_event db_now (ew_id e) what_kind tx None))"

definition recordAssigned :: "time_ms \<Rightarrow> string \<Rightarrow> string \<Rightarrow> string option \<Rightarrow> unit agent_eff" where
  "recordAssigned db_now bountyId wallet tx =
     record_escrow db_now bountyId (\<lambda>e. e\<lparr>ew_state := ''assigned'', ew_contributor_wallet := Some wallet, ew_assign_tx := tx\<rparr>) ''assigned'' tx"

definition recordUnassigned :: "time_ms \<Rightarrow> string \<Rightarrow> string option \<Rightarrow> unit agent_eff" where
  "recordUnassigned db_now bountyId tx =
     record_escrow db_now bountyId (\<lambda>e. e\<lparr>ew_state := ''funded'', ew_contributor_wallet := None\<rparr>) ''unassigned'' tx"

definition recordClosed :: "time_ms \<Rightarrow> string \<Rightarrow> string \<Rightarrow> unit agent_eff" where
  "recordClosed db_now bountyId st = record_escrow db_now bountyId (\<lambda>e. e\<lparr>ew_state := st\<rparr>) st None"

section \<open>Preparing and confirming the funding\<close>

text \<open>The settings are whole numbers, as \<open>parseInt\<close> reads them.\<close>

definition quoteFor :: "bigint \<Rightarrow> quote_terms agent_eff" where
  "quoteFor amountMinor =
     then_do (read_state (\<lambda>s. (\<lfloor>intOf (overrides s ''funded_bounty_fee_bps'') 250\<rfloor>, \<lfloor>intOf (overrides s ''funded_bounty_fee_minimum_minor'') 250000\<rfloor>)))
       (\<lambda>(bps, least). escrow_quote amountMinor bps least)"

definition hex_value :: "char \<Rightarrow> nat option" where
  "hex_value c = (if is_lower_hex c then Some (if is_digit c then code c - 48 else code c - 87)
     else if 65 \<le> code c \<and> code c \<le> 70 then Some (code c - 55) else None)"

fun hex_bytes :: "string \<Rightarrow> bytes" where
  "hex_bytes (a # b # s) =
     (case (hex_value a, hex_value b) of (Some x, Some y) \<Rightarrow> char_of (16 * x + y) # hex_bytes s | _ \<Rightarrow> [])"
| "hex_bytes _ = []"

definition bounty_id_bytes :: "string \<Rightarrow> bytes" where
  "bounty_id_bytes i = hex_bytes (filter (\<lambda>c. c \<noteq> CHR ''-'') i)"

record funding_input =
  fi_bountyId :: string
  fi_funderWallet :: string
  fi_mint :: string
  fi_currency :: string
  fi_network :: string
  fi_amountMinor :: bigint
  fi_deadline :: time_ms
  fi_mode :: assignment_mode
  fi_createdBy :: string

datatype escrow_fail = Escrow_funding_disabled | Escrow_exists string | Escrow_deadline_past | Bad_bounty_id
  | No_escrow | Not_awaiting_funding string | Escrow_not_on_chain | Terms_mismatch

record funding_prepared =
  fp_escrow :: string
  fp_vault :: string
  fp_quote :: quote_terms
  fp_transaction :: unsigned_tx

definition insert_escrow :: "escrow_row \<Rightarrow> unit agent_eff" where
  "insert_escrow e =
     then_do (ensure (\<lambda>s. ew_id e \<notin> ew_id ` set (db_escrows s)) (Db_error (Unique_violation ''bounty_escrows_pkey''))) (\<lambda>_.
     then_do (ensure (\<lambda>s. ew_bounty_id e \<notin> ew_bounty_id ` set (db_escrows s)) (Db_error (Unique_violation ''bounty_escrows_bounty_id_key''))) (\<lambda>_.
     then_do (ensure (\<lambda>s. ew_escrow_pubkey e \<notin> ew_escrow_pubkey ` set (db_escrows s)) (Db_error (Unique_violation ''bounty_escrows_escrow_pubkey_key''))) (\<lambda>_.
     then_do (ensure (\<lambda>_. 0 < ew_amount_minor e \<and> 0 \<le> ew_fee_bps e \<and> ew_fee_bps e \<le> 1000 \<and> 0 \<le> ew_fee_amount_minor e)
       (Db_error (Check_violation ''bounty_escrows_check''))) (\<lambda>_.
     modify (\<lambda>s. s\<lparr>db_escrows := db_escrows s @ [e]\<rparr>)))))"

text \<open>DELETE FROM bounty_escrows, with its events.\<close>

definition delete_escrow :: "string \<Rightarrow> unit agent_eff" where
  "delete_escrow i = modify (\<lambda>s. s\<lparr>db_escrows := filter (\<lambda>e. ew_id e \<noteq> i) (db_escrows s),
     db_escrow_events := filter (\<lambda>x. ee_escrow_id x \<noteq> i) (db_escrow_events s)\<rparr>)"

definition new_escrow :: "platform \<Rightarrow> string \<Rightarrow> funding_input \<Rightarrow> quote_terms \<Rightarrow> bytes \<Rightarrow> bytes \<Rightarrow> escrow_row" where
  "new_escrow P i inp q escrow vault =
     \<lparr>ew_id = i, ew_bounty_id = fi_bountyId inp, ew_escrow_pubkey = b58_encode P escrow, ew_vault_pubkey = b58_encode P vault,
      ew_funder_wallet = fi_funderWallet inp, ew_contributor_wallet = None, ew_mint = fi_mint inp, ew_currency = fi_currency inp,
      ew_network = fi_network inp, ew_amount_minor = qt_amountMinor q, ew_fee_bps = qt_feeBps q, ew_fee_minimum_minor = qt_feeMinimumMinor q,
      ew_fee_amount_minor = qt_feeAmountMinor q, ew_assignment_mode = fi_mode inp, ew_state = ''funding'', ew_deadline_at = fi_deadline inp,
      ew_fund_tx = None, ew_assign_tx = None, ew_release_tx = None, ew_created_by = fi_createdBy inp, ew_last_error = None\<rparr>"

text \<open>The initialisation the funder is given to sign.\<close>

definition init_args_of :: "escrow_deps \<Rightarrow> funding_input \<Rightarrow> quote_terms \<Rightarrow> bytes \<Rightarrow> bytes \<Rightarrow> bytes \<Rightarrow> bytes \<Rightarrow> init_args" where
  "init_args_of E inp q bytes_of_id funder mint funderToken =
     (let escrow = fst (escrowPda (ed_env E) bytes_of_id) in
      \<lparr>ia_funder = funder, ia_escrow = escrow, ia_vault = fst (vaultPda (ed_env E) escrow), ia_funderToken = funderToken, ia_mint = mint,
       ia_feeDestination = ed_feeDestination E, ia_attestor = ed_attestor E, ia_bountyId = bytes_of_id, ia_amount = qt_amountMinor q,
       ia_feeBps = qt_feeBps q, ia_feeMinimum = qt_feeMinimumMinor q, ia_deadline = fi_deadline inp div 1000,
       ia_mode = (if fi_mode inp = Mode_draw then MODE_DRAW else MODE_SELF)\<rparr>)"

text \<open>A funding prepared and never signed makes way for a new one.\<close>

definition clear_unsigned :: "platform \<Rightarrow> chain \<Rightarrow> string \<Rightarrow> escrow_fail option agent_eff" where
  "clear_unsigned P ch bountyId =
     then_do (read_state (escrow_row_of bountyId)) (\<lambda>row.
     case row of
       None \<Rightarrow> return_ok None
     | Some e \<Rightarrow>
         if ew_state e \<noteq> ''funding'' then return_ok (Some (Escrow_exists (ew_state e)))
         else then_do (readChain P ch (ew_escrow_pubkey e)) (\<lambda>acc.
           if acc \<noteq> None then return_ok (Some (Escrow_exists (ew_state e)))
           else then_do (delete_escrow (ew_id e)) (\<lambda>_. return_ok None)))"

definition prepare_new :: "platform \<Rightarrow> escrow_deps \<Rightarrow> chain \<Rightarrow> string \<Rightarrow> funding_input \<Rightarrow> (escrow_fail + funding_prepared) agent_eff" where
  "prepare_new P E ch newId inp =
     then_do (quoteFor (fi_amountMinor inp)) (\<lambda>q.
     let i = bounty_id_bytes (fi_bountyId inp) in
     if length i \<noteq> 16 then return_ok (Inl Bad_bounty_id)
     else then_do (public_key P (fi_funderWallet inp)) (\<lambda>funder.
       then_do (public_key P (fi_mint inp)) (\<lambda>mint.
       then_do (ask_chain (ch_token_account ch mint funder)) (\<lambda>funderToken.
       let args = init_args_of E inp q i funder mint funderToken in
       case ixInitialize (ed_env E) args of
         None \<Rightarrow> throw Field_out_of_range
       | Some ix \<Rightarrow>
           then_do (unsigned_for ch ix funder) (\<lambda>tx.
           then_do (insert_escrow (new_escrow P newId inp q (ia_escrow args) (ia_vault args))) (\<lambda>_.
           return_ok (Inr \<lparr>fp_escrow = b58_encode P (ia_escrow args), fp_vault = b58_encode P (ia_vault args), fp_quote = q, fp_transaction = tx\<rparr>)))))))"

definition prepareFunding :: "platform \<Rightarrow> escrow_deps \<Rightarrow> chain \<Rightarrow> time_ms \<Rightarrow> string \<Rightarrow> funding_input \<Rightarrow> (escrow_fail + funding_prepared) agent_eff" where
  "prepareFunding P E ch now newId inp =
     then_do (read_state (enabledFor E (fi_createdBy inp))) (\<lambda>may.
     if \<not> may then return_ok (Inl Escrow_funding_disabled)
     else then_do (clear_unsigned P ch (fi_bountyId inp)) (\<lambda>stop.
     case stop of
       Some e \<Rightarrow> return_ok (Inl e)
     | None \<Rightarrow> if fi_deadline inp \<le> now then return_ok (Inl Escrow_deadline_past) else prepare_new P E ch newId inp))"

definition set_escrow :: "string \<Rightarrow> (escrow_row \<Rightarrow> escrow_row) \<Rightarrow> unit agent_eff" where
  "set_escrow i f = modify (\<lambda>s. s\<lparr>db_escrows := update_where (\<lambda>e. ew_id e = i) f (db_escrows s)\<rparr>)"

definition confirmFunding :: "platform \<Rightarrow> chain \<Rightarrow> time_ms \<Rightarrow> string \<Rightarrow> string option \<Rightarrow> (escrow_fail + string) agent_eff" where
  "confirmFunding P ch db_now bountyId signature =
     then_do (read_state (escrow_row_of bountyId)) (\<lambda>row.
     case row of
       None \<Rightarrow> return_ok (Inl No_escrow)
     | Some e \<Rightarrow>
         if ew_state e \<noteq> ''funding'' then return_ok (Inl (Not_awaiting_funding (ew_state e)))
         else then_do (readChain P ch (ew_escrow_pubkey e)) (\<lambda>acc.
         case acc of
           None \<Rightarrow> return_ok (Inl Escrow_not_on_chain)
         | Some onChain \<Rightarrow>
             if es_amount onChain \<noteq> ew_amount_minor e \<or> es_feeAmount onChain \<noteq> ew_fee_amount_minor e
             then then_do (set_escrow (ew_id e) (\<lambda>x. x\<lparr>ew_state := ''failed'', ew_last_error := Some (''on-chain terms differ from the quote: amount '' @ show_int (es_amount onChain)
               @ '' fee '' @ show_int (es_feeAmount onChain))\<rparr>)) (\<lambda>_.
               return_ok (Inl Terms_mismatch))
             else then_do (set_escrow (ew_id e) (\<lambda>x. x\<lparr>ew_state := ''funded'', ew_fund_tx := signature\<rparr>)) (\<lambda>_.
               then_do (escrow_event db_now (ew_id e) ''funded'' signature None) (\<lambda>_.
               return_ok (Inr (ew_escrow_pubkey e))))))"

section \<open>What the pages read\<close>

definition all_escrows :: "agent_db \<Rightarrow> (escrow_row \<times> int \<times> string) list" where
  "all_escrows s = concat (map (\<lambda>e. case bounty_and_repo (ew_bounty_id e) s of None \<Rightarrow> [] | Some (b, r) \<Rightarrow> [(e, bo_issue_number b, repo_full r)])
     (rev (db_escrows s)))"

definition escrow_detail :: "string \<Rightarrow> agent_db \<Rightarrow> (escrow_row \<times> escrow_event_row list) option" where
  "escrow_detail bountyId s = map_option (\<lambda>e. (e, filter (\<lambda>x. ee_escrow_id x = ew_id e) (db_escrow_events s))) (escrow_row_of bountyId s)"

text \<open>The attestor's own instructions.\<close>

definition assignInstruction :: "platform \<Rightarrow> escrow_deps \<Rightarrow> string \<Rightarrow> string \<Rightarrow> instruction agent_eff" where
  "assignInstruction P E escrowPubkey contributorWallet =
     then_do (public_key P escrowPubkey) (\<lambda>escrow. then_do (public_key P contributorWallet) (\<lambda>c.
     return_ok (ixAssign (ed_env E) (ed_attestor E) escrow c)))"

definition unassignInstruction :: "platform \<Rightarrow> escrow_deps \<Rightarrow> string \<Rightarrow> instruction agent_eff" where
  "unassignInstruction P E escrowPubkey =
     then_do (public_key P escrowPubkey) (\<lambda>escrow. return_ok (ixUnassign (ed_env E) (ed_attestor E) escrow))"

section \<open>What the quote and the confirmation promise\<close>

text \<open>The contributor's amount is not touched, the fee comes on top and covers both the percentage and the minimum, and is no larger than it must be.\<close>

lemma quoted:
  assumes "escrow_quote a bps least s = (Inr q, t)" "0 \<le> bps"
  shows "t = s" "qt_amountMinor q = a" "qt_totalMinor q = a + qt_feeAmountMinor q" "least \<le> qt_feeAmountMinor q"
    "a * bps \<le> 10000 * qt_feeAmountMinor q" "qt_feeAmountMinor q = least \<or> 10000 * qt_feeAmountMinor q < a * bps + 10000"
  using assms by (auto simp: escrow_quote_def fee_of_def Let_def throw_def return_ok_def split: if_splits)

end
