(* ===== verification/FundedService.thy ===== *)
theory FundedService
  imports DrawService EscrowService
begin

text \<open>
  apps/agent/src/funded-service.ts, funding and assigning: \<open>prepare\<close>, \<open>confirm\<close>, \<open>reclaim\<close>,
  \<open>assignPrepare\<close>, \<open>assignConfirm\<close>, \<open>runDraw\<close>, \<open>unassign\<close>, \<open>unassignConfirm\<close>. A funded bounty is
  read with its repository and its escrow in one row, as the code reads it; what is decided later in the same
  call rests on that row. The attestor's signatures are what it answers, an argument, and every request to
  it is kept in \<open>db_attested\<close>. The page link in the comment is left out.
\<close>

section \<open>Rows and refusals\<close>

record attestor =
  at_assign :: "string \<Rightarrow> string \<Rightarrow> string + string"
  at_unassign :: "string \<Rightarrow> string + string"

record funded_row =
  fw_bounty :: bounty_row
  fw_repo :: string
  fw_escrow :: escrow_row

datatype funded_refusal =
    Not_a_funded_bounty | Funding_disabled | Not_the_funder string | Not_a_verified_project | Fund_bad_repo | Not_your_repo
  | App_not_installed | Fund_no_such_issue int | Fund_issue_closed int | Currency_not_available string | Fund_bad_amount
  | Over_cap bigint | Fund_bad_deadline | Bad_wallet | Repo_disabled | Issue_has_bounty int | Escrow_refused escrow_fail
  | Escrow_closed | Not_yet time_ms | Escrow_still_open | Fund_draw_mode | Fund_self_assign_mode | Fund_not_open bounty_status
  | Fund_already_assigned "string option" | Escrow_not_ready string | Not_an_applicant string | Fund_no_linked_wallet string
  | Not_assigned_on_chain | Attestor_not_configured | Fund_no_applicants | Fund_draw_refused draw_refusal | Attestor_failed string
  | Fund_no_active_assignment | Fund_pr_open | Not_unassigned_on_chain | Not_a_party | No_pr_open party | Fund_reason_required
  | Proposal_pending | No_such_proposal | Not_pending proposal_status | Assignment_changed | Not_the_other_side | Response_required
  | Not_withdrawable | Not_waivable | No_such_dispute | Note_required

definition funded_row_of :: "string \<Rightarrow> agent_db \<Rightarrow> funded_row option" where
  "funded_row_of bountyId s =
     (case bounty_and_repo bountyId s of
        None \<Rightarrow> None
      | Some (b, r) \<Rightarrow> if bo_funded_by b = None then None
          else map_option (\<lambda>e. \<lparr>fw_bounty = b, fw_repo = repo_full r, fw_escrow = e\<rparr>) (escrow_row_of bountyId s))"

definition funder_of :: "funded_row \<Rightarrow> string" where
  "funder_of f = text_of (bo_funded_by (fw_bounty f))"

definition asFunder :: "escrow_deps \<Rightarrow> string \<Rightarrow> string \<Rightarrow> agent_db \<Rightarrow> funded_refusal + funded_row" where
  "asFunder E bountyId login s =
     (case funded_row_of bountyId s of
        None \<Rightarrow> Inl Not_a_funded_bounty
      | Some f \<Rightarrow>
          if \<not> enabledFor E login s then Inl Funding_disabled
          else if to_lower (funder_of f) \<noteq> to_lower login then Inl (Not_the_funder (funder_of f))
          else Inr f)"

definition wallet_of :: "int \<Rightarrow> agent_db \<Rightarrow> string option" where
  "wallet_of u s = map_option wk_address (live_wallet u s)"

text \<open>What a call does once the caller is known to be the funder.\<close>

definition as_funder_do :: "escrow_deps \<Rightarrow> string \<Rightarrow> string \<Rightarrow> (funded_row \<Rightarrow> (funded_refusal + 'a) agent_eff) \<Rightarrow> (funded_refusal + 'a) agent_eff" where
  "as_funder_do E bountyId login k =
     then_do (read_state (asFunder E bountyId login)) (\<lambda>r. case r of Inl e \<Rightarrow> return_ok (Inl e) | Inr f \<Rightarrow> k f)"

section \<open>Funding\<close>

definition MIN_DEADLINE_DAYS :: jsnum where
  "MIN_DEADLINE_DAYS = 7"

definition MAX_DEADLINE_DAYS :: jsnum where
  "MAX_DEADLINE_DAYS = 120"

record fund_input =
  fd_login :: string
  fd_githubUserId :: int
  fd_repo :: string
  fd_issueNumber :: int
  fd_amountMinor :: bigint
  fd_currency :: string
  fd_mode :: assignment_mode
  fd_deadline :: "time_ms option"   \<comment> \<open>none: a date that is none\<close>
  fd_funderWallet :: string
  fd_verifiedProject :: bool

record fund_terms =
  fx_owner :: string
  fx_name :: string
  fx_installationId :: int
  fx_title :: string
  fx_mint :: agent_mint
  fx_deadline :: time_ms

text \<open>What is asked before anything is written: GitHub, then the terms themselves.\<close>

definition fund_amounts :: "platform \<Rightarrow> escrow_deps \<Rightarrow> (string \<rightharpoonup> bigint) \<Rightarrow> time_ms \<Rightarrow> fund_input \<Rightarrow> funded_refusal + agent_mint \<times> time_ms" where
  "fund_amounts P E limits now i =
     (case ed_mints E (fd_currency i) of
        None \<Rightarrow> Inl (Currency_not_available (fd_currency i))
      | Some mint \<Rightarrow>
          (let cap = coalesce (limits (fd_currency i)) 0 in
           if fd_amountMinor i \<le> 0 then Inl Fund_bad_amount
           else if fd_amountMinor i > cap then Inl (Over_cap cap)
           else case fd_deadline i of
             None \<Rightarrow> Inl Fund_bad_deadline
           | Some d \<Rightarrow>
               (let days = of_int (d - now) / 86400000 in
                if days < MIN_DEADLINE_DAYS \<or> days > MAX_DEADLINE_DAYS then Inl Fund_bad_deadline
                else if \<not> isSolanaAddress P (fd_funderWallet i) then Inl Bad_wallet
                else Inr (mint, d))))"

definition fund_checks :: "platform \<Rightarrow> escrow_deps \<Rightarrow> (string \<rightharpoonup> bigint) \<Rightarrow> github \<Rightarrow> time_ms \<Rightarrow> fund_input \<Rightarrow> agent_db \<Rightarrow> funded_refusal + fund_terms" where
  "fund_checks P E limits gh now i s =
     (if \<not> enabledFor E (fd_login i) s then Inl Funding_disabled
      else if \<not> fd_verifiedProject i then Inl Not_a_verified_project
      else case owner_name (fd_repo i) of
        (w # ws, Some (n # ns)) \<Rightarrow>
          if (case gh_permission gh (fd_repo i) (fd_login i) of Inr p \<Rightarrow> p | Inl _ \<Rightarrow> NoPermission) \<notin> INSIDER then Inl Not_your_repo
          else (case gh_installationIdFor gh (fd_repo i) of
            Inl _ \<Rightarrow> Inl App_not_installed
          | Inr inst \<Rightarrow>
              (case gh_getIssue gh (fd_repo i) (fd_issueNumber i) of
                 Inl _ \<Rightarrow> Inl (Fund_no_such_issue (fd_issueNumber i))
               | Inr issue \<Rightarrow>
                   if gi_state issue \<noteq> ''open'' then Inl (Fund_issue_closed (fd_issueNumber i))
                   else (case fund_amounts P E limits now i of
                     Inl e \<Rightarrow> Inl e
                   | Inr (mint, d) \<Rightarrow> Inr \<lparr>fx_owner = w # ws, fx_name = n # ns, fx_installationId = inst, fx_title = gi_title issue,
                       fx_mint = mint, fx_deadline = d\<rparr>)))
      | _ \<Rightarrow> Inl Fund_bad_repo)"

text \<open>The repository's row, made when there is none; one that was switched off stays off.\<close>

definition fund_repo :: "fund_input \<Rightarrow> fund_terms \<Rightarrow> (funded_refusal + nat) agent_eff" where
  "fund_repo i x =
     then_do (read_state (\<lambda>s. find (\<lambda>r. to_lower (ro_owner r) = to_lower (fx_owner x) \<and> to_lower (ro_name r) = to_lower (fx_name x)) (db_repos s))) (\<lambda>row.
     case row of
       Some r \<Rightarrow> return_ok (if \<not> ro_enabled r then Inl Repo_disabled else Inr (ro_id r))
     | None \<Rightarrow>
         then_do (read_state (\<lambda>s. length (db_repos s))) (\<lambda>newId.
         then_do (modify (\<lambda>s. s\<lparr>db_repos := db_repos s @ [\<lparr>ro_id = newId, ro_owner = fx_owner x, ro_name = fx_name x,
           ro_installation_id = fx_installationId x, ro_enabled = True, ro_bounties_enabled = False, ro_registered_project = True\<rparr>]\<rparr>)) (\<lambda>_.
         then_do (audit (fd_login i) ''repo.added_for_funding'' (Some (fd_repo i))) (\<lambda>_. return_ok (Inr newId)))))"

definition funding_bounty :: "escrow_deps \<Rightarrow> string \<Rightarrow> nat \<Rightarrow> fund_input \<Rightarrow> fund_terms \<Rightarrow> bounty_row" where
  "funding_bounty E bountyId repoId i x =
     \<lparr>bo_id = bountyId, bo_repo_id = repoId, bo_issue_number = fd_issueNumber i, bo_issue_title = take 300 (fx_title x),
      bo_amount_minor = fd_amountMinor i, bo_currency = fd_currency i, bo_mint = am_mint (fx_mint x), bo_network = ed_network E,
      bo_status = Funding, bo_price_call_id = None, bo_pricing = None, bo_comment_id = None, bo_created_by = fd_login i, bo_is_test = False,
      bo_waived_eligibility_rules = [], bo_reserved_for_newcomers = False, bo_funded_by = Some (fd_login i),
      bo_funded_by_github_user_id = Some (fd_githubUserId i), bo_applications_open_at = None, bo_applications_close_at = None,
      bo_window_extensions = 0, bo_exclude_login_next_draw = None, bo_awaiting_redraw = False, bo_auto_draw_ran_at = None\<rparr>"

text \<open>The bounty in \<open>funding\<close>: an unfinished one of the same person again, or a new one.\<close>

definition fund_bounty :: "escrow_deps \<Rightarrow> string \<Rightarrow> nat \<Rightarrow> fund_input \<Rightarrow> fund_terms \<Rightarrow> (funded_refusal + string) agent_eff" where
  "fund_bounty E newId repoId i x =
     then_do (read_state (\<lambda>s. find (\<lambda>b. bo_repo_id b = repoId \<and> bo_issue_number b = fd_issueNumber i \<and> open_bounty b) (db_bounties s))) (\<lambda>prior.
     case prior of
       Some b \<Rightarrow>
         if bo_status b \<noteq> Funding \<or> to_lower (text_of (bo_funded_by b)) \<noteq> to_lower (fd_login i)
         then return_ok (Inl (Issue_has_bounty (fd_issueNumber i)))
         else then_do (update_bounty (bo_id b) (\<lambda>b. b\<lparr>bo_amount_minor := fd_amountMinor i, bo_currency := fd_currency i,
             bo_mint := am_mint (fx_mint x), bo_network := ed_network E, bo_issue_title := take 300 (fx_title x)\<rparr>)) (\<lambda>_. return_ok (Inr (bo_id b)))
     | None \<Rightarrow> then_do (insert_bounty (funding_bounty E newId repoId i x)) (\<lambda>_. return_ok (Inr newId)))"

definition funding_input_of :: "escrow_deps \<Rightarrow> string \<Rightarrow> fund_input \<Rightarrow> fund_terms \<Rightarrow> funding_input" where
  "funding_input_of E bountyId i x =
     \<lparr>fi_bountyId = bountyId, fi_funderWallet = fd_funderWallet i, fi_mint = am_mint (fx_mint x), fi_currency = fd_currency i,
      fi_network = ed_network E, fi_amountMinor = fd_amountMinor i, fi_deadline = fx_deadline x, fi_mode = fd_mode i, fi_createdBy = fd_login i\<rparr>"

text \<open>\<open>prepare\<close>: the bounty's id, and the escrow with the transaction to sign. The ids are made fresh.\<close>

definition prepare :: "platform \<Rightarrow> escrow_deps \<Rightarrow> (string \<rightharpoonup> bigint) \<Rightarrow> github \<Rightarrow> chain \<Rightarrow> time_ms \<Rightarrow> string \<Rightarrow> string \<Rightarrow> fund_input
    \<Rightarrow> (funded_refusal + string \<times> funding_prepared) agent_eff" where
  "prepare P E limits gh ch now newBounty newEscrow i =
     then_do (read_state (fund_checks P E limits gh now i)) (\<lambda>checked.
     case checked of
       Inl e \<Rightarrow> return_ok (Inl e)
     | Inr x \<Rightarrow>
         then_do (fund_repo i x) (\<lambda>r.
         case r of
           Inl e \<Rightarrow> return_ok (Inl e)
         | Inr repoId \<Rightarrow>
             then_do (fund_bounty E newBounty repoId i x) (\<lambda>b.
             case b of
               Inl e \<Rightarrow> return_ok (Inl e)
             | Inr bountyId \<Rightarrow>
                 then_do (prepareFunding P E ch now newEscrow (funding_input_of E bountyId i x)) (\<lambda>p.
                 case p of
                   Inl e \<Rightarrow> return_ok (Inl (Escrow_refused e))
                 | Inr prepared \<Rightarrow>
                     then_do (audit (fd_login i) ''bounty.funding_prepared'' (Some bountyId)) (\<lambda>_. return_ok (Inr (bountyId, prepared)))))))"

definition announce :: "github \<Rightarrow> funded_row \<Rightarrow> unit agent_eff" where
  "announce gh f =
     (let b = fw_bounty f in
      then_do (post_on (gh_comment gh (fw_repo f) (bo_issue_number b)) (fw_repo f) (bo_issue_number b)
        (Funded_announced (bo_amount_minor b) (bo_currency b) (funder_of f) (ew_assignment_mode (fw_escrow f)) (ew_escrow_pubkey (fw_escrow f)))) (\<lambda>c.
      update_bounty (bo_id b) (\<lambda>b. b\<lparr>bo_comment_id := Some c\<rparr>)))"

text \<open>UPDATE bounties SET status = 'posted' ... WHERE status = 'funding': whether there was one.\<close>

definition open_funded :: "time_ms \<Rightarrow> string \<Rightarrow> time_ms \<Rightarrow> bool agent_eff" where
  "open_funded now bountyId deadline =
     then_do (read_state (\<lambda>s. \<exists>b \<in> set (db_bounties s). bo_id b = bountyId \<and> bo_status b = Funding)) (\<lambda>opened.
     then_do (modify (\<lambda>s. s\<lparr>db_bounties := update_where (\<lambda>b. bo_id b = bountyId \<and> bo_status b = Funding)
       (\<lambda>b. b\<lparr>bo_status := Posted, bo_applications_open_at := Some now, bo_applications_close_at := Some deadline\<rparr>) (db_bounties s)\<rparr>)) (\<lambda>_.
     return_ok opened))"

text \<open>The state of the escrow, and whether the bounty was there already.\<close>

definition confirm :: "platform \<Rightarrow> escrow_deps \<Rightarrow> github \<Rightarrow> chain \<Rightarrow> time_ms \<Rightarrow> time_ms \<Rightarrow> string \<Rightarrow> string \<Rightarrow> string option
    \<Rightarrow> (funded_refusal + string \<times> bool) agent_eff" where
  "confirm P E gh ch now db_now bountyId login signature =
     as_funder_do E bountyId login (\<lambda>f.
       if bo_status (fw_bounty f) \<noteq> Funding then return_ok (Inr (ew_state (fw_escrow f), True))
       else then_do (confirmFunding P ch db_now bountyId signature) (\<lambda>r.
       case r of
         Inl e \<Rightarrow> return_ok (Inl (Escrow_refused e))
       | Inr _ \<Rightarrow>
           then_do (open_funded now bountyId (ew_deadline_at (fw_escrow f))) (\<lambda>opened.
           then_do (if opened then then_do (audit login ''bounty.funded'' (Some bountyId)) (\<lambda>_. on_error (announce gh f) (\<lambda>_. return_ok ()))
             else return_ok ()) (\<lambda>_.
           return_ok (Inr (''funded'', False))))))"

definition reclaim :: "platform \<Rightarrow> escrow_deps \<Rightarrow> chain \<Rightarrow> time_ms \<Rightarrow> string \<Rightarrow> string \<Rightarrow> (funded_refusal + reclaim_kind \<times> unsigned_tx) agent_eff" where
  "reclaim P E ch now bountyId login =
     as_funder_do E bountyId login (\<lambda>f.
       then_do (readChain P ch (ew_escrow_pubkey (fw_escrow f))) (\<lambda>acc.
       case acc of
         None \<Rightarrow> return_ok (Inl Escrow_closed)
       | Some e \<Rightarrow>
           (case (if \<not> es_everAssigned e \<and> es_state e = Funded then Some Reclaim_cancel
                  else if now \<ge> ew_deadline_at (fw_escrow f) then Some Reclaim_refund else None) of
              None \<Rightarrow> return_ok (Inl (Not_yet (ew_deadline_at (fw_escrow f))))
            | Some what_kind \<Rightarrow> then_do (funderReclaimTransaction P E ch (ew_escrow_pubkey (fw_escrow f)) what_kind) (\<lambda>tx. return_ok (Inr (what_kind, tx))))))"

section \<open>Assigning\<close>

definition ask_assign :: "attestor \<Rightarrow> string \<Rightarrow> string \<Rightarrow> (string + string) agent_eff" where
  "ask_assign A escrow wallet = then_do (modify (\<lambda>s. s\<lparr>db_attested := db_attested s @ [Attest_assign escrow wallet]\<rparr>)) (\<lambda>_. return_ok (at_assign A escrow wallet))"

definition ask_unassign :: "attestor \<Rightarrow> string \<Rightarrow> (string + string) agent_eff" where
  "ask_unassign A escrow = then_do (modify (\<lambda>s. s\<lparr>db_attested := db_attested s @ [Attest_unassign escrow]\<rparr>)) (\<lambda>_. return_ok (at_unassign A escrow))"

definition applicant_named :: "string \<Rightarrow> string \<Rightarrow> agent_db \<Rightarrow> application_row option" where
  "applicant_named bountyId login s = find (\<lambda>x. al_bounty_id x = bountyId \<and> to_lower (al_github_login x) = to_lower login) (db_applications s)"

definition waiting_named :: "string \<Rightarrow> string \<Rightarrow> agent_db \<Rightarrow> application_row option" where
  "waiting_named bountyId login s = find (\<lambda>x. al_bounty_id x = bountyId \<and> to_lower (al_github_login x) = to_lower login \<and> waiting x) (db_applications s)"

definition assignPrepare :: "platform \<Rightarrow> escrow_deps \<Rightarrow> chain \<Rightarrow> time_ms \<Rightarrow> string \<Rightarrow> string \<Rightarrow> string \<Rightarrow> (funded_refusal + unsigned_tx \<times> string) agent_eff" where
  "assignPrepare P E ch db_now bountyId login applicant =
     as_funder_do E bountyId login (\<lambda>f.
       let b = fw_bounty f; e = fw_escrow f in
       if ew_assignment_mode e \<noteq> Mode_self_assign then return_ok (Inl Fund_draw_mode)
       else if bo_status b \<noteq> Posted then return_ok (Inl (Fund_not_open (bo_status b)))
       else then_do (read_state (holder_of bountyId)) (\<lambda>live.
         if live \<noteq> None then return_ok (Inl (Fund_already_assigned None))
         else if ew_state e \<noteq> ''funded'' then return_ok (Inl (Escrow_not_ready (ew_state e)))
         else then_do (read_state (waiting_named bountyId applicant)) (\<lambda>app.
         case app of
           None \<Rightarrow> return_ok (Inl (Not_an_applicant applicant))
         | Some x \<Rightarrow>
             then_do (read_state (\<lambda>s. non_empty (wallet_of (al_github_user_id x) s))) (\<lambda>w.
             case w of
               None \<Rightarrow> return_ok (Inl (Fund_no_linked_wallet (al_github_login x)))
             | Some wallet \<Rightarrow>
                 then_do (funderAssignTransaction P E ch (ew_escrow_pubkey e) (ew_funder_wallet e) wallet) (\<lambda>tx.
                 then_do (escrow_event db_now (ew_id e) ''assign_prepared'' None None) (\<lambda>_.
                 return_ok (Inr (tx, wallet))))))))"

definition dedupe_fundedAssigned :: "string \<Rightarrow> string" where
  "dedupe_fundedAssigned assignmentId = ''funded_assigned:'' @ assignmentId"

definition about_funded :: "funded_row \<Rightarrow> entries" where
  "about_funded f =
     [(''bountyId'', JStr (bo_id (fw_bounty f))), (''repo'', JStr (fw_repo f)), (''issue_number'', JNum (of_int (bo_issue_number (fw_bounty f)))),
      (''amount_minor'', JStr (show_int (bo_amount_minor (fw_bounty f)))), (''currency'', JStr (bo_currency (fw_bounty f)))]"

definition assigned_event :: "funded_row \<Rightarrow> string \<Rightarrow> int \<Rightarrow> string \<Rightarrow> bounty_event" where
  "assigned_event f assignmentId u wallet =
     \<lparr>ev_kind = Funded_assigned, ev_githubUserId = u, ev_dedupeKey = dedupe_fundedAssigned assignmentId,
      ev_payload = about_funded f @ [(''funder'', JStr (funder_of f)), (''deadlineAt'', JStr (toISOString (ew_deadline_at (fw_escrow f)))), (''wallet'', JStr wallet)]\<rparr>"

definition recordAssignment :: "string \<Rightarrow> time_ms \<Rightarrow> time_ms \<Rightarrow> funded_row \<Rightarrow> application_row \<Rightarrow> string \<Rightarrow> string option \<Rightarrow> string \<Rightarrow> string agent_eff" where
  "recordAssignment newId now db_now f x wallet tx actor =
     (let i = bo_id (fw_bounty f); u = al_github_user_id x in
      then_do (insert_assignment (new_assignment newId i None u (al_github_login x) now (ew_deadline_at (fw_escrow f)))) (\<lambda>_.
      then_do (modify (\<lambda>s. s\<lparr>db_applications := update_where (\<lambda>y. al_bounty_id y = i \<and> al_github_user_id y = u) (\<lambda>y. y\<lparr>al_status := App_won\<rparr>) (db_applications s)\<rparr>)) (\<lambda>_.
      then_do (recordAssigned db_now i wallet tx) (\<lambda>_.
      then_do (audit actor ''assignment.funder_assigned'' (Some i)) (\<lambda>_.
      then_do (enqueueEvent (assigned_event f newId u wallet)) (\<lambda>_. return_ok newId))))))"

text \<open>Who is assigned, and whether they were already.\<close>

definition assignConfirm :: "platform \<Rightarrow> escrow_deps \<Rightarrow> chain \<Rightarrow> string \<Rightarrow> time_ms \<Rightarrow> time_ms \<Rightarrow> string \<Rightarrow> string \<Rightarrow> string \<Rightarrow> string
    \<Rightarrow> (funded_refusal + string \<times> bool) agent_eff" where
  "assignConfirm P E ch newId now db_now bountyId login applicant signature =
     as_funder_do E bountyId login (\<lambda>f.
       then_do (read_state (applicant_named bountyId applicant)) (\<lambda>app.
       case app of
         None \<Rightarrow> return_ok (Inl (Not_an_applicant applicant))
       | Some x \<Rightarrow>
           then_do (read_state (holder_of bountyId)) (\<lambda>live.
           case live of
             Some a \<Rightarrow> return_ok (if an_github_user_id a = al_github_user_id x then Inr (an_github_login a, True)
               else Inl (Fund_already_assigned (Some (an_github_login a))))
           | None \<Rightarrow>
               then_do (readChain P ch (ew_escrow_pubkey (fw_escrow f))) (\<lambda>acc.
               then_do (read_state (\<lambda>s. non_empty (wallet_of (al_github_user_id x) s))) (\<lambda>w.
               case (acc, w) of
                 (Some e, Some wallet) \<Rightarrow>
                   if es_state e = Assigned \<and> map_option (b58_encode P) (es_contributor e) = Some wallet
                   then then_do (recordAssignment newId now db_now f x wallet (Some signature) login) (\<lambda>_. return_ok (Inr (al_github_login x, False)))
                   else return_ok (Inl Not_assigned_on_chain)
               | _ \<Rightarrow> return_ok (Inl Not_assigned_on_chain))))))"

definition attestAssign :: "attestor option \<Rightarrow> time_ms \<Rightarrow> funded_row \<Rightarrow> string \<Rightarrow> (string + string) agent_eff" where
  "attestAssign att db_now f wallet =
     (case att of
        None \<Rightarrow> return_ok (Inl ''attestor not configured'')
      | Some A \<Rightarrow>
          then_do (ask_assign A (ew_escrow_pubkey (fw_escrow f)) wallet) (\<lambda>r.
          then_do (case r of
             Inr signature \<Rightarrow> recordAssigned db_now (bo_id (fw_bounty f)) wallet (Some signature)
           | Inl e \<Rightarrow> set_escrow (ew_id (fw_escrow f)) (\<lambda>x. x\<lparr>ew_last_error := Some (''assign pending: '' @ e)\<rparr>)) (\<lambda>_.
          return_ok r)))"

definition drawable :: "funded_row \<Rightarrow> agent_db \<Rightarrow> bool" where
  "drawable f s \<longleftrightarrow> (\<exists>x \<in> set (db_applications s). al_bounty_id x = bo_id (fw_bounty f)
     \<and> may_be_drawn (bo_exclude_login_next_draw (fw_bounty f)) True s x)"

text \<open>The draw's outcome, and the attestor's answer when it was asked.\<close>

definition fundedDraw :: "escrow_deps \<Rightarrow> attestor option \<Rightarrow> draw_fresh \<Rightarrow> string \<Rightarrow> string \<Rightarrow> bool
    \<Rightarrow> (funded_refusal + draw_outcome \<times> (string + string) option) agent_eff" where
  "fundedDraw E att fr bountyId login simulate =
     as_funder_do E bountyId login (\<lambda>f.
       let b = fw_bounty f; e = fw_escrow f in
       if ew_assignment_mode e \<noteq> Mode_draw then return_ok (Inl Fund_self_assign_mode)
       else if bo_status b \<noteq> Posted then return_ok (Inl (Fund_not_open (bo_status b)))
       else then_do (read_state (holder_of bountyId)) (\<lambda>live.
         if live \<noteq> None then return_ok (Inl (Fund_already_assigned None))
         else if \<not> simulate \<and> att = None then return_ok (Inl Attestor_not_configured)
         else if \<not> simulate \<and> ew_state e \<noteq> ''funded'' then return_ok (Inl (Escrow_not_ready (ew_state e)))
         else then_do (read_state (drawable f)) (\<lambda>some.
         if \<not> some then return_ok (Inl Fund_no_applicants)
         else then_do (runDrawFor fr bountyId \<lparr>do_triggeredBy = login, do_simulate = simulate, do_staleHours = None,
             do_staleAt = Some (ew_deadline_at e), do_requireWallet = True\<rparr>) (\<lambda>r.
         case r of
           Inl why \<Rightarrow> return_ok (Inl (Fund_draw_refused why))
         | Inr out \<Rightarrow>
             (case (simulate, dx_winner out) of
                (False, Some w) \<Rightarrow>
                  then_do (read_state (\<lambda>s. non_empty (wallet_of (ca_githubUserId w) s))) (\<lambda>wallet.
                  then_do (case wallet of
                     None \<Rightarrow> return_ok (Inl ''winner has no linked wallet'')
                   | Some x \<Rightarrow> attestAssign att (fr_db_now fr) f x) (\<lambda>signed.
                  return_ok (Inr (out, Some signed))))
              | _ \<Rightarrow> return_ok (Inr (out, None)))))))"

section \<open>Unassigning\<close>

definition agreed :: "proposal_row \<Rightarrow> bool" where
  "agreed p \<longleftrightarrow> up_status p \<in> {Prop_accepted, Prop_accepted_by_silence}"

definition agreedProposal :: "string \<Rightarrow> agent_db \<Rightarrow> proposal_row option" where
  "agreedProposal assignmentId s = find (\<lambda>p. up_assignment_id p = assignmentId \<and> agreed p \<and> up_carried_out_at p = None) (rev (db_proposals s))"

definition released_text :: "string \<Rightarrow> bool \<Rightarrow> string" where
  "released_text reason direct =
     (if reason \<noteq> [] then reason
      else if direct then ''The funder unassigned this on-chain, without going through Grainlify.''
      else ''No reason was given.'')"

definition funded_unassigned_event :: "funded_row \<Rightarrow> assignment_row \<Rightarrow> string \<Rightarrow> string \<Rightarrow> bool \<Rightarrow> bounty_event" where
  "funded_unassigned_event f a actor reason direct =
     \<lparr>ev_kind = Bounty_unassigned, ev_githubUserId = an_github_user_id a, ev_dedupeKey = dedupe_unassigned (an_id a),
      ev_payload = about_funded f @ [(''reason'', JStr (released_text reason direct)), (''reasonGiven'', JBool (reason \<noteq> [])),
        (''actor'', JStr actor), (''funded'', JBool True)]\<rparr>"

definition release_row :: "time_ms \<Rightarrow> string \<Rightarrow> string \<Rightarrow> string \<Rightarrow> bool \<Rightarrow> unit agent_eff" where
  "release_row now assignmentId actor reason direct =
     modify (\<lambda>s. s\<lparr>db_assignments := update_where (\<lambda>x. an_id x = assignmentId)
       (\<lambda>x. x\<lparr>an_status := Released_voluntary, an_released_at := Some now, an_release_reason := Some (released_text reason direct),
         an_released_by := Some actor, an_counts_as_abandon := False, an_unassigned_on_chain_directly := direct\<rparr>) (db_assignments s)\<rparr>)"

definition release_funded :: "time_ms \<Rightarrow> funded_row \<Rightarrow> assignment_row \<Rightarrow> string \<Rightarrow> string \<Rightarrow> string option \<Rightarrow> bool \<Rightarrow> unit agent_eff" where
  "release_funded now f a actor reason proposalId direct =
     (let i = bo_id (fw_bounty f) in
      then_do (release_row now (an_id a) actor reason direct) (\<lambda>_.
      then_do (modify (\<lambda>s. s\<lparr>db_applications := update_where (\<lambda>x. al_bounty_id x = i \<and> al_github_user_id x = an_github_user_id a \<and> al_status x = App_won)
        (\<lambda>x. x\<lparr>al_status := App_lost\<rparr>) (db_applications s)\<rparr>)) (\<lambda>_.
      then_do (if ew_assignment_mode (fw_escrow f) = Mode_draw
        then update_bounty i (\<lambda>b. b\<lparr>bo_exclude_login_next_draw := Some (an_github_login a)\<rparr>) else return_ok ()) (\<lambda>_.
      then_do (case proposalId of None \<Rightarrow> return_ok ()
        | Some k \<Rightarrow> modify (\<lambda>s. s\<lparr>db_proposals := update_where (\<lambda>p. up_id p = k) (\<lambda>p. p\<lparr>up_carried_out_at := Some now\<rparr>) (db_proposals s)\<rparr>)) (\<lambda>_.
      then_do (audit actor ''assignment.unassigned'' (Some i)) (\<lambda>_.
      then_do (enqueueEvent (funded_unassigned_event f a actor reason direct)) (\<lambda>_. return_ok ())))))))"

text \<open>Who was unassigned, and the transaction the funder has to sign when it is theirs to sign.\<close>

definition unassign :: "platform \<Rightarrow> escrow_deps \<Rightarrow> attestor option \<Rightarrow> chain \<Rightarrow> time_ms \<Rightarrow> time_ms \<Rightarrow> string \<Rightarrow> string \<Rightarrow> string
    \<Rightarrow> (funded_refusal + string \<times> unsigned_tx option) agent_eff" where
  "unassign P E att ch now db_now bountyId login reason =
     as_funder_do E bountyId login (\<lambda>f.
       then_do (read_state (holder_of bountyId)) (\<lambda>live.
       case live of
         None \<Rightarrow> return_ok (Inl Fund_no_active_assignment)
       | Some a \<Rightarrow>
           then_do (read_state (agreedProposal (an_id a))) (\<lambda>ag.
           if an_status a = Pr_submitted \<and> ag = None then return_ok (Inl Fund_pr_open)
           else
             let e = fw_escrow f; why = (if js_trim reason \<noteq> [] then js_trim reason else case ag of Some p \<Rightarrow> up_reason p | None \<Rightarrow> []);
                 released = then_do (release_funded now f a login why (map_option up_id ag) False) (\<lambda>_. return_ok (Inr (an_github_login a, None))) in
             if ew_state e \<noteq> ''assigned'' then released
             else if ew_assignment_mode e = Mode_draw
             then (case att of
                 None \<Rightarrow> return_ok (Inl Attestor_not_configured)
               | Some A \<Rightarrow>
                   then_do (ask_unassign A (ew_escrow_pubkey e)) (\<lambda>r.
                   case r of
                     Inl err \<Rightarrow> return_ok (Inl (Attestor_failed err))
                   | Inr signature \<Rightarrow> then_do (recordUnassigned db_now bountyId (Some signature)) (\<lambda>_. released)))
             else then_do (funderUnassignTransaction P E ch (ew_escrow_pubkey e) (ew_funder_wallet e)) (\<lambda>tx.
               then_do (escrow_event db_now (ew_id e) ''unassign_prepared'' None (Some why)) (\<lambda>_.
               return_ok (Inr (an_github_login a, Some tx)))))))"

datatype unassigned_how = Unassigned_already | Unassigned_now | Unassigned_without_agreement

definition unassignConfirm :: "platform \<Rightarrow> escrow_deps \<Rightarrow> chain \<Rightarrow> time_ms \<Rightarrow> time_ms \<Rightarrow> string \<Rightarrow> string \<Rightarrow> string \<Rightarrow> string
    \<Rightarrow> (funded_refusal + unassigned_how) agent_eff" where
  "unassignConfirm P E ch now db_now bountyId login reason signature =
     as_funder_do E bountyId login (\<lambda>f.
       then_do (read_state (holder_of bountyId)) (\<lambda>live.
       case live of
         None \<Rightarrow> return_ok (Inr Unassigned_already)
       | Some a \<Rightarrow>
           then_do (readChain P ch (ew_escrow_pubkey (fw_escrow f))) (\<lambda>acc.
           if (case acc of None \<Rightarrow> True | Some e \<Rightarrow> es_state e \<noteq> Funded \<or> es_contributor e \<noteq> None) then return_ok (Inl Not_unassigned_on_chain)
           else then_do (read_state (agreedProposal (an_id a))) (\<lambda>ag.
             then_do (recordUnassigned db_now bountyId (Some signature)) (\<lambda>_.
             if an_status a = Pr_submitted \<and> ag = None
             then then_do (release_funded now f a login (js_trim reason) None True) (\<lambda>_. return_ok (Inr Unassigned_without_agreement))
             else then_do (release_funded now f a login
                 (if js_trim reason \<noteq> [] then js_trim reason else case ag of Some p \<Rightarrow> up_reason p | None \<Rightarrow> []) (map_option up_id ag) False) (\<lambda>_.
               return_ok (Inr Unassigned_now)))))))"

end
