(* ===== verification/FundedAgreement.thy ===== *)
theory FundedAgreement
  imports FundedService
begin

text \<open>
  apps/agent/src/funded-service.ts, the two sides and the chain: \<open>propose\<close>, \<open>respond\<close>, \<open>withdraw\<close>,
  \<open>carryOut\<close>, \<open>expireProposals\<close>, \<open>reconcile\<close>, \<open>reclaimConfirm\<close>, \<open>markTest\<close>, \<open>profile\<close> and the
  arbitration of refused proposals.
\<close>

section \<open>Both sides agree\<close>

definition RESPOND_DAYS :: int where
  "RESPOND_DAYS = 7"

definition side :: "funded_row \<Rightarrow> assignment_row \<Rightarrow> string \<Rightarrow> int \<Rightarrow> party option" where
  "side f a login u =
     (if to_lower (funder_of f) = to_lower login then Some Funder_side
      else if an_github_user_id a = u then Some Contributor_side else None)"

definition insert_proposal :: "proposal_row \<Rightarrow> unit agent_eff" where
  "insert_proposal p =
     then_do (ensure (\<lambda>s. up_id p \<notin> up_id ` set (db_proposals s)) (Db_error (Unique_violation ''bounty_unassign_proposals_pkey''))) (\<lambda>_.
     then_do (ensure (\<lambda>s. \<not> (\<exists>x \<in> set (db_proposals s). up_assignment_id x = up_assignment_id p \<and> up_status x = Prop_pending))
       (Db_error (Unique_violation ''bounty_unassign_proposals_one_pending''))) (\<lambda>_.
     modify (\<lambda>s. s\<lparr>db_proposals := db_proposals s @ [p]\<rparr>)))"

definition new_proposal :: "string \<Rightarrow> string \<Rightarrow> string \<Rightarrow> party \<Rightarrow> string \<Rightarrow> string \<Rightarrow> time_ms \<Rightarrow> proposal_row" where
  "new_proposal i bountyId assignmentId who login why respondBy =
     \<lparr>up_id = i, up_bounty_id = bountyId, up_assignment_id = assignmentId, up_proposed_by = who, up_proposer_login = login,
      up_reason = take 2000 why, up_respond_by = respondBy, up_status = Prop_pending, up_responder_login = None, up_response = None,
      up_responded_at = None, up_carried_out_at = None, up_arbitration = None\<rparr>"

definition dedupe_unassignProposed :: "string \<Rightarrow> string" where
  "dedupe_unassignProposed proposalId = ''unassign_proposed:'' @ proposalId"

definition dedupe_unassignRefused :: "string \<Rightarrow> string" where
  "dedupe_unassignRefused proposalId = ''unassign_refused:'' @ proposalId"

fun party_text :: "party \<Rightarrow> string" where
  "party_text Funder_side = ''funder''"
| "party_text Contributor_side = ''contributor''"

definition funder_id :: "funded_row \<Rightarrow> int" where
  "funder_id f = coalesce (bo_funded_by_github_user_id (fw_bounty f)) 0"

text \<open>The other side is told, unless it is a funder whose account is not known.\<close>

definition tell :: "int \<Rightarrow> bounty_event \<Rightarrow> unit agent_eff" where
  "tell u e = (if u = 0 then return_ok () else then_do (enqueueEvent e) (\<lambda>_. return_ok ()))"

definition proposed_event :: "funded_row \<Rightarrow> assignment_row \<Rightarrow> string \<Rightarrow> party \<Rightarrow> string \<Rightarrow> string \<Rightarrow> time_ms \<Rightarrow> int \<Rightarrow> bounty_event" where
  "proposed_event f a proposalId who login why respondBy u =
     \<lparr>ev_kind = Unassign_proposed, ev_githubUserId = u, ev_dedupeKey = dedupe_unassignProposed proposalId,
      ev_payload = [(''bountyId'', JStr (bo_id (fw_bounty f))), (''repo'', JStr (fw_repo f)), (''issue_number'', JNum (of_int (bo_issue_number (fw_bounty f)))),
        (''proposedBy'', JStr (party_text who)), (''proposer'', JStr login), (''reason'', JStr why), (''respondBy'', JStr (toISOString respondBy)),
        (''prNumber'', case an_qualifying_pr_number a of None \<Rightarrow> JNull | Some n \<Rightarrow> JNum (of_int n))]\<rparr>"

definition propose :: "escrow_deps \<Rightarrow> string \<Rightarrow> time_ms \<Rightarrow> string \<Rightarrow> string \<Rightarrow> int \<Rightarrow> string \<Rightarrow> (funded_refusal + string \<times> time_ms) agent_eff" where
  "propose E newId now bountyId login u reason =
     then_do (read_state (funded_row_of bountyId)) (\<lambda>row.
     case row of
       None \<Rightarrow> return_ok (Inl Not_a_funded_bounty)
     | Some f \<Rightarrow>
         then_do (read_state (enabledFor E (funder_of f))) (\<lambda>may.
         if \<not> may then return_ok (Inl Funding_disabled)
         else then_do (read_state (holder_of bountyId)) (\<lambda>live.
         case live of
           None \<Rightarrow> return_ok (Inl Fund_no_active_assignment)
         | Some a \<Rightarrow>
             (case side f a login u of
                None \<Rightarrow> return_ok (Inl Not_a_party)
              | Some who \<Rightarrow>
                  if an_status a \<noteq> Pr_submitted then return_ok (Inl (No_pr_open who))
                  else if js_trim reason = [] then return_ok (Inl Fund_reason_required)
                  else
                    let why = js_trim reason; respondBy = now + RESPOND_DAYS * 86400000; other_id = (if who = Funder_side then an_github_user_id a else funder_id f) in
                    then_do (on_error (then_do (insert_proposal (new_proposal newId bountyId (an_id a) who login why respondBy)) (\<lambda>_. return_ok True))
                      (\<lambda>_. return_ok False)) (\<lambda>inserted.
                    if \<not> inserted then return_ok (Inl Proposal_pending)
                    else then_do (audit login ''unassign.proposed'' (Some bountyId)) (\<lambda>_.
                      then_do (tell other_id (proposed_event f a newId who login why respondBy other_id)) (\<lambda>_.
                      return_ok (Inr (newId, respondBy)))))))))"

definition set_proposal :: "string \<Rightarrow> (proposal_row \<Rightarrow> proposal_row) \<Rightarrow> unit agent_eff" where
  "set_proposal i g = modify (\<lambda>s. s\<lparr>db_proposals := update_where (\<lambda>p. up_id p = i) g (db_proposals s)\<rparr>)"

definition proposal_at :: "string \<Rightarrow> agent_db \<Rightarrow> proposal_row option" where
  "proposal_at i s = find (\<lambda>p. up_id p = i) (db_proposals s)"

text \<open>Agreed: carried out, or waiting for the funder's signature.\<close>

datatype carried = Carried_out | Awaiting_funder | Not_carried

definition carryOut :: "attestor option \<Rightarrow> time_ms \<Rightarrow> time_ms \<Rightarrow> string \<Rightarrow> carried agent_eff" where
  "carryOut att now db_now proposalId =
     then_do (read_state (\<lambda>s. Option.bind (proposal_at proposalId s) (\<lambda>p. map_option (Pair p) (funded_row_of (up_bounty_id p) s)))) (\<lambda>row.
     case row of
       None \<Rightarrow> throw (No_funded_row proposalId)
     | Some (p, f) \<Rightarrow>
         then_do (read_state (holder_of (up_bounty_id p))) (\<lambda>live.
         case live of
           None \<Rightarrow> return_ok Not_carried
         | Some a \<Rightarrow>
             let e = fw_escrow f;
                 released = then_do (release_funded now f a ''agreed'' (''Both sides agreed: '' @ up_reason p) (Some proposalId) False) (\<lambda>_. return_ok Carried_out) in
             if an_id a \<noteq> up_assignment_id p then return_ok Not_carried
             else if ew_state e \<noteq> ''assigned'' then released
             else if ew_assignment_mode e = Mode_self_assign then return_ok Awaiting_funder
             else (case att of
               None \<Rightarrow> return_ok Not_carried
             | Some A \<Rightarrow>
                 then_do (ask_unassign A (ew_escrow_pubkey e)) (\<lambda>r.
                 case r of
                   Inl err \<Rightarrow> then_do (set_escrow (ew_id e) (\<lambda>x. x\<lparr>ew_last_error := Some (''agreed unassign pending: '' @ err)\<rparr>)) (\<lambda>_. return_ok Not_carried)
                 | Inr signature \<Rightarrow> then_do (recordUnassigned db_now (bo_id (fw_bounty f)) (Some signature)) (\<lambda>_. released)))))"

definition refused_event :: "funded_row \<Rightarrow> string \<Rightarrow> string \<Rightarrow> string \<Rightarrow> int \<Rightarrow> bounty_event" where
  "refused_event f proposalId login why u =
     \<lparr>ev_kind = Unassign_refused, ev_githubUserId = u, ev_dedupeKey = dedupe_unassignRefused proposalId,
      ev_payload = [(''bountyId'', JStr (bo_id (fw_bounty f))), (''repo'', JStr (fw_repo f)), (''issue_number'', JNum (of_int (bo_issue_number (fw_bounty f)))),
        (''refusedBy'', JStr login), (''response'', JStr why), (''deadlineAt'', JStr (toISOString (ew_deadline_at (fw_escrow f))))]\<rparr>"

text \<open>Nothing when it was refused, and what became of it when it was accepted.\<close>

definition respond :: "attestor option \<Rightarrow> time_ms \<Rightarrow> time_ms \<Rightarrow> string \<Rightarrow> string \<Rightarrow> int \<Rightarrow> bool \<Rightarrow> string \<Rightarrow> (funded_refusal + carried option) agent_eff" where
  "respond att now db_now proposalId login u accept response =
     then_do (read_state (proposal_at proposalId)) (\<lambda>row.
     case row of
       None \<Rightarrow> return_ok (Inl No_such_proposal)
     | Some p \<Rightarrow>
         if up_status p \<noteq> Prop_pending then return_ok (Inl (Not_pending (up_status p)))
         else then_do (read_state (\<lambda>s. (funded_row_of (up_bounty_id p) s, holder_of (up_bounty_id p) s))) (\<lambda>(frow, live).
         case live of
           None \<Rightarrow> return_ok (Inl Assignment_changed)
         | Some a \<Rightarrow>
             if an_id a \<noteq> up_assignment_id p then return_ok (Inl Assignment_changed)
             else (case frow of
               None \<Rightarrow> throw (No_funded_row (up_bounty_id p))
             | Some f \<Rightarrow>
                 if side f a login u = None \<or> side f a login u = Some (up_proposed_by p) then return_ok (Inl Not_the_other_side)
                 else if accept then
                   then_do (set_proposal proposalId (\<lambda>p. p\<lparr>up_status := Prop_accepted, up_responder_login := Some login,
                     up_response := non_empty (Some (take 2000 (js_trim response))), up_responded_at := Some now\<rparr>)) (\<lambda>_.
                   then_do (audit login ''unassign.accepted'' (Some (up_bounty_id p))) (\<lambda>_.
                   then_do (carryOut att now db_now proposalId) (\<lambda>c. return_ok (Inr (Some c)))))
                 else if js_trim response = [] then return_ok (Inl Response_required)
                 else
                   let proposer = (if up_proposed_by p = Funder_side then funder_id f else an_github_user_id a) in
                   then_do (set_proposal proposalId (\<lambda>p. p\<lparr>up_status := Prop_refused, up_responder_login := Some login,
                     up_response := Some (take 2000 (js_trim response)), up_responded_at := Some now\<rparr>)) (\<lambda>_.
                   then_do (audit login ''unassign.refused'' (Some (up_bounty_id p))) (\<lambda>_.
                   then_do (tell proposer (refused_event f proposalId login (js_trim response) proposer)) (\<lambda>_.
                   return_ok (Inr None)))))))"

definition withdraw :: "time_ms \<Rightarrow> string \<Rightarrow> string \<Rightarrow> (funded_refusal + unit) agent_eff" where
  "withdraw now proposalId login =
     then_do (read_state (\<lambda>s. find (\<lambda>p. up_id p = proposalId \<and> up_status p = Prop_pending \<and> to_lower (up_proposer_login p) = to_lower login) (db_proposals s))) (\<lambda>row.
     case row of
       None \<Rightarrow> return_ok (Inl Not_withdrawable)
     | Some p \<Rightarrow>
         then_do (set_proposal proposalId (\<lambda>p. p\<lparr>up_status := Prop_withdrawn, up_responded_at := Some now\<rparr>)) (\<lambda>_.
         then_do (audit login ''unassign.withdrawn'' (Some (up_bounty_id p))) (\<lambda>_. return_ok (Inr ()))))"

text \<open>Silence for seven days is acceptance; what was agreed in draw mode and could not be signed is tried again.\<close>

definition overdue :: "time_ms \<Rightarrow> proposal_row \<Rightarrow> bool" where
  "overdue now p \<longleftrightarrow> up_status p = Prop_pending \<and> up_respond_by p \<le> now"

definition stuck_proposals :: "agent_db \<Rightarrow> string list" where
  "stuck_proposals s = map up_id (filter (\<lambda>p. agreed p \<and> up_carried_out_at p = None
     \<and> (\<exists>e \<in> set (db_escrows s). ew_bounty_id e = up_bounty_id p \<and> ew_assignment_mode e = Mode_draw)) (db_proposals s))"

definition expireProposals :: "attestor option \<Rightarrow> time_ms \<Rightarrow> time_ms \<Rightarrow> string list agent_eff" where
  "expireProposals att now db_now =
     then_do (read_state (\<lambda>s. map (\<lambda>p. (up_id p, up_bounty_id p)) (filter (overdue now) (db_proposals s)))) (\<lambda>late.
     then_do (modify (\<lambda>s. s\<lparr>db_proposals := update_where (overdue now)
       (\<lambda>p. p\<lparr>up_status := Prop_accepted_by_silence, up_responded_at := Some now\<rparr>) (db_proposals s)\<rparr>)) (\<lambda>_.
     then_do (for_each (\<lambda>(i, b). then_do (audit ''agent'' ''unassign.accepted_by_silence'' (Some b)) (\<lambda>_.
       then_do (carryOut att now db_now i) (\<lambda>_. return_ok ()))) late) (\<lambda>_.
     then_do (read_state stuck_proposals) (\<lambda>again.
     then_do (for_each (\<lambda>i. then_do (carryOut att now db_now i) (\<lambda>_. return_ok ())) again) (\<lambda>_.
     return_ok (map fst late))))))"

section \<open>The chain is the truth\<close>

definition PREPARED_WINDOW_MS :: time_ms where
  "PREPARED_WINDOW_MS = 1800000"

text \<open>The latest event of the kind within the window.\<close>

definition preparedRecently :: "time_ms \<Rightarrow> string \<Rightarrow> string \<Rightarrow> agent_db \<Rightarrow> escrow_event_row option" where
  "preparedRecently now escrowId k s =
     latest ee_created_at (filter (\<lambda>x. ee_escrow_id x = escrowId \<and> ee_kind x = k \<and> ee_created_at x \<ge> now - PREPARED_WINDOW_MS) (db_escrow_events s))"

datatype reconciled = Rec_refunded | Rec_cancelled | Rec_assign_recorded | Rec_assigned_to_unknown | Rec_assigned_outside
  | Rec_assign_retried | Rec_unassign_recorded | Rec_unassigned_outside

text \<open>The escrow is gone: a release of ours in flight, or the funder took it back.\<close>

definition reconcile_closed :: "time_ms \<Rightarrow> time_ms \<Rightarrow> string \<Rightarrow> funded_row \<Rightarrow> assignment_row option \<Rightarrow> reconciled option agent_eff" where
  "reconcile_closed now db_now bountyId f live =
     then_do (read_state (\<lambda>s. \<exists>p \<in> set (db_payouts s). ap_bounty_id p = bountyId \<and> ap_status p \<in> {Approved, Submitted, Confirmed})) (\<lambda>releasing.
     if releasing then return_ok None
     else then_do (read_state (\<lambda>s. \<exists>a \<in> set (db_assignments s). an_bounty_id a = bountyId)) (\<lambda>ever.
       then_do (recordClosed db_now bountyId ''refunded'') (\<lambda>_.
       then_do (update_bounty bountyId (\<lambda>b. b\<lparr>bo_status := (if ever then Bounty_expired else Cancelled)\<rparr>)) (\<lambda>_.
       then_do (case live of None \<Rightarrow> return_ok ()
         | Some a \<Rightarrow> release_funded now f a (funder_of f) ''The funder took the escrow back after its deadline.'' None False) (\<lambda>_.
       then_do (audit ''agent'' ''bounty.escrow_closed_by_funder'' (Some bountyId)) (\<lambda>_.
       return_ok (Some (if ever then Rec_refunded else Rec_cancelled))))))))"

definition applicant_with_wallet :: "string \<Rightarrow> string \<Rightarrow> agent_db \<Rightarrow> application_row option" where
  "applicant_with_wallet bountyId wallet s = find (\<lambda>x. al_bounty_id x = bountyId
     \<and> (\<exists>w \<in> set (db_wallet_links s). wk_github_user_id w = al_github_user_id x \<and> live_link w \<and> wk_address w = wallet)) (db_applications s)"

definition reconcile_named :: "string \<Rightarrow> time_ms \<Rightarrow> time_ms \<Rightarrow> string \<Rightarrow> funded_row \<Rightarrow> assignment_row option \<Rightarrow> string \<Rightarrow> reconciled option agent_eff" where
  "reconcile_named newId now db_now bountyId f live named =
     (case live of
        Some a \<Rightarrow>
          then_do (read_state (wallet_of (an_github_user_id a))) (\<lambda>linked.
          let wallet = (case ew_contributor_wallet (fw_escrow f) of Some w \<Rightarrow> Some w | None \<Rightarrow> linked) in
          if ew_state (fw_escrow f) \<noteq> ''assigned'' \<and> wallet = Some named
          then then_do (recordAssigned db_now bountyId named None) (\<lambda>_. return_ok (Some Rec_assign_recorded))
          else return_ok None)
      | None \<Rightarrow>
          then_do (read_state (applicant_with_wallet bountyId named)) (\<lambda>app.
          case app of
            None \<Rightarrow>
              then_do (set_escrow (ew_id (fw_escrow f)) (\<lambda>x. x\<lparr>ew_last_error := Some (''assigned on-chain to '' @ named @ '', who has not applied with that wallet'')\<rparr>)) (\<lambda>_.
              then_do (audit ''agent'' ''escrow.assigned_to_unknown'' (Some bountyId)) (\<lambda>_. return_ok (Some Rec_assigned_to_unknown)))
          | Some x \<Rightarrow> then_do (recordAssignment newId now db_now f x named None (funder_of f)) (\<lambda>_. return_ok (Some Rec_assigned_outside))))"

definition reconcile_unnamed :: "attestor option \<Rightarrow> time_ms \<Rightarrow> time_ms \<Rightarrow> string \<Rightarrow> funded_row \<Rightarrow> assignment_row option \<Rightarrow> reconciled option agent_eff" where
  "reconcile_unnamed att now db_now bountyId f live =
     (let e = fw_escrow f in
      case live of
        None \<Rightarrow> then_do (if ew_state e = ''assigned'' then recordUnassigned db_now bountyId None else return_ok ()) (\<lambda>_. return_ok None)
      | Some a \<Rightarrow>
          if ew_state e = ''funded'' \<and> ew_assignment_mode e = Mode_draw
          then then_do (read_state (\<lambda>s. non_empty (wallet_of (an_github_user_id a) s))) (\<lambda>w.
            then_do (case w of None \<Rightarrow> return_ok () | Some wallet \<Rightarrow> then_do (attestAssign att db_now f wallet) (\<lambda>_. return_ok ())) (\<lambda>_.
            return_ok (Some Rec_assign_retried)))
          else if ew_state e = ''assigned''
          then then_do (read_state (preparedRecently now (ew_id e) ''unassign_prepared'')) (\<lambda>prep.
            then_do (read_state (agreedProposal (an_id a))) (\<lambda>ag.
            then_do (recordUnassigned db_now bountyId None) (\<lambda>_.
            if prep \<noteq> None \<and> (an_status a \<noteq> Pr_submitted \<or> ag \<noteq> None)
            then then_do (release_funded now f a (funder_of f) (text_of (Option.bind prep ee_reason)) (map_option up_id ag) False) (\<lambda>_.
              return_ok (Some Rec_unassign_recorded))
            else then_do (release_funded now f a (funder_of f) [] None True) (\<lambda>_. return_ok (Some Rec_unassigned_outside)))))
          else return_ok None)"

definition reconcileOne :: "platform \<Rightarrow> attestor option \<Rightarrow> chain \<Rightarrow> (string \<Rightarrow> string) \<Rightarrow> time_ms \<Rightarrow> time_ms \<Rightarrow> string \<Rightarrow> reconciled option agent_eff" where
  "reconcileOne P att ch newId now db_now bountyId =
     then_do (read_state (\<lambda>s. (funded_row_of bountyId s, holder_of bountyId s))) (\<lambda>(row, live).
     case row of
       None \<Rightarrow> throw (No_funded_row bountyId)
     | Some f \<Rightarrow>
         then_do (readChain P ch (ew_escrow_pubkey (fw_escrow f))) (\<lambda>acc.
         case acc of
           None \<Rightarrow> reconcile_closed now db_now bountyId f live
         | Some e \<Rightarrow>
             (case es_contributor e of
                Some c \<Rightarrow> reconcile_named (newId bountyId) now db_now bountyId f live (b58_encode P c)
              | None \<Rightarrow> reconcile_unnamed att now db_now bountyId f live)))"

definition to_reconcile :: "agent_db \<Rightarrow> string list" where
  "to_reconcile s = map bo_id (filter (\<lambda>b. bo_funded_by b \<noteq> None \<and> bo_status b \<in> {Posted, In_review, Payable}
     \<and> (\<exists>e \<in> set (db_escrows s). ew_bounty_id e = bo_id b \<and> ew_state e \<in> {''funded'', ''assigned''})) (db_bounties s))"

definition reconcile :: "platform \<Rightarrow> attestor option \<Rightarrow> chain \<Rightarrow> (string \<Rightarrow> string) \<Rightarrow> time_ms \<Rightarrow> time_ms \<Rightarrow> (string \<times> reconciled) list agent_eff" where
  "reconcile P att ch newId now db_now =
     then_do (read_state to_reconcile) (\<lambda>ids.
     gather (\<lambda>i. on_error (then_do (reconcileOne P att ch newId now db_now i) (\<lambda>what. return_ok (case what of None \<Rightarrow> [] | Some w \<Rightarrow> [(i, w)])))
       (\<lambda>_. return_ok [])) ids)"

definition reclaimConfirm :: "platform \<Rightarrow> escrow_deps \<Rightarrow> attestor option \<Rightarrow> chain \<Rightarrow> (string \<Rightarrow> string) \<Rightarrow> time_ms \<Rightarrow> time_ms \<Rightarrow> string \<Rightarrow> string
    \<Rightarrow> (funded_refusal + reconciled) agent_eff" where
  "reclaimConfirm P E att ch newId now db_now bountyId login =
     as_funder_do E bountyId login (\<lambda>_.
       then_do (reconcileOne P att ch newId now db_now bountyId) (\<lambda>what.
       case what of
         Some Rec_cancelled \<Rightarrow> return_ok (Inr Rec_cancelled)
       | Some Rec_refunded \<Rightarrow> return_ok (Inr Rec_refunded)
       | _ \<Rightarrow> return_ok (Inl Escrow_still_open)))"

section \<open>Tests, the record of a funder, and arbitration\<close>

definition markTest :: "string \<Rightarrow> string \<Rightarrow> string list \<Rightarrow> (funded_refusal + string list) agent_eff" where
  "markTest bountyId actor waive =
     then_do (read_state (funded_row_of bountyId)) (\<lambda>row.
     if row = None then return_ok (Inl Not_a_funded_bounty)
     else let rules = filter (\<lambda>w. w = ''block_org_members'') waive in
       if length rules \<noteq> length waive then return_ok (Inl Not_waivable)
       else then_do (update_bounty bountyId (\<lambda>b. b\<lparr>bo_is_test := True, bo_waived_eligibility_rules := rules\<rparr>)) (\<lambda>_.
         then_do (audit actor ''bounty.marked_test'' (Some bountyId)) (\<lambda>_. return_ok (Inr rules))))"

record funder_profile =
  pf_login :: string
  pf_bountiesFunded :: int
  pf_unassignedBeforePr :: int
  pf_disputesRaised :: int

definition funder_is :: "string \<Rightarrow> bounty_row \<Rightarrow> bool" where
  "funder_is login b \<longleftrightarrow> (case bo_funded_by b of None \<Rightarrow> False | Some l \<Rightarrow> to_lower l = to_lower login)"

definition bounty_of_funder :: "string \<Rightarrow> string \<Rightarrow> agent_db \<Rightarrow> bool" where
  "bounty_of_funder login i s \<longleftrightarrow> (\<exists>b \<in> set (db_bounties s). bo_id b = i \<and> funder_is login b)"

definition profile :: "string \<Rightarrow> agent_db \<Rightarrow> funder_profile" where
  "profile login s =
     \<lparr>pf_login = login,
      pf_bountiesFunded = count_of (\<lambda>e. bounty_of_funder login (ew_bounty_id e) s \<and> ew_state e \<notin> {''funding'', ''failed''}) (db_escrows s),
      pf_unassignedBeforePr = count_of (\<lambda>a. bounty_of_funder login (an_bounty_id a) s \<and> an_status a = Released_voluntary \<and> an_qualifying_pr_number a = None
        \<and> ((case an_released_by a of None \<Rightarrow> False | Some l \<Rightarrow> to_lower l = to_lower login) \<or> an_unassigned_on_chain_directly a)) (db_assignments s),
      pf_disputesRaised = count_of (\<lambda>p. bounty_of_funder login (up_bounty_id p) s \<and> up_proposed_by p = Funder_side \<and> up_status p = Prop_refused) (db_proposals s)\<rparr>"

definition leaveToDeadline :: "time_ms \<Rightarrow> string \<Rightarrow> string \<Rightarrow> (funded_refusal + unit) agent_eff" where
  "leaveToDeadline now i admin =
     then_do (read_state (\<lambda>s. find (\<lambda>p. up_id p = i \<and> up_status p = Prop_refused) (db_proposals s))) (\<lambda>row.
     case row of
       None \<Rightarrow> return_ok (Inl No_such_dispute)
     | Some p \<Rightarrow>
         then_do (set_proposal i (\<lambda>p. p\<lparr>up_arbitration := Some (''left_to_deadline'', admin, now)\<rparr>)) (\<lambda>_.
         then_do (audit admin ''dispute.left_to_deadline'' (Some (up_bounty_id p))) (\<lambda>_. return_ok (Inr ()))))"

definition conductNote :: "string \<Rightarrow> string \<Rightarrow> string \<Rightarrow> (funded_refusal + unit) agent_eff" where
  "conductNote i admin note =
     (let said = js_trim note in
      if said = [] then return_ok (Inl Note_required)
      else then_do (read_state (\<lambda>s. Option.bind (find (\<lambda>p. up_id p = i \<and> up_status p = Prop_refused) (db_proposals s))
          (\<lambda>p. map_option (\<lambda>b. (up_bounty_id p, text_of (bo_funded_by b))) (bounty_at (up_bounty_id p) s)))) (\<lambda>row.
      case row of
        None \<Rightarrow> return_ok (Inl No_such_dispute)
      | Some (bountyId, login) \<Rightarrow>
          then_do (modify (\<lambda>s. s\<lparr>db_conduct_notes := db_conduct_notes s @ [\<lparr>cn_funder_login = login, cn_bounty_id = bountyId, cn_note = take 2000 said,
            cn_recorded_by = admin\<rparr>]\<rparr>)) (\<lambda>_.
          then_do (audit admin ''dispute.conduct_note'' (Some bountyId)) (\<lambda>_. return_ok (Inr ())))))"

end
