(* ===== verification/Assignments.thy ===== *)
theory Assignments
  imports DrawSafety FundedAgreement
begin

text \<open>
  The assignments over all operations that touch them - the draw, the decisions, the sweeps, pull requests and
  the funded bounties: a bounty has one holder at most, and nothing completes an assignment.
\<close>

section \<open>The invariant\<close>

definition one_holder :: "agent_db \<Rightarrow> bool" where
  "one_holder s \<longleftrightarrow> distinct (map an_id (db_assignments s)) \<and> distinct (map an_bounty_id (filter holds (db_assignments s)))"

definition none_completed :: "agent_db \<Rightarrow> bool" where
  "none_completed s \<longleftrightarrow> (\<forall>a \<in> set (db_assignments s). an_status a \<noteq> Completed)"

definition assignments_ok :: "agent_db \<Rightarrow> bool" where
  "assignments_ok s \<longleftrightarrow> one_holder s \<and> none_completed s"

lemma set_update_where: "x \<in> set (update_where which f as) \<Longrightarrow> \<exists>a \<in> set as. x = (if which a then f a else a)"
  by (auto simp: update_where_def)

lemma holders_updated:
  assumes "\<And>a. an_id (f a) = an_id a \<and> an_bounty_id (f a) = an_bounty_id a" "\<And>a. which a \<Longrightarrow> holds (f a) \<Longrightarrow> holds a"
  shows "set (map an_bounty_id (filter holds (update_where which f as))) \<subseteq> set (map an_bounty_id (filter holds as))"
    and "distinct (map an_bounty_id (filter holds as)) \<Longrightarrow> distinct (map an_bounty_id (filter holds (update_where which f as)))"
    and "map an_id (update_where which f as) = map an_id as"
proof -
  show sub: "set (map an_bounty_id (filter holds (update_where which f as))) \<subseteq> set (map an_bounty_id (filter holds as))" for as
    using assms by (auto dest!: set_update_where split: if_splits)
  show "distinct (map an_bounty_id (filter holds as)) \<Longrightarrow> distinct (map an_bounty_id (filter holds (update_where which f as)))"
  proof (induction as)
    case (Cons a as)
    show ?case
    proof (cases "holds a")
      case True
      then have "an_bounty_id a \<notin> set (map an_bounty_id (filter holds as))" using Cons.prems by simp
      then have "an_bounty_id a \<notin> set (map an_bounty_id (filter holds (update_where which f as)))" using sub [of as] by blast
      then show ?thesis using Cons assms(1) True by simp
    next
      case False
      then have "\<not> holds (if which a then f a else a)" using assms(2) [of a] by auto
      then show ?thesis using Cons False by simp
    qed
  qed simp
  show "map an_id (update_where which f as) = map an_id as" using assms(1) by (auto simp: update_where_def)
qed

lemma assignments_ok_updated:
  assumes "\<And>a. an_id (f a) = an_id a \<and> an_bounty_id (f a) = an_bounty_id a" "\<And>a. which a \<Longrightarrow> holds (f a) \<Longrightarrow> holds a"
    and "\<And>a. an_status a \<noteq> Completed \<Longrightarrow> an_status (f a) \<noteq> Completed" "assignments_ok s"
  shows "assignments_ok (s\<lparr>db_assignments := update_where which f (db_assignments s)\<rparr>)"
proof -
  have "an_status x \<noteq> Completed" if "x \<in> set (update_where which f (db_assignments s))" for x
    using set_update_where [OF that] assms(3,4) by (auto simp: assignments_ok_def none_completed_def split: if_splits)
  then have "none_completed (s\<lparr>db_assignments := update_where which f (db_assignments s)\<rparr>)" by (simp add: none_completed_def)
  moreover have "one_holder (s\<lparr>db_assignments := update_where which f (db_assignments s)\<rparr>)"
    using assms(4) holders_updated(2,3) [of f which "db_assignments s", OF assms(1,2)] by (simp add: assignments_ok_def one_holder_def)
  ultimately show ?thesis by (simp add: assignments_ok_def)
qed

section \<open>Every statement keeps it\<close>

lemma keeps_ok_elsewhere: "leaves db_assignments m \<Longrightarrow> keeps assignments_ok m"
  by (erule leaves_keeps) (simp add: assignments_ok_def one_holder_def none_completed_def)

lemma keeps_ok_update:
  assumes "\<And>a. an_id (f a) = an_id a \<and> an_bounty_id (f a) = an_bounty_id a" "\<And>s a. which s a \<Longrightarrow> holds (f a) \<Longrightarrow> holds a"
    and "\<And>a. an_status a \<noteq> Completed \<Longrightarrow> an_status (f a) \<noteq> Completed"
  shows "keeps assignments_ok (modify (\<lambda>s. s\<lparr>db_assignments := update_where (which s) f (db_assignments s)\<rparr>))"
  using assms by (intro keeps_modify assignments_ok_updated)

named_theorems keeps_ok

lemma keeps_ok_statements [keeps_ok]:
  "an_status a \<noteq> Completed \<Longrightarrow> keeps assignments_ok (insert_assignment a)"
  "keeps assignments_ok (release_by_decision k d say who)"
  "keeps assignments_ok (release_row now k who say direct)"
  "(\<And>a. which a \<Longrightarrow> holds a) \<Longrightarrow> st \<noteq> Completed \<Longrightarrow> keeps assignments_ok (set_assignment_status which st)"
  unfolding insert_assignment_def release_by_decision_def set_assignment_status_def release_row_def
  subgoal by (auto simp: keeps_def then_do_def ensure_def modify_def assignments_ok_def one_holder_def none_completed_def)
  subgoal by (rule keeps_ok_update) (auto simp: holds_def)
  subgoal by (rule keeps_ok_update) (auto simp: holds_def)
  subgoal by (rule keeps_ok_update) (auto simp: holds_def)
  done

lemma keeps_ok_leaves [keeps_ok]:
  "keeps assignments_ok (audit w a c)" "keeps assignments_ok (enqueueEvent e)" "keeps assignments_ok (update_bounty i g)"
  "keeps assignments_ok (insert_draw dr)" "keeps assignments_ok (mark_drawn b u)" "keeps assignments_ok (back_in_pool b l)"
  "keeps assignments_ok (post_on tk rp n m)" "keeps assignments_ok (set_escrow i h)" "keeps assignments_ok (escrow_event d i k tx re)"
  "keeps assignments_ok (upsertSubmission ni d i pr st)" "keeps assignments_ok (readChain P ch k')" "keeps assignments_ok (set_proposal i q)"
  "keeps assignments_ok (ask_github r)" "keeps assignments_ok (bountiesClosedBy gh full prn)"
  by (auto simp: readChain_def public_key_def ask_chain_def set_escrow_def escrow_event_def set_proposal_def
      intro!: keeps_ok_elsewhere leaves_intros)

lemma keeps_ok_record [keeps_ok]:
  "keeps assignments_ok (recordAssigned d i w tx)" "keeps assignments_ok (recordUnassigned d i tx)" "keeps assignments_ok (recordClosed d i st)"
  unfolding recordAssigned_def recordUnassigned_def recordClosed_def record_escrow_def
  by (auto intro!: keeps_ok_elsewhere leaves_intros simp: escrow_event_def)

section \<open>Every operation keeps it\<close>

lemma new_assignment_active [simp]: "an_status (new_assignment k i d u l now st) = Active"
  by (simp add: new_assignment_def)

lemma keeps_ok_draw: "keeps assignments_ok (runDrawFor fr i opts)"
  by (auto simp: runDrawFor_def drawn_def assign_winner_def Let_def intro!: keeps_intros keeps_ok)

lemma keeps_ok_other_tables [keeps_ok]:
  "(\<And>s. db_assignments (g s) = db_assignments s) \<Longrightarrow> keeps assignments_ok (modify g)"
  by (rule keeps_ok_elsewhere) (rule leaves_modify)

lemma keeps_ok_stale_at [keeps_ok]:
  "keeps assignments_ok (modify (\<lambda>s. s\<lparr>db_assignments := update_where (\<lambda>x. an_id x = k) (\<lambda>x. x\<lparr>an_stale_at := n\<rparr>) (db_assignments s)\<rparr>))"
  by (rule keeps_ok_update) (auto simp: holds_def)

lemma keeps_ok_decisions:
  "keeps assignments_ok (unassignByDecision d i who why)" "keeps assignments_ok (closeByDecision d i who why)"
  "keeps assignments_ok (setAssignmentDeadline now i due_at who why)"
  unfolding unassignByDecision_def closeByDecision_def close_in_transaction_def setAssignmentDeadline_def Let_def
  by (intro keeps_basic keeps_then keeps_cases keeps_transaction keeps_inside keeps_ok; simp)+

lemma keeps_ok_sweep:
  "keeps assignments_ok (releaseStaleAssignments now)"
proof -
  have recorded: "keeps assignments_ok recordSubmittedPullRequests"
    unfolding recordSubmittedPullRequests_def
    by (auto intro!: keeps_basic keeps_then keeps_for_each keeps_ok keeps_modify assignments_ok_updated split: prod.split simp: holds_def)
  have "keeps assignments_ok (release_stale now)"
    unfolding release_stale_def
    by (auto intro!: keeps_basic keeps_then keeps_for_each keeps_ok keeps_modify assignments_ok_updated split: prod.split simp: holds_def released_stale_def)
  with recorded show ?thesis
    unfolding releaseStaleAssignments_def warn_expiring_def
    by (auto intro!: keeps_basic keeps_then keeps_gather keeps_ok)
qed

lemma keeps_ok_windows: "keeps assignments_ok (closeDueWindows now d ids)"
proof -
  have "keeps assignments_ok (close_window now d cfg ids b)" for cfg b
    unfolding close_window_def extend_window_def Let_def
    by (auto intro!: keeps_basic keeps_then keeps_cases keeps_ok keeps_ok_draw split: prod.split)
  then show ?thesis
    unfolding closeDueWindows_def
    by (auto intro!: keeps_basic keeps_then keeps_gather keeps_ok_sweep split: prod.split)
qed

lemma keeps_ok_reopen [keeps_ok]: "keeps assignments_ok (reopenAfterUnmergedClose i who hold)"
  unfolding reopenAfterUnmergedClose_def Let_def
  by (auto intro!: keeps_basic keeps_then keeps_cases keeps_transaction keeps_inside keeps_ok simp: holds_def)

lemma keeps_ok_repair: "keeps assignments_ok (reopenAfterClosedPullRequest gh d i who hold)"
proof -
  have "keeps assignments_ok (refresh_submissions gh full d i ns so_far)" for full ns so_far
    by (induction ns arbitrary: so_far) (auto intro!: keeps_basic keeps_then keeps_ok)
  then show ?thesis
    unfolding reopenAfterClosedPullRequest_def
    by (auto intro!: keeps_basic keeps_then keeps_ok split: option.split prod.split)
qed

lemma keeps_ok_pulls:
  "keeps assignments_ok (onPullRequestActivity other gh infs newId d full n)"
  "keeps assignments_ok (onPullRequestClosed cfg gh newId newPayoutId now d full n)"
proof -
  have set: "keeps assignments_ok (modify (\<lambda>s. s\<lparr>db_assignments := update_where (\<lambda>a. an_bounty_id a = i \<and> an_github_user_id a = u \<and> an_status a = Active)
      (\<lambda>a. a\<lparr>an_status := Pr_submitted, an_qualifying_pr_number := k\<rparr>) (db_assignments s)\<rparr>))" for i u k
    by (rule keeps_ok_update) (auto simp: holds_def)
  have review: "keeps assignments_ok (reviewSubmission other gh ifr full b sub pr)" for ifr b sub pr
    by (rule keeps_ok_elsewhere) (auto intro!: leaves_intros)
  show "keeps assignments_ok (onPullRequestActivity other gh infs newId d full n)"
    unfolding onPullRequestActivity_def pr_activity_on_def
    by (auto intro!: keeps_basic keeps_then keeps_cases keeps_for_each keeps_ok review set split: prod.split)
  have merged: "keeps assignments_ok (pr_merged_on cfg gh newPayoutId now d full row pr sub b)" for row pr sub b
    unfolding pr_merged_on_def by (auto intro!: keeps_ok_elsewhere leaves_intros)
  show "keeps assignments_ok (onPullRequestClosed cfg gh newId newPayoutId now d full n)"
    unfolding onPullRequestClosed_def pr_closed_on_def
    by (auto intro!: keeps_basic keeps_then keeps_cases keeps_for_each keeps_gather keeps_ok merged split: prod.split simp: holds_def)
qed

section \<open>Funded bounties\<close>

lemma keeps_as_funder: "(\<And>f. keeps I (k f)) \<Longrightarrow> keeps I (as_funder_do E i login k)"
  unfolding as_funder_do_def by (intro keeps_basic keeps_then keeps_cases)

lemma keeps_ok_funded_statements [keeps_ok]:
  "keeps assignments_ok (release_funded now f a who why k direct)" "keeps assignments_ok (recordAssignment newId now d f x w tx who)"
  "keeps assignments_ok (ask_assign A e w)" "keeps assignments_ok (ask_unassign A e)" "keeps assignments_ok (attestAssign att d f w)"
  "keeps assignments_ok (funderUnassignTransaction P E ch ek fk)" "keeps assignments_ok (tell u ev)"
proof -
  show "keeps assignments_ok (release_funded now f a who why k direct)"
    unfolding release_funded_def Let_def by (auto intro!: keeps_basic keeps_then keeps_cases keeps_ok)
  show "keeps assignments_ok (recordAssignment newId now d f x w tx who)"
    unfolding recordAssignment_def Let_def by (auto intro!: keeps_basic keeps_then keeps_ok)
  show asks: "keeps assignments_ok (ask_assign A e w)" "keeps assignments_ok (ask_unassign A e)" for A e w
    unfolding ask_assign_def ask_unassign_def by (auto intro!: keeps_basic keeps_then keeps_ok)
  show "keeps assignments_ok (attestAssign att d f w)"
    unfolding attestAssign_def by (auto intro!: keeps_basic keeps_then keeps_cases keeps_ok asks)
  show "keeps assignments_ok (funderUnassignTransaction P E ch ek fk)"
    unfolding funderUnassignTransaction_def unsigned_for_def public_key_def ask_chain_def
    by (auto intro!: keeps_basic keeps_then keeps_cases)
  show "keeps assignments_ok (tell u ev)"
    unfolding tell_def by (auto intro!: keeps_basic keeps_then keeps_ok)
qed

lemma keeps_ok_funded:
  "keeps assignments_ok (assignConfirm P E ch newId now d i login app sig)" "keeps assignments_ok (fundedDraw E att fr i login sim)"
  "keeps assignments_ok (unassign P E att ch now d i login why)" "keeps assignments_ok (unassignConfirm P E ch now d i login why sig)"
  subgoal unfolding assignConfirm_def by (auto intro!: keeps_as_funder keeps_basic keeps_then keeps_cases keeps_ok)
  subgoal unfolding fundedDraw_def Let_def by (cases sim) (auto intro!: keeps_as_funder keeps_basic keeps_then keeps_cases keeps_ok keeps_ok_draw)
  subgoal unfolding unassign_def Let_def by (auto intro!: keeps_as_funder keeps_basic keeps_then keeps_cases keeps_ok)
  subgoal unfolding unassignConfirm_def by (auto intro!: keeps_as_funder keeps_basic keeps_then keeps_cases keeps_ok)
  done

lemma keeps_ok_carryOut [keeps_ok]: "keeps assignments_ok (carryOut att now d k)"
  unfolding carryOut_def Let_def by (auto intro!: keeps_basic keeps_then keeps_cases keeps_ok)

lemma keeps_ok_agreement:
  "keeps assignments_ok (respond att now d k login u accept why)" "keeps assignments_ok (expireProposals att now d)"
  subgoal unfolding respond_def Let_def by (auto intro!: keeps_basic keeps_then keeps_cases keeps_ok)
  subgoal unfolding expireProposals_def by (auto intro!: keeps_basic keeps_then keeps_for_each keeps_ok split: prod.split)
  done

lemma keeps_ok_reconcileOne [keeps_ok]: "keeps assignments_ok (reconcileOne P att ch newId now d i)"
  unfolding reconcileOne_def reconcile_closed_def reconcile_named_def reconcile_unnamed_def Let_def
  by (auto intro!: keeps_basic keeps_then keeps_cases keeps_ok)

lemma keeps_ok_reconcile:
  "keeps assignments_ok (reconcile P att ch newId now d)" "keeps assignments_ok (reclaimConfirm P E att ch newId now d i login)"
  subgoal unfolding reconcile_def by (auto intro!: keeps_basic keeps_then keeps_gather keeps_on_error keeps_ok)
  subgoal unfolding reclaimConfirm_def by (auto intro!: keeps_as_funder keeps_basic keeps_then keeps_ok split: option.split reconciled.split)
  done

section \<open>The whole program's assignments\<close>

text \<open>An operation that touches assignments, run to its end, whether it returns or throws.\<close>

inductive assignment_step :: "agent_db \<Rightarrow> agent_db \<Rightarrow> bool" where
  by_draw: "assignment_step s (snd (runDrawFor fr i opts s))"
| by_windows: "assignment_step s (snd (closeDueWindows now d ids s))"
| by_sweep: "assignment_step s (snd (releaseStaleAssignments now s))"
| by_unassigning: "assignment_step s (snd (unassignByDecision d i who why s))"
| by_closing: "assignment_step s (snd (closeByDecision d i who why s))"
| by_deadline: "assignment_step s (snd (setAssignmentDeadline now i due_at who why s))"
| by_repair: "assignment_step s (snd (reopenAfterClosedPullRequest gh d i who hold s))"
| by_activity: "assignment_step s (snd (onPullRequestActivity other gh infs newIds d full n s))"
| by_close: "assignment_step s (snd (onPullRequestClosed cfg gh newIds newPayoutId now d full n s))"
| by_funder: "assignment_step s (snd (assignConfirm P E ch newId now d i login app sig s))"
| by_funded_draw: "assignment_step s (snd (fundedDraw E att fr i login sim s))"
| by_funder_unassigning: "assignment_step s (snd (unassign P E att ch now d i login why s))"
| by_funder_unassigned: "assignment_step s (snd (unassignConfirm P E ch now d i login why sig s))"
| by_answer: "assignment_step s (snd (respond att now d k login u accept why s))"
| by_silence: "assignment_step s (snd (expireProposals att now d s))"
| by_reconciling: "assignment_step s (snd (reconcile P att ch newIds now d s))"
| by_reclaiming: "assignment_step s (snd (reclaimConfirm P E att ch newIds now d i login s))"

inductive assignments_reach :: "agent_db \<Rightarrow> bool" where
  nobody: "db_assignments s = [] \<Longrightarrow> assignments_reach s"
| untouched: "assignments_reach s \<Longrightarrow> db_assignments t = db_assignments s \<Longrightarrow> assignments_reach t"
| touched: "assignments_reach s \<Longrightarrow> assignment_step s t \<Longrightarrow> assignments_reach t"

lemma assignment_step_ok: "assignment_step s t \<Longrightarrow> assignments_ok s \<Longrightarrow> assignments_ok t"
proof (induction rule: assignment_step.induct)
qed (use keeps_ok_draw keeps_ok_windows keeps_ok_sweep keeps_ok_decisions keeps_ok_repair keeps_ok_pulls keeps_ok_funded
      keeps_ok_agreement keeps_ok_reconcile in \<open>auto simp: keeps_def\<close>)

lemma assignments_reach_ok: "assignments_reach s \<Longrightarrow> assignments_ok s"
proof (induction rule: assignments_reach.induct)
  case (touched s t)
  then show ?case by (blast intro: assignment_step_ok)
qed (auto simp: assignments_ok_def one_holder_def none_completed_def)

text \<open>
  C10. Whatever the program does to assignments - draws, decisions, sweeps, pull requests, the funders' actions
  and the reconciliation with the chain, in any order -, no bounty is ever held by two assignments.
\<close>

theorem one_live_assignment_per_bounty:
  assumes "assignments_reach s" "a \<in> set (db_assignments s)" "b \<in> set (db_assignments s)"
    and "holds a" "holds b" "an_bounty_id a = an_bounty_id b"
  shows "a = b"
proof -
  have "distinct (map an_bounty_id (filter holds (db_assignments s)))"
    using assignments_reach_ok [OF assms(1)] by (simp add: assignments_ok_def one_holder_def)
  then show ?thesis using assms(2-6) by (auto simp: distinct_map inj_on_def)
qed

lemma demo_drawn_reached: "assignments_reach (snd (runDrawFor demo_fresh ''b'' automatic demo_waiting_db))"
  by (rule touched [OF nobody [OF demo_waiting(6)] by_draw])

theorem one_live_assignment_per_bounty_witness:
  "\<exists>t a. assignments_reach t \<and> holder_of ''b'' t = Some a \<and> (\<forall>x \<in> set (db_assignments t). holds x \<and> an_bounty_id x = ''b'' \<longrightarrow> x = a)"
proof -
  obtain out t a where r: "runDrawFor demo_fresh ''b'' automatic demo_waiting_db = (Inr (Inr out), t)" "holder_of ''b'' t = Some a"
    using demo_drawn by blast
  have reach: "assignments_reach t" using demo_drawn_reached r(1) by simp
  have a: "a \<in> set (db_assignments t)" "holds a" "an_bounty_id a = ''b''" using r(2) by (auto simp: holder_of_def dest: find_SomeD)
  have "x = a" if "x \<in> set (db_assignments t)" "holds x" "an_bounty_id x = ''b''" for x
    using one_live_assignment_per_bounty [OF reach that(1) a(1) that(2) a(2)] that(3) a(3) by simp
  with reach r(2) show ?thesis by blast
qed

text \<open>
  C25. Nothing in the program completes an assignment: in every state it reaches, everybody has no completed
  bounty. So the weight for completions stays at its floor, everybody who applies counts as a newcomer, and
  a bounty reserved for newcomers is drawn among all who wait, whoever was paid before.
\<close>

theorem nobody_ever_completes:
  assumes "assignments_reach s"
  shows "fst (history_of u s) = 0 \<and> da_completions (applicant_of s x) = 0
    \<and> (rows = [] \<or> reserve_for_newcomers b s rows = Some (rows, False))"
proof -
  have "none_completed s" using assignments_reach_ok [OF assms] by (simp add: assignments_ok_def)
  then have none: "fst (history_of u s) = 0" for u
    by (auto simp: history_of_def Let_def count_of_def none_completed_def filter_empty_conv)
  then have "newcomer s = (\<lambda>_. True)" by (simp add: newcomer_def fun_eq_iff)
  then have "rows \<noteq> [] \<Longrightarrow> reserve_for_newcomers b s rows = Some (rows, False)" by (simp add: reserve_for_newcomers_def)
  moreover have "da_completions (applicant_of s x) = 0"
    using none [of "al_github_user_id x"] by (auto simp: applicant_of_def split: prod.split)
  ultimately show ?thesis using none by blast
qed

theorem nobody_ever_completes_witness:
  "fst (history_of 1 (snd (runDrawFor demo_fresh ''b'' automatic demo_waiting_db))) = 0"
  using nobody_ever_completes [OF demo_drawn_reached] by blast

end
