(* ===== verification/FundedSafety.thy ===== *)
theory FundedSafety
  imports FundedAgreement DrawSafety AgentSafety Assignments
begin

text \<open>
  What the funded bounties promise: the quote, that a bounty appears only once the chain holds what was quoted,
  and that the attestor ends an assignment with a pull request only when both sides agreed.
\<close>

section \<open>Frames\<close>

lemma leaves_escrow_statements [leaves_intros]:
  "(\<And>s x. view (s\<lparr>db_escrows := x\<rparr>) = view s) \<Longrightarrow> leaves view (set_escrow i h)"
  "(\<And>s x. view (s\<lparr>db_escrow_events := x\<rparr>) = view s) \<Longrightarrow> leaves view (escrow_event d i k tx re)"
  "(\<And>s x. view (s\<lparr>db_proposals := x\<rparr>) = view s) \<Longrightarrow> leaves view (set_proposal i q)"
  "(\<And>s x. view (s\<lparr>db_events := x\<rparr>) = view s) \<Longrightarrow> leaves view (tell u ev)"
  "leaves view (public_key P key)" "leaves view (ask_chain cr)" "leaves view (readChain P ch key)"
  "leaves view (unsigned_for ch ix payer)" "leaves view (funderUnassignTransaction P E ch key fkey)"
  by (auto simp: set_escrow_def escrow_event_def set_proposal_def tell_def public_key_def ask_chain_def readChain_def unsigned_for_def
      funderUnassignTransaction_def intro!: leaves_intros)

lemma leaves_record [leaves_intros]:
  assumes "\<And>s x. view (s\<lparr>db_escrows := x\<rparr>) = view s" "\<And>s x. view (s\<lparr>db_escrow_events := x\<rparr>) = view s"
  shows "leaves view (recordAssigned d i w tx)" "leaves view (recordUnassigned d i tx)" "leaves view (recordClosed d i st)"
  using assms by (auto simp: recordAssigned_def recordUnassigned_def recordClosed_def record_escrow_def intro!: leaves_intros)

lemma leaves_release [leaves_intros]:
  assumes "\<And>s x. view (s\<lparr>db_assignments := x\<rparr>) = view s" "\<And>s x. view (s\<lparr>db_applications := x\<rparr>) = view s"
    and "\<And>s x. view (s\<lparr>db_bounties := x\<rparr>) = view s" "\<And>s x. view (s\<lparr>db_proposals := x\<rparr>) = view s"
    and "\<And>s x. view (s\<lparr>db_audit := x\<rparr>) = view s" "\<And>s x. view (s\<lparr>db_events := x\<rparr>) = view s"
  shows "leaves view (release_funded now f a who why k direct)"
  using assms by (auto simp: release_funded_def release_row_def Let_def intro!: leaves_intros)

lemma wp_as_funder:
  assumes "\<And>e. Q (Inl e) s" "\<And>f. asFunder E i login s = Inr f \<Longrightarrow> wp (k f) Q X s"
  shows "wp (as_funder_do E i login k) Q X s"
  using assms by (auto simp: as_funder_do_def wp_simps split: sum.split)

lemma asFunder_funder:
  assumes "asFunder E i login s = Inr f"
  shows "funded_row_of i s = Some f" "to_lower (funder_of f) = to_lower login" "enabledFor E login s"
  using assms by (auto simp: asFunder_def split: option.splits if_splits)

lemma wp_ask_unassign: "wp (ask_unassign A e) Q X s = Q (at_unassign A e) (s\<lparr>db_attested := db_attested s @ [Attest_unassign e]\<rparr>)"
  by (simp add: ask_unassign_def wp_simps)

section \<open>Ending an assignment\<close>

text \<open>
  C7. When a funder's request to unassign leads to a signature being asked of the attestor, the caller is the
  funder, the bounty is in draw mode and its escrow assigned, and either no pull request of the holder is
  recorded or both sides have agreed to a proposal about this very assignment; and the attestor is asked once.
\<close>

theorem attestor_unassigns_by_the_two_sided_rule:
  assumes "unassign P E att ch now d i login why s = (r, t)" "db_attested t \<noteq> db_attested s"
  shows "\<exists>f a. funded_row_of i s = Some f \<and> to_lower (funder_of f) = to_lower login \<and> ew_assignment_mode (fw_escrow f) = Mode_draw
    \<and> ew_state (fw_escrow f) = ''assigned'' \<and> holder_of i s = Some a
    \<and> (an_status a = Active \<or> (\<exists>p \<in> set (db_proposals s). up_assignment_id p = an_id a \<and> agreed p \<and> up_carried_out_at p = None))
    \<and> db_attested t = db_attested s @ [Attest_unassign (ew_escrow_pubkey (fw_escrow f))]"
    (is "?P t")
proof -
  have agreed: "\<exists>p \<in> set (db_proposals s). up_assignment_id p = k \<and> agreed p \<and> up_carried_out_at p = None" if "agreedProposal k s = Some p" for k p
    using find_SomeD [OF that [unfolded agreedProposal_def]] by auto
  have live: "an_status a = Active" if "holder_of i s = Some a" "an_status a \<noteq> Pr_submitted" for a
    using find_SomeD [OF that(1) [unfolded holder_of_def]] that(2) by (auto simp: holds_def)
  have "wp (unassign P E att ch now d i login why) (\<lambda>_ t. db_attested t = db_attested s \<or> ?P t) (\<lambda>_ t. db_attested t = db_attested s \<or> ?P t) s"
    unfolding unassign_def Let_def
    apply (rule wp_as_funder, simp)
    apply (frule asFunder_funder(1), frule asFunder_funder(2))
    apply (auto simp: wp_simps wp_ask_unassign split: option.split sum.split
        intro!: wp_leaves [where view = db_attested] leaves_intros dest: agreed live)
    done
  then show ?thesis using assms by (auto simp: wp_state)
qed

text \<open>
  C24. An answer that is taken - an acceptance or a refusal - is to a pending proposal about the assignment that
  still holds the bounty, and comes from the party that did not make it: nobody answers their own proposal.
\<close>

theorem only_the_other_side_answers:
  assumes "respond att now d k login u accept response s = (Inr (Inr c), t)"
  shows "\<exists>p f a w. proposal_at k s = Some p \<and> up_status p = Prop_pending \<and> funded_row_of (up_bounty_id p) s = Some f
    \<and> holder_of (up_bounty_id p) s = Some a \<and> an_id a = up_assignment_id p \<and> side f a login u = Some w \<and> w \<noteq> up_proposed_by p
    \<and> (accept \<longleftrightarrow> c \<noteq> None)"
  using assms
  by (auto simp: respond_def then_do_def read_state_def return_ok_def throw_def Let_def split: option.splits if_splits prod.splits sum.splits)

section \<open>A bounty appears once the chain holds what was quoted\<close>

lemma confirmFunding_result:
  assumes "confirmFunding P ch d i signature s = (Inr r, t)"
  shows "case r of
     Inr key \<Rightarrow> \<exists>e k bytes acc. escrow_row_of i s = Some e \<and> ew_state e = ''funding'' \<and> b58_decode P (ew_escrow_pubkey e) = Some k
        \<and> ch_account ch k = Inr (Some bytes) \<and> decodeEscrow bytes = Some acc \<and> es_amount acc = ew_amount_minor e
        \<and> es_feeAmount acc = ew_fee_amount_minor e \<and> db_bounties t = db_bounties s
   | Inl _ \<Rightarrow> db_bounties t = db_bounties s"
  using assms
  by (auto simp: confirmFunding_def readChain_def public_key_def ask_chain_def lift_sum_def then_do_def read_state_def return_ok_def throw_def
      set_escrow_def escrow_event_def modify_def split: option.splits if_splits prod.splits sum.splits)

text \<open>
  C8. A funded bounty appears - goes from funding to posted - by the confirmation of its funder only when the
  chain's own account of its escrow holds the amount and the fee that were quoted; and a confirmation that is
  refused opens nothing.
\<close>

theorem funded_bounty_appears_with_its_money:
  assumes "confirm P E gh ch now d i login signature s = (Inr r, t)"
  shows "db_bounties t = db_bounties s \<or>
    (\<exists>f k bytes acc. r = Inr (''funded'', False) \<and> funded_row_of i s = Some f \<and> bo_status (fw_bounty f) = Funding
      \<and> to_lower (funder_of f) = to_lower login \<and> b58_decode P (ew_escrow_pubkey (fw_escrow f)) = Some k
      \<and> ch_account ch k = Inr (Some bytes) \<and> decodeEscrow bytes = Some acc
      \<and> es_amount acc = ew_amount_minor (fw_escrow f) \<and> es_feeAmount acc = ew_fee_amount_minor (fw_escrow f))"
proof (cases "asFunder E i login s")
  case (Inl e)
  then show ?thesis using assms by (auto simp: confirm_def as_funder_do_def then_do_def read_state_def return_ok_def)
next
  case (Inr f)
  note f = asFunder_funder [OF Inr]
  have e: "escrow_row_of i s = Some (fw_escrow f)"
    using f(1) by (auto simp: funded_row_of_def split: option.splits prod.splits if_splits)
  show ?thesis
  proof (cases "bo_status (fw_bounty f) = Funding")
    case True
    obtain r' u where u: "confirmFunding P ch d i signature s = (r', u)" by fastforce
    show ?thesis
    proof (cases r')
      case (Inl x)
      then show ?thesis using assms Inr True u by (auto simp: confirm_def as_funder_do_def then_do_def read_state_def)
    next
      case ok: (Inr res)
      note res = confirmFunding_result [OF u [unfolded ok]]
      show ?thesis
      proof (cases res)
        case (Inl x)
        then show ?thesis using assms Inr True u ok res by (auto simp: confirm_def as_funder_do_def then_do_def read_state_def return_ok_def)
      next
        case yes: (Inr key)
        have "r = Inr (''funded'', False)"
          using assms Inr True u ok yes
          by (auto simp: confirm_def as_funder_do_def then_do_def read_state_def return_ok_def split: prod.splits sum.splits if_splits)
        then show ?thesis using res yes e f True by auto
      qed
    qed
  next
    case False
    then show ?thesis using assms Inr by (auto simp: confirm_def as_funder_do_def then_do_def read_state_def return_ok_def)
  qed
qed

text \<open>
  C26. When the escrow is confirmed and the program stops before the bounty is opened, confirming again does not
  open it: every later confirmation is refused, because the escrow no longer awaits its funding.
\<close>

theorem half_confirmed_funding_stays_closed:
  assumes "confirmFunding P ch d i signature s = (Inr (Inr key), t)" "asFunder E i login s = Inr f" "bo_status (fw_bounty f) = Funding"
  shows "confirm P E gh ch' now d' i login signature' t = (Inr (Inl (Escrow_refused (Not_awaiting_funding ''funded''))), t)"
proof -
  from assms(1) obtain e where e: "escrow_row_of i s = Some e"
    and t: "t = s\<lparr>db_escrows := update_where (\<lambda>x. ew_id x = ew_id e) (\<lambda>x. x\<lparr>ew_state := ''funded'', ew_fund_tx := signature\<rparr>) (db_escrows s),
      db_escrow_events := db_escrow_events t\<rparr>"
    by (auto simp: confirmFunding_def readChain_def public_key_def ask_chain_def lift_sum_def then_do_def read_state_def return_ok_def throw_def
        set_escrow_def escrow_event_def modify_def split: option.splits if_splits prod.splits sum.splits)
  have row: "find (\<lambda>x. ew_bounty_id x = i) (update_where (\<lambda>x. ew_id x = ew_id e) g es) = Some (g e)"
    if "find (\<lambda>x. ew_bounty_id x = i) es = Some e" "\<And>x. ew_bounty_id (g x) = ew_bounty_id x" for g es
    using that by (induction es) (auto split: if_splits)
  have e': "escrow_row_of i t = Some (e\<lparr>ew_state := ''funded'', ew_fund_tx := signature\<rparr>)"
    using row [OF e [unfolded escrow_row_of_def]] by (subst t) (simp add: escrow_row_of_def)
  have same: "bounty_and_repo i t = bounty_and_repo i s" "enabledFor E login t = enabledFor E login s"
    by (subst t, simp add: bounty_and_repo_def bounty_at_def repo_of_def enabledFor_def escrow_enabled_def overrides_def)+
  have "asFunder E i login t = Inr (f\<lparr>fw_escrow := e\<lparr>ew_state := ''funded'', ew_fund_tx := signature\<rparr>\<rparr>)"
    using assms(2) e e' same
    by (auto simp: asFunder_def funded_row_of_def funder_of_def split: option.splits prod.splits if_splits)
  then show ?thesis
    using assms(3) e' by (simp add: confirm_def as_funder_do_def then_do_def read_state_def return_ok_def confirmFunding_def)
qed

section \<open>What is advertised and what is held\<close>

lemma find_update_where: "(\<And>r. P (f r) = P r) \<Longrightarrow> find P (update_where Q f rs) = map_option (\<lambda>r. if Q r then f r else r) (find P rs)"
  by (induction rs) auto

lemma readChain_account:
  assumes "b58_decode P key = Some k" "length k = 32" "ch_account ch k = Inr (Some bytes)" "decodeEscrow bytes = Some acc"
  shows "wp (readChain P ch key) Q X s = Q (Some acc) s"
  using assms by (simp add: readChain_def public_key_def ask_chain_def wp_simps)

text \<open>The confirmation of a funding that the chain holds opens the bounty.\<close>

lemma confirm_opens:
  assumes "asFunder E i login s = Inr f" "bo_status (fw_bounty f) = Funding" "ew_state (fw_escrow f) = ''funding''"
    and "b58_decode P (ew_escrow_pubkey (fw_escrow f)) = Some k" "length k = 32" "ch_account ch k = Inr (Some bytes)" "decodeEscrow bytes = Some acc"
    and "es_amount acc = ew_amount_minor (fw_escrow f)" "es_feeAmount acc = ew_fee_amount_minor (fw_escrow f)"
  shows "\<exists>u. confirm P E gh ch now d i login signature s = (Inr (Inr (''funded'', False)), u)
    \<and> map_option (\<lambda>c. (bo_status c, bo_amount_minor c)) (bounty_at i u) = Some (Posted, bo_amount_minor (fw_bounty f)) \<and> map_option ew_amount_minor (escrow_row_of i u) = Some (ew_amount_minor (fw_escrow f))"
proof -
  have b: "bounty_at i s = Some (fw_bounty f)" and e: "escrow_row_of i s = Some (fw_escrow f)"
    using asFunder_funder(1) [OF assms(1)] by (auto simp: funded_row_of_def bounty_and_repo_def split: option.splits prod.splits if_splits bind_splits)
  have id: "bo_id (fw_bounty f) = i" by (rule bounty_at_id [OF b])
  note facts = b [unfolded bounty_at_def] e [unfolded escrow_row_of_def]
  let ?Q = "\<lambda>r u. r = Inr (''funded'', False)
    \<and> map_option (\<lambda>c. (bo_status c, bo_amount_minor c)) (bounty_at i u) = Some (Posted, bo_amount_minor (fw_bounty f)) \<and> map_option ew_amount_minor (escrow_row_of i u) = Some (ew_amount_minor (fw_escrow f))"
  have "wp (confirm P E gh ch now d i login signature) ?Q (\<lambda>_ _. False) s"
    using assms facts id
    by (auto simp: confirm_def as_funder_do_def confirmFunding_def wp_simps e readChain_account [OF assms(4-7)] set_escrow_def escrow_event_def
        open_funded_def audit_def announce_def post_on_def ask_github_def update_bounty_def bounty_at_def escrow_row_of_def find_update_where
        Let_def simp del: map_option_eq_Some split: sum.split)
  from returned [OF this] show ?thesis by blast
qed

text \<open>Preparing again, with other terms, what is on the chain already: refused, but the bounty's row has the new terms.\<close>

lemma prepare_again:
  assumes "fund_checks P E limits gh now i s = Inr x"
    and "find (\<lambda>r. to_lower (ro_owner r) = to_lower (fx_owner x) \<and> to_lower (ro_name r) = to_lower (fx_name x)) (db_repos s) = Some r" "ro_enabled r"
    and "find (\<lambda>b. bo_repo_id b = ro_id r \<and> bo_issue_number b = fd_issueNumber i \<and> open_bounty b) (db_bounties s) = Some b"
    and "bo_status b = Funding" "to_lower (text_of (bo_funded_by b)) = to_lower (fd_login i)"
    and "escrow_row_of (bo_id b) s = Some e" "ew_state e = ''funding''"
    and "b58_decode P (ew_escrow_pubkey e) = Some k" "length k = 32" "ch_account ch k = Inr (Some bytes)" "decodeEscrow bytes = Some acc"
  shows "\<exists>t g. prepare P E limits gh ch now nb ne i s = (Inr (Inl (Escrow_refused (Escrow_exists ''funding''))), t)
    \<and> t = s\<lparr>db_bounties := update_where (\<lambda>y. bo_id y = bo_id b) g (db_bounties s)\<rparr>
    \<and> (\<forall>y. bo_id (g y) = bo_id y \<and> bo_status (g y) = bo_status y \<and> bo_funded_by (g y) = bo_funded_by y \<and> bo_repo_id (g y) = bo_repo_id y
       \<and> bo_amount_minor (g y) = fd_amountMinor i)"
proof -
  define g where "g = (\<lambda>y :: bounty_row. y\<lparr>bo_amount_minor := fd_amountMinor i, bo_currency := fd_currency i, bo_mint := am_mint (fx_mint x),
    bo_network := ed_network E, bo_issue_title := take 300 (fx_title x)\<rparr>)"
  have may: "enabledFor E (fd_login i) (s\<lparr>db_bounties := bs\<rparr>)" for bs
    using assms(1) by (auto simp: fund_checks_def enabledFor_def escrow_enabled_def overrides_def split: if_splits)
  have "wp (prepare P E limits gh ch now nb ne i) (\<lambda>v t. v = Inl (Escrow_refused (Escrow_exists ''funding''))
      \<and> t = s\<lparr>db_bounties := update_where (\<lambda>y. bo_id y = bo_id b) g (db_bounties s)\<rparr>) (\<lambda>_ _. False) s"
    using assms(1-8) may
    by (simp add: prepare_def fund_repo_def fund_bounty_def prepareFunding_def clear_unsigned_def wp_simps readChain_account [OF assms(9-12)]
        funding_input_of_def update_bounty_def escrow_row_of_def g_def)
  from returned [OF this] show ?thesis by (auto simp: g_def)
qed

text \<open>
  C27. The amount a funded bounty advertises need not be the amount its escrow holds: when the funding that was
  prepared is on the chain and the funder prepares again with another amount, the second preparation is refused
  but has rewritten the bounty's row, and the confirmation of the first then opens the bounty with the second
  amount.
\<close>

theorem advertised_amount_may_differ_from_the_escrow:
  assumes "fund_checks P E limits gh now i s = Inr x"
    and "find (\<lambda>r. to_lower (ro_owner r) = to_lower (fx_owner x) \<and> to_lower (ro_name r) = to_lower (fx_name x)) (db_repos s) = Some r" "ro_enabled r"
    and "find (\<lambda>b. bo_repo_id b = ro_id r \<and> bo_issue_number b = fd_issueNumber i \<and> open_bounty b) (db_bounties s) = Some b"
    and "asFunder E (bo_id b) (fd_login i) s = Inr f" "fw_bounty f = b" "bo_status b = Funding" "ew_state (fw_escrow f) = ''funding''"
    and "b58_decode P (ew_escrow_pubkey (fw_escrow f)) = Some k" "length k = 32" "ch_account ch k = Inr (Some bytes)" "decodeEscrow bytes = Some acc"
    and "es_amount acc = ew_amount_minor (fw_escrow f)" "es_feeAmount acc = ew_fee_amount_minor (fw_escrow f)"
  shows "\<exists>t u. prepare P E limits gh ch now nb ne i s = (Inr (Inl (Escrow_refused (Escrow_exists ''funding''))), t)
    \<and> confirm P E gh ch now' d (bo_id b) (fd_login i) signature t = (Inr (Inr (''funded'', False)), u)
    \<and> map_option (\<lambda>c. (bo_status c, bo_amount_minor c)) (bounty_at (bo_id b) u) = Some (Posted, fd_amountMinor i)
    \<and> map_option ew_amount_minor (escrow_row_of (bo_id b) u) = Some (es_amount acc)"
proof -
  note row = asFunder_funder [OF assms(5)]
  have e: "escrow_row_of (bo_id b) s = Some (fw_escrow f)" and b: "bounty_and_repo (bo_id b) s = Some (b, r')" if "fw_repo f = repo_full r'" "repo_of b s = Some r'" for r'
    using row(1) assms(6) that by (auto simp: funded_row_of_def bounty_and_repo_def split: option.splits prod.splits if_splits bind_splits)
  obtain r' where r': "fw_repo f = repo_full r'" "repo_of b s = Some r'" "bounty_at (bo_id b) s = Some b" "bo_funded_by b \<noteq> None"
    using row(1) assms(6) by (auto simp: funded_row_of_def bounty_and_repo_def split: option.splits prod.splits if_splits bind_splits)
  have who: "to_lower (text_of (bo_funded_by b)) = to_lower (fd_login i)" using row(2) assms(6) by (simp add: funder_of_def)
  from prepare_again [OF assms(1-4,7) who e [OF r'(1,2)] assms(8-12)] obtain t g where
    t: "prepare P E limits gh ch now nb ne i s = (Inr (Inl (Escrow_refused (Escrow_exists ''funding''))), t)"
      "t = s\<lparr>db_bounties := update_where (\<lambda>y. bo_id y = bo_id b) g (db_bounties s)\<rparr>"
    and g: "\<And>y. bo_id (g y) = bo_id y" "\<And>y. bo_status (g y) = bo_status y" "\<And>y. bo_funded_by (g y) = bo_funded_by y"
      "\<And>y. bo_repo_id (g y) = bo_repo_id y" "\<And>y. bo_amount_minor (g y) = fd_amountMinor i" by metis
  have "bounty_at (bo_id b) t = Some (g b)"
    using r'(3) g(1) by (simp add: t(2) bounty_at_def find_update_where)
  moreover have "repo_of (g b) t = Some r'" using r'(2) by (simp add: repo_of_def g t(2))
  moreover have "escrow_row_of (bo_id b) t = Some (fw_escrow f)" using e [OF r'(1,2)] by (simp add: escrow_row_of_def t(2))
  ultimately have "funded_row_of (bo_id b) t = Some (f\<lparr>fw_bounty := g b\<rparr>)"
    using r'(1,4) g(3) by (simp add: funded_row_of_def bounty_and_repo_def)
  then have fund: "asFunder E (bo_id b) (fd_login i) t = Inr (f\<lparr>fw_bounty := g b\<rparr>)"
    using row(3) who g(3) by (simp add: asFunder_def funder_of_def enabledFor_def escrow_enabled_def overrides_def t(2))
  from confirm_opens [OF fund, of P k ch bytes acc gh now' d signature] assms(7-14) g
  show ?thesis using t(1) by auto
qed

lemma updated_all: "x \<in> set (update_where (\<lambda>x. an_id x = k) g as) \<Longrightarrow> an_id x = k \<Longrightarrow> \<exists>y. x = g y"
  by (auto dest!: set_update_where split: if_splits)

text \<open>
  C28. The confirmation of an unassignment asks for no agreement: whatever the mode, when the chain's escrow is
  funded and names nobody - in draw mode also while the attestor's assignment is still pending -, a holder with
  an open pull request is released on the funder's word, although the request to unassign is refused.
\<close>

theorem unassign_confirm_needs_no_agreement:
  assumes "asFunder E i login s = Inr f" "holder_of i s = Some a" "an_status a = Pr_submitted" "agreedProposal (an_id a) s = None"
    and "b58_decode P (ew_escrow_pubkey (fw_escrow f)) = Some k" "length k = 32" "ch_account ch k = Inr (Some bytes)" "decodeEscrow bytes = Some acc"
    and "es_state acc = Funded" "es_contributor acc = None"
  shows "unassign P E att ch now d i login why s = (Inr (Inl Fund_pr_open), s)
    \<and> (\<exists>t. unassignConfirm P E ch now d i login why signature s = (Inr (Inr Unassigned_without_agreement), t)
         \<and> (\<forall>x \<in> set (db_assignments t). an_id x = an_id a \<longrightarrow> an_status x = Released_voluntary \<and> an_unassigned_on_chain_directly x))"
proof -
  have "wp (unassignConfirm P E ch now d i login why signature) (\<lambda>v t. v = Inr Unassigned_without_agreement
      \<and> (\<forall>x \<in> set (db_assignments t). an_id x = an_id a \<longrightarrow> an_status x = Released_voluntary \<and> an_unassigned_on_chain_directly x)) (\<lambda>_ _. False) s"
    using assms(1-4,9,10)
    by (auto simp: unassignConfirm_def as_funder_do_def wp_simps readChain_account [OF assms(5-8)] recordUnassigned_def record_escrow_def
        escrow_event_def release_funded_def release_row_def Let_def update_bounty_def audit_def enqueue_returns holder_of_def agreedProposal_def
        split: option.split dest!: updated_all)
  from returned [OF this] assms(1-4) show ?thesis
    by (auto simp: unassign_def as_funder_do_def then_do_def read_state_def return_ok_def Let_def)
qed

section \<open>Witnesses\<close>

definition zeros :: "nat \<Rightarrow> bytes" where
  "zeros n = replicate n (CHR 0x00)"

definition demo_account :: "nat \<Rightarrow> bytes" where
  "demo_account st = zeros 88 @ [CHR 0x05] @ zeros 17 @ [CHR 0x01] @ zeros 72 @ [char_of st] @ zeros 40"

lemma demo_decoded:
  "map_option (\<lambda>e. (es_amount e, es_feeAmount e, es_state e, es_contributor e)) (decodeEscrow (demo_account 0)) = Some (5, 1, Funded, None)"
  by code_simp

definition demo_deps :: escrow_deps where
  "demo_deps = \<lparr>ed_env = \<lparr>ee_program_id = ''p'', ee_find_program_address = (\<lambda>_ _. ([], 0)), ee_token_program = ''t'', ee_system_program = ''s'',
     ee_sysvar_rent = ''r'', ee_sha256 = id\<rparr>, ed_attestor = zeros 32, ed_feeDestination = zeros 32, ed_network = ''solana-devnet'',
     ed_mints = [''USDC'' \<mapsto> \<lparr>am_mint = zeros 32, am_decimals = 6\<rparr>], ed_testers = [''me'']\<rparr>"

definition demo_chain :: chain where
  "demo_chain = \<lparr>ch_account = (\<lambda>_. Inr (Some (demo_account 0))), ch_blockhash = Inr ''h'', ch_token_account = (\<lambda>_ _. Inr (zeros 32))\<rparr>"

definition demo_key :: string where
  "demo_key = replicate 32 (CHR ''k'')"

definition demo_escrow_row :: "string \<Rightarrow> escrow_row" where
  "demo_escrow_row st = \<lparr>ew_id = ''e'', ew_bounty_id = ''b'', ew_escrow_pubkey = demo_key, ew_vault_pubkey = [], ew_funder_wallet = demo_key,
     ew_contributor_wallet = None, ew_mint = ''m'', ew_currency = ''USDC'', ew_network = ''solana-devnet'', ew_amount_minor = 5, ew_fee_bps = 0,
     ew_fee_minimum_minor = 1, ew_fee_amount_minor = 1, ew_assignment_mode = Mode_draw, ew_state = st, ew_deadline_at = 100, ew_fund_tx = None,
     ew_assign_tx = None, ew_release_tx = None, ew_created_by = ''me'', ew_last_error = None\<rparr>"

definition demo_held :: assignment_row where
  "demo_held = (new_assignment ''a'' ''b'' None 1 ''ann'' 0 100)\<lparr>an_status := Pr_submitted, an_qualifying_pr_number := Some 8\<rparr>"

definition demo_funded_db :: "bounty_status \<Rightarrow> string \<Rightarrow> assignment_row list \<Rightarrow> proposal_row list \<Rightarrow> agent_db" where
  "demo_funded_db st escrow held ps = demo_waiting_db\<lparr>db_bounties := [demo_open_bounty\<lparr>bo_status := st, bo_funded_by := Some ''me'',
     bo_funded_by_github_user_id := Some 9\<rparr>], db_escrows := [demo_escrow_row escrow], db_assignments := held, db_proposals := ps\<rparr>"

definition demo_proposal :: proposal_row where
  "demo_proposal = new_proposal ''p'' ''b'' ''a'' Funder_side ''me'' ''why'' 100"

definition demo_attestor :: attestor where
  "demo_attestor = \<lparr>at_assign = (\<lambda>_ _. Inr ''s''), at_unassign = (\<lambda>_. Inr ''s'')\<rparr>"

definition demo_unassigned :: agent_db where
  "demo_unassigned = snd (unassign toy demo_deps (Some demo_attestor) demo_chain 10 10 ''b'' ''me'' ''why''
     (demo_funded_db In_review ''assigned'' [demo_held] [demo_proposal\<lparr>up_status := Prop_accepted\<rparr>]))"

lemma demo_unassigned_asked: "db_attested demo_unassigned \<noteq> []"
  by code_simp

lemma demo_funded_key: "map_option (\<lambda>f. ew_escrow_pubkey (fw_escrow f)) (funded_row_of ''b'' (demo_funded_db st e hs ps)) = Some demo_key"
  by code_simp

theorem attestor_unassigns_by_the_two_sided_rule_witness: "db_attested demo_unassigned = [Attest_unassign demo_key]"
proof -
  let ?s = "demo_funded_db In_review ''assigned'' [demo_held] [demo_proposal\<lparr>up_status := Prop_accepted\<rparr>]"
  obtain r t where r: "unassign toy demo_deps (Some demo_attestor) demo_chain 10 10 ''b'' ''me'' ''why'' ?s = (r, t)" by fastforce
  then have t: "t = demo_unassigned" by (simp add: demo_unassigned_def)
  have none: "db_attested ?s = []" by code_simp
  from attestor_unassigns_by_the_two_sided_rule [OF r] demo_unassigned_asked none t show ?thesis
    using demo_funded_key [of In_review "''assigned''" "[demo_held]" "[demo_proposal\<lparr>up_status := Prop_accepted\<rparr>]"] by auto
qed

theorem only_the_other_side_answers_witness:
  "\<exists>t. respond None 10 10 ''p'' ''ann'' 1 False ''no'' (demo_funded_db In_review ''assigned'' [demo_held] [demo_proposal]) = (Inr (Inr None), t)
     \<and> up_proposed_by demo_proposal = Funder_side"
proof -
  let ?s = "demo_funded_db In_review ''assigned'' [demo_held] [demo_proposal]"
  have "fst (respond None 10 10 ''p'' ''ann'' 1 False ''no'' ?s) = Inr (Inr None)" by code_simp
  then obtain t where t: "respond None 10 10 ''p'' ''ann'' 1 False ''no'' ?s = (Inr (Inr None), t)" by (metis prod.collapse)
  have p: "proposal_at ''p'' ?s = Some demo_proposal" by code_simp
  from only_the_other_side_answers [OF t] p have "\<exists>w. w \<noteq> up_proposed_by demo_proposal" by auto
  then show ?thesis using t by (auto simp: demo_proposal_def new_proposal_def)
qed

definition demo_opened :: "(agent_error + funded_refusal + string \<times> bool) \<times> agent_db" where
  "demo_opened = confirm toy demo_deps demo_gh demo_chain 10 10 ''b'' ''me'' (Some ''sig'') (demo_funded_db Funding ''funding'' [] [])"

lemma demo_opened_view: "fst demo_opened = Inr (Inr (''funded'', False))" "map bo_status (db_bounties (snd demo_opened)) = [Posted]"
  "map bo_status (db_bounties (demo_funded_db Funding ''funding'' [] [])) = [Funding]"
  by code_simp+

theorem funded_bounty_appears_with_its_money_witness:
  "map bo_status (db_bounties (snd demo_opened)) = [Posted]
     \<and> (\<exists>acc. decodeEscrow (demo_account 0) = Some acc \<and> es_amount acc = 5)"
proof -
  have r: "confirm toy demo_deps demo_gh demo_chain 10 10 ''b'' ''me'' (Some ''sig'') (demo_funded_db Funding ''funding'' [] [])
      = (Inr (Inr (''funded'', False)), snd demo_opened)"
    using demo_opened_view(1) unfolding demo_opened_def by (metis prod.collapse)
  have "db_bounties (snd demo_opened) \<noteq> db_bounties (demo_funded_db Funding ''funding'' [] [])" using demo_opened_view(2,3) by auto
  with funded_bounty_appears_with_its_money [OF r] show ?thesis
    using demo_opened_view(2) by (auto simp: funded_row_of_def demo_funded_db_def demo_escrow_row_def escrow_row_of_def demo_chain_def split: option.splits prod.splits if_splits)
qed

lemma demo_fund_facts:
  "map_option (\<lambda>e. (es_amount e, es_feeAmount e, es_state e, es_contributor e)) (decodeEscrow (demo_account 0)) = Some (5, 1, Funded, None)"
  "b58_decode toy demo_key = Some demo_key" "length demo_key = 32" "ch_account demo_chain demo_key = Inr (Some (demo_account 0))"
  by (rule demo_decoded) code_simp+

definition demo_row :: "bounty_status \<Rightarrow> string \<Rightarrow> funded_row" where
  "demo_row st escrow = \<lparr>fw_bounty = demo_open_bounty\<lparr>bo_status := st, bo_funded_by := Some ''me'', bo_funded_by_github_user_id := Some 9\<rparr>,
     fw_repo = ''o/r'', fw_escrow = demo_escrow_row escrow\<rparr>"

lemma demo_as_funder: "asFunder demo_deps ''b'' ''me'' (demo_funded_db st e hs ps) = Inr (demo_row st e)"
  by code_simp

theorem half_confirmed_funding_stays_closed_witness:
  "\<exists>t. confirmFunding toy demo_chain 10 ''b'' None (demo_funded_db Funding ''funding'' [] []) = (Inr (Inr demo_key), t)
     \<and> confirm toy demo_deps demo_gh demo_chain 20 20 ''b'' ''me'' None t = (Inr (Inl (Escrow_refused (Not_awaiting_funding ''funded''))), t)"
proof -
  have "fst (confirmFunding toy demo_chain 10 ''b'' None (demo_funded_db Funding ''funding'' [] [])) = Inr (Inr demo_key)" by code_simp
  then obtain t where t: "confirmFunding toy demo_chain 10 ''b'' None (demo_funded_db Funding ''funding'' [] []) = (Inr (Inr demo_key), t)"
    by (metis prod.collapse)
  from half_confirmed_funding_stays_closed [OF t demo_as_funder] have
    "confirm toy demo_deps demo_gh demo_chain 20 20 ''b'' ''me'' None t = (Inr (Inl (Escrow_refused (Not_awaiting_funding ''funded''))), t)"
    by (simp add: demo_row_def)
  with t show ?thesis by blast
qed

definition demo_fund :: fund_input where
  "demo_fund = \<lparr>fd_login = ''me'', fd_githubUserId = 9, fd_repo = ''o/r'', fd_issueNumber = 7, fd_amountMinor = 9, fd_currency = ''USDC'',
     fd_mode = Mode_draw, fd_deadline = Some 864000000, fd_funderWallet = demo_key, fd_verifiedProject = True\<rparr>"

definition demo_terms_again :: fund_terms where
  "demo_terms_again = \<lparr>fx_owner = ''o'', fx_name = ''r'', fx_installationId = 1, fx_title = ''t'', fx_mint = \<lparr>am_mint = zeros 32, am_decimals = 6\<rparr>,
     fx_deadline = 864000000\<rparr>"

lemma demo_fund_checked:
  "fund_checks toy demo_deps [''USDC'' \<mapsto> 100] demo_gh 0 demo_fund (demo_funded_db Funding ''funding'' [] []) = Inr demo_terms_again"
  by code_simp

theorem advertised_amount_may_differ_from_the_escrow_witness:
  "\<exists>t u. prepare toy demo_deps [''USDC'' \<mapsto> 100] demo_gh demo_chain 0 ''n'' ''m'' demo_fund (demo_funded_db Funding ''funding'' [] [])
       = (Inr (Inl (Escrow_refused (Escrow_exists ''funding''))), t)
     \<and> confirm toy demo_deps demo_gh demo_chain 1 1 ''b'' ''me'' None t = (Inr (Inr (''funded'', False)), u)
     \<and> map_option (\<lambda>c. (bo_status c, bo_amount_minor c)) (bounty_at ''b'' u) = Some (Posted, 9)
     \<and> map_option ew_amount_minor (escrow_row_of ''b'' u) = Some 5"
proof -
  let ?s = "demo_funded_db Funding ''funding'' [] []" and ?b = "fw_bounty (demo_row Funding ''funding'')"
  obtain acc where acc: "decodeEscrow (demo_account 0) = Some acc" "es_amount acc = 5" "es_feeAmount acc = 1" using demo_fund_facts(1) by auto
  have rows: "\<exists>r. find (\<lambda>r. to_lower (ro_owner r) = to_lower (fx_owner demo_terms_again) \<and> to_lower (ro_name r) = to_lower (fx_name demo_terms_again)) (db_repos ?s)
      = Some r \<and> ro_enabled r \<and> ro_id r = 0"
    "find (\<lambda>b. bo_repo_id b = 0 \<and> bo_issue_number b = fd_issueNumber demo_fund \<and> open_bounty b) (db_bounties ?s) = Some ?b"
    "bo_id ?b = ''b''" "fd_login demo_fund = ''me''" "fd_amountMinor demo_fund = 9"
    by (simp_all add: demo_funded_db_def demo_waiting_db_def demo_terms_again_def demo_row_def demo_open_bounty_def demo_fund_def open_bounty_def)
  from rows(1) obtain r where r: "find (\<lambda>r. to_lower (ro_owner r) = to_lower (fx_owner demo_terms_again)
      \<and> to_lower (ro_name r) = to_lower (fx_name demo_terms_again)) (db_repos ?s) = Some r" "ro_enabled r" "ro_id r = 0" by blast
  have f: "asFunder demo_deps (bo_id ?b) (fd_login demo_fund) ?s = Inr (demo_row Funding ''funding'')"
    using demo_as_funder by (simp only: rows)
  show ?thesis
    using advertised_amount_may_differ_from_the_escrow [OF demo_fund_checked r(1,2) rows(2) [folded r(3)] f refl, of demo_key demo_chain "demo_account 0" acc
        "''n''" "''m''" 1 1 None] acc demo_fund_facts(2-4) rows(3-5)
    by (auto simp: demo_row_def demo_escrow_row_def)
qed

theorem unassign_confirm_needs_no_agreement_witness:
  "ew_assignment_mode (fw_escrow (demo_row In_review ''funded'')) = Mode_draw
     \<and> (\<exists>t. unassignConfirm toy demo_deps demo_chain 10 10 ''b'' ''me'' ''why'' ''s'' (demo_funded_db In_review ''funded'' [demo_held] [])
            = (Inr (Inr Unassigned_without_agreement), t))"
proof -
  let ?s = "demo_funded_db In_review ''funded'' [demo_held] []"
  obtain acc where acc: "decodeEscrow (demo_account 0) = Some acc" "es_state acc = Funded" "es_contributor acc = None" using demo_fund_facts(1) by auto
  have held: "holder_of ''b'' ?s = Some demo_held" "an_status demo_held = Pr_submitted" "agreedProposal (an_id demo_held) ?s = None"
    "ew_escrow_pubkey (fw_escrow (demo_row In_review ''funded'')) = demo_key" "ew_assignment_mode (fw_escrow (demo_row In_review ''funded'')) = Mode_draw"
    by code_simp+
  show ?thesis
    using unassign_confirm_needs_no_agreement [OF demo_as_funder held(1-3), of toy demo_key demo_chain "demo_account 0" acc None 10 10 "''why''" "''s''"]
      acc demo_fund_facts(2-4) held(4,5) by auto
qed

end
