(* ===== verification/ApplySafety.thy ===== *)
theory ApplySafety
  imports Applications DrawSafety FundedSafety
begin

text \<open>
  What an application promises: who gets past the gates, and what is stored of an application and of a refusal.
\<close>

section \<open>What the assessment leaves alone\<close>

definition application_core :: "application_row \<Rightarrow> string \<times> string \<times> int \<times> application_status \<times> string option" where
  "application_core x = (al_id x, al_bounty_id x, al_github_user_id x, al_status x, al_gate_failure_reason x)"

definition cores :: "agent_db \<Rightarrow> (string \<times> string \<times> int \<times> application_status \<times> string option) list" where
  "cores s = map application_core (db_applications s)"

lemma cores_updated: "(\<And>x. application_core (f x) = application_core x) \<Longrightarrow> map application_core (update_where P f xs) = map application_core xs"
  by (induction xs) auto

lemma leaves_assessment: "leaves cores (assess_application fit now i b k)"
proof -
  have "leaves cores (write_fit a c e)" for a c e
    unfolding write_fit_def by (intro leaves_intros) (simp add: cores_def cores_updated application_core_def)
  moreover have "leaves cores (evidenceFor now e u l)" for now e u l
    unfolding evidenceFor_def upsert_snapshot_def Let_def by (auto intro!: leaves_intros simp: cores_def)
  moreover have "leaves cores (issueContext now e l b)" for now e l b
    unfolding issueContext_def upsert_issue_snapshot_def Let_def by (auto intro!: leaves_intros simp: cores_def)
  ultimately have assessed: "leaves cores (assess other dots now x en j)" for other dots now x en j
    unfolding assess_def Let_def by (auto intro!: leaves_intros split: prod.split)
  show ?thesis unfolding assess_application_def by (intro leaves_cases leaves_rules assessed)
qed

lemma find_core:
  assumes "map application_core xs = map application_core ys"
  shows "map_option application_core (find (\<lambda>x. al_bounty_id x = b \<and> al_github_user_id x = u) xs)
    = map_option application_core (find (\<lambda>x. al_bounty_id x = b \<and> al_github_user_id x = u) ys)"
  using assms
proof (induction xs arbitrary: ys)
  case (Cons x xs)
  then obtain y ys' where "ys = y # ys'" by (cases ys) auto
  with Cons show ?case by (auto simp: application_core_def)
qed simp

section \<open>The rows of an application\<close>

text \<open>The status and the reason stored for an account's application to a bounty, with its id.\<close>

definition stored_application :: "string \<Rightarrow> int \<Rightarrow> agent_db \<Rightarrow> (string \<times> application_status \<times> string option) option" where
  "stored_application b u s = map_option (\<lambda>x. (al_id x, al_status x, al_gate_failure_reason x)) (application_of b u s)"

lemma stored_cores: "stored_application b u s = map_option (\<lambda>(k, _, _, st, why). (k, st, why)) (map_option application_core (application_of b u s))"
  by (simp add: stored_application_def application_core_def option.map_comp comp_def)

lemma stored_leaves:
  assumes "cores t = cores s"
  shows "stored_application b u t = stored_application b u s"
  using find_core [OF assms [unfolded cores_def], of b u] by (simp only: stored_cores application_of_def)

lemma upsert_stored:
  assumes "\<And>x. al_id (f x) = al_id x \<and> al_bounty_id (f x) = al_bounty_id x \<and> al_github_user_id (f x) = al_github_user_id x
      \<and> al_status (f x) = st \<and> al_gate_failure_reason (f x) = why"
  shows "wp (upsert_application newId d i st why' f) (\<lambda>k t. stored_application (ai_bountyId i) (ai_githubUserId i) t = Some (k, st, why)) (\<lambda>_ _. True) s"
  using assms
  by (auto simp: upsert_application_def wp_simps stored_application_def application_of_def find_update_where find_append
      split: option.split dest!: find_SomeD)

lemma apply_open:
  assumes "apply_closed now i s = None" "bounty_and_repo (ai_bountyId i) s = Some (b, r)"
  shows "\<exists>c. bo_status b = Posted \<and> bo_applications_close_at b = Some c \<and> now < c
    \<and> \<not> (funded b \<and> to_lower (text_of (bo_funded_by b)) = to_lower (ai_githubLogin i))"
  using assms by (simp add: apply_closed_def not_le split: option.splits if_splits)

lemma gates_passed:
  assumes "apply_gates gh now i b full s = None"
  shows "of_int (live_holdings (ai_githubUserId i) s) < intOf (config s ''max_active_assignments_per_person'') 1"
    and "boolOf (config s ''require_linked_wallet_to_apply'') True \<longrightarrow> live_wallet (ai_githubUserId i) s \<noteq> None"
    and "age_refusal gh now full (ai_githubLogin i) (intOf (config s ''min_account_age_days'') 30) = None"
    and "boolOf (config s ''block_org_members'') True \<and> ''block_org_members'' \<notin> set (bo_waived_eligibility_rules b)
      \<longrightarrow> insider_refusal gh full (ai_githubLogin i) = None"
  using assms by (auto simp: apply_gates_def Let_def not_le split: option.splits if_splits)

lemma old_enough:
  assumes "age_refusal gh now full login least = None" "least > 0"
  shows "\<exists>u. gh_getUser gh full login = Inr u \<and> of_int (now - gu_createdAt u) / 86400000 \<ge> least"
  using assms by (simp add: age_refusal_def Let_def not_less split: sum.splits if_splits)

lemma no_insider: "insider_refusal gh full login = None \<Longrightarrow> gh_permission gh full login = Inr p \<Longrightarrow> p \<notin> INSIDER"
  by (simp add: insider_refusal_def split: if_splits)

text \<open>
  C11. An application is accepted only for a bounty that is posted, with its window open, by somebody who does
  not fund it, holds fewer bounties than the limit, has a linked wallet where one is required, an account that
  is old enough and, unless the rule is waived, no write access to the repository; it is stored as applied.
  A refusal is stored with its reason; every other answer changes nothing.
\<close>

theorem applications_pass_every_gate:
  assumes "apply_for gh fit now d newId i s = (Inr out, t)"
  shows "case out of
     Applied k closes \<Rightarrow> stored_application (ai_bountyId i) (ai_githubUserId i) t = Some (k, App_applied, None)
       \<and> (\<exists>b r c. bounty_and_repo (ai_bountyId i) s = Some (b, r) \<and> bo_status b = Posted \<and> bo_applications_close_at b = Some c \<and> now < c
          \<and> \<not> (funded b \<and> to_lower (text_of (bo_funded_by b)) = to_lower (ai_githubLogin i))
          \<and> of_int (live_holdings (ai_githubUserId i) s) < intOf (config s ''max_active_assignments_per_person'') 1
          \<and> (boolOf (config s ''require_linked_wallet_to_apply'') True \<longrightarrow> live_wallet (ai_githubUserId i) s \<noteq> None)
          \<and> (intOf (config s ''min_account_age_days'') 30 > 0 \<longrightarrow>
               (\<exists>u. gh_getUser gh (repo_full r) (ai_githubLogin i) = Inr u
                  \<and> of_int (now - gu_createdAt u) / 86400000 \<ge> intOf (config s ''min_account_age_days'') 30))
          \<and> (boolOf (config s ''block_org_members'') True \<and> ''block_org_members'' \<notin> set (bo_waived_eligibility_rules b) \<longrightarrow>
               (\<forall>p. gh_permission gh (repo_full r) (ai_githubLogin i) = Inr p \<longrightarrow> p \<notin> INSIDER)))
   | Refused e \<Rightarrow> (\<exists>k. stored_application (ai_bountyId i) (ai_githubUserId i) t = Some (k, App_rejected_gate, Some (refusal_name e)))
   | _ \<Rightarrow> t = s"
    (is "?P out t")
proof (cases "apply_closed now i s")
  case (Some e)
  then have "out = e" "t = s" using assms by (auto simp: apply_for_def then_do_def read_state_def return_ok_def)
  moreover have "case e of Applied _ _ \<Rightarrow> False | Refused _ \<Rightarrow> False | _ \<Rightarrow> True"
    using Some by (auto simp: apply_closed_def split: option.splits prod.splits if_splits)
  ultimately show ?thesis by (cases e) auto
next
  case None
  then obtain b r where br: "bounty_and_repo (ai_bountyId i) s = Some (b, r)" by (auto simp: apply_closed_def split: option.splits)
  show ?thesis
  proof (cases "apply_gates gh now i b (repo_full r) s")
    case (Some e)
    have "wp (refuse_application newId d i e) (\<lambda>o' t. o' = Refused e \<and> (\<exists>k. stored_application (ai_bountyId i) (ai_githubUserId i) t
        = Some (k, App_rejected_gate, Some (refusal_name e)))) (\<lambda>_ _. True) s"
      unfolding refuse_application_def
      by (rule wp_thenI, rule wp_mono [OF upsert_stored [where why = "Some (refusal_name e)"]]) (auto simp: wp_simps)
    moreover have "refuse_application newId d i e s = (Inr out, t)"
      using assms None br Some by (simp add: apply_for_def then_do_def read_state_def)
    ultimately show ?thesis by (auto dest: wp_resultD(1))
  next
    case gates: None
    let ?m = "then_do (accept_application newId d i) (\<lambda>k. then_do (assess_application fit now i b k) (\<lambda>_.
        then_do (enqueueEvent (received_event i (repo_full r) (coalesce (bo_applications_close_at b) now))) (\<lambda>_.
        return_ok (Applied k (map_option toISOString (bo_applications_close_at b))))))"
    have "wp ?m (\<lambda>o' t. \<exists>k c. o' = Applied k c \<and> stored_application (ai_bountyId i) (ai_githubUserId i) t = Some (k, App_applied, None)) (\<lambda>_ _. True) s"
      unfolding accept_application_def
    proof (rule wp_thenI, rule wp_mono [OF upsert_stored [where why = None]], goal_cases)
      case (2 k u)
      show ?case
      proof (rule wp_thenI, rule wp_leaves [OF leaves_assessment])
        fix a v assume "cores v = cores u"
        from stored_leaves [OF this] have "stored_application (ai_bountyId i) (ai_githubUserId i) v = Some (k, App_applied, None)" using 2 by simp
        then show "wp (then_do (enqueueEvent (received_event i (repo_full r) (coalesce (bo_applications_close_at b) now)))
            (\<lambda>_. return_ok (Applied k (map_option toISOString (bo_applications_close_at b)))))
            (\<lambda>o' t. \<exists>k c. o' = Applied k c \<and> stored_application (ai_bountyId i) (ai_githubUserId i) t = Some (k, App_applied, None)) (\<lambda>_ _. True) v"
          by (auto simp: wp_simps enqueue_returns stored_application_def application_of_def)
      qed simp
    qed auto
    moreover have "?m s = (Inr out, t)" using assms None br gates by (simp add: apply_for_def then_do_def read_state_def)
    ultimately obtain k c where out: "out = Applied k c" "stored_application (ai_bountyId i) (ai_githubUserId i) t = Some (k, App_applied, None)"
      by (auto dest: wp_resultD(1))
    obtain c' where c': "bo_status b = Posted \<and> bo_applications_close_at b = Some c' \<and> now < c'
        \<and> \<not> (funded b \<and> to_lower (text_of (bo_funded_by b)) = to_lower (ai_githubLogin i))"
      using apply_open [OF None br] by blast
    note g = gates_passed [OF gates]
    have insider: "boolOf (config s ''block_org_members'') True \<and> ''block_org_members'' \<notin> set (bo_waived_eligibility_rules b) \<longrightarrow>
        (\<forall>p. gh_permission gh (repo_full r) (ai_githubLogin i) = Inr p \<longrightarrow> p \<notin> INSIDER)"
      using g(4) no_insider by blast
    have age: "intOf (config s ''min_account_age_days'') 30 > 0 \<longrightarrow> (\<exists>u. gh_getUser gh (repo_full r) (ai_githubLogin i) = Inr u
        \<and> of_int (now - gu_createdAt u) / 86400000 \<ge> intOf (config s ''min_account_age_days'') 30)"
      using old_enough [OF g(3)] by (rule impI)
    show ?thesis
      unfolding out(1) apply_outcome.case
      by (rule conjI [OF out(2)], rule exI [of _ b], rule exI [of _ r], rule exI [of _ c'])
        (use br c' g(1,2) insider age in \<open>simp only: conj_assoc simp_thms\<close>)
  qed
qed

theorem applications_pass_every_gate_witness:
  "\<exists>t. apply_for demo_gh None 1 1 ''z'' \<lparr>ai_bountyId = ''b'', ai_githubUserId = 3, ai_githubLogin = ''cy'', ai_applicationText = None\<rparr> demo_waiting_db
       = (Inr (Refused No_linked_wallet), t)
     \<and> (\<exists>k. stored_application ''b'' 3 t = Some (k, App_rejected_gate, Some ''no_linked_wallet''))"
proof -
  let ?i = "\<lparr>ai_bountyId = ''b'', ai_githubUserId = 3, ai_githubLogin = ''cy'', ai_applicationText = None\<rparr>"
  have "fst (apply_for demo_gh None 1 1 ''z'' ?i demo_waiting_db) = Inr (Refused No_linked_wallet)" by code_simp
  then obtain t where t: "apply_for demo_gh None 1 1 ''z'' ?i demo_waiting_db = (Inr (Refused No_linked_wallet), t)" by (metis prod.collapse)
  from applications_pass_every_gate [OF t] t show ?thesis by auto
qed

section \<open>A closed bounty can be drawn\<close>

text \<open>Nothing in a draw reads the bounty's status: a maintainer can draw a bounty that was closed, and it is then held.\<close>

definition demo_shut :: agent_db where
  "demo_shut = snd (closeByDecision 10 ''b'' ''me'' ''not wanted'' demo_waiting_db)"

lemma demo_shut_view:
  "map bo_status (db_bounties demo_shut) = [Cancelled]"
  "canManageBounty demo_gh ''b'' ''me'' demo_shut = Inr ''o/r''" "funded_bounty ''b'' demo_shut = False"
  "bounty_at ''b'' demo_shut = Some (demo_open_bounty\<lparr>bo_status := Cancelled\<rparr>)" "holder_of ''b'' demo_shut = None"
  "reserve_for_newcomers (demo_open_bounty\<lparr>bo_status := Cancelled\<rparr>) demo_shut (draw_applicants (demo_open_bounty\<lparr>bo_status := Cancelled\<rparr>) False demo_shut)
     = Some ([demo_application ''x'' 1 ''ann'', demo_application ''y'' 2 ''bob''], False)"
  "db_draws demo_shut = []" "db_assignments demo_shut = []"
  by code_simp+

theorem closed_bounty_can_be_drawn:
  "\<exists>out t a. maintainer_run_draw demo_gh demo_fresh ''b'' ''me'' False None demo_shut = (Inr (Inr out), t)
     \<and> map bo_status (db_bounties demo_shut) = [Cancelled] \<and> holder_of ''b'' t = Some a \<and> an_status a = Active"
proof -
  let ?opts = "\<lparr>do_triggeredBy = ''me'', do_simulate = False, do_staleHours = None, do_staleAt = None, do_requireWallet = False\<rparr>"
  obtain out t a where "runDrawFor demo_fresh ''b'' ?opts demo_shut = (Inr (Inr out), t)" "holder_of ''b'' t = Some a" "an_status a = Active"
    using runDrawFor_returns [OF demo_shut_view(4,5), of ?opts _ False demo_fresh] demo_shut_view(6-8) by auto
  then show ?thesis
    using demo_shut_view(1-3) by (simp add: maintainer_run_draw_def then_do_def read_state_def return_ok_def)
qed

end
