(* ===== verification/SweepSafety.thy ===== *)
theory SweepSafety
  imports DrawSafety
begin

text \<open>What the sweep over assignments does, in one equation: who answered, who went quiet, and who is left alone.\<close>

section \<open>Loops that neither throw nor touch a view\<close>

definition quiet_step :: "('s \<Rightarrow> 'v) \<Rightarrow> ('s, 'e, 'a) eff \<Rightarrow> bool" where
  "quiet_step view m \<longleftrightarrow> (\<forall>s. \<exists>a t. m s = (Inr a, t) \<and> view t = view s)"

lemma wp_quiet_step:
  assumes "quiet_step view m" "\<And>a t. view t = view s \<Longrightarrow> Q a t"
  shows "wp m Q E s"
  using assms unfolding quiet_step_def wp_def by (metis (no_types, lifting) old.sum.simps(6) prod.case)

lemma quiet_rules:
  "quiet_step view (return_ok a)" "quiet_step view (read_state g)"
  "quiet_step view m \<Longrightarrow> (\<And>a. quiet_step view (f a)) \<Longrightarrow> quiet_step view (then_do m f)"
  "(\<And>s. view (h s) = view s) \<Longrightarrow> quiet_step view (modify h)"
proof -
  assume m: "quiet_step view m" "\<And>a. quiet_step view (f a)"
  show "quiet_step view (then_do m f)"
    unfolding quiet_step_def
  proof
    fix s
    from m(1) obtain a t where a: "m s = (Inr a, t)" "view t = view s" unfolding quiet_step_def by blast
    from m(2) [of a] obtain b u where "f a t = (Inr b, u)" "view u = view t" unfolding quiet_step_def by blast
    with a show "\<exists>a t. then_do m f s = (Inr a, t) \<and> view t = view s" by (simp add: then_do_def)
  qed
qed (simp_all add: quiet_step_def return_ok_def read_state_def modify_def)

lemma quiet_loops:
  "(\<And>x. quiet_step view (f x)) \<Longrightarrow> quiet_step view (for_each f xs)"
  "(\<And>x. quiet_step view (g x)) \<Longrightarrow> quiet_step view (gather g xs)"
  by (induction xs) (auto intro!: quiet_rules)

lemma quiet_enqueue: "(\<And>s x. view (s\<lparr>db_events := x\<rparr>) = view s) \<Longrightarrow> quiet_step view (enqueueEvent e)"
  by (auto simp: quiet_step_def enqueueEvent_def)

section \<open>The sweep\<close>

text \<open>What one sweep makes of an assignment.\<close>

definition swept :: "time_ms \<Rightarrow> agent_db \<Rightarrow> assignment_row \<Rightarrow> assignment_row" where
  "swept now s a =
     (if an_status a \<noteq> Active then a
      else if submitted_pr s a \<noteq> None then a\<lparr>an_status := Pr_submitted, an_qualifying_pr_number := submitted_pr s a\<rparr>
      else if an_stale_at a \<le> now \<and> \<not> funded_bounty (an_bounty_id a) s
      then a\<lparr>an_status := Released_stale, an_released_at := Some now,
        an_release_reason := Some (if submitted_ever s a then ''deadline passed after their pull request was closed unmerged''
          else ''no pull request before the deadline''),
        an_counts_as_abandon := \<not> submitted_ever s a\<rparr>
      else a)"

abbreviation sweep_view :: "agent_db \<Rightarrow> assignment_row list \<times> submission_row list \<times> bounty_row list" where
  "sweep_view \<equiv> \<lambda>s. (db_assignments s, db_submissions s, db_bounties s)"

text \<open>
  C12. The sweep over assignments always returns, and does exactly this to them: one that is not active is left
  alone; an active one whose holder has a pull request open is recorded as submitted; one past its deadline,
  on a bounty nobody funds, is released, and counts as abandoned only when its holder never opened a pull
  request on the bounty; every other one keeps its holder.
\<close>

theorem sweep_releases_only_the_silent:
  "\<exists>gone warned t. releaseStaleAssignments now s = (Inr (gone, warned), t) \<and> db_assignments t = map (swept now s) (db_assignments s)"
proof -
  let ?s1 = "\<lambda>s. s\<lparr>db_assignments := update_where (\<lambda>a. an_status a = Active \<and> submitted_pr s a \<noteq> None)
       (\<lambda>a. a\<lparr>an_status := Pr_submitted, an_qualifying_pr_number := submitted_pr s a\<rparr>) (db_assignments s)\<rparr>"
  have recorded: "wp recordSubmittedPullRequests (\<lambda>_ t. sweep_view t = sweep_view (?s1 s)) (\<lambda>_ _. False) s"
    unfolding recordSubmittedPullRequests_def wp_then wp_read wp_modify
    by (rule wp_quiet_step [where view = sweep_view])
      (auto intro!: quiet_loops quiet_rules simp: audit_def wp_simps split: prod.split)
  have warn: "quiet_step sweep_view (gather (warn_expiring now) soon)" for soon
    unfolding warn_expiring_def by (auto intro!: quiet_loops quiet_rules quiet_enqueue)
  have facts: "submitted_pr u = submitted_pr s" "submitted_ever u = submitted_ever s" "funded_bounty i u = funded_bounty i s"
    if "sweep_view u = sweep_view (?s1 s)" for u i
    using that by (simp_all add: submitted_pr_def submitted_ever_def funded_bounty_def fun_eq_iff)
  have both: "update_where (gone_stale now u) (released_stale now u) (db_assignments u) = map (swept now s) (db_assignments s)"
    if u: "sweep_view u = sweep_view (?s1 s)" for u
    using u facts [OF u] by (auto simp: update_where_def gone_stale_def released_stale_def swept_def)
  have release: "wp (release_stale now) (\<lambda>_ t. db_assignments t = map (swept now s) (db_assignments s)) (\<lambda>_ _. False) u"
    if u: "sweep_view u = sweep_view (?s1 s)" for u
    unfolding release_stale_def wp_then wp_read wp_modify
    by (rule wp_quiet_step [where view = db_assignments])
      (auto intro!: quiet_loops quiet_rules simp: back_in_pool_def wp_simps both [OF u] split: prod.split)
  have "wp (releaseStaleAssignments now) (\<lambda>_ t. db_assignments t = map (swept now s) (db_assignments s)) (\<lambda>_ _. False) s"
    unfolding releaseStaleAssignments_def wp_then wp_read
    by (rule wp_mono [OF recorded]) (auto intro!: wp_quiet_step [OF warn] wp_mono [OF release] simp: wp_simps)
  from returned [OF this] show ?thesis by auto
qed

end
