(* ===== verification/Spec2Isabelle.thy ===== *)
theory Spec2Isabelle
  imports X402Safety Gate Draw Session SignerSafety PayoutSafety GrainhackSafety Link AgentConfig Fit GrainhackConfig SignerHttp AgentSafety DrawSafety Assignments FundedSafety ApplySafety SweepSafety
begin

text \<open>
  A verification development of the Grainlify bounty agent: a service that posts bounties on GitHub
  issues, draws who may work on each, checks a merged pull request against a payout gate, and asks a
  separate signing service to pay; that buys its model inference per request over x402 with a budget of
  five dollars; and that pays the winners of hackathons from a signed statement.

  \<^bold>\<open>The parts and how they meet.\<close> Money leaves through three signers that share nothing but their
  journal discipline: the inference signer (services/signer/src), the payout signer with the escrow
  attestor (services/signer/src/payout) and the hackathon signer (services/signer/src/grainhack). The
  agent (apps/agent/src) keeps the database and asks the first two. What both sides must agree on byte
  by byte is in packages/gate (approvals, statements, session messages, the gate and the draw), and the
  paying for inference in packages/budget, packages/db and packages/x402.

  \<^bold>\<open>Theories and sources.\<close>

  \<^item> Language and platform: \<open>Prelude\<close> (strings, decimal numerals, rows), \<open>JsNumber\<close>, \<open>JsDate\<close>, \<open>JsText\<close>,
    \<open>Json\<close> and \<open>JsonParse\<close> (JSON.stringify and JSON.parse), \<open>Regex\<close> (the backtracking matcher), and
    \<open>Ed25519\<close> with the \<open>platform\<close> record: base58, base64, SHA-256, Ed25519 and the fallback of
    Date.parse, which are libraries or the runtime, are its fields.
  \<^item> Calculi: \<open>SpendBook\<close> and \<open>PayOnce\<close> are the interfaces of the ledgers and of the payout journals, as
    locales; \<open>Effects\<close> is the state-and-exception type of the operations with its weakest precondition
    \<open>wp\<close>; \<open>Frames\<close> the lemmas on what an operation keeps.
  \<^item> packages/budget: \<open>Budget\<close>. packages/db: \<open>PgLedger\<close>. packages/x402: \<open>X402Protocol\<close>, \<open>X402Client\<close>, with what
    a call promises in \<open>X402Safety\<close>.
  \<^item> packages/gate: \<open>Gate\<close> (gate.ts, bounty-repos.ts), \<open>DrawConfig\<close>, \<open>Draw\<close>, \<open>Approval\<close>, \<open>Link\<close>, \<open>Session\<close>, \<open>Fit\<close>,
    \<open>GrainhackStatement\<close>, \<open>GrainhackApproval\<close>.
  \<^item> services/signer: \<open>SpendJournal\<close>, \<open>Signer\<close>, \<open>SignerSafety\<close>, \<open>SignerHttp\<close> (server.ts, client.ts); \<open>EscrowIx\<close> (the
    escrow's bytes, apps/agent/src/escrow-ix.ts), \<open>Payout\<close>, \<open>PayoutSafety\<close>; \<open>GrainhackSigner\<close>, \<open>GrainhackConfig\<close>,
    \<open>GrainhackSafety\<close>.
  \<^item> apps/agent/src: \<open>AgentConfig\<close> (config.ts, prompts.ts, mint-check.ts), \<open>AgentDb\<close> (the tables of
    db/migrations, events.ts, the GitHub interface), \<open>WalletLink\<close>, \<open>BountyService\<close> and \<open>ApprovePayout\<close>
    (service.ts, payout-client.ts), \<open>Applications\<close>, \<open>DrawService\<close>, \<open>DrawSweep\<close> and \<open>Reopen\<close>
    (draw-service.ts), \<open>FitService\<close> (fit-service.ts), \<open>EscrowService\<close> (escrow-service.ts), \<open>FundedService\<close> and
    \<open>FundedAgreement\<close> (funded-service.ts). What they promise: \<open>AgentSafety\<close>, \<open>DrawSafety\<close>, \<open>SweepSafety\<close>,
    \<open>ApplySafety\<close>, \<open>Assignments\<close> and \<open>FundedSafety\<close>, on the frame lemmas of \<open>ServiceFrames\<close>.

  A definition has the name of the function it models; a record has the fields of its interface or
  table behind a short prefix; a refusal or an error message is a constructor with the values the
  message shows.

  \<^bold>\<open>How state and time are modelled.\<close> A table is the list of its rows in the order of insertion, and a
  query without an order that could matter takes the database's choice as an argument (\<open>pick\<close>). A
  statement, and a transaction, is one step. Each of the signers' handlers is cut where it waits: the
  stretch before the reservation, between reservation and broadcast, and after the answer are
  definitions of their own (\<open>pay_start\<close>, \<open>pay_prepared\<close>, \<open>pay_broadcast\<close>), and a step relation
  (\<open>signer_step\<close>, \<open>payout_step\<close>, \<open>gh_step\<close>) interleaves any number of them with failures and crashes. The
  agent's approval is cut in the same way (\<open>agent_reach\<close>); the agent's other operations run to their end as
  one step (\<open>assignment_step\<close>), whether they return or throw, and keep what they wrote before the throw.
  What GitHub, a gateway, a model, the chain or another service answers during an operation is an
  argument, as are the clocks, fresh identifiers and random seeds; nothing is assumed of them but what a
  statement's own hypotheses say. Characters are 8-bit, a finite JavaScript number is the rational it
  denotes, and bigint is \<open>int\<close>; the generator of the draw works on 32-bit words and the escrow's fields on
  64-bit words.

  \<^bold>\<open>What the lemmas show.\<close> The locale \<open>spend_book\<close> is the contract of a book of spend: what is reserved is
  held until the outcome is known, and the held and settled amounts stay under the limit. The in-memory
  ledger, the Postgres ledger and the signer's journal interpret it, and the x402 client is proved once
  against \<open>client_ledger\<close>, which extends it. \<open>pay_once\<close> (and \<open>pay_final\<close>) is the contract of a payout journal:
  a payment has a row of its own before anything is handed to the network, and a row whose transfer may
  have left is never handed over again; the payout and the hackathon journals interpret it on their own
  steps, once per cap. \<open>countersigned\<close> is the shape of a session message, interpreted for the three kinds.
  On these rest the properties of money: caps, ceilings, one payment per bounty and per winner, and
  that every one of them was authorised. The properties of the agent say when a payout waits for approval
  and reaches the signer, what an application, a draw, the sweep and the two-sided rule of the funded
  bounties decide, and that a bounty has one holder at most. Some state what the code does where it
  misses its purpose: that no assignment is ever completed, that a half-confirmed funding stays closed,
  that the advertised amount may differ from the escrow's, and that the confirmation of an unassignment
  asks for no agreement.

  \<^bold>\<open>Bounds and fuel.\<close> The matcher's repetition (\<open>rep_match\<close>) has the length of the input as fuel, since each
  further iteration of the standard's loop must consume; \<open>replace_go\<close> has the length of the text plus one; the
  JSON parser has the length of its text, and every recursive call consumes a character. A payment is
  presented until it is visible, at most nine times (\<open>present_payment\<close> starts with eight retries). No other
  loop needs fuel: they are folds over lists or have a measure.

  \<^bold>\<open>What is not modelled.\<close> The Solana libraries and rails (solana-rail.ts, rail.ts, the connection of the
  attestor), which build and send transactions; SQLite, Postgres and GitHub themselves; the HTTP servers
  but for the inference signer's replies (they parse requests and call what is modelled), the read-only pages of the
  funded bounties, the erasure of a person's data, the agent's side of the hackathons (apps/agent/src/grainhack),
  the public pages and the scheduler;
  the command lines, the process entry points and the mock gateway; prose - prompts, comments, the
  detail of a check or of an audit row; the escrow program itself (contracts, Rust), scripts and tools.
  Latencies, log lines and metrics endpoints are left out.
\<close>

end
